(* ===== verification/Go_Prelude.thy ===== *)
theory Go_Prelude
  imports Main "HOL-Library.Char_ord" "HOL-Library.List_Lexorder"
begin

text \<open>
  The vocabulary every component shares.

  A Go function that reads and writes the shared state and may return an error is a
  state transformer with a sum result, \<open>('s, 'e, 'a) go\<close>: \<open>Inl e\<close> is a returned error,
  \<open>Inr x\<close> the returned value, and in both cases the state is the one left behind, so that
  an early return keeps the effects made before it. The combinators are the shapes of Go's
  error handling: \<open>try_go\<close> is \<open>x, err := m(); if err != nil { return err }\<close>,
  \<open>map_err\<close> the wrapping \<open>fmt.Errorf("...: %w", err)\<close>, \<open>ignore_err\<close> the discarded
  result \<open>_ = m()\<close>, \<open>defer_go\<close> a deferred cleanup, \<open>on_err\<close> a cleanup made on the error
  path only. For each there is a rule saying that it keeps an invariant of the state
  (collection \<open>keeps\<close>).

  SQL tables are lists of rows in insertion order; \<open>update_where\<close>, \<open>delete_where\<close> and
  \<open>count_where\<close> are UPDATE, DELETE and the affected-row count.
\<close>

section \<open>Effects with errors\<close>

named_theorems keeps "rules that an effect keeps an invariant of the state"

type_synonym ('s, 'e, 'a) go = "'s \<Rightarrow> ('e + 'a) \<times> 's"

definition ret :: "'a \<Rightarrow> ('s, 'e, 'a) go" where
  "ret x s = (Inr x, s)"

definition throw :: "'e \<Rightarrow> ('s, 'e, 'a) go" where
  "throw e s = (Inl e, s)"

definition try_go :: "('s, 'e, 'a) go \<Rightarrow> ('a \<Rightarrow> ('s, 'e, 'b) go) \<Rightarrow> ('s, 'e, 'b) go" where
  "try_go m k s = (case m s of (Inl e, s') \<Rightarrow> (Inl e, s') | (Inr x, s') \<Rightarrow> k x s')"

definition then_go :: "('s, 'e, 'a) go \<Rightarrow> ('e + 'a \<Rightarrow> ('s, 'e, 'b) go) \<Rightarrow> ('s, 'e, 'b) go" where
  "then_go m k s = (case m s of (r, s') \<Rightarrow> k r s')"

definition map_err :: "('e \<Rightarrow> 'e) \<Rightarrow> ('s, 'e, 'a) go \<Rightarrow> ('s, 'e, 'a) go" where
  "map_err f m s = (case m s of (Inl e, s') \<Rightarrow> (Inl (f e), s') | (Inr x, s') \<Rightarrow> (Inr x, s'))"

definition ignore_err :: "('s, 'e, 'a) go \<Rightarrow> ('s, 'e, unit) go" where
  "ignore_err m s = (Inr (), snd (m s))"

definition defer_go :: "('s, 'e, 'b) go \<Rightarrow> ('s, 'e, 'a) go \<Rightarrow> ('s, 'e, 'a) go" where
  "defer_go cleanup m s = (case m s of (r, s') \<Rightarrow> (r, snd (cleanup s')))"

definition on_err :: "('s, 'e, 'b) go \<Rightarrow> ('s, 'e, 'a) go \<Rightarrow> ('s, 'e, 'a) go" where
  "on_err cleanup m s =
     (case m s of (Inl e, s') \<Rightarrow> (Inl e, snd (cleanup s')) | (Inr x, s') \<Rightarrow> (Inr x, s'))"

definition get_go :: "('s \<Rightarrow> 'a) \<Rightarrow> ('s, 'e, 'a) go" where
  "get_go f s = (Inr (f s), s)"

lemma ret_app [simp]: "ret x s = (Inr x, s)"
  by (simp add: ret_def)

lemma throw_app [simp]: "throw e s = (Inl e, s)"
  by (simp add: throw_def)

lemma get_go_app [simp]: "get_go f s = (Inr (f s), s)"
  by (simp add: get_go_def)

lemma ignore_err_app [simp]: "ignore_err m s = (Inr (), snd (m s))"
  by (simp add: ignore_err_def)

lemma try_go_Inl [simp]: "m s = (Inl e, s') \<Longrightarrow> try_go m k s = (Inl e, s')"
  by (simp add: try_go_def)

lemma try_go_Inr [simp]: "m s = (Inr x, s') \<Longrightarrow> try_go m k s = k x s'"
  by (simp add: try_go_def)

lemma then_go_eq [simp]: "m s = (r, s') \<Longrightarrow> then_go m k s = k r s'"
  by (simp add: then_go_def)

lemma map_err_Inr [simp]: "m s = (Inr x, s') \<Longrightarrow> map_err f m s = (Inr x, s')"
  by (simp add: map_err_def)

lemma map_err_Inl [simp]: "m s = (Inl e, s') \<Longrightarrow> map_err f m s = (Inl (f e), s')"
  by (simp add: map_err_def)

lemma snd_map_err [simp]: "snd (map_err f m s) = snd (m s)"
  by (auto simp: map_err_def split: prod.splits sum.splits)

lemma defer_go_eq [simp]: "m s = (r, s') \<Longrightarrow> defer_go c m s = (r, snd (c s'))"
  by (simp add: defer_go_def)

lemma on_err_Inr [simp]: "m s = (Inr x, s') \<Longrightarrow> on_err c m s = (Inr x, s')"
  by (simp add: on_err_def)

lemma on_err_Inl [simp]: "m s = (Inl e, s') \<Longrightarrow> on_err c m s = (Inl e, snd (c s'))"
  by (simp add: on_err_def)

lemma try_go_assoc: "try_go (try_go m k) h = try_go m (\<lambda>x. try_go (k x) h)"
  by (rule ext) (simp add: try_go_def split: prod.split sum.split)

lemma try_go_ret: "try_go m ret = m"
  by (rule ext) (simp add: try_go_def split: prod.split sum.split)

subsection \<open>Keeping an invariant\<close>

definition preserves :: "('s \<Rightarrow> bool) \<Rightarrow> ('s, 'e, 'a) go \<Rightarrow> bool" where
  "preserves P m \<longleftrightarrow> (\<forall>s. P s \<longrightarrow> P (snd (m s)))"

lemma preservesI [intro]: "(\<And>s. P s \<Longrightarrow> P (snd (m s))) \<Longrightarrow> preserves P m"
  by (simp add: preserves_def)

lemma preservesD: "preserves P m \<Longrightarrow> P s \<Longrightarrow> P (snd (m s))"
  by (simp add: preserves_def)

lemma preserves_ret [keeps]: "preserves P (ret x)"
  by (simp add: preserves_def)

lemma preserves_throw [keeps]: "preserves P (throw e)"
  by (simp add: preserves_def)

lemma preserves_get [keeps]: "preserves P (get_go f)"
  by (simp add: preserves_def)

lemma preserves_try [keeps]:
  "preserves P m \<Longrightarrow> (\<And>x. preserves P (k x)) \<Longrightarrow> preserves P (try_go m k)"
  unfolding preserves_def try_go_def
  by (auto split: prod.splits sum.splits)

lemma preserves_then [keeps]:
  "preserves P m \<Longrightarrow> (\<And>r. preserves P (k r)) \<Longrightarrow> preserves P (then_go m k)"
  unfolding preserves_def then_go_def by (auto split: prod.splits)

lemma preserves_map_err [keeps]: "preserves P m \<Longrightarrow> preserves P (map_err f m)"
  by (simp add: preserves_def)

lemma preserves_ignore [keeps]: "preserves P m \<Longrightarrow> preserves P (ignore_err m)"
  by (simp add: preserves_def)

lemma preserves_defer [keeps]:
  "preserves P m \<Longrightarrow> preserves P c \<Longrightarrow> preserves P (defer_go c m)"
  unfolding preserves_def defer_go_def by (auto split: prod.splits)

lemma preserves_on_err [keeps]:
  "preserves P m \<Longrightarrow> preserves P c \<Longrightarrow> preserves P (on_err c m)"
  unfolding preserves_def on_err_def by (auto split: prod.splits sum.splits)

lemma preserves_if [keeps]:
  "(b \<Longrightarrow> preserves P m) \<Longrightarrow> (\<not> b \<Longrightarrow> preserves P n) \<Longrightarrow> preserves P (if b then m else n)"
  by simp

lemma preserves_case_option [keeps]:
  "preserves P n \<Longrightarrow> (\<And>x. preserves P (k x)) \<Longrightarrow>
   preserves P (case v of None \<Rightarrow> n | Some x \<Rightarrow> k x)"
  by (cases v) auto

lemma preserves_case_sum [keeps]:
  "(\<And>e. preserves P (f e)) \<Longrightarrow> (\<And>x. preserves P (g x)) \<Longrightarrow>
   preserves P (case r of Inl e \<Rightarrow> f e | Inr x \<Rightarrow> g x)"
  by (cases r) auto

lemma preserves_case_list [keeps]:
  "preserves P n \<Longrightarrow> (\<And>x xs. preserves P (k x xs)) \<Longrightarrow>
   preserves P (case v of [] \<Rightarrow> n | x # xs \<Rightarrow> k x xs)"
  by (cases v) auto

lemma preserves_case_prod [keeps]:
  "(\<And>x y. preserves P (f x y)) \<Longrightarrow> preserves P (case p of (x, y) \<Rightarrow> f x y)"
  by (cases p) auto

text \<open>A loop over a list whose body's errors are handled inside the body.\<close>

fun for_each :: "('x \<Rightarrow> ('s, 'e, unit) go) \<Rightarrow> 'x list \<Rightarrow> ('s, 'e, unit) go" where
  "for_each f [] = ret ()"
| "for_each f (x # xs) = try_go (f x) (\<lambda>_. for_each f xs)"

lemma preserves_for_each [keeps]:
  "(\<And>x. preserves P (f x)) \<Longrightarrow> preserves P (for_each f xs)"
  by (induction xs) (auto intro!: keeps)

section \<open>Tables\<close>

definition update_where :: "('r \<Rightarrow> bool) \<Rightarrow> ('r \<Rightarrow> 'r) \<Rightarrow> 'r list \<Rightarrow> 'r list" where
  "update_where p f rows = map (\<lambda>r. if p r then f r else r) rows"

definition delete_where :: "('r \<Rightarrow> bool) \<Rightarrow> 'r list \<Rightarrow> 'r list" where
  "delete_where p rows = filter (\<lambda>r. \<not> p r) rows"

definition count_where :: "('r \<Rightarrow> bool) \<Rightarrow> 'r list \<Rightarrow> nat" where
  "count_where p rows = length (filter p rows)"

lemma update_where_simps [simp]:
  "update_where p f [] = []"
  "update_where p f (r # rs) = (if p r then f r else r) # update_where p f rs"
  by (simp_all add: update_where_def)

lemma delete_where_simps [simp]:
  "delete_where p [] = []"
  "delete_where p (r # rs) = (if p r then delete_where p rs else r # delete_where p rs)"
  by (simp_all add: delete_where_def)

lemma length_update_where [simp]: "length (update_where p f rows) = length rows"
  by (simp add: update_where_def)

lemma set_update_where [simp]:
  "set (update_where p f rows) = (\<lambda>r. if p r then f r else r) ` set rows"
  by (simp add: update_where_def)

lemma count_where_simps [simp]:
  "count_where p [] = 0"
  "count_where p (r # rs) = (if p r then Suc (count_where p rs) else count_where p rs)"
  by (simp_all add: count_where_def)

lemma set_delete_where [simp]: "set (delete_where p rows) = {r \<in> set rows. \<not> p r}"
  by (auto simp: delete_where_def)

lemma map_update_where_key:
  "(\<And>r. p r \<Longrightarrow> key (f r) = key r) \<Longrightarrow> map key (update_where p f rows) = map key rows"
  by (simp add: update_where_def)

lemma count_where_0 [simp]: "count_where p rows = 0 \<longleftrightarrow> (\<forall>r \<in> set rows. \<not> p r)"
  by (auto simp: count_where_def filter_empty_conv)

lemma find_update_where_same:
  "(\<And>r. key (f r) = key r) \<Longrightarrow>
   find (\<lambda>r. key r = k) (update_where (\<lambda>r. key r = k \<and> p r) f rows) =
   map_option (\<lambda>r. if p r then f r else r) (find (\<lambda>r. key r = k) rows)"
  by (induction rows) auto

lemma find_update_where_other:
  "(\<And>r. p r \<Longrightarrow> key r \<noteq> k) \<Longrightarrow> (\<And>r. p r \<Longrightarrow> key (f r) \<noteq> k) \<Longrightarrow>
   find (\<lambda>r. key r = k) (update_where p f rows) = find (\<lambda>r. key r = k) rows"
  by (induction rows) auto

lemma find_append:
  "find p (xs @ ys) = (case find p xs of Some x \<Rightarrow> Some x | None \<Rightarrow> find p ys)"
  by (induction xs) auto

lemma find_distinct_key: "distinct (map k xs) \<Longrightarrow> e \<in> set xs \<Longrightarrow> find (\<lambda>x. k x = k e) xs = Some e"
  by (induction xs) (auto simp: image_iff)

section \<open>Decimal text\<close>

text \<open>\<open>fmt.Sprintf("%d")\<close> of a non-negative and of a signed integer.\<close>

definition digit_char :: "nat \<Rightarrow> char" where
  "digit_char d = char_of (48 + d)"

fun show_nat :: "nat \<Rightarrow> string" where
  "show_nat n = (if n < 10 then [digit_char n] else show_nat (n div 10) @ [digit_char (n mod 10)])"

declare show_nat.simps [simp del]

definition show_int :: "int \<Rightarrow> string" where
  "show_int i = (if i < 0 then CHR ''-'' # show_nat (nat (- i)) else show_nat (nat i))"

definition is_digit :: "char \<Rightarrow> bool" where
  "is_digit c \<longleftrightarrow> of_char c \<ge> (48::nat) \<and> of_char c \<le> (57::nat)"

definition read_nat :: "string \<Rightarrow> nat" where
  "read_nat cs = foldl (\<lambda>a c. a * 10 + (of_char c - 48)) 0 cs"

lemma of_char_digit_char [simp]: "d < 10 \<Longrightarrow> of_char (digit_char d) = 48 + d"
  by (simp add: digit_char_def)

lemma is_digit_digit_char [simp]: "d < 10 \<Longrightarrow> is_digit (digit_char d)"
  by (simp add: is_digit_def)

lemma show_nat_digits: "\<forall>c \<in> set (show_nat n). is_digit c"
proof (induction n rule: show_nat.induct)
  case (1 n)
  then show ?case by (subst show_nat.simps) auto
qed

lemma show_nat_nonempty [simp]: "show_nat n \<noteq> []"
  by (subst show_nat.simps) simp

lemma read_show_nat [simp]: "read_nat (show_nat n) = n"
proof (induction n rule: show_nat.induct)
  case (1 n)
  show ?case
  proof (cases "n < 10")
    case True
    then show ?thesis by (subst show_nat.simps) (simp add: read_nat_def)
  next
    case False
    have "read_nat (show_nat n) = read_nat (show_nat (n div 10)) * 10 + n mod 10"
      using False by (subst show_nat.simps) (simp add: read_nat_def)
    with False "1" show ?thesis by simp
  qed
qed

lemma show_nat_inject [simp]: "show_nat m = show_nat n \<longleftrightarrow> m = n"
  by (metis read_show_nat)

lemma colon_not_digit [simp]: "\<not> is_digit (CHR '':'')"
  by (simp add: is_digit_def)

lemma dash_not_digit [simp]: "\<not> is_digit (CHR ''-'')"
  by (simp add: is_digit_def)

lemma show_nat_no_dash [simp]: "show_nat n \<noteq> CHR ''-'' # cs"
proof
  assume "show_nat n = CHR ''-'' # cs"
  with show_nat_digits [of n] have "is_digit (CHR ''-'')" by simp
  then show False by simp
qed

lemma show_int_inject [simp]: "show_int i = show_int j \<longleftrightarrow> i = j"
proof -
  have "CHR ''-'' # show_nat m \<noteq> show_nat n" for m n
    using show_nat_no_dash [of n "show_nat m"] by metis
  then show ?thesis
    by (cases "i < 0"; cases "j < 0") (simp_all add: show_int_def eq_nat_nat_iff)
qed

text \<open>A name, a separator that is no digit, and a decimal number determine both parts.\<close>

lemma sep_number_inject:
  assumes "a @ c # show_nat m = b @ c # show_nat n" and c: "\<not> is_digit c"
  shows "a = b \<and> m = n"
proof -
  have eq: "rev (show_nat m) @ c # rev a = rev (show_nat n) @ c # rev b"
    using arg_cong [OF assms(1), of rev] by simp
  have tw: "takeWhile is_digit (rev (show_nat k) @ c # rev d) = rev (show_nat k)" for k d
    using show_nat_digits [of k] c by (subst takeWhile_append2) auto
  from arg_cong [OF eq, of "takeWhile is_digit"] have "rev (show_nat m) = rev (show_nat n)"
    by (simp add: tw)
  then have "m = n" by simp
  with eq show ?thesis by simp
qed

section \<open>Sorted prefixes\<close>

lemma sort_key_sorted: "sorted (map k xs) \<Longrightarrow> sort_key k xs = xs"
  by (rule sort_key_id_if_sorted)

lemma sorted_filter_map: "sorted (map k xs) \<Longrightarrow> sorted (map k (filter p xs))"
  by (rule sorted_filter)

end
