(* ===== verification/Go_Values.thy ===== *)
theory Go_Values
  imports Go_Prelude
begin

text \<open>
  Values at run time and their JSON encodings.

  A JSON text is modelled by the document it denotes (\<open>json\<close>); a byte slice that
  the program treats as JSON is \<open>bytes\<close>: empty, a well-formed document, or bytes that do
  not parse. The numbers the framework writes are integers, so a JSON number is an integer
  here; decoding into an \<open>any\<close> passes through a float64, which is exact only up to
  \<open>2 ^ 53\<close> in absolute value (\<open>f64_of_int\<close> rounds to the nearest, ties to even).

  \<open>gov\<close> is a Go value held in an \<open>any\<close>: what \<open>json.Unmarshal\<close> builds for an
  \<open>any\<close> (\<open>VJson\<close>: nil, bool, float64, string, \<open>[]any\<close>, \<open>map[string]any\<close>), a
  value of another concrete type with the document it marshals to (\<open>VTyped\<close>), or a
  value that cannot be marshalled (\<open>VOpaque\<close>).
\<close>

section \<open>JSON documents\<close>

datatype json =
    JNull
  | JBool bool
  | JNum int
  | JStr string
  | JArr "json list"
  | JObj "(string \<times> json) list"

datatype bytes = BNil | BJson json | BBad

definition bytes_nonempty :: "bytes \<Rightarrow> bool" where
  "bytes_nonempty b \<longleftrightarrow> b \<noteq> BNil"

text \<open>A repeated key keeps its last value, as decoding into a Go map does.\<close>

fun json_get :: "string \<Rightarrow> json \<Rightarrow> json option" where
  "json_get k (JObj kvs) = map_of (rev kvs) k"
| "json_get k _ = None"

fun json_is_object :: "json \<Rightarrow> bool" where
  "json_is_object (JObj kvs) = True"
| "json_is_object _ = False"

section \<open>Numbers decoded as float64\<close>

function bit_len :: "int \<Rightarrow> nat" where
  "bit_len n = (if n \<le> 0 then 0 else Suc (bit_len (n div 2)))"
  by pat_completeness auto
termination
  by (relation "measure nat") auto

declare bit_len.simps [simp del]

definition round_half_even :: "int \<Rightarrow> nat \<Rightarrow> int" where
  "round_half_even n e =
     (let q = n div 2 ^ e; r = n mod 2 ^ e; half = 2 ^ (e - 1)
      in if e = 0 then n
         else if r < half \<or> (r = half \<and> even q) then q * 2 ^ e
         else (q + 1) * 2 ^ e)"

definition f64_of_pos :: "int \<Rightarrow> int" where
  "f64_of_pos n = (if n \<le> 2 ^ 53 then n else round_half_even n (bit_len n - 53))"

definition f64_of_int :: "int \<Rightarrow> int" where
  "f64_of_int i = (if i < 0 then - f64_of_pos (- i) else f64_of_pos i)"

lemma f64_of_int_exact: "\<bar>i\<bar> \<le> 2 ^ 53 \<Longrightarrow> f64_of_int i = i"
  by (auto simp: f64_of_int_def f64_of_pos_def)

lemma f64_of_int_collision: "f64_of_int (2 ^ 53 + 1) = 2 ^ 53"
  by (simp add: f64_of_int_def f64_of_pos_def round_half_even_def bit_len.simps)

fun f64_json :: "json \<Rightarrow> json" where
  "f64_json (JNum n) = JNum (f64_of_int n)"
| "f64_json (JArr xs) = JArr (map f64_json xs)"
| "f64_json (JObj kvs) = JObj (map (\<lambda>(k, v). (k, f64_json v)) kvs)"
| "f64_json j = j"

text \<open>Documents whose numbers a float64 holds exactly.\<close>

fun json_exact :: "json \<Rightarrow> bool" where
  "json_exact (JNum n) \<longleftrightarrow> f64_of_int n = n"
| "json_exact (JArr xs) \<longleftrightarrow> list_all json_exact xs"
| "json_exact (JObj kvs) \<longleftrightarrow> list_all (\<lambda>(k, v). json_exact v) kvs"
| "json_exact _ \<longleftrightarrow> True"

lemma f64_json_exact: "json_exact j \<Longrightarrow> f64_json j = j"
proof (induction j rule: f64_json.induct)
  case (2 xs)
  then show ?case by (auto simp: list_all_iff intro: map_idI)
next
  case (3 kvs)
  then have "(case kv of (k, v) \<Rightarrow> (k, f64_json v)) = kv" if "kv \<in> set kvs" for kv
    using that by (cases kv) (auto simp: list_all_iff)
  then show ?case by (simp add: map_idI)
qed auto

section \<open>Go values\<close>

datatype gov =
    VJson json
  | VTyped string json
  | VOpaque string

text \<open>\<open>json.Marshal\<close>: fails on a value with no encoding.\<close>

fun marshal :: "gov \<Rightarrow> json option" where
  "marshal (VJson j) = Some j"
| "marshal (VTyped t j) = Some j"
| "marshal (VOpaque t) = None"

text \<open>\<open>json.Unmarshal\<close> into an \<open>any\<close>.\<close>

fun unmarshal_any :: "bytes \<Rightarrow> gov option" where
  "unmarshal_any (BJson j) = Some (VJson (f64_json j))"
| "unmarshal_any BNil = None"
| "unmarshal_any BBad = None"

text \<open>\<open>json.Unmarshal\<close> into a string variable that starts empty; the error is dropped.\<close>

fun unmarshal_string :: "bytes \<Rightarrow> string" where
  "unmarshal_string (BJson (JStr s)) = s"
| "unmarshal_string _ = ''''"

text \<open>\<open>json.Unmarshal\<close> into a \<open>map[string]any\<close>: an object, or null for a nil map.\<close>

fun unmarshal_map :: "bytes \<Rightarrow> json option" where
  "unmarshal_map (BJson (JObj kvs)) = Some (f64_json (JObj kvs))"
| "unmarshal_map (BJson JNull) = Some (JObj [])"
| "unmarshal_map _ = None"

lemma unmarshal_marshal:
  "marshal v = Some j \<Longrightarrow> json_exact j \<Longrightarrow> unmarshal_any (BJson j) = Some (VJson j)"
  by (simp add: f64_json_exact)

text \<open>
  A type assertion \<open>v.(O)\<close>. The static type \<open>O\<close> is the set of dynamic types it admits:
  \<open>TAny\<close> the empty interface (any non-nil value), \<open>TFloat\<close>, \<open>TString\<close>, \<open>TBool\<close>,
  \<open>TMap\<close>, \<open>TSlice\<close> the types \<open>json.Unmarshal\<close> builds for an \<open>any\<close>, \<open>TNamed t\<close> any
  other concrete type (a struct, an \<open>int\<close>, a \<open>[]string\<close>, ...). A nil interface
  satisfies no assertion.
\<close>

datatype gotype = TAny | TBool | TFloat | TString | TSlice | TMap | TNamed string

fun assert_type :: "gotype \<Rightarrow> gov \<Rightarrow> bool" where
  "assert_type T (VJson JNull) = False"
| "assert_type TAny v = True"
| "assert_type TBool (VJson (JBool b)) = True"
| "assert_type TFloat (VJson (JNum n)) = True"
| "assert_type TString (VJson (JStr s)) = True"
| "assert_type TSlice (VJson (JArr xs)) = True"
| "assert_type TMap (VJson (JObj kvs)) = True"
| "assert_type (TNamed t) (VTyped t' j) = (t = t')"
| "assert_type (TNamed t) (VOpaque t') = (t = t')"
| "assert_type _ _ = False"

lemma assert_named_json [simp]: "\<not> assert_type (TNamed t) (VJson j)"
  by (cases j) auto

text \<open>Values that come back from storage as they went in.\<close>

definition storable :: "gov \<Rightarrow> bool" where
  "storable v \<longleftrightarrow> (\<exists>j. v = VJson j \<and> json_exact j)"

lemma storable_roundtrip:
  "storable v \<Longrightarrow> \<exists>j. marshal v = Some j \<and> unmarshal_any (BJson j) = Some v"
  by (auto simp: storable_def f64_json_exact)

section \<open>Byte strings\<close>

fun contains :: "string \<Rightarrow> string \<Rightarrow> bool" where
  "contains s [] = True"
| "contains [] p = False"
| "contains (c # cs) p = (take (length p) (c # cs) = p \<or> contains cs p)"

lemma contains_prefix: "contains (p @ s) p"
  by (cases "p @ s" rule: list.exhaust; cases p) auto

lemma contains_append: "contains t p \<Longrightarrow> contains (s @ t) p"
proof (induction s)
  case (Cons c s)
  then show ?case by (cases p) auto
qed simp

lemma contains_infix: "contains (s @ p @ t) p"
  by (rule contains_append) (rule contains_prefix)

definition hex_digit :: "nat \<Rightarrow> char" where
  "hex_digit d = (if d < 10 then char_of (48 + d) else char_of (87 + d))"

text \<open>\<open>strconv.Quote\<close> on bytes below 128; higher bytes (UTF-8 text) pass through.\<close>

definition quote_char :: "char \<Rightarrow> string" where
  "quote_char c =
     (let n = of_char c :: nat in
      if n = 34 then [CHR 0x5C, c] else if n = 92 then [CHR 0x5C, c]
      else if n = 7 then [CHR 0x5C, CHR ''a''] else if n = 8 then [CHR 0x5C, CHR ''b'']
      else if n = 12 then [CHR 0x5C, CHR ''f''] else if n = 10 then [CHR 0x5C, CHR ''n'']
      else if n = 13 then [CHR 0x5C, CHR ''r''] else if n = 9 then [CHR 0x5C, CHR ''t'']
      else if n = 11 then [CHR 0x5C, CHR ''v'']
      else if n < 32 \<or> n = 127 then [CHR 0x5C, CHR ''x'', hex_digit (n div 16), hex_digit (n mod 16)]
      else [c])"

definition go_quote :: "string \<Rightarrow> string" where
  "go_quote s = CHR 0x22 # concat (map quote_char s) @ [CHR 0x22]"

end
