(* ===== verification/Go_Errors.thy ===== *)
theory Go_Errors
  imports Go_Values
begin

text \<open>
  The error values of errors.go, internal/replay/suspend.go and compensation/executor.go.

  A Go error is a value with a text and, for the wrapping types, the error it wraps.
  \<open>errors.As\<close> and \<open>errors.Is\<close> walk the chain of wrapped errors (\<open>unwrap_chain\<close>). The
  suspend signal is such a value too: the engine finds it anywhere in the chain of the
  error a workflow returns. In the text of a signal a time or a duration is printed by
  its count of nanoseconds.
\<close>

type_synonym time = int

datatype suspend_signal =
    SuspendTimer string string string time
  | SuspendChannelMessage string string string "time option"
  | SuspendRecur string gov

datatype suspend_type = SuspendForTimer | SuspendForChannelMessage | SuspendForRecur

fun suspend_type_of :: "suspend_signal \<Rightarrow> suspend_type" where
  "suspend_type_of (SuspendTimer inst timer act expires) = SuspendForTimer"
| "suspend_type_of (SuspendChannelMessage inst channel act timeout) = SuspendForChannelMessage"
| "suspend_type_of (SuspendRecur inst new_input) = SuspendForRecur"

fun suspend_type_string :: "suspend_type \<Rightarrow> string" where
  "suspend_type_string SuspendForTimer = ''timer''"
| "suspend_type_string SuspendForChannelMessage = ''channel_message''"
| "suspend_type_string SuspendForRecur = ''recur''"

definition new_timer_suspend :: "string \<Rightarrow> string \<Rightarrow> string \<Rightarrow> time \<Rightarrow> suspend_signal" where
  "new_timer_suspend inst timer act expires = SuspendTimer inst timer act expires"

definition new_channel_message_suspend ::
    "string \<Rightarrow> string \<Rightarrow> string \<Rightarrow> time option \<Rightarrow> suspend_signal" where
  "new_channel_message_suspend inst channel act timeout =
     SuspendChannelMessage inst channel act timeout"

definition new_recur_suspend :: "string \<Rightarrow> gov \<Rightarrow> suspend_signal" where
  "new_recur_suspend inst new_input = SuspendRecur inst new_input"

fun suspend_text :: "suspend_signal \<Rightarrow> string" where
  "suspend_text (SuspendTimer inst timer act expires) =
     ''workflow suspended: waiting for timer '' @ go_quote timer @ '' until '' @ show_int expires"
| "suspend_text (SuspendChannelMessage inst channel act (Some d)) =
     ''workflow suspended: waiting for channel message on '' @ go_quote channel @
     '' (timeout: '' @ show_int d @ '')''"
| "suspend_text (SuspendChannelMessage inst channel act None) =
     ''workflow suspended: waiting for channel message on '' @ go_quote channel"
| "suspend_text (SuspendRecur inst new_input) =
     ''workflow suspended: recurring instance '' @ inst"

datatype sentinel =
    ErrWorkflowAlreadyCompleted
  | ErrWorkflowAlreadyCancelled
  | ErrWorkflowAlreadyFailed
  | ErrInvalidWorkflowState
  | ErrActivityIDConflict
  | ErrDeterminismViolation
  | ErrChannelNotSubscribed
  | ErrGroupNotJoined
  | ErrWorkflowNotCancellable
  | ErrNoRows

fun sentinel_text :: "sentinel \<Rightarrow> string" where
  "sentinel_text ErrWorkflowAlreadyCompleted = ''workflow already completed''"
| "sentinel_text ErrWorkflowAlreadyCancelled = ''workflow already cancelled''"
| "sentinel_text ErrWorkflowAlreadyFailed = ''workflow already failed''"
| "sentinel_text ErrInvalidWorkflowState = ''invalid workflow state''"
| "sentinel_text ErrActivityIDConflict =
     ''activity ID conflict: duplicate activity ID in workflow''"
| "sentinel_text ErrDeterminismViolation = ''determinism violation during replay''"
| "sentinel_text ErrChannelNotSubscribed = ''not subscribed to channel''"
| "sentinel_text ErrGroupNotJoined = ''not a member of group''"
| "sentinel_text ErrWorkflowNotCancellable = ''workflow cannot be cancelled''"
| "sentinel_text ErrNoRows = ''sql: no rows in result set''"

text \<open>
  \<open>DriverError\<close> is an error of the database driver, \<open>SqlConstraint\<close> a statement that
  violates a constraint or names a column the schema does not have, \<open>ErrText\<close> an error
  built by \<open>errors.New\<close> or by \<open>fmt.Errorf\<close> without \<open>%w\<close>, and \<open>Wrapped pre e post\<close>
  one built by \<open>fmt.Errorf(pre + "%w" + post, e)\<close>.
\<close>

datatype go_error =
    DriverError
  | SqlConstraint string
  | ErrText string
  | Wrapped string go_error string
  | Sentinel sentinel
  | TerminalError go_error
  | RetryExhaustedError string nat go_error
  | WorkflowCancelledError string string
  | WorkflowNotFoundError string
  | LockAcquisitionError string string string
  | EventTimeoutError string string
  | ChannelMessageTimeoutError string string
  | ChannelModeConflictError string string string
  | CompensationError string string go_error
  | Suspend suspend_signal
  | ContextCanceled

fun unwrap_chain :: "go_error \<Rightarrow> go_error list" where
  "unwrap_chain (Wrapped pre e post) = Wrapped pre e post # unwrap_chain e"
| "unwrap_chain (TerminalError e) = TerminalError e # unwrap_chain e"
| "unwrap_chain (RetryExhaustedError a n e) = RetryExhaustedError a n e # unwrap_chain e"
| "unwrap_chain (CompensationError a f e) = CompensationError a f e # unwrap_chain e"
| "unwrap_chain e = [e]"

definition errors_is :: "go_error \<Rightarrow> go_error \<Rightarrow> bool" where
  "errors_is e target \<longleftrightarrow> target \<in> set (unwrap_chain e)"

fun terminal_here :: "go_error \<Rightarrow> bool" where
  "terminal_here (TerminalError e) = True"
| "terminal_here _ = False"

definition is_terminal_error :: "go_error \<Rightarrow> bool" where
  "is_terminal_error e \<longleftrightarrow> list_ex terminal_here (unwrap_chain e)"

fun suspend_here :: "go_error \<Rightarrow> suspend_signal option" where
  "suspend_here (Suspend sig) = Some sig"
| "suspend_here _ = None"

text \<open>\<open>AsSuspendSignal\<close> returns the first signal of the chain.\<close>

definition as_suspend_signal :: "go_error \<Rightarrow> suspend_signal option" where
  "as_suspend_signal e =
     (case filter (\<lambda>x. suspend_here x \<noteq> None) (unwrap_chain e) of
        [] \<Rightarrow> None | x # xs \<Rightarrow> suspend_here x)"

definition is_suspend_signal :: "go_error \<Rightarrow> bool" where
  "is_suspend_signal e \<longleftrightarrow> as_suspend_signal e \<noteq> None"

definition wrapf :: "string \<Rightarrow> go_error \<Rightarrow> go_error" where
  "wrapf msg e = Wrapped (msg @ '': '') e ''''"

fun err_text :: "go_error \<Rightarrow> string" where
  "err_text DriverError = ''driver error''"
| "err_text (SqlConstraint t) = t"
| "err_text (ErrText t) = t"
| "err_text (Wrapped pre e post) = pre @ err_text e @ post"
| "err_text (Sentinel s) = sentinel_text s"
| "err_text (TerminalError e) = ''terminal error: '' @ err_text e"
| "err_text (RetryExhaustedError a n e) =
     ''retry exhausted for activity '' @ go_quote a @ '' after '' @ show_nat n @
     '' attempts: '' @ err_text e"
| "err_text (WorkflowCancelledError inst reason) =
     (if reason \<noteq> '''' then ''workflow '' @ inst @ '' cancelled: '' @ reason
      else ''workflow '' @ inst @ '' cancelled'')"
| "err_text (WorkflowNotFoundError inst) = ''workflow instance '' @ inst @ '' not found''"
| "err_text (LockAcquisitionError inst worker reason) =
     ''failed to acquire lock for instance '' @ inst @ '' (worker: '' @ worker @ ''): '' @ reason"
| "err_text (EventTimeoutError inst ev) =
     ''timeout waiting for event '' @ go_quote ev @ '' on instance '' @ inst"
| "err_text (ChannelMessageTimeoutError inst ch) =
     ''timeout waiting for channel message on '' @ go_quote ch @ '' (instance: '' @ inst @ '')''"
| "err_text (ChannelModeConflictError ch ex rq) =
     ''channel '' @ go_quote ch @ '' is already configured as '' @ go_quote ex @
     '' mode; cannot subscribe with '' @ go_quote rq @ '' mode''"
| "err_text (CompensationError a f e) =
     ''compensation failed for activity '' @ a @ '' ('' @ f @ ''): '' @ err_text e"
| "err_text (Suspend sig) = suspend_text sig"
| "err_text ContextCanceled = ''context canceled''"

section \<open>Wrapping keeps what the chain carries\<close>

lemma unwrap_chain_self: "e \<in> set (unwrap_chain e)"
  by (cases e) auto

lemma is_terminal_simps [simp]:
  "is_terminal_error (TerminalError e)"
  "is_terminal_error (Wrapped p e q) = is_terminal_error e"
  "is_terminal_error (RetryExhaustedError a n e) = is_terminal_error e"
  "is_terminal_error (CompensationError a f e) = is_terminal_error e"
  "\<not> is_terminal_error (ErrText t)"
  "\<not> is_terminal_error DriverError"
  "\<not> is_terminal_error (Suspend s)"
  by (simp_all add: is_terminal_error_def)

lemma as_suspend_simps [simp]:
  "as_suspend_signal (Suspend s) = Some s"
  "as_suspend_signal (Wrapped p e q) = as_suspend_signal e"
  "as_suspend_signal (TerminalError e) = as_suspend_signal e"
  "as_suspend_signal (RetryExhaustedError a n e) = as_suspend_signal e"
  "as_suspend_signal (CompensationError a f e) = as_suspend_signal e"
  "as_suspend_signal (ErrText t) = None"
  "as_suspend_signal DriverError = None"
  "as_suspend_signal (SqlConstraint t) = None"
  "as_suspend_signal (Sentinel s') = None"
  "as_suspend_signal ContextCanceled = None"
  "as_suspend_signal (ChannelMessageTimeoutError i c) = None"
  "as_suspend_signal (ChannelModeConflictError i c m) = None"
  by (simp_all add: as_suspend_signal_def)

lemma as_suspend_wrapf [simp]: "as_suspend_signal (wrapf m e) = as_suspend_signal e"
  by (simp add: wrapf_def)

lemma is_terminal_wrapf [simp]: "is_terminal_error (wrapf m e) = is_terminal_error e"
  by (simp add: wrapf_def)

lemma errors_is_wrapf: "errors_is e t \<Longrightarrow> errors_is (wrapf m e) t"
  by (simp add: errors_is_def wrapf_def)

lemma channel_timeout_text:
  "contains (err_text (ChannelMessageTimeoutError inst ch)) ''timeout waiting for channel message''"
proof -
  have "err_text (ChannelMessageTimeoutError inst ch) =
        ''timeout waiting for channel message'' @ ('' on '' @ go_quote ch @ '' (instance: '' @ inst @ '')'')"
    by simp
  then show ?thesis by (simp only: contains_prefix)
qed

end
