(* ===== verification/Models.thy ===== *)
theory Models
  imports Go_Errors
begin

text \<open>
  The data of internal/storage/models.go and the database of the SQLite migration
  (internal/migrations/sql/sqlite): one record per table row, one field of \<open>db\<close> per
  table, rows in insertion order, with the AUTOINCREMENT counters. Nullable columns are
  options. SQLite keeps a time as text with whole seconds, so a stored time is a number
  of seconds (\<open>secs\<close> truncates the nanosecond clock \<open>clock\<close> as the format
  \<open>2006-01-02 15:04:05\<close> does); the clock moves between operations, not inside one.

  \<open>faults\<close> says which of the coming statements the driver lets fail: \<open>stmt\<close> runs one
  statement, consuming one entry, and a \<open>True\<close> entry makes it return \<open>DriverError\<close>
  without effect. An exhausted list means no more faults.
\<close>

section \<open>Data\<close>

datatype workflow_status =
    StatusRunning
  | StatusCompleted
  | StatusFailed
  | StatusCancelled
  | StatusWaitingForEvent
  | StatusWaitingForTimer
  | StatusWaitingForMessage
  | StatusRecurred
  | StatusCompensating

fun status_string :: "workflow_status \<Rightarrow> string" where
  "status_string StatusRunning = ''running''"
| "status_string StatusCompleted = ''completed''"
| "status_string StatusFailed = ''failed''"
| "status_string StatusCancelled = ''cancelled''"
| "status_string StatusWaitingForEvent = ''waiting_for_event''"
| "status_string StatusWaitingForTimer = ''waiting_for_timer''"
| "status_string StatusWaitingForMessage = ''waiting_for_message''"
| "status_string StatusRecurred = ''recurred''"
| "status_string StatusCompensating = ''compensating''"

record workflow_instance =
  inst_id :: string
  inst_workflow :: string
  inst_framework :: string
  inst_status :: workflow_status
  inst_input :: bytes
  inst_output :: "bytes option"
  inst_activity :: "string option"
  inst_source_hash :: string
  inst_owner :: string
  inst_continued_from :: "string option"
  inst_locked_by :: "string option"
  inst_locked_at :: "int option"
  inst_lock_timeout :: "int option"
  inst_lock_expires :: "int option"
  inst_started :: int
  inst_updated :: int

datatype history_type =
    HistoryActivityCompleted
  | HistoryActivityFailed
  | HistoryEventReceived
  | HistoryTimerExpired
  | HistoryChannelMessageReceived
  | HistoryMessageTimeout
  | HistoryCompensationExecuted
  | HistoryCompensationFailed
  | HistoryWorkflowFailed
  | HistoryWorkflowCancelled
  | HistoryOther string

record history_event =
  he_id :: int
  he_instance :: string
  he_activity :: string
  he_type :: history_type
  he_data :: bytes
  he_data_type :: string
  he_created :: int

record archived_event =
  ae_id :: int
  ae_original_id :: "int option"
  ae_instance :: string
  ae_activity :: string
  ae_type :: history_type
  ae_data :: bytes
  ae_data_type :: string
  ae_original_created :: "int option"
  ae_archived :: int

record timer_subscription =
  ts_id :: int
  ts_instance :: string
  ts_timer :: string
  ts_expires :: int
  ts_activity :: "string option"
  ts_created :: int

datatype outbox_status = OutboxPending | OutboxProcessing | OutboxPublished | OutboxFailed
  | OutboxInvalid | OutboxExpired

record outbox_event =
  ob_id :: string
  ob_type :: string
  ob_source :: string
  ob_data :: bytes
  ob_data_type :: string
  ob_content_type :: string
  ob_status :: outbox_status
  ob_retry :: int
  ob_published :: "int option"
  ob_created :: int

text \<open>\<open>ce_created\<close> is in milliseconds (AddCompensation writes a millisecond format).\<close>

record compensation_entry =
  ce_id :: int
  ce_instance :: string
  ce_activity :: string
  ce_name :: string
  ce_args :: bytes
  ce_created :: int

datatype channel_mode = ChannelModeBroadcast | ChannelModeCompeting | ChannelModeDirect

fun mode_string :: "channel_mode \<Rightarrow> string" where
  "mode_string ChannelModeBroadcast = ''broadcast''"
| "mode_string ChannelModeCompeting = ''competing''"
| "mode_string ChannelModeDirect = ''direct''"

record channel_message =
  cm_id :: int
  cm_channel :: string
  cm_message_id :: string
  cm_data :: bytes
  cm_metadata :: bytes
  cm_published :: int

record channel_subscription =
  cs_id :: int
  cs_instance :: string
  cs_channel :: string
  cs_mode :: channel_mode
  cs_cursor :: "int option"
  cs_timeout :: "int option"
  cs_activity :: "string option"
  cs_subscribed :: int

record delivery_cursor =
  dc_instance :: string
  dc_channel :: string
  dc_last :: int

record message_claim =
  cl_message :: string
  cl_instance :: string

record group_membership =
  gm_instance :: string
  gm_group :: string

record system_lock =
  sl_name :: string
  sl_by :: string
  sl_at :: int
  sl_expires :: int

record channel_delivery_result =
  cr_instance :: string
  cr_workflow :: string
  cr_activity :: string

section \<open>The database\<close>

record db =
  definitions :: "(string \<times> string) list"
  instances :: "workflow_instance list"
  history :: "history_event list"
  history_seq :: int
  archive :: "archived_event list"
  archive_columns :: "string list"
  archive_seq :: int
  timers :: "timer_subscription list"
  timer_seq :: int
  outbox :: "outbox_event list"
  compensations :: "compensation_entry list"
  comp_seq :: int
  messages :: "channel_message list"
  message_seq :: int
  subscriptions :: "channel_subscription list"
  sub_seq :: int
  cursors :: "delivery_cursor list"
  claims :: "message_claim list"
  groups :: "group_membership list"
  sys_locks :: "system_lock list"
  clock :: time
  local_offset :: time
  faults :: "bool list"

definition secs :: "time \<Rightarrow> int" where
  "secs t = t div 1000000000"

definition sql_now :: "db \<Rightarrow> int" where
  "sql_now d = secs (clock d)"

lemma secs_mono: "t \<le> u \<Longrightarrow> secs t \<le> secs u"
  by (simp add: secs_def zdiv_mono1)

lemma secs_add_seconds [simp]: "secs (t + n * 1000000000) = secs t + n"
  by (simp add: secs_def)

type_synonym 'a dbm = "(db, go_error, 'a) go"

definition stmt :: "(db \<Rightarrow> 'a \<times> db) \<Rightarrow> 'a dbm" where
  "stmt f d =
     (case faults d of
        [] \<Rightarrow> (case f d of (x, d') \<Rightarrow> (Inr x, d'))
      | b # bs \<Rightarrow>
          if b then (Inl DriverError, d\<lparr>faults := bs\<rparr>)
          else (case f (d\<lparr>faults := bs\<rparr>) of (x, d') \<Rightarrow> (Inr x, d')))"

definition query :: "(db \<Rightarrow> 'a) \<Rightarrow> 'a dbm" where
  "query f = stmt (\<lambda>d. (f d, d))"

definition exec :: "(db \<Rightarrow> db) \<Rightarrow> unit dbm" where
  "exec f = stmt (\<lambda>d. ((), f d))"

text \<open>A statement that can violate a constraint.\<close>

definition exec_try :: "(db \<Rightarrow> go_error + db) \<Rightarrow> unit dbm" where
  "exec_try f =
     try_go (stmt (\<lambda>d. case f d of Inl e \<Rightarrow> (Inl e, d) | Inr d' \<Rightarrow> (Inr (), d')))
       (\<lambda>r. case r of Inl e \<Rightarrow> throw e | Inr u \<Rightarrow> ret u)"

definition no_faults :: "db \<Rightarrow> bool" where
  "no_faults d \<longleftrightarrow> faults d = []"

lemma query_ok [simp]: "faults d = [] \<Longrightarrow> query f d = (Inr (f d), d)"
  by (simp add: query_def stmt_def)

lemma exec_ok [simp]: "faults d = [] \<Longrightarrow> exec f d = (Inr (), f d)"
  by (simp add: exec_def stmt_def)

lemma stmt_ok [simp]: "faults d = [] \<Longrightarrow> stmt f d = (Inr (fst (f d)), snd (f d))"
  by (simp add: stmt_def split: prod.split)

lemma exec_try_ok [simp]:
  "faults d = [] \<Longrightarrow>
   exec_try f d = (case f d of Inl e \<Rightarrow> (Inl e, d) | Inr d' \<Rightarrow> (Inr (), d'))"
  by (simp add: exec_try_def try_go_def split: sum.split)

text \<open>
  An invariant that does not look at the fault list is kept by a statement as soon as the
  statement's effect keeps it.
\<close>

definition fault_blind :: "(db \<Rightarrow> bool) \<Rightarrow> bool" where
  "fault_blind P \<longleftrightarrow> (\<forall>d fs. P (d\<lparr>faults := fs\<rparr>) = P d)"

lemma preserves_stmt [keeps]:
  "fault_blind P \<Longrightarrow> (\<And>d. P d \<Longrightarrow> P (snd (f d))) \<Longrightarrow> preserves P (stmt f)"
  unfolding preserves_def stmt_def fault_blind_def
  by (auto split: list.splits prod.splits) (metis snd_conv)+

lemma preserves_query [keeps]: "fault_blind P \<Longrightarrow> preserves P (query f)"
  unfolding query_def by (rule preserves_stmt) auto

lemma preserves_exec [keeps]:
  "fault_blind P \<Longrightarrow> (\<And>d. P d \<Longrightarrow> P (f d)) \<Longrightarrow> preserves P (exec f)"
  unfolding exec_def by (rule preserves_stmt) auto

lemma preserves_exec_try [keeps]:
  assumes "fault_blind P" and "\<And>d d'. P d \<Longrightarrow> f d = Inr d' \<Longrightarrow> P d'"
  shows "preserves P (exec_try f)"
  unfolding exec_try_def
proof (rule preserves_try)
  show "preserves P (stmt (\<lambda>d. case f d of Inl e \<Rightarrow> (Inl e, d) | Inr d' \<Rightarrow> (Inr (), d')))"
    using assms by (intro preserves_stmt) (auto split: sum.splits)
qed (auto intro: keeps)

section \<open>A fresh database\<close>

definition empty_db :: db where
  "empty_db =
     \<lparr>definitions = [], instances = [], history = [], history_seq = 0, archive = [],
      archive_columns =
        [''id'', ''instance_id'', ''activity_id'', ''event_type'', ''data_type'', ''event_data'',
         ''event_data_binary'', ''created_at'', ''archived_at''],
      archive_seq = 0, timers = [], timer_seq = 0, outbox = [], compensations = [], comp_seq = 0,
      messages = [], message_seq = 0, subscriptions = [], sub_seq = 0, cursors = [], claims = [],
      groups = [], sys_locks = [], clock = 0, local_offset = 0, faults = []\<rparr>"

text \<open>
  Every table whose key is AUTOINCREMENT holds its rows in ascending id order, none above
  the counter.
\<close>

definition id_ordered :: "('r \<Rightarrow> int) \<Rightarrow> int \<Rightarrow> 'r list \<Rightarrow> bool" where
  "id_ordered key s rows \<longleftrightarrow> sorted_wrt (<) (map key rows) \<and> (\<forall>r \<in> set rows. key r \<le> s)"

lemma id_ordered_Nil [simp]: "id_ordered key s []"
  by (simp add: id_ordered_def)

lemma id_ordered_append:
  "id_ordered key s rows \<Longrightarrow> key r = s + 1 \<Longrightarrow> id_ordered key (s + 1) (rows @ [r])"
  by (force simp: id_ordered_def sorted_wrt_append)

lemma id_ordered_mono: "id_ordered key s rows \<Longrightarrow> s \<le> s' \<Longrightarrow> id_ordered key s' rows"
  by (force simp: id_ordered_def)

lemma id_ordered_filter: "id_ordered key s rows \<Longrightarrow> id_ordered key s (filter p rows)"
  by (auto simp: id_ordered_def sorted_wrt_filter sorted_wrt_map)

lemma id_ordered_delete: "id_ordered key s rows \<Longrightarrow> id_ordered key s (delete_where p rows)"
  by (simp add: delete_where_def id_ordered_filter)

lemma id_ordered_update:
  "id_ordered key s rows \<Longrightarrow> (\<And>r. key (f r) = key r) \<Longrightarrow> id_ordered key s (update_where p f rows)"
  unfolding id_ordered_def by (simp add: map_update_where_key) (auto simp: update_where_def)

lemma id_ordered_distinct: "id_ordered key s rows \<Longrightarrow> distinct (map key rows)"
  by (auto simp: id_ordered_def strict_sorted_iff)

lemma id_ordered_sorted: "id_ordered key s rows \<Longrightarrow> sorted (map key rows)"
  by (auto simp: id_ordered_def strict_sorted_iff)

end
