(* ===== verification/Json_Path.thy ===== *)
theory Json_Path
  imports Go_Errors
begin

text \<open>
  internal/storage/json_path.go and the parts of driver.go it uses: the check of a JSON path
  against its regular expression, the SQL text each driver builds for an extraction and a
  comparison, and \<open>BuildFilterQuery\<close>, which puts the conditions and their arguments
  together. A filter value is the dynamic type the Go code switches on; \<open>FOther s\<close> is any
  other value with its \<open>%v\<close> text.
\<close>

section \<open>Paths\<close>

definition ident_start :: "char \<Rightarrow> bool" where
  "ident_start c \<longleftrightarrow> (let n = of_char c :: nat in
     (65 \<le> n \<and> n \<le> 90) \<or> (97 \<le> n \<and> n \<le> 122) \<or> n = 95)"

definition ident_char :: "char \<Rightarrow> bool" where
  "ident_char c \<longleftrightarrow> ident_start c \<or> is_digit c"

text \<open>
  \<open>^[a-zA-Z_][a-zA-Z0-9_]*(\.[a-zA-Z_][a-zA-Z0-9_]*)*$\<close> as the automaton that says whether
  it is inside a segment.
\<close>

fun path_match :: "bool \<Rightarrow> string \<Rightarrow> bool" where
  "path_match inside [] = inside"
| "path_match False (c # cs) = (ident_start c \<and> path_match True cs)"
| "path_match True (c # cs) =
     (if c = CHR ''.'' then path_match False cs else ident_char c \<and> path_match True cs)"

definition validate_json_path :: "string \<Rightarrow> go_error option" where
  "validate_json_path path =
     (if path = [] then Some (ErrText ''empty JSON path'')
      else if \<not> path_match False path
      then Some (ErrText (''invalid JSON path: '' @ go_quote path @
             '' (only alphanumeric, underscore, and dot allowed)''))
      else None)"

text \<open>The language of the expression, segment by segment.\<close>

fun join_dots :: "string list \<Rightarrow> string" where
  "join_dots [] = []"
| "join_dots [s] = s"
| "join_dots (s # t # ts) = s @ CHR ''.'' # join_dots (t # ts)"

fun split_dots :: "string \<Rightarrow> string list" where
  "split_dots [] = [[]]"
| "split_dots (c # cs) =
     (if c = CHR ''.'' then [] # split_dots cs
      else (case split_dots cs of [] \<Rightarrow> [[c]] | s # ss \<Rightarrow> (c # s) # ss))"

definition is_identifier :: "string \<Rightarrow> bool" where
  "is_identifier s \<longleftrightarrow> (case s of [] \<Rightarrow> False | c # cs \<Rightarrow> ident_start c \<and> list_all ident_char cs)"

lemma is_identifier_simps [simp]:
  "\<not> is_identifier []"
  "is_identifier (c # cs) = (ident_start c \<and> list_all ident_char cs)"
  by (simp_all add: is_identifier_def)

lemma split_dots_nonempty [simp]: "split_dots s \<noteq> []"
  by (cases s) (auto split: list.split)

lemma join_split_dots: "join_dots (split_dots s) = s"
proof (induction s)
  case (Cons c cs)
  then show ?case
    by (cases "split_dots cs" rule: join_dots.cases) auto
qed simp

lemma dot_not_ident [simp]: "\<not> ident_start (CHR ''.'')" "\<not> ident_char (CHR ''.'')"
  by (simp_all add: ident_start_def ident_char_def is_digit_def)

lemma path_match_split:
  "path_match False s = list_all is_identifier (split_dots s)"
  "path_match True s =
     (case split_dots s of [] \<Rightarrow> False | t # ts \<Rightarrow> list_all ident_char t \<and> list_all is_identifier ts)"
proof (induction s)
  case Nil
  { case 1 show ?case by simp }
  { case 2 show ?case by simp }
next
  case (Cons c cs)
  { case 1 show ?case
      using Cons.IH by (cases "split_dots cs") auto }
  { case 2 show ?case
      using Cons.IH by (cases "split_dots cs") auto }
qed

lemma path_match_chars:
  "path_match inside s \<Longrightarrow> c \<in> set s \<Longrightarrow> ident_char c \<or> c = CHR ''.''"
  by (induction inside s rule: path_match.induct) (auto simp: ident_char_def split: if_splits)

section \<open>Drivers\<close>

datatype driver = SQLiteDriver | PostgresDriver | MySQLDriver

definition new_driver :: "string \<Rightarrow> driver" where
  "new_driver url =
     (if length url \<ge> 8 \<and> take 8 url = ''postgres'' then PostgresDriver
      else if length url \<ge> 5 \<and> take 5 url = ''mysql'' then MySQLDriver
      else SQLiteDriver)"

fun join_comma :: "string list \<Rightarrow> string" where
  "join_comma [] = []"
| "join_comma [s] = s"
| "join_comma (s # t # ts) = s @ '', '' @ join_comma (t # ts)"

definition sqlite_on_conflict :: "string list \<Rightarrow> string" where
  "sqlite_on_conflict cols =
     (if cols = [] then ''ON CONFLICT DO NOTHING''
      else ''ON CONFLICT ('' @ join_comma cols @ '') DO NOTHING'')"

definition sqlite_returning :: "string list \<Rightarrow> string" where
  "sqlite_returning cols = (if cols = [] then '''' else ''RETURNING '' @ join_comma cols)"

datatype filter_value = FNil | FBool bool | FFloat int | FInt int | FInt64 int | FOther string

datatype sql_arg = ArgFloat int | ArgInt int | ArgText string

definition sqlite_json_extract :: "string \<Rightarrow> string \<Rightarrow> string" where
  "sqlite_json_extract column path =
     ''json_extract('' @ column @ '', '' @ [CHR 0x27] @ ''$.'' @ path @ [CHR 0x27] @ '')''"

fun sqlite_json_compare :: "string \<Rightarrow> filter_value \<Rightarrow> string \<times> sql_arg list" where
  "sqlite_json_compare e FNil =
     (''('' @ e @ '' IS NULL OR '' @ e @ '' = '' @ [CHR 0x27] @ ''null'' @ [CHR 0x27] @ '')'', [])"
| "sqlite_json_compare e (FBool b) =
     (if b then (''('' @ e @ '' = 1 OR '' @ e @ '' = '' @ [CHR 0x27] @ ''true'' @ [CHR 0x27] @ '')'', [])
      else (''('' @ e @ '' = 0 OR '' @ e @ '' = '' @ [CHR 0x27] @ ''false'' @ [CHR 0x27] @ '')'', []))"
| "sqlite_json_compare e (FFloat v) = (''CAST('' @ e @ '' AS REAL) = ?'', [ArgFloat v])"
| "sqlite_json_compare e (FInt v) = (''CAST('' @ e @ '' AS REAL) = ?'', [ArgFloat (f64_of_int v)])"
| "sqlite_json_compare e (FInt64 v) = (''CAST('' @ e @ '' AS REAL) = ?'', [ArgFloat (f64_of_int v)])"
| "sqlite_json_compare e (FOther s) = (e @ '' = ?'', [ArgText s])"

definition postgres_json_extract :: "string \<Rightarrow> string \<Rightarrow> string" where
  "postgres_json_extract column path =
     (let parts = split_dots path;
          joined = concat (map (\<lambda>p. p) (case parts of [] \<Rightarrow> [] | p # ps \<Rightarrow> p # map (\<lambda>q. CHR '','' # q) ps))
      in ''('' @ column @ ''::jsonb #>> '' @ [CHR 0x27] @ ''{'' @ joined @ ''}'' @ [CHR 0x27] @ '')'')"

fun postgres_json_compare :: "string \<Rightarrow> filter_value \<Rightarrow> nat \<Rightarrow> string \<times> sql_arg list" where
  "postgres_json_compare e FNil n = (e @ '' IS NULL'', [])"
| "postgres_json_compare e (FBool b) n =
     (if b then (e @ '' = '' @ [CHR 0x27] @ ''true'' @ [CHR 0x27], [])
      else (e @ '' = '' @ [CHR 0x27] @ ''false'' @ [CHR 0x27], []))"
| "postgres_json_compare e (FFloat v) n = (''CAST('' @ e @ '' AS NUMERIC) = $'' @ show_nat n, [ArgFloat v])"
| "postgres_json_compare e (FInt v) n = (''CAST('' @ e @ '' AS NUMERIC) = $'' @ show_nat n, [ArgInt v])"
| "postgres_json_compare e (FInt64 v) n = (''CAST('' @ e @ '' AS NUMERIC) = $'' @ show_nat n, [ArgInt v])"
| "postgres_json_compare e (FOther s) n = (e @ '' = $'' @ show_nat n, [ArgText s])"

definition mysql_json_extract :: "string \<Rightarrow> string \<Rightarrow> string" where
  "mysql_json_extract column path =
     ''JSON_UNQUOTE(JSON_EXTRACT('' @ column @ '', '' @ [CHR 0x27] @ ''$.'' @ path @ [CHR 0x27] @ ''))''"

fun mysql_json_compare :: "string \<Rightarrow> filter_value \<Rightarrow> string \<times> sql_arg list" where
  "mysql_json_compare e FNil =
     (''('' @ e @ '' IS NULL OR '' @ e @ '' = '' @ [CHR 0x27] @ ''null'' @ [CHR 0x27] @ '')'', [])"
| "mysql_json_compare e (FBool b) =
     (if b then (''('' @ e @ '' = '' @ [CHR 0x27] @ ''true'' @ [CHR 0x27] @ '' OR '' @ e @ '' = '' @
                 [CHR 0x27] @ ''1'' @ [CHR 0x27] @ '')'', [])
      else (''('' @ e @ '' = '' @ [CHR 0x27] @ ''false'' @ [CHR 0x27] @ '' OR '' @ e @ '' = '' @
                 [CHR 0x27] @ ''0'' @ [CHR 0x27] @ '')'', []))"
| "mysql_json_compare e (FFloat v) = (''CAST('' @ e @ '' AS DECIMAL(20,6)) = ?'', [ArgFloat v])"
| "mysql_json_compare e (FInt v) = (''CAST('' @ e @ '' AS DECIMAL(20,6)) = ?'', [ArgFloat (f64_of_int v)])"
| "mysql_json_compare e (FInt64 v) = (''CAST('' @ e @ '' AS DECIMAL(20,6)) = ?'', [ArgFloat (f64_of_int v)])"
| "mysql_json_compare e (FOther s) = (e @ '' = ?'', [ArgText s])"

fun json_extract :: "driver \<Rightarrow> string \<Rightarrow> string \<Rightarrow> string" where
  "json_extract SQLiteDriver c p = sqlite_json_extract c p"
| "json_extract PostgresDriver c p = postgres_json_extract c p"
| "json_extract MySQLDriver c p = mysql_json_extract c p"

fun json_compare :: "driver \<Rightarrow> string \<Rightarrow> filter_value \<Rightarrow> nat \<Rightarrow> string \<times> sql_arg list" where
  "json_compare SQLiteDriver e v n = sqlite_json_compare e v"
| "json_compare PostgresDriver e v n = postgres_json_compare e v n"
| "json_compare MySQLDriver e v n = mysql_json_compare e v"

section \<open>BuildFilterQuery\<close>

text \<open>The loop over the sorted keys; the placeholder number advances by the arguments used.\<close>

fun filter_loop ::
    "driver \<Rightarrow> (string \<times> filter_value) list \<Rightarrow> nat \<Rightarrow> go_error + (string \<times> sql_arg list) list" where
  "filter_loop d [] n = Inr []"
| "filter_loop d ((path, v) # kvs) n =
     (case validate_json_path path of
        Some e \<Rightarrow> Inl e
      | None \<Rightarrow>
          (case json_compare d (json_extract d ''input_data'' path) v n of (comp_expr, comp_args) \<Rightarrow>
             (case filter_loop d kvs (n + length comp_args) of
                Inl e \<Rightarrow> Inl e
              | Inr cs \<Rightarrow> Inr ((comp_expr, comp_args) # cs))))"

definition build_filter_query ::
    "driver \<Rightarrow> (string \<times> filter_value) list \<Rightarrow> nat \<Rightarrow> go_error + (string \<times> sql_arg list) list" where
  "build_filter_query d filters n =
     (if filters = [] then Inr [] else filter_loop d (sort_key fst filters) n)"

lemma filter_loop_ok:
  "filter_loop d kvs n = Inr cs \<Longrightarrow>
   list_all (\<lambda>(p, v). path_match False p) kvs \<and> length cs = length kvs"
  by (induction d kvs n arbitrary: cs rule: filter_loop.induct)
     (fastforce simp: validate_json_path_def split: option.splits sum.splits if_splits prod.splits)+

lemma filter_loop_err:
  "filter_loop d kvs n = Inl e \<Longrightarrow>
   \<exists>p v. (p, v) \<in> set kvs \<and> validate_json_path p = Some e"
  by (induction d kvs n rule: filter_loop.induct)
     (fastforce split: option.splits sum.splits prod.splits)+

text \<open>
  What a condition can contain besides what the template fixes: nothing of the value (it
  travels as an argument), and of the path only the characters of the path.
\<close>

lemma json_compare_args_le: "length (snd (json_compare d e v n)) \<le> 1"
  by (cases d; cases v) auto

end
