(* ===== verification/Storage_Instances.thy ===== *)
theory Storage_Instances
  imports Models Json_Path "HOL-Library.Product_Lexorder"
begin

text \<open>
  The instance manager and the lock manager of internal/storage/sqlite.go: one definition
  per method, each SQL statement of the method one \<open>stmt\<close>. A lock is the pair
  \<open>locked_by\<close>, \<open>lock_expires_at\<close> of the instance's row; \<open>lock_free\<close> is the WHERE
  clause of TryAcquireLock.
\<close>

section \<open>Instances\<close>

definition find_instance :: "db \<Rightarrow> string \<Rightarrow> workflow_instance option" where
  "find_instance d i = find (\<lambda>r. inst_id r = i) (instances d)"

definition update_instances ::
    "(workflow_instance \<Rightarrow> bool) \<Rightarrow> (workflow_instance \<Rightarrow> workflow_instance) \<Rightarrow> db \<Rightarrow> db" where
  "update_instances p f d = d\<lparr>instances := update_where p f (instances d)\<rparr>"

text \<open>
  \<open>CreateInstance\<close> takes the instance's times on the nanosecond clock; the columns that
  the INSERT leaves out are NULL.
\<close>

definition create_instance :: "workflow_instance \<Rightarrow> unit dbm" where
  "create_instance inst =
     (let framework = (if inst_framework inst = '''' then ''go'' else inst_framework inst)
      in try_go
           (map_err (wrapf ''failed to ensure workflow definition'')
             (exec (\<lambda>d. if (inst_workflow inst, inst_source_hash inst) \<in> set (definitions d) then d
                        else d\<lparr>definitions := definitions d @ [(inst_workflow inst, inst_source_hash inst)]\<rparr>)))
           (\<lambda>_. exec_try (\<lambda>d.
              if find_instance d (inst_id inst) \<noteq> None
              then Inl (SqlConstraint ''UNIQUE constraint failed: workflow_instances.instance_id'')
              else Inr (d\<lparr>instances := instances d @
                [\<lparr>inst_id = inst_id inst, inst_workflow = inst_workflow inst,
                  inst_framework = framework, inst_status = inst_status inst,
                  inst_input = inst_input inst, inst_output = None, inst_activity = None,
                  inst_source_hash = inst_source_hash inst, inst_owner = inst_owner inst,
                  inst_continued_from = None, inst_locked_by = None, inst_locked_at = None,
                  inst_lock_timeout = None, inst_lock_expires = None,
                  inst_started = secs (inst_started inst), inst_updated = secs (inst_updated inst)\<rparr>]\<rparr>))))"

text \<open>\<open>GetInstance\<close> does not select \<open>continued_from\<close>.\<close>

definition get_instance :: "string \<Rightarrow> workflow_instance option dbm" where
  "get_instance i =
     query (\<lambda>d. map_option (\<lambda>r. r\<lparr>inst_continued_from := None\<rparr>) (find_instance d i))"

definition update_instance_status :: "string \<Rightarrow> workflow_status \<Rightarrow> string \<Rightarrow> unit dbm" where
  "update_instance_status i status error_msg =
     exec (\<lambda>d. update_instances (\<lambda>r. inst_id r = i)
       (\<lambda>r. r\<lparr>inst_status := status, inst_updated := sql_now d\<rparr>) d)"

definition update_instance_activity :: "string \<Rightarrow> string \<Rightarrow> unit dbm" where
  "update_instance_activity i act =
     exec (\<lambda>d. update_instances (\<lambda>r. inst_id r = i)
       (\<lambda>r. r\<lparr>inst_activity := Some act, inst_updated := sql_now d\<rparr>) d)"

definition update_instance_output :: "string \<Rightarrow> bytes \<Rightarrow> unit dbm" where
  "update_instance_output i output =
     exec (\<lambda>d. update_instances (\<lambda>r. inst_id r = i)
       (\<lambda>r. r\<lparr>inst_output := Some output, inst_status := StatusCompleted, inst_updated := sql_now d\<rparr>) d)"

text \<open>The literal 'pending' of the SQL list is no status a row can have.\<close>

definition cancellable_status :: "workflow_status \<Rightarrow> bool" where
  "cancellable_status st \<longleftrightarrow>
     st \<in> {StatusRunning, StatusWaitingForEvent, StatusWaitingForTimer, StatusWaitingForMessage,
            StatusRecurred}"

definition cancel_instance :: "string \<Rightarrow> string \<Rightarrow> unit dbm" where
  "cancel_instance i reason =
     try_go (stmt (\<lambda>d.
        (count_where (\<lambda>r. inst_id r = i \<and> cancellable_status (inst_status r)) (instances d),
         update_instances (\<lambda>r. inst_id r = i \<and> cancellable_status (inst_status r))
           (\<lambda>r. r\<lparr>inst_status := StatusCancelled, inst_updated := sql_now d\<rparr>) d)))
       (\<lambda>rows. if rows = 0 then throw (Sentinel ErrWorkflowNotCancellable) else ret ())"

section \<open>Listing\<close>

text \<open>SQLite's LIKE on lower-cased text, with its wildcards in the pattern.\<close>

definition lower_char :: "char \<Rightarrow> char" where
  "lower_char c = (let n = of_char c :: nat in if 65 \<le> n \<and> n \<le> 90 then char_of (n + 32) else c)"

definition lower :: "string \<Rightarrow> string" where
  "lower s = map lower_char s"

fun like_match :: "string \<Rightarrow> string \<Rightarrow> bool" where
  "like_match [] s = (s = [])"
| "like_match (p # ps) [] = (p = CHR ''%'' \<and> like_match ps [])"
| "like_match (p # ps) (c # cs) =
     (if p = CHR ''%'' then like_match ps (c # cs) \<or> like_match (p # ps) cs
      else (p = CHR ''_'' \<or> p = c) \<and> like_match ps cs)"

text \<open>
  A page token is the pair its text \<open>ISO_DATETIME||INSTANCE_ID\<close> stands for; a text that
  does not split or whose time does not parse is \<open>BadToken\<close>, which the code ignores.
\<close>

datatype page_token = NoToken | BadToken | Token int string

record list_options =
  lo_limit :: int
  lo_token :: page_token
  lo_status :: "workflow_status option"
  lo_name :: string
  lo_id :: string
  lo_after :: "time option"
  lo_before :: "time option"
  lo_inputs :: "(string \<times> filter_value) list"
  lo_old_status :: "workflow_status option"
  lo_old_name :: string

record list_row =
  lr_id :: string
  lr_workflow :: string
  lr_status :: workflow_status
  lr_started :: int
  lr_updated :: int

definition row_of :: "workflow_instance \<Rightarrow> list_row" where
  "row_of r = \<lparr>lr_id = inst_id r, lr_workflow = inst_workflow r, lr_status = inst_status r,
     lr_started = inst_started r, lr_updated = inst_updated r\<rparr>"

definition before_cursor :: "int \<times> string \<Rightarrow> workflow_instance \<Rightarrow> bool" where
  "before_cursor k r \<longleftrightarrow>
     inst_started r < fst k \<or> (inst_started r = fst k \<and> inst_id r < snd k)"

fun token_where :: "page_token \<Rightarrow> workflow_instance \<Rightarrow> bool" where
  "token_where (Token t i) r = before_cursor (t, i) r"
| "token_where NoToken r = True"
| "token_where BadToken r = True"

definition static_where :: "list_options \<Rightarrow> workflow_instance \<Rightarrow> bool" where
  "static_where opts r \<longleftrightarrow>
     (let name = (if lo_name opts = '''' then lo_old_name opts else lo_name opts);
          status = (if lo_status opts = None then lo_old_status opts else lo_status opts)
      in inst_framework r = ''go''
       \<and> (name \<noteq> '''' \<longrightarrow> like_match (lower (''%'' @ name @ ''%'')) (lower (inst_workflow r)))
       \<and> (case status of None \<Rightarrow> True | Some st \<Rightarrow> inst_status r = st)
       \<and> (lo_id opts \<noteq> '''' \<longrightarrow> like_match (lower (''%'' @ lo_id opts @ ''%'')) (lower (inst_id r)))
       \<and> (case lo_after opts of None \<Rightarrow> True | Some t \<Rightarrow> inst_started r > secs t)
       \<and> (case lo_before opts of None \<Rightarrow> True | Some t \<Rightarrow> inst_started r < secs t))"

definition list_key :: "workflow_instance \<Rightarrow> int \<times> string" where
  "list_key r = (inst_started r, inst_id r)"

definition newest_first :: "workflow_instance list \<Rightarrow> workflow_instance list" where
  "newest_first rows = rev (sort_key list_key rows)"

definition page_limit :: "int \<Rightarrow> nat" where
  "page_limit limit = nat (if limit \<le> 0 then 50 else limit)"

text \<open>
  \<open>holds\<close> is the database's evaluation of an input-filter condition (its text and its
  arguments) on a row.
\<close>

definition static_args :: "list_options \<Rightarrow> nat" where
  "static_args opts =
     (let name = (if lo_name opts = '''' then lo_old_name opts else lo_name opts);
          status = (if lo_status opts = None then lo_old_status opts else lo_status opts)
      in of_bool (name \<noteq> '''') + of_bool (status \<noteq> None) + of_bool (lo_id opts \<noteq> '''')
         + of_bool (lo_after opts \<noteq> None) + of_bool (lo_before opts \<noteq> None))"

definition list_instances ::
    "(string \<times> sql_arg list \<Rightarrow> workflow_instance \<Rightarrow> bool) \<Rightarrow> list_options \<Rightarrow>
     (list_row list \<times> page_token \<times> bool) dbm" where
  "list_instances holds opts =
     (case build_filter_query SQLiteDriver (lo_inputs opts) (static_args opts + 1) of
        Inl e \<Rightarrow> throw (wrapf ''invalid input filter'' e)
      | Inr conds \<Rightarrow>
          try_go (query (\<lambda>d. take (page_limit (lo_limit opts) + 1) (newest_first
                   (filter (\<lambda>r. static_where opts r \<and> list_all (\<lambda>c. holds c r) conds \<and>
                                token_where (lo_token opts) r) (instances d)))))
            (\<lambda>rows.
               let has_more = length rows > page_limit (lo_limit opts);
                   page = (if has_more then take (page_limit (lo_limit opts)) rows else rows);
                   tok = (if has_more \<and> page \<noteq> []
                          then Token (inst_started (last page)) (inst_id (last page)) else NoToken)
               in ret (map row_of page, tok, has_more)))"

definition lock_absent :: "workflow_instance \<Rightarrow> bool" where
  "lock_absent r \<longleftrightarrow> inst_locked_by r = None \<or> inst_locked_by r = Some ''''"

definition find_resumable_workflows :: "int \<Rightarrow> (string \<times> string) list dbm" where
  "find_resumable_workflows limit =
     (let limit = (if limit \<le> 0 then 100 else limit)
      in query (\<lambda>d. map (\<lambda>r. (inst_id r, inst_workflow r)) (take (nat limit)
           (sort_key inst_updated
             (filter (\<lambda>r. inst_status r = StatusRunning \<and> lock_absent r \<and>
                          inst_framework r = ''go'') (instances d))))))"

section \<open>Locks\<close>

definition lock_expired :: "int \<Rightarrow> workflow_instance \<Rightarrow> bool" where
  "lock_expired now r \<longleftrightarrow> (case inst_lock_expires r of None \<Rightarrow> False | Some t \<Rightarrow> t < now)"

definition lock_free :: "int \<Rightarrow> string \<Rightarrow> workflow_instance \<Rightarrow> bool" where
  "lock_free now worker r \<longleftrightarrow>
     inst_locked_by r = None \<or> lock_expired now r \<or> inst_locked_by r = Some worker"

definition try_acquire_lock :: "string \<Rightarrow> string \<Rightarrow> int \<Rightarrow> bool dbm" where
  "try_acquire_lock i worker timeout_sec =
     stmt (\<lambda>d.
       let now = clock d; expires = secs (now + timeout_sec * 1000000000);
           p = (\<lambda>r. inst_id r = i \<and> lock_free (sql_now d) worker r)
       in (count_where p (instances d) > 0,
           update_instances p
             (\<lambda>r. r\<lparr>inst_locked_by := Some worker, inst_locked_at := Some (secs now),
                    inst_lock_expires := Some expires, inst_updated := secs now\<rparr>) d))"

definition release_lock :: "string \<Rightarrow> string \<Rightarrow> unit dbm" where
  "release_lock i worker =
     exec (\<lambda>d. update_instances (\<lambda>r. inst_id r = i \<and> inst_locked_by r = Some worker)
       (\<lambda>r. r\<lparr>inst_locked_by := None, inst_locked_at := None, inst_lock_expires := None,
              inst_updated := sql_now d\<rparr>) d)"

definition refresh_lock :: "string \<Rightarrow> string \<Rightarrow> int \<Rightarrow> unit dbm" where
  "refresh_lock i worker timeout_sec =
     exec (\<lambda>d. update_instances (\<lambda>r. inst_id r = i \<and> inst_locked_by r = Some worker)
       (\<lambda>r. r\<lparr>inst_lock_expires := Some (secs (clock d + timeout_sec * 1000000000)),
              inst_updated := sql_now d\<rparr>) d)"

definition stale_lock :: "int \<Rightarrow> workflow_instance \<Rightarrow> bool" where
  "stale_lock now r \<longleftrightarrow>
     inst_locked_by r \<noteq> None \<and> lock_expired now r \<and> inst_framework r = ''go''"

definition cleanup_stale_locks :: "int \<Rightarrow> (string \<times> string) list dbm" where
  "cleanup_stale_locks timeout_sec =
     try_go (query (\<lambda>d. map (\<lambda>r. (inst_id r, inst_workflow r)) (take 100
         (filter (\<lambda>r. stale_lock (sql_now d) r \<and>
             inst_status r \<in> {StatusRunning, StatusWaitingForEvent, StatusWaitingForTimer})
           (instances d)))))
       (\<lambda>stale. try_go
         (exec (\<lambda>d. update_instances (stale_lock (sql_now d))
            (\<lambda>r. r\<lparr>inst_locked_by := None, inst_locked_at := None, inst_lock_expires := None,
                   inst_updated := sql_now d\<rparr>) d))
         (\<lambda>_. ret stale))"

end
