(* ===== verification/Storage_Timers.thy ===== *)
theory Storage_Timers
  imports Storage_Instances
begin

text \<open>
  The timer, outbox, compensation, group and system-lock managers of
  internal/storage/sqlite.go. \<open>atomically\<close> is a method that opens a transaction of its own:
  an error of its body, or of the commit, undoes its effects.
\<close>

section \<open>Timers\<close>

definition atomically :: "'a dbm \<Rightarrow> 'a dbm" where
  "atomically m =
     try_go (exec id) (\<lambda>_. \<lambda>d.
       case try_go m (\<lambda>x. try_go (exec id) (\<lambda>_. ret x)) d of
         (Inl e, d') \<Rightarrow> (Inl e, d\<lparr>faults := faults d'\<rparr>)
       | (Inr x, d') \<Rightarrow> (Inr x, d'))"

definition insert_timer :: "string \<Rightarrow> string \<Rightarrow> time \<Rightarrow> string \<Rightarrow> db \<Rightarrow> db" where
  "insert_timer i timer expires act d =
     (if \<exists>t \<in> set (timers d). ts_instance t = i \<and> ts_timer t = timer then d
      else d\<lparr>timers := timers d @ [\<lparr>ts_id = timer_seq d + 1, ts_instance = i, ts_timer = timer,
               ts_expires = secs expires, ts_activity = Some act, ts_created = sql_now d\<rparr>],
             timer_seq := timer_seq d + 1\<rparr>)"

definition register_timer_subscription :: "string \<Rightarrow> string \<Rightarrow> time \<Rightarrow> string \<Rightarrow> unit dbm" where
  "register_timer_subscription i timer expires act = exec (insert_timer i timer expires act)"

definition register_timer_and_release_lock ::
    "bool \<Rightarrow> string \<Rightarrow> string \<Rightarrow> time \<Rightarrow> string \<Rightarrow> string \<Rightarrow> string \<Rightarrow> unit dbm" where
  "register_timer_and_release_lock in_tx sub_i timer expires act i worker =
     (let body =
        try_go (exec (insert_timer sub_i timer expires act)) (\<lambda>_.
        try_go (exec (\<lambda>d. update_instances (\<lambda>r. inst_id r = i)
          (\<lambda>r. r\<lparr>inst_status := StatusWaitingForTimer, inst_updated := sql_now d\<rparr>) d)) (\<lambda>_.
        exec (update_instances (\<lambda>r. inst_id r = i \<and> inst_locked_by r = Some worker)
          (\<lambda>r. r\<lparr>inst_locked_by := None, inst_locked_at := None, inst_lock_expires := None\<rparr>))))
      in if in_tx then body else atomically body)"

definition remove_timer_subscription :: "string \<Rightarrow> string \<Rightarrow> unit dbm" where
  "remove_timer_subscription i timer =
     exec (\<lambda>d. d\<lparr>timers := delete_where (\<lambda>t. ts_instance t = i \<and> ts_timer t = timer) (timers d)\<rparr>)"

definition go_instance :: "db \<Rightarrow> string \<Rightarrow> bool" where
  "go_instance d i \<longleftrightarrow> (\<exists>r \<in> set (instances d). inst_id r = i \<and> inst_framework r = ''go'')"

definition find_expired_timers :: "int \<Rightarrow> timer_subscription list dbm" where
  "find_expired_timers limit =
     (let limit = (if limit \<le> 0 then 100 else limit)
      in query (\<lambda>d. take (nat limit) (sort_key ts_expires
           (filter (\<lambda>t. ts_expires t \<le> sql_now d \<and> go_instance d (ts_instance t)) (timers d)))))"

section \<open>Outbox\<close>

definition add_outbox_event :: "outbox_event \<Rightarrow> unit dbm" where
  "add_outbox_event ev =
     exec_try (\<lambda>d.
       if ob_id ev \<in> ob_id ` set (outbox d)
       then Inl (SqlConstraint ''UNIQUE constraint failed: outbox_events.event_id'')
       else Inr (d\<lparr>outbox := outbox d @ [ev\<lparr>ob_retry := 0, ob_published := None,
                     ob_created := sql_now d\<rparr>]\<rparr>))"

definition update_outbox ::
    "(outbox_event \<Rightarrow> bool) \<Rightarrow> (outbox_event \<Rightarrow> outbox_event) \<Rightarrow> db \<Rightarrow> db" where
  "update_outbox p f d = d\<lparr>outbox := update_where p f (outbox d)\<rparr>"

definition get_pending_outbox_events :: "nat \<Rightarrow> outbox_event list dbm" where
  "get_pending_outbox_events limit =
     query (\<lambda>d. take limit (sort_key ob_created (filter (\<lambda>e. ob_status e = OutboxPending) (outbox d))))"

definition mark_outbox_event_sent :: "string \<Rightarrow> unit dbm" where
  "mark_outbox_event_sent ev =
     exec (\<lambda>d. update_outbox (\<lambda>e. ob_id e = ev)
       (\<lambda>e. e\<lparr>ob_status := OutboxPublished, ob_published := Some (sql_now d)\<rparr>) d)"

definition mark_outbox_event_failed :: "string \<Rightarrow> unit dbm" where
  "mark_outbox_event_failed ev =
     exec (update_outbox (\<lambda>e. ob_id e = ev) (\<lambda>e. e\<lparr>ob_status := OutboxFailed\<rparr>))"

definition increment_outbox_attempts :: "string \<Rightarrow> unit dbm" where
  "increment_outbox_attempts ev =
     exec (update_outbox (\<lambda>e. ob_id e = ev) (\<lambda>e. e\<lparr>ob_retry := ob_retry e + 1\<rparr>))"

definition cleanup_old_outbox_events :: "time \<Rightarrow> unit dbm" where
  "cleanup_old_outbox_events older_than =
     exec (\<lambda>d. d\<lparr>outbox := delete_where
       (\<lambda>e. ob_status e = OutboxPublished \<and> ob_created e < secs (clock d - older_than)) (outbox d)\<rparr>)"

section \<open>Compensations\<close>

text \<open>The creation time is the worker's local time in milliseconds.\<close>

definition add_compensation :: "string \<Rightarrow> string \<Rightarrow> string \<Rightarrow> bytes \<Rightarrow> unit dbm" where
  "add_compensation i act name args =
     exec (\<lambda>d. d\<lparr>compensations := compensations d @ [\<lparr>ce_id = comp_seq d + 1, ce_instance = i,
             ce_activity = act, ce_name = name, ce_args = args,
             ce_created = (clock d + local_offset d) div 1000000\<rparr>],
           comp_seq := comp_seq d + 1\<rparr>)"

definition compensations_of :: "string \<Rightarrow> db \<Rightarrow> compensation_entry list" where
  "compensations_of i d = filter (\<lambda>c. ce_instance c = i) (compensations d)"

definition comp_key :: "compensation_entry \<Rightarrow> int \<times> int" where
  "comp_key c = (ce_created c, ce_id c)"

definition get_compensations :: "string \<Rightarrow> compensation_entry list dbm" where
  "get_compensations i = query (\<lambda>d. rev (sort_key comp_key (compensations_of i d)))"

section \<open>Groups\<close>

definition join_group :: "string \<Rightarrow> string \<Rightarrow> unit dbm" where
  "join_group i g =
     exec (\<lambda>d. if \<lparr>gm_instance = i, gm_group = g\<rparr> \<in> set (groups d) then d
               else d\<lparr>groups := groups d @ [\<lparr>gm_instance = i, gm_group = g\<rparr>]\<rparr>)"

definition leave_group :: "string \<Rightarrow> string \<Rightarrow> unit dbm" where
  "leave_group i g =
     exec (\<lambda>d. d\<lparr>groups := delete_where (\<lambda>m. gm_instance m = i \<and> gm_group m = g) (groups d)\<rparr>)"

definition get_group_members :: "string \<Rightarrow> string list dbm" where
  "get_group_members g =
     query (\<lambda>d. map gm_instance (filter (\<lambda>m. gm_group m = g) (groups d)))"

definition leave_all_groups :: "string \<Rightarrow> unit dbm" where
  "leave_all_groups i =
     exec (\<lambda>d. d\<lparr>groups := delete_where (\<lambda>m. gm_instance m = i) (groups d)\<rparr>)"

section \<open>System locks\<close>

definition find_system_lock :: "db \<Rightarrow> string \<Rightarrow> system_lock option" where
  "find_system_lock d name = find (\<lambda>l. sl_name l = name) (sys_locks d)"

definition try_acquire_system_lock :: "string \<Rightarrow> string \<Rightarrow> int \<Rightarrow> bool dbm" where
  "try_acquire_system_lock name worker timeout_sec =
     stmt (\<lambda>d.
       let now = clock d; at = secs now; expires = secs (now + timeout_sec * 1000000000)
       in case find_system_lock d name of
            None \<Rightarrow> (True, d\<lparr>sys_locks := sys_locks d @
                 [\<lparr>sl_name = name, sl_by = worker, sl_at = at, sl_expires = expires\<rparr>]\<rparr>)
          | Some l \<Rightarrow>
              if sl_expires l < sql_now d \<or> sl_by l = worker
              then (True, d\<lparr>sys_locks := update_where (\<lambda>l. sl_name l = name)
                     (\<lambda>l. l\<lparr>sl_by := worker, sl_at := at, sl_expires := expires\<rparr>) (sys_locks d)\<rparr>)
              else (False, d))"

definition release_system_lock :: "string \<Rightarrow> string \<Rightarrow> unit dbm" where
  "release_system_lock name worker =
     exec (\<lambda>d. d\<lparr>sys_locks := delete_where (\<lambda>l. sl_name l = name \<and> sl_by l = worker) (sys_locks d)\<rparr>)"

definition cleanup_expired_system_locks :: "unit dbm" where
  "cleanup_expired_system_locks =
     exec (\<lambda>d. d\<lparr>sys_locks := delete_where (\<lambda>l. sl_expires l < sql_now d) (sys_locks d)\<rparr>)"

end
