(* ===== verification/Storage_Locks.thy ===== *)
theory Storage_Locks
  imports Storage_Timers
begin

text \<open>
  The contract of the lease locks and its two providers.

  TryAcquireLock / ReleaseLock (a lock per workflow instance, kept in its row) and
  TryAcquireSystemLock / ReleaseSystemLock (a named lock, used for leader election) promise
  the same: a lock held by another worker and not expired is refused, otherwise it is
  granted for a lease (until \<open>now + timeout\<close>, in the resolution of the database; \<open>worker\<close>
  says which names count as a holder); only the holder's release frees it. The locale
  \<open>lease_lock\<close> states the laws and proves mutual exclusion from them once: as long as the
  lease has not run out, no sequence of operations of other workers takes the lock away.
  \<open>instance_lock\<close> and \<open>system_lock\<close> interpret it on the SQLite methods.
\<close>

section \<open>The contract\<close>

datatype lock_op = AcquireOp string int | ReleaseOp string | TickOp nat

fun op_worker :: "lock_op \<Rightarrow> string option" where
  "op_worker (AcquireOp w t) = Some w"
| "op_worker (ReleaseOp w) = Some w"
| "op_worker (TickOp n) = None"

text \<open>A run of lock operations, with the answers of the acquire operations.\<close>

fun run_lock_ops ::
    "(string \<Rightarrow> int \<Rightarrow> ('s, go_error, bool) go) \<Rightarrow> (string \<Rightarrow> ('s, go_error, unit) go) \<Rightarrow>
     (nat \<Rightarrow> 's \<Rightarrow> 's) \<Rightarrow> lock_op list \<Rightarrow> 's \<Rightarrow> (go_error + bool) list \<times> 's" where
  "run_lock_ops acq rel tick [] s = ([], s)"
| "run_lock_ops acq rel tick (AcquireOp w t # ops) s =
     (case acq w t s of (r, s') \<Rightarrow>
        (case run_lock_ops acq rel tick ops s' of (rs, s'') \<Rightarrow> (r # rs, s'')))"
| "run_lock_ops acq rel tick (ReleaseOp w # ops) s =
     run_lock_ops acq rel tick ops (snd (rel w s))"
| "run_lock_ops acq rel tick (TickOp n # ops) s = run_lock_ops acq rel tick ops (tick n s)"

locale lease_lock =
  fixes inv :: "'s \<Rightarrow> bool"
    and now :: "'s \<Rightarrow> int"
    and holder :: "'s \<Rightarrow> (string \<times> int) option"
    and acquire :: "string \<Rightarrow> int \<Rightarrow> ('s, go_error, bool) go"
    and release :: "string \<Rightarrow> ('s, go_error, unit) go"
    and tick :: "nat \<Rightarrow> 's \<Rightarrow> 's"
    and lease :: "'s \<Rightarrow> int \<Rightarrow> int"
    and worker :: "string \<Rightarrow> bool"
  assumes acquire_refused: "inv s \<Longrightarrow> holder s = Some (v, e) \<Longrightarrow> v \<noteq> w \<Longrightarrow> now s \<le> e \<Longrightarrow>
      acquire w t s = (Inr False, s)"
    and acquire_granted: "inv s \<Longrightarrow>
      (case holder s of None \<Rightarrow> True | Some (v, e) \<Rightarrow> v = w \<or> e < now s) \<Longrightarrow>
      \<exists>s'. acquire w t s = (Inr True, s') \<and> (worker w \<longrightarrow> holder s' = Some (w, lease s t)) \<and>
        now s' = now s \<and> inv s'"
    and release_effect: "inv s \<Longrightarrow> \<exists>s'. release w s = (Inr (), s') \<and> now s' = now s \<and> inv s' \<and>
      holder s' = (case holder s of None \<Rightarrow> None | Some (v, e) \<Rightarrow> if v = w then None else Some (v, e))"
    and tick_holder: "inv s \<Longrightarrow> holder (tick n s) = holder s"
    and tick_now: "now s \<le> now (tick n s)"
    and tick_inv: "inv s \<Longrightarrow> inv (tick n s)"
begin

lemma acquire_then_held:
  assumes "inv s" "acquire w t s = (Inr True, s')" "worker w"
  shows "holder s' = Some (w, lease s t) \<and> now s' = now s \<and> inv s'"
proof (cases "case holder s of None \<Rightarrow> True | Some (v, e) \<Rightarrow> v = w \<or> e < now s")
  case True
  from acquire_granted [OF assms(1) this, of t] assms(2,3) show ?thesis by auto
next
  case False
  then have "\<exists>v e. holder s = Some (v, e) \<and> v \<noteq> w \<and> now s \<le> e"
    by (cases "holder s") (auto simp: not_less)
  then obtain v e where "holder s = Some (v, e)" "v \<noteq> w" "now s \<le> e"
    by blast
  from acquire_refused [OF assms(1) this, of t] assms(2) show ?thesis by simp
qed

lemma acquire_cases:
  assumes "inv s"
  obtains (refused) "acquire w t s = (Inr False, s)"
  | (granted) s' where "acquire w t s = (Inr True, s')" "worker w \<Longrightarrow> holder s' = Some (w, lease s t)"
      "now s' = now s" "inv s'"
proof (cases "case holder s of None \<Rightarrow> True | Some (v, e) \<Rightarrow> v = w \<or> e < now s")
  case True
  from acquire_granted [OF assms this, of t] granted show ?thesis by auto
next
  case False
  then have "\<exists>v e. holder s = Some (v, e) \<and> v \<noteq> w \<and> now s \<le> e"
    by (cases "holder s") (auto simp: not_less)
  then obtain v e where "holder s = Some (v, e)" "v \<noteq> w" "now s \<le> e"
    by blast
  from acquire_refused [OF assms this, of t] refused show ?thesis by simp
qed

lemma run_now_mono:
  "inv s \<Longrightarrow> run_lock_ops acquire release tick ops s = (rs, s') \<Longrightarrow> now s \<le> now s' \<and> inv s'"
proof (induction ops arbitrary: s rs)
  case (Cons p ops)
  show ?case
  proof (cases p)
    case (TickOp n)
    with Cons.prems Cons.IH [of "tick n s" rs] tick_inv [of s n] tick_now [of s n]
    show ?thesis by auto
  next
    case (ReleaseOp v)
    obtain s1 where "release v s = (Inr (), s1)" "now s1 = now s" "inv s1"
      using release_effect [OF Cons.prems(1), of v] by auto
    with ReleaseOp Cons.prems Cons.IH [of s1 rs] show ?thesis by auto
  next
    case (AcquireOp v t)
    from Cons.prems(1) show ?thesis
    proof (cases rule: acquire_cases [of s v t])
      case refused
      with AcquireOp Cons.prems Cons.IH [of s] show ?thesis by (auto split: prod.splits)
    next
      case (granted s1)
      with AcquireOp Cons.prems Cons.IH [of s1] show ?thesis by (auto split: prod.splits)
    qed
  qed
qed simp

text \<open>Mutual exclusion for the length of the lease.\<close>

lemma lease_excludes: "inv s \<Longrightarrow> holder s = Some (w, e) \<Longrightarrow>
  list_all (\<lambda>p. op_worker p \<noteq> Some w) ops \<Longrightarrow>
  run_lock_ops acquire release tick ops s = (rs, s') \<Longrightarrow> now s' \<le> e \<Longrightarrow>
  list_all (\<lambda>r. r = Inr False) rs \<and> holder s' = Some (w, e)"
proof (induction ops arbitrary: s rs)
  case (Cons p ops)
  show ?case
  proof (cases p)
    case (TickOp n)
    with Cons.prems Cons.IH [of "tick n s" rs] tick_holder [of s n] tick_inv [of s n]
    show ?thesis by auto
  next
    case (ReleaseOp v)
    obtain s1 where "release v s = (Inr (), s1)" "inv s1" "holder s1 = Some (w, e)"
      using release_effect [OF Cons.prems(1), of v] Cons.prems(2,3) ReleaseOp by auto
    with ReleaseOp Cons.prems Cons.IH [of s1 rs] show ?thesis by auto
  next
    case (AcquireOp v t)
    have "now s \<le> e"
      using run_now_mono [OF Cons.prems(1,4)] Cons.prems(5) by simp
    with Cons.prems AcquireOp have "acquire v t s = (Inr False, s)"
      using acquire_refused [OF Cons.prems(1,2), of v t] by auto
    with AcquireOp Cons.prems Cons.IH [of s] show ?thesis by (auto split: prod.splits)
  qed
qed simp

lemma acquire_excludes:
  assumes "inv s" "acquire w t s = (Inr True, s1)" "worker w"
    and "list_all (\<lambda>p. op_worker p \<noteq> Some w) ops"
    and "run_lock_ops acquire release tick ops s1 = (rs, s2)"
    and "now s2 \<le> lease s t"
  shows "list_all (\<lambda>r. r = Inr False) rs \<and> holder s2 = Some (w, lease s t)"
  using acquire_then_held [OF assms(1-3)] lease_excludes assms(4-6) by blast

text \<open>A lock that is not given back is taken over once the lease has run out.\<close>

lemma expired_lease_taken:
  assumes "inv s" "holder s = Some (v, e)" "e < now s" "worker w"
  shows "\<exists>s'. acquire w t s = (Inr True, s') \<and> holder s' = Some (w, lease s t)"
  using acquire_granted [OF assms(1), of w t] assms(2-4) by auto

end

section \<open>The instance lock\<close>

text \<open>
  Rows have distinct ids, and a locked row has an expiry (both methods that set
  \<open>locked_by\<close> set it).
\<close>

definition locks_ok :: "db \<Rightarrow> bool" where
  "locks_ok d \<longleftrightarrow> distinct (map inst_id (instances d)) \<and>
     (\<forall>r \<in> set (instances d). inst_locked_by r \<noteq> None \<longrightarrow> inst_lock_expires r \<noteq> None)"

definition instance_holder :: "string \<Rightarrow> db \<Rightarrow> (string \<times> int) option" where
  "instance_holder i d =
     (case find_instance d i of
        None \<Rightarrow> None
      | Some r \<Rightarrow> (case (inst_locked_by r, inst_lock_expires r) of
          (Some w, Some e) \<Rightarrow> Some (w, e) | _ \<Rightarrow> None))"

definition tick_db :: "nat \<Rightarrow> db \<Rightarrow> db" where
  "tick_db n d = d\<lparr>clock := clock d + int n\<rparr>"

lemma tick_db_simps [simp]:
  "instances (tick_db n d) = instances d" "faults (tick_db n d) = faults d"
  "sys_locks (tick_db n d) = sys_locks d" "history (tick_db n d) = history d"
  "clock (tick_db n d) = clock d + int n"
  by (simp_all add: tick_db_def)

lemma sql_now_tick: "sql_now d \<le> sql_now (tick_db n d)"
  by (simp add: sql_now_def secs_mono)

definition instance_lock_live :: "string \<Rightarrow> db \<Rightarrow> bool" where
  "instance_lock_live i d \<longleftrightarrow> faults d = [] \<and> locks_ok d \<and> find_instance d i \<noteq> None"

lemma find_instance_update:
  "(\<And>r. inst_id (f r) = inst_id r) \<Longrightarrow>
   find_instance (update_instances (\<lambda>r. inst_id r = i \<and> p r) f d) i =
   map_option (\<lambda>r. if p r then f r else r) (find_instance d i)"
  unfolding find_instance_def update_instances_def
  using find_update_where_same [of inst_id f i p "instances d"] by simp

lemma find_instance_update_other:
  "(\<And>r. p r \<Longrightarrow> inst_id r \<noteq> i) \<Longrightarrow> (\<And>r. inst_id (f r) = inst_id r) \<Longrightarrow>
   find_instance (update_instances p f d) i = find_instance d i"
  unfolding find_instance_def update_instances_def
  using find_update_where_other [of p inst_id i f "instances d"] by simp

lemma update_instances_simps [simp]:
  "faults (update_instances p f d) = faults d" "clock (update_instances p f d) = clock d"
  "history (update_instances p f d) = history d" "history_seq (update_instances p f d) = history_seq d"
  "subscriptions (update_instances p f d) = subscriptions d" "cursors (update_instances p f d) = cursors d"
  "messages (update_instances p f d) = messages d" "claims (update_instances p f d) = claims d"
  "timers (update_instances p f d) = timers d" "compensations (update_instances p f d) = compensations d"
  "outbox (update_instances p f d) = outbox d" "sys_locks (update_instances p f d) = sys_locks d"
  "sql_now (update_instances p f d) = sql_now d"
  by (simp_all add: update_instances_def sql_now_def)

lemma locks_ok_update:
  assumes "locks_ok d" "\<And>r. inst_id (f r) = inst_id r"
    and "\<And>r. (inst_locked_by r \<noteq> None \<longrightarrow> inst_lock_expires r \<noteq> None) \<Longrightarrow>
           inst_locked_by (f r) \<noteq> None \<longrightarrow> inst_lock_expires (f r) \<noteq> None"
  shows "locks_ok (update_instances p f d)"
  using assms unfolding locks_ok_def update_instances_def
  by (simp add: map_update_where_key) blast

lemma find_instance_id: "find_instance d i = Some r \<Longrightarrow> inst_id r = i \<and> r \<in> set (instances d)"
  by (auto simp: find_instance_def find_Some_iff)

lemma find_instance_None: "find_instance d i = None \<longleftrightarrow> i \<notin> inst_id ` set (instances d)"
  by (auto simp: find_instance_def find_None_iff)

lemma count_instance:
  "count_where (\<lambda>r. inst_id r = i \<and> p r) (instances d) > 0 \<longleftrightarrow>
     (\<exists>r \<in> set (instances d). inst_id r = i \<and> p r)"
  by (auto simp: count_where_def length_greater_0_conv filter_empty_conv simp del: length_0_conv)

lemma count_found:
  assumes "locks_ok d" "find_instance d i = Some r"
  shows "count_where (\<lambda>r. inst_id r = i \<and> p r) (instances d) > 0 \<longleftrightarrow> p r"
proof -
  have "x = r" if "x \<in> set (instances d)" "inst_id x = i" for x
    using that assms find_instance_id [OF assms(2)]
    by (auto simp: locks_ok_def distinct_map inj_on_def)
  then show ?thesis
    using find_instance_id [OF assms(2)] by (auto simp: count_instance)
qed

lemma try_acquire_lock_run:
  assumes "faults d = []"
  shows "try_acquire_lock i w t d =
    (Inr (count_where (\<lambda>r. inst_id r = i \<and> lock_free (sql_now d) w r) (instances d) > 0),
     update_instances (\<lambda>r. inst_id r = i \<and> lock_free (sql_now d) w r)
       (\<lambda>r. r\<lparr>inst_locked_by := Some w, inst_locked_at := Some (sql_now d),
              inst_lock_expires := Some (sql_now d + t), inst_updated := sql_now d\<rparr>) d)"
  using assms by (simp add: try_acquire_lock_def Let_def sql_now_def)

lemma update_instances_none:
  "(\<And>r. r \<in> set (instances d) \<Longrightarrow> \<not> p r) \<Longrightarrow> update_instances p f d = d"
  by (simp add: update_instances_def update_where_def map_idI)

interpretation instance_lock: lease_lock "instance_lock_live i" sql_now "instance_holder i"
  "try_acquire_lock i" "release_lock i" tick_db "\<lambda>d t. sql_now d + t" "\<lambda>_. True" for i
proof (unfold_locales, goal_cases)
  case (1 d v e w t)
  then obtain r where r: "find_instance d i = Some r" and lk: "inst_locked_by r = Some v"
    "inst_lock_expires r = Some e"
    by (auto simp: instance_lock_live_def instance_holder_def split: option.splits)
  with 1 have no: "\<not> lock_free (sql_now d) w r"
    by (simp add: lock_free_def lock_expired_def)
  with 1 r have cnt: "\<not> count_where (\<lambda>r. inst_id r = i \<and> lock_free (sql_now d) w r) (instances d) > 0"
    using count_found by (simp add: instance_lock_live_def)
  then have "\<And>r. r \<in> set (instances d) \<Longrightarrow> \<not> (inst_id r = i \<and> lock_free (sql_now d) w r)"
    by (simp add: count_instance)
  with cnt 1 show ?case
    by (simp add: try_acquire_lock_run update_instances_none instance_lock_live_def)
next
  case (2 d w t)
  then obtain r where r: "find_instance d i = Some r"
    by (auto simp: instance_lock_live_def)
  then have "inst_locked_by r \<noteq> None \<Longrightarrow> inst_lock_expires r \<noteq> None"
    using 2(1) find_instance_id by (auto simp: instance_lock_live_def locks_ok_def)
  with 2 r have yes: "lock_free (sql_now d) w r"
    by (auto simp: lock_free_def lock_expired_def instance_holder_def split: option.splits)
  with 2 r have cnt: "count_where (\<lambda>r. inst_id r = i \<and> lock_free (sql_now d) w r) (instances d) > 0"
    using count_found by (simp add: instance_lock_live_def)
  show ?case
    using 2 r yes cnt
    by (simp add: try_acquire_lock_run instance_lock_live_def instance_holder_def
        find_instance_update locks_ok_update)
next
  case (3 d w)
  then show ?case
    by (auto simp: release_lock_def instance_lock_live_def instance_holder_def
        find_instance_update locks_ok_update split: option.splits)
next
  case (4 d n)
  then show ?case by (simp add: instance_holder_def find_instance_def)
next
  case (5 d n)
  then show ?case by (rule sql_now_tick)
next
  case (6 d n)
  then show ?case by (simp add: instance_lock_live_def locks_ok_def find_instance_def)
qed

section \<open>The system lock\<close>

definition system_holder :: "string \<Rightarrow> db \<Rightarrow> (string \<times> int) option" where
  "system_holder name d = map_option (\<lambda>l. (sl_by l, sl_expires l)) (find_system_lock d name)"

definition system_locks_ok :: "db \<Rightarrow> bool" where
  "system_locks_ok d \<longleftrightarrow> distinct (map sl_name (sys_locks d))"

definition system_lock_live :: "db \<Rightarrow> bool" where
  "system_lock_live d \<longleftrightarrow> faults d = [] \<and> system_locks_ok d"

lemma distinct_map_delete: "distinct (map k rows) \<Longrightarrow> distinct (map k (delete_where p rows))"
  by (auto simp: delete_where_def distinct_map intro: inj_on_subset)

lemma find_system_lock_delete:
  assumes "distinct (map sl_name ls)"
  shows "find (\<lambda>l. sl_name l = n) (delete_where (\<lambda>l. sl_name l = n \<and> sl_by l = w) ls) =
    (case find (\<lambda>l. sl_name l = n) ls of None \<Rightarrow> None | Some l \<Rightarrow> if sl_by l = w then None else Some l)"
  using assms
proof (induction ls)
  case (Cons a ls)
  show ?case
  proof (cases "sl_name a = n")
    case True
    have "\<forall>l \<in> set ls. sl_name l \<noteq> n" using Cons.prems True by (auto simp: image_iff)
    then have "find (\<lambda>l. sl_name l = n) (delete_where (\<lambda>l. sl_name l = n \<and> sl_by l = w) ls) = None"
      by (auto simp: find_None_iff)
    with True show ?thesis by simp
  next
    case False
    with Cons show ?thesis by simp
  qed
qed simp

lemma find_system_lock_upd [simp]:
  "find_system_lock (d\<lparr>sys_locks := ls\<rparr>) n = find (\<lambda>l. sl_name l = n) ls"
  by (simp add: find_system_lock_def)

interpretation system_lock: lease_lock system_lock_live sql_now "system_holder name"
  "try_acquire_system_lock name" "release_system_lock name" tick_db "\<lambda>d t. sql_now d + t" "\<lambda>_. True" for name
proof (unfold_locales, goal_cases)
  case (1 d v e w t)
  then show ?case
    by (auto simp: system_lock_live_def system_holder_def try_acquire_system_lock_def Let_def)
next
  case (2 d w t)
  show ?case
  proof (cases "find_system_lock d name")
    case None
    then have "find (\<lambda>l. sl_name l = name) (sys_locks d) = None" "name \<notin> sl_name ` set (sys_locks d)"
      by (auto simp: find_system_lock_def find_None_iff)
    with 2 None show ?thesis
      by (simp add: system_lock_live_def system_holder_def try_acquire_system_lock_def Let_def
          system_locks_ok_def find_append sql_now_def)
  next
    case (Some l)
    have "find (\<lambda>l. sl_name l = name) (update_where (\<lambda>l. sl_name l = name) f (sys_locks d)) =
        map_option f (find (\<lambda>l. sl_name l = name) (sys_locks d))"
      if "\<And>l. sl_name (f l) = sl_name l" for f
      using that find_update_where_same [of sl_name f name "\<lambda>_. True"] by simp
    with 2 Some show ?thesis
      by (auto simp: system_lock_live_def system_holder_def try_acquire_system_lock_def Let_def
          system_locks_ok_def sql_now_def map_update_where_key find_system_lock_def [of d])
  qed
next
  case (3 d w)
  then show ?case
    by (auto simp: release_system_lock_def system_lock_live_def system_holder_def system_locks_ok_def
        find_system_lock_delete sql_now_def find_system_lock_def [of d] distinct_map_delete
        split: option.splits)
next
  case (4 d n)
  then show ?case by (simp add: system_holder_def find_system_lock_def)
next
  case (5 d n)
  then show ?case by (rule sql_now_tick)
next
  case (6 d n)
  then show ?case by (simp add: system_lock_live_def system_locks_ok_def)
qed

end
