(* ===== verification/Storage_History.thy ===== *)
theory Storage_History
  imports Models
begin

text \<open>
  The history manager of internal/storage/sqlite.go: appending with the UNIQUE
  (instance_id, activity_id) constraint, reading by pages, counting, and moving a history to
  the archive table. \<open>history_of\<close> is the history of one instance in id order, the
  abstract value the paged reads return piecewise.

  The archive INSERT names its columns; \<open>archive_columns\<close> are those the schema has (the
  migration's in \<open>empty_db\<close>), and a named column that is missing makes the statement fail.
\<close>

definition history_of :: "string \<Rightarrow> db \<Rightarrow> history_event list" where
  "history_of i d = filter (\<lambda>h. he_instance h = i) (history d)"

definition has_history :: "string \<Rightarrow> string \<Rightarrow> db \<Rightarrow> bool" where
  "has_history i act d \<longleftrightarrow> (\<exists>h \<in> set (history d). he_instance h = i \<and> he_activity h = act)"

definition insert_history ::
    "string \<Rightarrow> string \<Rightarrow> history_type \<Rightarrow> bytes \<Rightarrow> string \<Rightarrow> db \<Rightarrow> db" where
  "insert_history i act ty data data_type d =
     d\<lparr>history := history d @ [\<lparr>he_id = history_seq d + 1, he_instance = i, he_activity = act,
         he_type = ty, he_data = data, he_data_type = data_type, he_created = sql_now d\<rparr>],
       history_seq := history_seq d + 1\<rparr>"

definition append_history ::
    "string \<Rightarrow> string \<Rightarrow> history_type \<Rightarrow> bytes \<Rightarrow> string \<Rightarrow> unit dbm" where
  "append_history i act ty data data_type =
     exec (\<lambda>d. if has_history i act d then d else insert_history i act ty data data_type d)"

text \<open>One row more than the limit is fetched to see whether there are more.\<close>

definition get_history_paginated ::
    "string \<Rightarrow> int \<Rightarrow> nat \<Rightarrow> (history_event list \<times> bool) dbm" where
  "get_history_paginated i after_id limit =
     try_go (query (\<lambda>d. take (limit + 1) (sort_key he_id
               (filter (\<lambda>h. he_instance h = i \<and> he_id h > after_id) (history d)))))
       (\<lambda>rows. let has_more = length rows > limit
               in ret (if has_more then take limit rows else rows, has_more))"

definition get_history_count :: "string \<Rightarrow> int dbm" where
  "get_history_count i = query (\<lambda>d. int (length (history_of i d)))"

definition archive_insert_columns :: "string list" where
  "archive_insert_columns =
     [''original_id'', ''instance_id'', ''activity_id'', ''event_type'', ''event_data'',
      ''event_data_binary'', ''data_type'', ''original_created_at'']"

definition archive_copy :: "string \<Rightarrow> db \<Rightarrow> go_error + db" where
  "archive_copy i d =
     (case find (\<lambda>c. c \<notin> set (archive_columns d)) archive_insert_columns of
        Some c \<Rightarrow>
          Inl (SqlConstraint (''table workflow_history_archive has no column named '' @ c))
      | None \<Rightarrow>
          if ''created_at'' \<in> set (archive_columns d) \<and> history_of i d \<noteq> []
          then Inl (SqlConstraint ''NOT NULL constraint failed: workflow_history_archive.created_at'')
          else Inr (d\<lparr>archive := archive d @ map (\<lambda>(n, h).
                  \<lparr>ae_id = archive_seq d + n, ae_original_id = Some (he_id h), ae_instance = he_instance h,
                   ae_activity = he_activity h, ae_type = he_type h, ae_data = he_data h,
                   ae_data_type = he_data_type h, ae_original_created = Some (he_created h),
                   ae_archived = sql_now d\<rparr>)
                  (zip [1..int (length (history_of i d))] (history_of i d)),
                archive_seq := archive_seq d + int (length (history_of i d))\<rparr>))"

definition archive_history :: "string \<Rightarrow> unit dbm" where
  "archive_history i =
     try_go (exec_try (archive_copy i))
       (\<lambda>_. exec (\<lambda>d. d\<lparr>history := delete_where (\<lambda>h. he_instance h = i) (history d)\<rparr>))"

definition get_archived_history :: "string \<Rightarrow> archived_event list dbm" where
  "get_archived_history i =
     query (\<lambda>d. sort_key (\<lambda>a. case ae_original_id a of None \<Rightarrow> 0 | Some n \<Rightarrow> n)
                  (filter (\<lambda>a. ae_instance a = i) (archive d)))"

section \<open>The table invariant\<close>

text \<open>
  Ids ascend, and an activity id occurs once per instance (the UNIQUE constraint).
\<close>

definition history_key :: "history_event \<Rightarrow> string \<times> string" where
  "history_key h = (he_instance h, he_activity h)"

definition history_ok :: "db \<Rightarrow> bool" where
  "history_ok d \<longleftrightarrow> id_ordered he_id (history_seq d) (history d)
                  \<and> distinct (map history_key (history d))"

lemma history_ok_blind [simp]: "fault_blind history_ok"
  by (simp add: fault_blind_def history_ok_def)

lemma history_ok_empty [simp]: "history_ok empty_db"
  by (simp add: history_ok_def empty_db_def)

lemma history_ok_insert:
  "history_ok d \<Longrightarrow> \<not> has_history i act d \<Longrightarrow> history_ok (insert_history i act ty data dt d)"
  by (force simp: history_ok_def insert_history_def has_history_def history_key_def
      intro: id_ordered_append)

lemma history_ok_delete:
  "history_ok d \<Longrightarrow> history_ok (d\<lparr>history := delete_where p (history d)\<rparr>)"
  by (auto simp: history_ok_def id_ordered_filter delete_where_def distinct_map
      intro: inj_on_subset)

lemma history_ok_archive [simp]:
  "history_ok (d\<lparr>archive := x, archive_seq := y\<rparr>) = history_ok d"
  by (simp add: history_ok_def)

lemma append_history_ok [keeps]: "preserves history_ok (append_history i act ty data dt)"
  unfolding append_history_def by (intro keeps) (auto simp: history_ok_insert)

lemma archive_history_ok [keeps]: "preserves history_ok (archive_history i)"
  unfolding archive_history_def
  by (intro keeps) (auto simp: history_ok_delete archive_copy_def split: option.splits if_splits)

lemma history_of_insert:
  "history_of i (insert_history j act ty data dt d) =
   history_of i d @ (if i = j then [\<lparr>he_id = history_seq d + 1, he_instance = i, he_activity = act,
         he_type = ty, he_data = data, he_data_type = dt, he_created = sql_now d\<rparr>] else [])"
  by (simp add: history_of_def insert_history_def)

lemma has_history_of: "has_history i act d \<longleftrightarrow> act \<in> he_activity ` set (history_of i d)"
  by (auto simp: has_history_def history_of_def)

lemma append_history_run:
  "faults d = [] \<Longrightarrow> append_history i act ty data dt d =
     (Inr (), if has_history i act d then d else insert_history i act ty data dt d)"
  by (simp add: append_history_def)

lemma history_of_ordered: "history_ok d \<Longrightarrow> id_ordered he_id (history_seq d) (history_of i d)"
  by (simp add: history_ok_def history_of_def id_ordered_filter)

lemma history_of_acts_distinct: "history_ok d \<Longrightarrow> distinct (map he_activity (history_of i d))"
proof -
  assume "history_ok d"
  then have "distinct (map history_key (history_of i d))"
    by (auto simp: history_ok_def history_of_def distinct_map intro: inj_on_subset)
  then show ?thesis
    by (auto simp: distinct_map inj_on_def history_key_def history_of_def)
qed

section \<open>Reading by pages\<close>

definition after :: "int \<Rightarrow> history_event list \<Rightarrow> history_event list" where
  "after k rows = filter (\<lambda>h. he_id h > k) rows"

lemma get_history_paginated_run:
  assumes "faults d = []" and "history_ok d"
  shows "get_history_paginated i k n d =
    (Inr (take n (after k (history_of i d)), length (after k (history_of i d)) > n), d)"
proof -
  let ?rows = "filter (\<lambda>h. he_instance h = i \<and> k < he_id h) (history d)"
  have rows: "?rows = after k (history_of i d)"
    by (simp add: after_def history_of_def conj_commute)
  have "sort_key he_id ?rows = ?rows"
    using assms(2) by (intro sort_key_sorted sorted_filter_map id_ordered_sorted)
      (auto simp: history_ok_def)
  with assms(1) show ?thesis
    by (auto simp: get_history_paginated_def rows try_go_def Let_def min_def)
qed

end
