(* ===== verification/Storage_Channels.thy ===== *)
theory Storage_Channels
  imports Storage_Instances Storage_History
begin

text \<open>
  The channel manager of internal/storage/sqlite.go and CleanupInstanceSubscriptions.

  A subscription whose \<open>activity_id\<close> is non-null (and non-empty) is waiting. A broadcast
  subscriber reads the messages above its delivery cursor; a competing subscriber reads the
  messages of the channel that no row of the claim table names. The claim table's key
  is the text column \<open>message_id\<close>, into which ClaimChannelMessage writes the decimal of
  the message's integer id. Inside a document a time is the text of its seconds.
\<close>

section \<open>Publishing and subscribing\<close>

definition message_uuid :: "db \<Rightarrow> string" where
  "message_uuid d = show_int (clock d) @ ''-'' @ show_int (clock d mod 1000000)"

definition publish_to_channel :: "string \<Rightarrow> bytes \<Rightarrow> bytes \<Rightarrow> int dbm" where
  "publish_to_channel channel data metadata =
     try_go (exec_try (\<lambda>d.
        if data = BNil then Inl (SqlConstraint ''CHECK constraint failed: data_type_consistency'')
        else if message_uuid d \<in> cm_message_id ` set (messages d)
        then Inl (SqlConstraint ''UNIQUE constraint failed: channel_messages.message_id'')
        else Inr (d\<lparr>messages := messages d @ [\<lparr>cm_id = message_seq d + 1, cm_channel = channel,
                    cm_message_id = message_uuid d, cm_data = data, cm_metadata = metadata,
                    cm_published = sql_now d\<rparr>],
                  message_seq := message_seq d + 1\<rparr>)))
       (\<lambda>_. get_go message_seq)"

definition find_sub :: "db \<Rightarrow> string \<Rightarrow> string \<Rightarrow> channel_subscription option" where
  "find_sub d i channel = find (\<lambda>s. (cs_instance s, cs_channel s) = (i, channel)) (subscriptions d)"

definition find_cursor :: "db \<Rightarrow> string \<Rightarrow> string \<Rightarrow> delivery_cursor option" where
  "find_cursor d i channel = find (\<lambda>c. (dc_instance c, dc_channel c) = (i, channel)) (cursors d)"

definition max_message_id :: "db \<Rightarrow> string \<Rightarrow> int" where
  "max_message_id d channel =
     foldr (\<lambda>m a. max (cm_id m) a) (filter (\<lambda>m. cm_channel m = channel) (messages d)) 0"

definition upsert_subscription :: "string \<Rightarrow> string \<Rightarrow> channel_mode \<Rightarrow> db \<Rightarrow> db" where
  "upsert_subscription i channel mode d =
     (case find_sub d i channel of
        None \<Rightarrow> d\<lparr>subscriptions := subscriptions d @ [\<lparr>cs_id = sub_seq d + 1, cs_instance = i,
                   cs_channel = channel, cs_mode = mode, cs_cursor = None, cs_timeout = None,
                   cs_activity = None, cs_subscribed = sql_now d\<rparr>],
                 sub_seq := sub_seq d + 1\<rparr>
      | Some s \<Rightarrow> d\<lparr>subscriptions := update_where
                   (\<lambda>s. (cs_instance s, cs_channel s) = (i, channel)) (\<lambda>s. s\<lparr>cs_mode := mode\<rparr>)
                   (subscriptions d)\<rparr>)"

definition init_cursor :: "string \<Rightarrow> string \<Rightarrow> db \<Rightarrow> db" where
  "init_cursor i channel d =
     (case find_cursor d i channel of
        None \<Rightarrow> d\<lparr>cursors := cursors d @
                 [\<lparr>dc_instance = i, dc_channel = channel, dc_last = max_message_id d channel\<rparr>]\<rparr>
      | Some c \<Rightarrow> d)"

definition subscribe_to_channel :: "string \<Rightarrow> string \<Rightarrow> channel_mode \<Rightarrow> unit dbm" where
  "subscribe_to_channel i channel mode =
     try_go (exec_try (\<lambda>d.
        if mode = ChannelModeDirect then Inl (SqlConstraint ''CHECK constraint failed: valid_mode'')
        else Inr (upsert_subscription i channel mode d)))
       (\<lambda>_. if mode = ChannelModeBroadcast then exec (init_cursor i channel) else ret ())"

definition unsubscribe_from_channel :: "string \<Rightarrow> string \<Rightarrow> unit dbm" where
  "unsubscribe_from_channel i channel =
     exec (\<lambda>d. d\<lparr>subscriptions := delete_where
       (\<lambda>s. (cs_instance s, cs_channel s) = (i, channel)) (subscriptions d)\<rparr>)"

definition get_channel_subscription :: "string \<Rightarrow> string \<Rightarrow> channel_subscription option dbm" where
  "get_channel_subscription i channel = query (\<lambda>d. find_sub d i channel)"

definition get_channel_mode :: "string \<Rightarrow> channel_mode option dbm" where
  "get_channel_mode channel =
     query (\<lambda>d. map_option cs_mode (find (\<lambda>s. cs_channel s = channel) (subscriptions d)))"

section \<open>Waiting\<close>

definition update_sub ::
    "string \<Rightarrow> string \<Rightarrow> (channel_subscription \<Rightarrow> channel_subscription) \<Rightarrow> db \<Rightarrow> db" where
  "update_sub i channel f d = d\<lparr>subscriptions := update_where
     (\<lambda>s. (cs_instance s, cs_channel s) = (i, channel)) f (subscriptions d)\<rparr>"

definition register_receive_and_release_lock ::
    "string \<Rightarrow> string \<Rightarrow> string \<Rightarrow> string \<Rightarrow> time option \<Rightarrow> unit dbm" where
  "register_receive_and_release_lock i channel worker act timeout_at =
     try_go (exec (update_sub i channel
       (\<lambda>s. s\<lparr>cs_timeout := map_option secs timeout_at, cs_activity := Some act\<rparr>))) (\<lambda>_.
     try_go (exec (\<lambda>d. update_instances (\<lambda>r. inst_id r = i)
       (\<lambda>r. r\<lparr>inst_status := StatusWaitingForMessage, inst_updated := sql_now d\<rparr>) d)) (\<lambda>_.
     exec (\<lambda>d. update_instances (\<lambda>r. inst_id r = i \<and> inst_locked_by r = Some worker)
       (\<lambda>r. r\<lparr>inst_locked_by := None, inst_locked_at := None, inst_lock_expires := None,
              inst_updated := sql_now d\<rparr>) d)))"

definition is_waiting :: "channel_subscription \<Rightarrow> bool" where
  "is_waiting s \<longleftrightarrow> cs_activity s \<noteq> None \<and> cs_activity s \<noteq> Some ''''"

definition get_subscribers_waiting :: "string \<Rightarrow> channel_subscription list dbm" where
  "get_subscribers_waiting channel =
     query (\<lambda>d. filter (\<lambda>s. cs_channel s = channel \<and> is_waiting s) (subscriptions d))"

definition clear_channel_waiting_state :: "string \<Rightarrow> string \<Rightarrow> unit dbm" where
  "clear_channel_waiting_state i channel =
     exec (update_sub i channel (\<lambda>s. s\<lparr>cs_activity := None, cs_timeout := None\<rparr>))"

definition find_expired_channel_subscriptions :: "int \<Rightarrow> channel_subscription list dbm" where
  "find_expired_channel_subscriptions limit =
     (let limit = (if limit \<le> 0 then 100 else limit)
      in query (\<lambda>d. take (nat limit) (sort_key (\<lambda>s. case cs_timeout s of None \<Rightarrow> 0 | Some t \<Rightarrow> t)
           (filter (\<lambda>s. is_waiting s
               \<and> (case cs_timeout s of None \<Rightarrow> False | Some t \<Rightarrow> t < sql_now d)
               \<and> (\<exists>r \<in> set (instances d). inst_id r = cs_instance s \<and> inst_framework r = ''go''))
             (subscriptions d)))))"

section \<open>Messages\<close>

definition get_pending_channel_messages ::
    "string \<Rightarrow> int \<Rightarrow> nat \<Rightarrow> channel_message list dbm" where
  "get_pending_channel_messages channel after_id limit =
     query (\<lambda>d. take limit (sort_key cm_id
       (filter (\<lambda>m. cm_channel m = channel \<and> cm_id m > after_id) (messages d))))"

definition is_claimed :: "db \<Rightarrow> channel_message \<Rightarrow> bool" where
  "is_claimed d m \<longleftrightarrow> cm_message_id m \<in> cl_message ` set (claims d)"

definition get_pending_for_instance :: "string \<Rightarrow> string \<Rightarrow> channel_message list dbm" where
  "get_pending_for_instance i channel =
     try_go (query (\<lambda>d. find_sub d i channel)) (\<lambda>sub.
       case sub of
         None \<Rightarrow> ret []
       | Some s \<Rightarrow>
           if cs_mode s = ChannelModeBroadcast then
             try_go (query (\<lambda>d. case find_cursor d i channel of None \<Rightarrow> 0 | Some c \<Rightarrow> dc_last c)) (\<lambda>cursor.
               query (\<lambda>d. take 10 (sort_key cm_id
                 (filter (\<lambda>m. cm_channel m = channel \<and> cm_id m > cursor) (messages d)))))
           else
             query (\<lambda>d. take 10 (sort_key cm_id
               (filter (\<lambda>m. cm_channel m = channel \<and> \<not> is_claimed d m) (messages d)))))"

definition claim_channel_message :: "int \<Rightarrow> string \<Rightarrow> bool dbm" where
  "claim_channel_message msg_id i =
     stmt (\<lambda>d. if show_int msg_id \<in> cl_message ` set (claims d) then (False, d)
               else (True, d\<lparr>claims := claims d @ [\<lparr>cl_message = show_int msg_id, cl_instance = i\<rparr>]\<rparr>))"

definition delete_channel_message :: "int \<Rightarrow> unit dbm" where
  "delete_channel_message msg_id =
     exec (\<lambda>d. d\<lparr>messages := delete_where (\<lambda>m. cm_id m = msg_id) (messages d)\<rparr>)"

definition set_cursor :: "string \<Rightarrow> string \<Rightarrow> int \<Rightarrow> db \<Rightarrow> db" where
  "set_cursor i channel last_id d =
     (case find_cursor d i channel of
        None \<Rightarrow> d\<lparr>cursors := cursors d @ [\<lparr>dc_instance = i, dc_channel = channel, dc_last = last_id\<rparr>]\<rparr>
      | Some c \<Rightarrow> d\<lparr>cursors := update_where (\<lambda>c. (dc_instance c, dc_channel c) = (i, channel))
                   (\<lambda>c. c\<lparr>dc_last := last_id\<rparr>) (cursors d)\<rparr>)"

definition update_delivery_cursor :: "string \<Rightarrow> string \<Rightarrow> int \<Rightarrow> unit dbm" where
  "update_delivery_cursor i channel last_id = exec (set_cursor i channel last_id)"

definition get_delivery_cursor :: "string \<Rightarrow> string \<Rightarrow> int dbm" where
  "get_delivery_cursor i channel =
     query (\<lambda>d. case find_cursor d i channel of None \<Rightarrow> 0 | Some c \<Rightarrow> dc_last c)"

definition cleanup_old_channel_messages :: "time \<Rightarrow> unit dbm" where
  "cleanup_old_channel_messages older_than =
     exec (\<lambda>d. d\<lparr>messages := delete_where
       (\<lambda>m. cm_published m < secs (clock d - older_than)) (messages d)\<rparr>)"

section \<open>Delivery\<close>

definition time_json :: "int \<Rightarrow> json" where
  "time_json t = JStr (show_int t)"

definition unmarshal_or_null :: "bytes \<Rightarrow> json" where
  "unmarshal_or_null b =
     (case unmarshal_any b of Some (VJson j) \<Rightarrow> j | Some (VTyped t j) \<Rightarrow> j | _ \<Rightarrow> JNull)"

definition wrap_message :: "string \<Rightarrow> channel_message \<Rightarrow> json" where
  "wrap_message channel m =
     JObj ([(''channel_name'', JStr channel), (''created_at'', time_json (cm_published m)),
            (''data'', unmarshal_or_null (cm_data m)), (''id'', JNum (cm_id m))] @
           (if bytes_nonempty (cm_metadata m)
            then [(''metadata'', case unmarshal_map (cm_metadata m) of Some j \<Rightarrow> j | None \<Rightarrow> JNull)]
            else []))"

definition insert_history_strict ::
    "string \<Rightarrow> string \<Rightarrow> history_type \<Rightarrow> bytes \<Rightarrow> unit dbm" where
  "insert_history_strict i act ty data =
     exec_try (\<lambda>d. if has_history i act d
       then Inl (SqlConstraint ''UNIQUE constraint failed: workflow_history'')
       else Inr (insert_history i act ty data ''json'' d))"

text \<open>
  \<open>DeliverChannelMessage\<close> writes an event type of its own, not the constant
  \<open>HistoryChannelMessageReceived\<close>.
\<close>

definition legacy_activity_id :: "string \<Rightarrow> int \<Rightarrow> string" where
  "legacy_activity_id channel msg_id = ''channel:'' @ channel @ '':'' @ show_int msg_id"

definition deliver_channel_message :: "string \<Rightarrow> channel_message \<Rightarrow> unit dbm" where
  "deliver_channel_message i m =
     try_go (insert_history_strict i (legacy_activity_id (cm_channel m) (cm_id m))
              (HistoryOther ''channel_message_received'') (cm_data m))
       (\<lambda>_. clear_channel_waiting_state i (cm_channel m))"

definition deliver_channel_message_with_lock ::
    "string \<Rightarrow> string \<Rightarrow> channel_message \<Rightarrow> string \<Rightarrow> int \<Rightarrow> channel_delivery_result option dbm" where
  "deliver_channel_message_with_lock i channel m worker timeout_sec =
     try_go (try_acquire_lock i worker timeout_sec) (\<lambda>acquired.
     if \<not> acquired then ret None else
     try_go (on_err (release_lock i worker) (map_err (wrapf ''failed to get workflow info'')
       (try_go (query (\<lambda>d. find_instance d i)) (\<lambda>r.
          case r of None \<Rightarrow> throw (Sentinel ErrNoRows) | Some r \<Rightarrow> ret (inst_workflow r))))) (\<lambda>workflow.
     try_go (on_err (release_lock i worker) (map_err (wrapf ''failed to get subscription info'')
       (try_go (query (\<lambda>d. find_sub d i channel)) (\<lambda>s.
          case s of None \<Rightarrow> throw (Sentinel ErrNoRows) | Some s \<Rightarrow> ret s)))) (\<lambda>sub.
     let act = (case cs_activity sub of
                  None \<Rightarrow> legacy_activity_id channel (cm_id m)
                | Some a \<Rightarrow> if a = '''' then legacy_activity_id channel (cm_id m) else a)
     in
     try_go (on_err (release_lock i worker) (map_err (wrapf ''failed to record history'')
       (insert_history_strict i act HistoryChannelMessageReceived (BJson (wrap_message channel m))))) (\<lambda>_.
     try_go (if cs_mode sub = ChannelModeBroadcast
             then on_err (release_lock i worker) (map_err (wrapf ''failed to update delivery cursor'')
                    (exec (set_cursor i channel (cm_id m))))
             else ret ()) (\<lambda>_.
     try_go (on_err (release_lock i worker) (map_err (wrapf ''failed to clear waiting state'')
       (clear_channel_waiting_state i channel))) (\<lambda>_.
     try_go (on_err (release_lock i worker) (map_err (wrapf ''failed to update status'')
       (update_instance_status i StatusRunning ''''))) (\<lambda>_.
     try_go (map_err (wrapf ''failed to release lock'') (release_lock i worker)) (\<lambda>_.
     ret (Some \<lparr>cr_instance = i, cr_workflow = workflow, cr_activity = act\<rparr>)))))))))"

definition cleanup_instance_subscriptions :: "string \<Rightarrow> unit dbm" where
  "cleanup_instance_subscriptions i =
     try_go (map_err (wrapf ''failed to delete timer subscriptions'')
       (exec (\<lambda>d. d\<lparr>timers := delete_where (\<lambda>t. ts_instance t = i) (timers d)\<rparr>))) (\<lambda>_.
     try_go (map_err (wrapf ''failed to delete channel subscriptions'')
       (exec (\<lambda>d. d\<lparr>subscriptions := delete_where (\<lambda>s. cs_instance s = i) (subscriptions d)\<rparr>))) (\<lambda>_.
     map_err (wrapf ''failed to delete group memberships'')
       (exec (\<lambda>d. d\<lparr>groups := delete_where (\<lambda>m. gm_instance m = i) (groups d)\<rparr>))))"

end
