(* ===== verification/History_Paging.thy ===== *)
theory History_Paging
  imports Storage_History
begin

text \<open>
  The two clients of the paged history read: the iterator of
  internal/storage/history_iterator.go, and the loop that collects the ids of executed
  compensations (getExecutedCompensationIDs, the same code in app.go, engine.go and
  compensation/executor.go).

  Both are written against the storage interface, so here they take the paged read
  \<open>fetch\<close> as an argument. The locale \<open>paged_source\<close> is the contract of that read; its
  interpretation \<open>history_pages\<close> on \<open>get_history_paginated\<close> discharges it for the SQLite
  storage. Loops carry fuel; \<open>collect_all\<close> and \<open>executed_ids_all\<close> say how much is enough.
\<close>

section \<open>The iterator\<close>

record 'r history_iter =
  it_batch :: nat
  it_buffer :: "'r list option"
  it_index :: nat
  it_last :: int
  it_done :: bool
  it_err :: "go_error option"

definition new_history_iterator :: "int option \<Rightarrow> 'r history_iter" where
  "new_history_iterator opts =
     \<lparr>it_batch = (case opts of Some b \<Rightarrow> if b > 0 then nat b else 1000 | None \<Rightarrow> 1000),
      it_buffer = None, it_index = 0, it_last = 0, it_done = False, it_err = None\<rparr>"

definition fetch_batch ::
    "(int \<Rightarrow> nat \<Rightarrow> ('s, go_error, 'r list \<times> bool) go) \<Rightarrow> 'r history_iter \<Rightarrow>
     ('s, go_error, 'r history_iter) go" where
  "fetch_batch fetch it =
     try_go (fetch (it_last it) (it_batch it)) (\<lambda>(events, has_more).
       let it' = it\<lparr>it_buffer := Some events, it_index := 0\<rparr>
       in ret (if \<not> has_more \<and> length events < it_batch it \<and> length events = 0
               then it'\<lparr>it_done := True\<rparr> else it'))"

definition take_next ::
    "('r \<Rightarrow> int) \<Rightarrow> 'r history_iter \<Rightarrow> 'r option \<times> 'r history_iter" where
  "take_next key it =
     (case it_buffer it of
        None \<Rightarrow> (None, it\<lparr>it_done := True\<rparr>)
      | Some b \<Rightarrow>
          if it_index it < length b
          then (Some (b ! it_index it),
                it\<lparr>it_index := it_index it + 1, it_last := key (b ! it_index it)\<rparr>)
          else (None, it\<lparr>it_done := True\<rparr>))"

definition needs_fetch :: "'r history_iter \<Rightarrow> bool" where
  "needs_fetch it \<longleftrightarrow> (case it_buffer it of None \<Rightarrow> True | Some b \<Rightarrow> it_index it \<ge> length b)"

definition iter_next ::
    "(int \<Rightarrow> nat \<Rightarrow> ('s, go_error, 'r list \<times> bool) go) \<Rightarrow> ('r \<Rightarrow> int) \<Rightarrow> 'r history_iter \<Rightarrow> 's \<Rightarrow>
     ('r option \<times> 'r history_iter) \<times> 's" where
  "iter_next fetch key it s =
     (if it_done it \<or> it_err it \<noteq> None then ((None, it), s)
      else if needs_fetch it then
        (case fetch_batch fetch it s of
           (Inl e, s') \<Rightarrow> ((None, it\<lparr>it_err := Some e\<rparr>), s')
         | (Inr it', s') \<Rightarrow> (take_next key it', s'))
      else (take_next key it, s))"

definition iter_close :: "'r history_iter \<Rightarrow> 'r history_iter" where
  "iter_close it = it\<lparr>it_done := True, it_buffer := None\<rparr>"

text \<open>\<open>Collect\<close>; \<open>None\<close> when the fuel runs out before the loop ends.\<close>

fun iter_loop ::
    "(int \<Rightarrow> nat \<Rightarrow> ('s, go_error, 'r list \<times> bool) go) \<Rightarrow> ('r \<Rightarrow> int) \<Rightarrow> nat \<Rightarrow> 'r history_iter \<Rightarrow>
     'r list \<Rightarrow> 's \<Rightarrow> ('r list \<times> 'r history_iter) option \<times> 's" where
  "iter_loop fetch key 0 it acc s = (None, s)"
| "iter_loop fetch key (Suc n) it acc s =
     (case iter_next fetch key it s of
        ((None, it'), s') \<Rightarrow> (Some (acc, it'), s')
      | ((Some r, it'), s') \<Rightarrow> iter_loop fetch key n it' (acc @ [r]) s')"

definition iter_collect ::
    "(int \<Rightarrow> nat \<Rightarrow> ('s, go_error, 'r list \<times> bool) go) \<Rightarrow> ('r \<Rightarrow> int) \<Rightarrow> nat \<Rightarrow> 'r history_iter \<Rightarrow>
     's \<Rightarrow> (go_error + 'r list) option \<times> 's" where
  "iter_collect fetch key fuel it s =
     (case iter_loop fetch key fuel it [] s of
        (None, s') \<Rightarrow> (None, s')
      | (Some (all_rows, it'), s') \<Rightarrow>
          (Some (case it_err it' of Some e \<Rightarrow> Inl e | None \<Rightarrow> Inr all_rows), s'))"

section \<open>Executed compensations\<close>

definition compensation_id_of :: "history_event \<Rightarrow> int option" where
  "compensation_id_of h =
     (if he_type h = HistoryCompensationExecuted \<or> he_type h = HistoryCompensationFailed
      then (case unmarshal_map (he_data h) of
              None \<Rightarrow> None
            | Some j \<Rightarrow> (case json_get ''compensation_id'' j of Some (JNum n) \<Rightarrow> Some n | _ \<Rightarrow> None))
      else None)"

definition executed_of :: "history_event list \<Rightarrow> int set" where
  "executed_of rows = {n. \<exists>h \<in> set rows. compensation_id_of h = Some n}"

fun mark_executed :: "int set \<Rightarrow> history_event list \<Rightarrow> int set" where
  "mark_executed acc [] = acc"
| "mark_executed acc (h # hs) =
     mark_executed (case compensation_id_of h of Some n \<Rightarrow> insert n acc | None \<Rightarrow> acc) hs"

fun executed_loop ::
    "(int \<Rightarrow> nat \<Rightarrow> ('s, go_error, history_event list \<times> bool) go) \<Rightarrow> nat \<Rightarrow> int \<Rightarrow> int set \<Rightarrow> 's \<Rightarrow>
     (go_error + int set) option \<times> 's" where
  "executed_loop fetch 0 after_id acc s = (None, s)"
| "executed_loop fetch (Suc n) after_id acc s =
     (case fetch after_id 100 s of
        (Inl e, s') \<Rightarrow> (Some (Inl e), s')
      | (Inr (events, has_more), s') \<Rightarrow>
          (let acc' = mark_executed acc events;
               after' = (if events = [] then after_id else he_id (last events))
           in if has_more then executed_loop fetch n after' acc' s'
              else (Some (Inr acc'), s')))"

lemma mark_executed_eq: "mark_executed acc hs = acc \<union> executed_of hs"
  by (induction acc hs rule: mark_executed.induct) (auto simp: executed_of_def split: option.splits)

lemma executed_of_append [simp]: "executed_of (xs @ ys) = executed_of xs \<union> executed_of ys"
  by (auto simp: executed_of_def)

lemma executed_of_Nil [simp]: "executed_of [] = {}"
  by (simp add: executed_of_def)

section \<open>The contract of a paged read\<close>

text \<open>The rows above a key are what is left after the row with that key.\<close>

lemma above_Cons:
  assumes "sorted_wrt (<) (map key rows)" and "filter (\<lambda>r. key r > (k::int)) rows = r # rs"
  shows "filter (\<lambda>x. key x > key r) rows = rs"
proof -
  have "key r > k"
    using arg_cong [OF assms(2), of set] by auto
  then have "filter (\<lambda>x. key x > key r) rows = filter (\<lambda>x. key x > key r) (filter (\<lambda>x. key x > k) rows)"
    by (auto intro!: filter_cong)
  moreover have "sorted_wrt (<) (map key (r # rs))"
    using assms by (metis sorted_wrt_filter sorted_wrt_map)
  ultimately show ?thesis
    using assms(2) by (auto simp: filter_id_conv)
qed

lemma above_last:
  assumes "sorted_wrt (<) (map key rows)" and "filter (\<lambda>r. key r > (k::int)) rows = xs @ ys"
    and "xs \<noteq> []"
  shows "filter (\<lambda>x. key x > key (last xs)) rows = ys"
  using assms(2,3)
proof (induction xs arbitrary: k)
  case (Cons x xs)
  have step: "filter (\<lambda>z. key z > key x) rows = xs @ ys"
    using above_Cons [OF assms(1), of k x "xs @ ys"] Cons.prems by simp
  then show ?case
    using Cons.IH [OF step] by (cases xs) auto
qed simp

locale paged_source =
  fixes inv :: "'s \<Rightarrow> bool"
    and rows :: "'s \<Rightarrow> 'r list"
    and key :: "'r \<Rightarrow> int"
    and fetch :: "int \<Rightarrow> nat \<Rightarrow> ('s, go_error, 'r list \<times> bool) go"
  assumes fetch_page: "inv s \<Longrightarrow> fetch k n s =
      (Inr (take n (filter (\<lambda>r. key r > k) (rows s)),
            length (filter (\<lambda>r. key r > k) (rows s)) > n), s)"
    and rows_ascending: "inv s \<Longrightarrow> sorted_wrt (<) (map key (rows s))"
    and keys_positive: "inv s \<Longrightarrow> r \<in> set (rows s) \<Longrightarrow> key r > 0"
begin

definition above :: "int \<Rightarrow> 's \<Rightarrow> 'r list" where
  "above k s = filter (\<lambda>r. key r > k) (rows s)"

lemma above_0: "inv s \<Longrightarrow> above 0 s = rows s"
  using keys_positive by (auto simp: above_def filter_id_conv)

text \<open>A running iterator: what is left of its buffer is a prefix of the rows still to come.\<close>

definition iter_ok :: "'r history_iter \<Rightarrow> 's \<Rightarrow> bool" where
  "iter_ok it s \<longleftrightarrow> it_batch it > 0 \<and> \<not> it_done it \<and> it_err it = None \<and>
     (case it_buffer it of None \<Rightarrow> True
      | Some b \<Rightarrow> \<exists>more. above (it_last it) s = drop (it_index it) b @ more)"

lemma take_next_ok:
  assumes "inv s" "iter_ok it s" "\<not> needs_fetch it"
  shows "\<exists>r rs. above (it_last it) s = r # rs \<and> fst (take_next key it) = Some r
    \<and> iter_ok (snd (take_next key it)) s \<and> it_last (snd (take_next key it)) = key r
    \<and> above (key r) s = rs"
proof -
  from assms(3) obtain b where b: "it_buffer it = Some b" "it_index it < length b"
    by (auto simp: needs_fetch_def split: option.splits)
  from assms(2) b obtain more where more: "above (it_last it) s = drop (it_index it) b @ more"
    by (auto simp: iter_ok_def)
  with b have eq: "above (it_last it) s = b ! it_index it # drop (Suc (it_index it)) b @ more"
    by (simp add: Cons_nth_drop_Suc)
  then have "above (key (b ! it_index it)) s = drop (Suc (it_index it)) b @ more"
    using above_Cons [OF rows_ascending [OF assms(1)]] unfolding above_def by blast
  with b eq assms(2) show ?thesis
    by (auto simp: take_next_def iter_ok_def)
qed

lemma iter_next_more:
  assumes "inv s" "iter_ok it s" "above (it_last it) s = r # rs"
  shows "\<exists>it'. iter_next fetch key it s = ((Some r, it'), s) \<and> iter_ok it' s
    \<and> above (it_last it') s = rs"
proof -
  let ?it = "if needs_fetch it
    then it\<lparr>it_buffer := Some (take (it_batch it) (r # rs)), it_index := 0\<rparr> else it"
  have nf: "\<not> needs_fetch ?it"
    using assms(2) by (auto simp: needs_fetch_def iter_ok_def)
  have ok: "iter_ok ?it s"
    using assms(2,3) by (auto simp: iter_ok_def) (metis append_take_drop_id)
  have last: "it_last ?it = it_last it" by simp
  have run: "iter_next fetch key it s = (take_next key ?it, s)"
    using assms fetch_page [OF assms(1)]
    by (auto simp: iter_next_def fetch_batch_def iter_ok_def above_def try_go_def Let_def)
  from take_next_ok [OF assms(1) ok nf] assms(3) run last show ?thesis
    by (cases "take_next key ?it") auto
qed

lemma iter_next_end:
  assumes "inv s" "iter_ok it s" "above (it_last it) s = []"
  shows "\<exists>it'. iter_next fetch key it s = ((None, it'), s) \<and> it_err it' = None"
proof -
  have "needs_fetch it"
    using assms(2,3) by (auto simp: iter_ok_def needs_fetch_def split: option.splits)
  then show ?thesis
    using assms fetch_page [OF assms(1)]
    by (auto simp: iter_next_def fetch_batch_def iter_ok_def above_def try_go_def take_next_def)
qed

lemma iter_loop_all:
  "inv s \<Longrightarrow> iter_ok it s \<Longrightarrow> fuel > length (above (it_last it) s) \<Longrightarrow>
   \<exists>it'. iter_loop fetch key fuel it acc s = (Some (acc @ above (it_last it) s, it'), s)
         \<and> it_err it' = None"
proof (induction fuel arbitrary: it acc)
  case (Suc fuel)
  show ?case
  proof (cases "above (it_last it) s")
    case Nil
    then show ?thesis using iter_next_end [OF Suc.prems(1,2)] by auto
  next
    case (Cons r rs)
    from iter_next_more [OF Suc.prems(1,2) Cons] obtain it' where
      it': "iter_next fetch key it s = ((Some r, it'), s)" "iter_ok it' s" "above (it_last it') s = rs"
      by blast
    with Suc.IH [OF Suc.prems(1) it'(2), of "acc @ [r]"] Suc.prems(3) Cons show ?thesis by auto
  qed
qed simp

lemma collect_all:
  assumes "inv s" and "fuel > length (rows s)"
  shows "iter_collect fetch key fuel (new_history_iterator opts) s = (Some (Inr (rows s)), s)"
proof -
  let ?it = "new_history_iterator opts :: 'r history_iter"
  have ok: "iter_ok ?it s" and "it_last ?it = 0"
    by (auto simp: iter_ok_def new_history_iterator_def split: option.split)
  then have "above (it_last ?it) s = rows s"
    by (simp only: above_0 [OF assms(1)])
  with iter_loop_all [OF assms(1) ok, of fuel "[]"] assms(2) show ?thesis
    by (auto simp: iter_collect_def)
qed

end

text \<open>A source of history events: the loop over pages of 100 sees every event.\<close>

locale paged_history = paged_source inv rows he_id fetch
  for inv :: "'s \<Rightarrow> bool" and rows :: "'s \<Rightarrow> history_event list"
    and fetch :: "int \<Rightarrow> nat \<Rightarrow> ('s, go_error, history_event list \<times> bool) go"
begin

lemma executed_loop_all:
  "inv s \<Longrightarrow> fuel > length (above k s) \<Longrightarrow>
   executed_loop fetch fuel k acc s = (Some (Inr (acc \<union> executed_of (above k s))), s)"
proof (induction fuel arbitrary: k acc)
  case (Suc fuel)
  let ?a = "above k s" and ?p = "take 100 (above k s)"
  have page: "fetch k 100 s = (Inr (?p, length ?a > 100), s)"
    using fetch_page [OF Suc.prems(1)] by (simp add: above_def)
  show ?case
  proof (cases "length ?a > 100")
    case False
    then show ?thesis by (simp add: page mark_executed_eq)
  next
    case True
    then have ne: "?p \<noteq> []" by auto
    have rest: "above (he_id (last ?p)) s = drop 100 ?a"
      using above_last [OF rows_ascending [OF Suc.prems(1)], of k ?p "drop 100 ?a"] ne
      by (simp add: above_def)
    have "executed_of ?a = executed_of ?p \<union> executed_of (drop 100 ?a)"
      by (metis append_take_drop_id executed_of_append)
    moreover have "length (drop 100 ?a) < fuel"
      using Suc.prems(2) True by simp
    ultimately show ?thesis
      using True ne rest Suc.IH [OF Suc.prems(1), of "he_id (last ?p)" "acc \<union> executed_of ?p"]
      by (simp add: page mark_executed_eq Un_assoc)
  qed
qed simp

lemma executed_ids_all:
  assumes "inv s" and "fuel > length (rows s)"
  shows "executed_loop fetch fuel 0 {} s = (Some (Inr (executed_of (rows s))), s)"
  using executed_loop_all [OF assms(1), of 0 fuel "{}"] assms above_0 by simp

end

section \<open>The SQLite storage provides it\<close>

text \<open>Ids are positive: the counter starts at 0 and only grows.\<close>

definition history_live :: "db \<Rightarrow> bool" where
  "history_live d \<longleftrightarrow> faults d = [] \<and> history_ok d \<and> history_seq d \<ge> 0 \<and>
     (\<forall>h \<in> set (history d). he_id h > 0)"

interpretation history_pages: paged_history history_live "history_of i" "get_history_paginated i"
  for i
proof (unfold_locales, goal_cases)
  case (1 s k n)
  then show ?case
    by (simp add: history_live_def get_history_paginated_run after_def)
next
  case (2 s)
  then have "id_ordered he_id (history_seq s) (history_of i s)"
    by (simp add: history_live_def history_of_ordered)
  then show ?case by (simp add: id_ordered_def)
next
  case (3 s r)
  then show ?case by (auto simp: history_live_def history_of_def)
qed

end
