(* ===== verification/Runtime_World.thy ===== *)
theory Runtime_World
  imports Storage_Locks Storage_Channels History_Paging
begin

text \<open>
  The state a worker process acts on: the committed database, the open transaction of the
  running activity with its post-commit callbacks, the lifecycle hooks called so far
  (hooks/hooks.go), and the outside world \<open>w_ext\<close> that user functions act on.

  The transaction manager of internal/storage/sqlite.go passes the transaction in the
  context: a method called with such a context runs on the transaction (\<open>stor True\<close>),
  with another context on the pool of connections (\<open>stor False\<close>). The open transaction
  is the view its statements see. A statement outside of it takes effect at once on the
  committed database, and the view sees it too. One transaction is open at a time; a
  second \<open>BeginTransaction\<close> runs into the busy timeout of the write lock.
\<close>

datatype hook_call =
    OnWorkflowStart string
  | OnWorkflowComplete string gov
  | OnWorkflowFailed string go_error
  | OnWorkflowCancelled string string string
  | OnActivityStart string string string gov bool
  | OnActivityComplete string string string gov
  | OnActivityFailed string string string go_error nat
  | OnActivityRetry string string string nat int time go_error
  | OnActivityCacheHit string string string "go_error + gov"
  | OnEventReceived string string string
  | OnEventWaitStart string string "time option"
  | OnEventWaitComplete string string
  | OnEventTimeout string string string
  | OnTimerStart string string time
  | OnTimerFired string string string
  | OnReplayStart string nat
  | OnReplayComplete string nat nat

text \<open>The one callback the program registers: waking the waiting subscribers of a channel.\<close>

record wake_call =
  wk_in_tx :: bool
  wk_worker :: string
  wk_channel :: string
  wk_message :: int
  wk_data :: bytes
  wk_metadata :: bytes

record 'x world =
  w_db :: db
  w_tx :: "db option"
  w_callbacks :: "wake_call list"
  w_hooks :: "hook_call list"
  w_ext :: 'x

type_synonym ('x, 'a) wm = "('x world, go_error, 'a) go"

definition tx_done :: go_error where
  "tx_done = ErrText ''sql: transaction has already been committed or rolled back''"

definition sync_view :: "db \<Rightarrow> db \<Rightarrow> db" where
  "sync_view d v = v\<lparr>faults := faults d, clock := clock d\<rparr>"

definition stor :: "bool \<Rightarrow> 'a dbm \<Rightarrow> ('x, 'a) wm" where
  "stor in_tx m w =
     (if in_tx then
        (case w_tx w of
           None \<Rightarrow> (Inl tx_done, w)
         | Some v \<Rightarrow>
             (case m (sync_view (w_db w) v) of
                (r, v') \<Rightarrow> (r, w\<lparr>w_tx := Some v', w_db := (w_db w)\<lparr>faults := faults v'\<rparr>\<rparr>)))
      else
        (case m (w_db w) of
           (r, d') \<Rightarrow> (r, w\<lparr>w_db := d', w_tx := map_option (\<lambda>v. snd (m (sync_view (w_db w) v))) (w_tx w)\<rparr>)))"

definition begin_transaction :: "('x, unit) wm" where
  "begin_transaction =
     try_go (stor False (exec id)) (\<lambda>_. \<lambda>w.
       case w_tx w of
         Some v \<Rightarrow> (Inl DriverError, w)
       | None \<Rightarrow> (Inr (), w\<lparr>w_tx := Some (w_db w), w_callbacks := []\<rparr>))"

definition close_tx :: "'x world \<Rightarrow> 'x world" where
  "close_tx w = w\<lparr>w_tx := None, w_callbacks := []\<rparr>"

definition commit_transaction :: "(wake_call \<Rightarrow> ('x, unit) wm) \<Rightarrow> bool \<Rightarrow> ('x, unit) wm" where
  "commit_transaction run_callback in_tx w =
     (if \<not> in_tx then (Inl (ErrText ''no transaction in context''), w)
      else case w_tx w of
        None \<Rightarrow> (Inl tx_done, w)
      | Some v \<Rightarrow>
          (case exec id (w_db w) of
             (Inl e, d') \<Rightarrow> (Inl e, close_tx (w\<lparr>w_db := d'\<rparr>))
           | (Inr u, d') \<Rightarrow>
               for_each (\<lambda>cb. ignore_err (run_callback cb)) (w_callbacks w)
                 (close_tx (w\<lparr>w_db := sync_view d' v\<rparr>))))"

definition rollback_transaction :: "bool \<Rightarrow> ('x, unit) wm" where
  "rollback_transaction in_tx w =
     (if \<not> in_tx then (Inr (), w)
      else case w_tx w of None \<Rightarrow> (Inl tx_done, w) | Some v \<Rightarrow> (Inr (), close_tx w))"

definition register_post_commit_callback :: "bool \<Rightarrow> wake_call \<Rightarrow> ('x, unit) wm" where
  "register_post_commit_callback in_tx cb w =
     (if \<not> in_tx then (Inl (ErrText ''not in a transaction''), w)
      else (Inr (), w\<lparr>w_callbacks := w_callbacks w @ [cb]\<rparr>))"

definition hook :: "hook_call \<Rightarrow> ('x, unit) wm" where
  "hook h w = (Inr (), w\<lparr>w_hooks := w_hooks w @ [h]\<rparr>)"

lemma hook_app [simp]: "hook h w = (Inr (), w\<lparr>w_hooks := w_hooks w @ [h]\<rparr>)"
  by (simp add: hook_def)

lemma sync_view_same [simp]: "faults v = faults d \<Longrightarrow> clock v = clock d \<Longrightarrow> sync_view d v = v"
  by (simp add: sync_view_def)

lemma sync_view_fields [simp]:
  "faults (sync_view d v) = faults d" "clock (sync_view d v) = clock d"
  "instances (sync_view d v) = instances v" "history (sync_view d v) = history v"
  "history_seq (sync_view d v) = history_seq v" "outbox (sync_view d v) = outbox v"
  "compensations (sync_view d v) = compensations v" "messages (sync_view d v) = messages v"
  "subscriptions (sync_view d v) = subscriptions v"
  by (simp_all add: sync_view_def)

text \<open>Outside of a transaction a storage method is the method on the committed database.\<close>

lemma stor_plain [simp]:
  "w_tx w = None \<Longrightarrow> stor False m w = (fst (m (w_db w)), w\<lparr>w_db := snd (m (w_db w))\<rparr>)"
  by (simp add: stor_def split: prod.split)

lemma stor_tx_done [simp]: "w_tx w = None \<Longrightarrow> stor True m w = (Inl tx_done, w)"
  by (simp add: stor_def)

lemma stor_frame [simp]:
  "w_ext (snd (stor b m w)) = w_ext w" "w_hooks (snd (stor b m w)) = w_hooks w"
  "w_callbacks (snd (stor b m w)) = w_callbacks w"
  by (simp_all add: stor_def split: option.split prod.split)

section \<open>Invariants of the databases\<close>

definition dbs_ok :: "(db \<Rightarrow> bool) \<Rightarrow> 'x world \<Rightarrow> bool" where
  "dbs_ok P w \<longleftrightarrow> P (w_db w) \<and> (case w_tx w of None \<Rightarrow> True | Some v \<Rightarrow> P v)"

text \<open>Invariants that look neither at the faults nor at the clock.\<close>

definition time_blind :: "(db \<Rightarrow> bool) \<Rightarrow> bool" where
  "time_blind P \<longleftrightarrow> (\<forall>d fs t. P (d\<lparr>faults := fs, clock := t\<rparr>) = P d)"

lemma time_blind_faults: "time_blind P \<Longrightarrow> P (d\<lparr>faults := fs\<rparr>) = P d"
proof -
  have same: "d\<lparr>faults := fs\<rparr> = d\<lparr>faults := fs, clock := clock d\<rparr>" by simp
  assume "time_blind P"
  then have "P (d\<lparr>faults := fs, clock := clock d\<rparr>) = P d"
    unfolding time_blind_def by blast
  with same show ?thesis by simp
qed

lemma time_blind_fault_blind: "time_blind P \<Longrightarrow> fault_blind P"
  by (simp add: fault_blind_def time_blind_faults)

lemma time_blind_sync [simp]: "time_blind P \<Longrightarrow> P (sync_view d v) = P v"
  by (simp add: time_blind_def sync_view_def)

lemma preserves_stor [keeps]:
  assumes "time_blind P" "preserves P m"
  shows "preserves (dbs_ok P) (stor b m)"
proof (rule preservesI)
  fix w :: "'x world"
  assume ok: "dbs_ok P w"
  have step: "P (snd (m d))" if "P d" for d
    using assms(2) that by (rule preservesD)
  show "dbs_ok P (snd (stor b m w))"
  proof (cases b)
    case True
    show ?thesis
    proof (cases "w_tx w")
      case None
      with True ok show ?thesis by simp
    next
      case (Some v)
      with ok assms(1) have "P (snd (m (sync_view (w_db w) v)))"
        by (intro step) (simp add: dbs_ok_def)
      with True Some ok show ?thesis
        by (simp add: stor_def dbs_ok_def time_blind_faults [OF assms(1)] split: prod.split)
           (metis snd_conv)
    qed
  next
    case False
    with ok have "P (snd (m (w_db w)))" by (intro step) (simp add: dbs_ok_def)
    moreover have "P (snd (m (sync_view (w_db w) v)))" if "w_tx w = Some v" for v
      using that ok assms(1) by (intro step) (simp add: dbs_ok_def)
    ultimately show ?thesis
      using False by (simp add: stor_def dbs_ok_def split: prod.split option.split)
        (metis snd_conv)
  qed
qed

lemma preserves_hook [keeps]: "preserves (dbs_ok P) (hook h)"
  by (intro preservesI) (simp add: dbs_ok_def)

lemma preserves_begin [keeps]:
  assumes "time_blind P"
  shows "preserves (dbs_ok P) begin_transaction"
  unfolding begin_transaction_def
proof (intro preserves_try preserves_stor assms)
  show "preserves P (exec id)"
    using assms by (intro keeps time_blind_fault_blind) auto
  show "preserves (dbs_ok P) (\<lambda>w. case w_tx w of Some v \<Rightarrow> (Inl DriverError, w)
       | None \<Rightarrow> (Inr (), w\<lparr>w_tx := Some (w_db w), w_callbacks := []\<rparr>))" for x
    by (intro preservesI) (auto simp: dbs_ok_def split: option.splits)
qed

lemma dbs_ok_close: "dbs_ok P w \<Longrightarrow> dbs_ok P (close_tx w)"
  by (simp add: dbs_ok_def close_tx_def)

lemma preserves_rollback [keeps]: "preserves (dbs_ok P) (rollback_transaction b)"
  by (intro preservesI) (auto simp: rollback_transaction_def dbs_ok_close split: option.splits)

lemma preserves_register [keeps]: "preserves (dbs_ok P) (register_post_commit_callback b cb)"
  by (intro preservesI) (auto simp: register_post_commit_callback_def dbs_ok_def)

lemma preserves_commit [keeps]:
  fixes run :: "wake_call \<Rightarrow> ('x, unit) wm"
  assumes "time_blind P" "\<And>cb. preserves (dbs_ok P) (run cb)"
  shows "preserves (dbs_ok P) (commit_transaction run b)"
proof (rule preservesI)
  fix w :: "'x world"
  assume ok: "dbs_ok P w"
  have each: "preserves (dbs_ok P) (for_each (\<lambda>cb. ignore_err (run cb)) cbs)" for cbs
    using assms(2) by (intro keeps)
  show "dbs_ok P (snd (commit_transaction run b w))"
  proof (cases "w_tx w")
    case None
    with ok show ?thesis by (simp add: commit_transaction_def)
  next
    case (Some v)
    obtain r d' where ex: "exec id (w_db w) = (r, d')" by (cases "exec id (w_db w)")
    have "P d'"
      using preservesD [OF preserves_exec [OF time_blind_fault_blind [OF assms(1)], of id], of "w_db w"]
        ok ex by (simp add: dbs_ok_def)
    with Some ok assms(1) ex show ?thesis
      by (auto simp: commit_transaction_def dbs_ok_def close_tx_def split: sum.splits
          intro!: preservesD [OF each, unfolded dbs_ok_def])
  qed
qed

section \<open>What transactions promise\<close>

lemma begin_then_rollback:
  assumes "w_tx w = None" "faults (w_db w) = []"
    and "begin_transaction w = (Inr (), w1)"
    and "w_db w2 = w_db w1" and "w_tx w2 \<noteq> None"
  shows "w_db (snd (rollback_transaction True w2)) = w_db w \<and> w_tx (snd (rollback_transaction True w2)) = None"
  using assms by (auto simp: begin_transaction_def rollback_transaction_def close_tx_def)

text \<open>Statements of the transaction leave the committed tables alone.\<close>

lemma stor_tx_committed:
  assumes "w_tx w = Some v" "faults (w_db w) = []" "faults (snd (m (sync_view (w_db w) v))) = []"
  shows "w_db (snd (stor True m w)) = w_db w"
  using assms by (auto simp: stor_def split: prod.split)

end
