(* ===== verification/Compensation.thy ===== *)
theory Compensation
  imports Runtime_World
begin

text \<open>
  Saga compensation: the registry and the executor of compensation/executor.go, and the two
  other copies of the same routine, \<open>Engine.executeCompensations\<close> of
  internal/replay/engine.go (run when a workflow fails) and \<open>App.executeCompensations\<close> of
  app.go (run when it is cancelled).

  A compensation is user code: an executor is any state transformer of the world that takes
  the JSON argument stored with the entry. What has run is read back from the history, so
  the routine is meant to be repeatable; \<open>pending_compensations\<close> is the abstract list of
  what one call has to run, newest entry first.
\<close>

type_synonym 'x executor = "bytes \<Rightarrow> ('x, unit) wm"
type_synonym 'x registry = "string \<Rightarrow> 'x executor option"

definition new_registry :: "'x registry" where
  "new_registry = (\<lambda>_. None)"

definition registry_register :: "string \<Rightarrow> 'x executor \<Rightarrow> 'x registry \<Rightarrow> 'x registry" where
  "registry_register name fn reg = reg(name \<mapsto> fn)"

definition registry_get :: "'x registry \<Rightarrow> string \<Rightarrow> 'x executor option" where
  "registry_get reg name = reg name"

text \<open>
  \<open>TypedCompensation\<close>: \<open>decode\<close> is \<open>json.Unmarshal\<close> into the argument type, with the
  error it returns.
\<close>

definition typed_compensation ::
    "(bytes \<Rightarrow> go_error + gov) \<Rightarrow> (gov \<Rightarrow> ('x, unit) wm) \<Rightarrow> 'x executor" where
  "typed_compensation decode fn args =
     (case decode args of
        Inl e \<Rightarrow> throw (wrapf ''failed to unmarshal compensation argument'' e)
      | Inr v \<Rightarrow> fn v)"

definition register_typed ::
    "string \<Rightarrow> (bytes \<Rightarrow> go_error + gov) \<Rightarrow> (gov \<Rightarrow> ('x, unit) wm) \<Rightarrow> 'x registry \<Rightarrow> 'x registry" where
  "register_typed name decode fn reg = registry_register name (typed_compensation decode fn) reg"

definition executor_add_compensation :: "string \<Rightarrow> string \<Rightarrow> string \<Rightarrow> gov \<Rightarrow> ('x, unit) wm" where
  "executor_add_compensation i act name arg =
     (case marshal arg of
        None \<Rightarrow> throw (wrapf ''failed to encode compensation argument'' (ErrText ''json: unsupported type''))
      | Some j \<Rightarrow> stor False (add_compensation i act name (BJson j)))"

section \<open>What the history says\<close>

text \<open>The loop over pages is given one round per event and one more.\<close>

definition get_executed_ids :: "string \<Rightarrow> int set dbm" where
  "get_executed_ids i d =
     (case executed_loop (get_history_paginated i) (length (history d) + 1) 0 {} d of
        (Some r, d') \<Rightarrow> (r, d')
      | (None, d') \<Rightarrow> (Inl (ErrText ''history loop does not end''), d'))"

definition comp_activity :: "compensation_entry \<Rightarrow> string" where
  "comp_activity c = ''compensation:'' @ show_int (ce_id c)"

definition comp_event :: "compensation_entry \<Rightarrow> string \<Rightarrow> json" where
  "comp_event c msg =
     JObj ([(''activity_id'', JStr (ce_activity c)), (''activity_name'', JStr (ce_name c)),
            (''compensation_id'', JNum (ce_id c))] @
           (if msg = '''' then [] else [(''error'', JStr msg)]))"

definition record_compensation_result ::
    "string \<Rightarrow> compensation_entry \<Rightarrow> bool \<Rightarrow> string \<Rightarrow> unit dbm" where
  "record_compensation_result i c success msg =
     append_history i (comp_activity c)
       (if success then HistoryCompensationExecuted else HistoryCompensationFailed)
       (BJson (comp_event c msg)) ''json''"

section \<open>The three routines\<close>

definition finish :: "go_error option \<Rightarrow> ('x, unit) wm" where
  "finish err = (case err of None \<Rightarrow> ret () | Some e \<Rightarrow> throw e)"

fun engine_comp_loop ::
    "(string \<Rightarrow> 'x executor) \<Rightarrow> string \<Rightarrow> int set \<Rightarrow> go_error option \<Rightarrow> compensation_entry list \<Rightarrow>
     ('x, unit) wm" where
  "engine_comp_loop runner i executed first_err [] = finish first_err"
| "engine_comp_loop runner i executed first_err (c # cs) =
     (if ce_id c \<in> executed then engine_comp_loop runner i executed first_err cs
      else then_go (runner (ce_name c) (ce_args c)) (\<lambda>r.
        case r of
          Inl e \<Rightarrow>
            try_go (ignore_err (stor False (record_compensation_result i c False (err_text e)))) (\<lambda>_.
            engine_comp_loop runner i executed
              (if first_err = None
               then Some (Wrapped (''compensation '' @ ce_activity c @ '' failed: '') e '''')
               else first_err) cs)
        | Inr u \<Rightarrow>
            try_go (ignore_err (stor False (record_compensation_result i c True ''''))) (\<lambda>_.
            engine_comp_loop runner i executed first_err cs)))"

definition engine_execute_compensations ::
    "(string \<Rightarrow> 'x executor) option \<Rightarrow> string \<Rightarrow> ('x, unit) wm" where
  "engine_execute_compensations compensation_runner i =
     try_go (map_err (wrapf ''failed to get compensations'') (stor False (get_compensations i))) (\<lambda>entries.
       if entries = [] then ret ()
       else case compensation_runner of
         None \<Rightarrow> ret ()
       | Some runner \<Rightarrow>
           try_go (map_err (wrapf ''failed to get executed compensations'')
                    (stor False (get_executed_ids i))) (\<lambda>executed.
             engine_comp_loop runner i executed None entries))"

definition execute_one :: "'x registry \<Rightarrow> compensation_entry \<Rightarrow> ('x, unit) wm" where
  "execute_one reg c =
     (case registry_get reg (ce_name c) of
        None \<Rightarrow> throw (ErrText (''compensation function not found: '' @ ce_name c))
      | Some fn \<Rightarrow> fn (ce_args c))"

fun executor_comp_loop ::
    "'x registry \<Rightarrow> string \<Rightarrow> int set \<Rightarrow> go_error option \<Rightarrow> compensation_entry list \<Rightarrow> ('x, unit) wm" where
  "executor_comp_loop reg i executed first_err [] = finish first_err"
| "executor_comp_loop reg i executed first_err (c # cs) =
     (if ce_id c \<in> executed then executor_comp_loop reg i executed first_err cs
      else then_go (execute_one reg c) (\<lambda>r.
        case r of
          Inl e \<Rightarrow>
            try_go (ignore_err (stor False (record_compensation_result i c False (err_text e)))) (\<lambda>_.
            executor_comp_loop reg i executed (if first_err = None then Some e else first_err) cs)
        | Inr u \<Rightarrow>
            try_go (ignore_err (stor False (record_compensation_result i c True ''''))) (\<lambda>_.
            executor_comp_loop reg i executed first_err cs)))"

definition executor_execute_compensations :: "'x registry \<Rightarrow> string \<Rightarrow> ('x, unit) wm" where
  "executor_execute_compensations reg i =
     try_go (map_err (wrapf ''failed to get compensations'') (stor False (get_compensations i))) (\<lambda>entries.
     try_go (map_err (wrapf ''failed to get executed compensations'')
              (stor False (get_executed_ids i))) (\<lambda>executed.
     executor_comp_loop reg i executed None entries))"

fun app_comp_loop ::
    "'x registry \<Rightarrow> string \<Rightarrow> int set \<Rightarrow> go_error option \<Rightarrow> compensation_entry list \<Rightarrow> ('x, unit) wm" where
  "app_comp_loop reg i executed last_err [] = finish last_err"
| "app_comp_loop reg i executed last_err (c # cs) =
     (if ce_id c \<in> executed then app_comp_loop reg i executed last_err cs
      else case registry_get reg (ce_name c) of
        None \<Rightarrow>
          try_go (ignore_err (stor False (record_compensation_result i c False ''executor not found''))) (\<lambda>_.
          app_comp_loop reg i executed last_err cs)
      | Some fn \<Rightarrow>
          then_go (fn (ce_args c)) (\<lambda>r.
            case r of
              Inl e \<Rightarrow>
                try_go (ignore_err (stor False (record_compensation_result i c False (err_text e)))) (\<lambda>_.
                app_comp_loop reg i executed (Some e) cs)
            | Inr u \<Rightarrow>
                try_go (ignore_err (stor False (record_compensation_result i c True ''''))) (\<lambda>_.
                app_comp_loop reg i executed last_err cs)))"

definition app_execute_compensations :: "'x registry \<Rightarrow> string \<Rightarrow> ('x, unit) wm" where
  "app_execute_compensations reg i =
     try_go (map_err (wrapf ''failed to get compensations'') (stor False (get_compensations i))) (\<lambda>entries.
       if entries = [] then ret ()
       else try_go (map_err (wrapf ''failed to get executed compensations'')
                     (stor False (get_executed_ids i))) (\<lambda>executed.
            app_comp_loop reg i executed None entries))"

text \<open>The runner that App.initStorage gives to the engine.\<close>

definition registry_runner :: "'x registry \<Rightarrow> string \<Rightarrow> 'x executor" where
  "registry_runner reg name args =
     (case registry_get reg name of
        None \<Rightarrow> throw (ErrText (''compensation executor not found for '' @ name))
      | Some fn \<Rightarrow> fn args)"

section \<open>What they compute\<close>

definition pending_compensations :: "string \<Rightarrow> db \<Rightarrow> compensation_entry list" where
  "pending_compensations i d =
     filter (\<lambda>c. ce_id c \<notin> executed_of (history_of i d)) (rev (sort_key comp_key (compensations_of i d)))"

text \<open>Running one entry and recording how it went.\<close>

definition run_entry :: "(compensation_entry \<Rightarrow> ('x, unit) wm) \<Rightarrow> string \<Rightarrow> 'x world \<Rightarrow>
    compensation_entry \<Rightarrow> 'x world" where
  "run_entry run i w c =
     (case run c w of
        (Inl e, w') \<Rightarrow> snd (stor False (record_compensation_result i c False (err_text e)) w')
      | (Inr u, w') \<Rightarrow> snd (stor False (record_compensation_result i c True '''') w'))"

abbreviation by_runner :: "(string \<Rightarrow> 'x executor) \<Rightarrow> compensation_entry \<Rightarrow> ('x, unit) wm" where
  "by_runner runner \<equiv> \<lambda>c. runner (ce_name c) (ce_args c)"

lemma finish_state [simp]: "snd (finish err w) = w"
  by (simp add: finish_def split: option.split)

lemma engine_comp_loop_state:
  "snd (engine_comp_loop runner i ex err cs w) =
   foldl (run_entry (by_runner runner) i) w (filter (\<lambda>c. ce_id c \<notin> ex) cs)"
  by (induction runner i ex err cs arbitrary: w rule: engine_comp_loop.induct)
     (simp_all add: then_go_def try_go_def run_entry_def split: prod.split sum.split)

lemma executor_comp_loop_state:
  "snd (executor_comp_loop reg i ex err cs w) =
   foldl (run_entry (execute_one reg) i) w (filter (\<lambda>c. ce_id c \<notin> ex) cs)"
  by (induction reg i ex err cs arbitrary: w rule: executor_comp_loop.induct)
     (simp_all add: then_go_def try_go_def run_entry_def split: prod.split sum.split)

definition all_registered :: "'x registry \<Rightarrow> compensation_entry list \<Rightarrow> bool" where
  "all_registered reg cs \<longleftrightarrow> list_all (\<lambda>c. registry_get reg (ce_name c) \<noteq> None) cs"

lemma app_comp_loop_state:
  "all_registered reg cs \<Longrightarrow>
   snd (app_comp_loop reg i ex err cs w) =
   foldl (run_entry (execute_one reg) i) w (filter (\<lambda>c. ce_id c \<notin> ex) cs)"
proof (induction cs arbitrary: err w)
  case (Cons c cs)
  then obtain fn where fn: "registry_get reg (ce_name c) = Some fn"
    and reg: "all_registered reg cs"
    by (auto simp: all_registered_def)
  show ?case
    using fn Cons.IH [OF reg]
    by (simp add: then_go_def try_go_def run_entry_def execute_one_def split: prod.split sum.split)
qed simp

lemma get_executed_ids_run:
  assumes "history_live d"
  shows "get_executed_ids i d = (Inr (executed_of (history_of i d)), d)"
proof -
  have "length (history_of i d) < length (history d) + 1"
    by (simp add: history_of_def less_Suc_eq_le)
  from history_pages.executed_ids_all [OF assms this] show ?thesis
    by (simp add: get_executed_ids_def)
qed

lemma get_compensations_run:
  "faults d = [] \<Longrightarrow> get_compensations i d = (Inr (rev (sort_key comp_key (compensations_of i d))), d)"
  by (simp add: get_compensations_def)

lemma live_faults: "history_live d \<Longrightarrow> faults d = []"
  by (simp add: history_live_def)

lemma engine_compensations_loop:
  assumes "w_tx w = None" "history_live (w_db w)"
  shows "engine_execute_compensations (Some runner) i w =
    engine_comp_loop runner i (executed_of (history_of i (w_db w))) None
      (rev (sort_key comp_key (compensations_of i (w_db w)))) w"
  using assms
  by (cases "rev (sort_key comp_key (compensations_of i (w_db w))) = []")
     (auto simp: engine_execute_compensations_def try_go_def map_err_def finish_def
        get_compensations_run live_faults get_executed_ids_run simp del: rev_is_Nil_conv)

lemma executor_compensations_loop:
  assumes "w_tx w = None" "history_live (w_db w)"
  shows "executor_execute_compensations reg i w =
    executor_comp_loop reg i (executed_of (history_of i (w_db w))) None
      (rev (sort_key comp_key (compensations_of i (w_db w)))) w"
  using assms
  by (simp add: executor_execute_compensations_def try_go_def map_err_def
        get_compensations_run live_faults get_executed_ids_run)

lemma app_compensations_loop:
  assumes "w_tx w = None" "history_live (w_db w)"
  shows "app_execute_compensations reg i w =
    app_comp_loop reg i (executed_of (history_of i (w_db w))) None
      (rev (sort_key comp_key (compensations_of i (w_db w)))) w"
  using assms
  by (cases "rev (sort_key comp_key (compensations_of i (w_db w))) = []")
     (auto simp: app_execute_compensations_def try_go_def map_err_def finish_def
        get_compensations_run live_faults get_executed_ids_run simp del: rev_is_Nil_conv)

lemma engine_compensations_run:
  assumes "w_tx w = None" "history_live (w_db w)"
  shows "snd (engine_execute_compensations (Some runner) i w) =
    foldl (run_entry (by_runner runner) i) w (pending_compensations i (w_db w))"
  by (simp add: engine_compensations_loop [OF assms] engine_comp_loop_state pending_compensations_def)

section \<open>Running twice\<close>

text \<open>
  An executor that leaves the database to the framework. \<open>comp_free\<close>: no other event has
  taken the activity id under which a pending compensation is going to be recorded, and the
  ids are small enough to survive the trip through a float64.
\<close>

definition keeps_db :: "(string \<Rightarrow> 'x executor) \<Rightarrow> bool" where
  "keeps_db runner \<longleftrightarrow> (\<forall>n a w. w_db (snd (runner n a w)) = w_db w \<and> w_tx (snd (runner n a w)) = w_tx w)"

definition comp_free :: "string \<Rightarrow> db \<Rightarrow> bool" where
  "comp_free i d \<longleftrightarrow> (\<forall>c \<in> set (compensations_of i d). \<bar>ce_id c\<bar> \<le> 2 ^ 53 \<and>
     (has_history i (comp_activity c) d \<longrightarrow> ce_id c \<in> executed_of (history_of i d)))"

lemma comp_activity_inject: "comp_activity c = comp_activity c' \<longleftrightarrow> ce_id c = ce_id c'"
  by (simp add: comp_activity_def)

lemma comp_event_id:
  assumes "\<bar>ce_id c\<bar> \<le> 2 ^ 53"
    and "he_type h = (if ok then HistoryCompensationExecuted else HistoryCompensationFailed)"
    and "he_data h = BJson (comp_event c msg)"
  shows "compensation_id_of h = Some (ce_id c)"
  using assms by (auto simp: compensation_id_of_def comp_event_def f64_of_int_exact)

definition recorded :: "string \<Rightarrow> compensation_entry \<Rightarrow> bool \<Rightarrow> string \<Rightarrow> db \<Rightarrow> db" where
  "recorded i c ok msg d = snd (record_compensation_result i c ok msg d)"

lemma recorded_eq:
  "faults d = [] \<Longrightarrow> recorded i c ok msg d =
     (if has_history i (comp_activity c) d then d
      else insert_history i (comp_activity c)
        (if ok then HistoryCompensationExecuted else HistoryCompensationFailed)
        (BJson (comp_event c msg)) ''json'' d)"
  by (simp add: recorded_def record_compensation_result_def append_history_run)

lemma recorded_keeps:
  assumes "history_live d"
  shows "history_live (recorded i c ok msg d)" (is ?live)
    and "compensations (recorded i c ok msg d) = compensations d" (is ?comps)
    and "executed_of (history_of i d) \<subseteq> executed_of (history_of i (recorded i c ok msg d))" (is ?mono)
proof -
  have rec: "recorded i c ok msg d =
     (if has_history i (comp_activity c) d then d
      else insert_history i (comp_activity c)
        (if ok then HistoryCompensationExecuted else HistoryCompensationFailed)
        (BJson (comp_event c msg)) ''json'' d)"
    using assms by (intro recorded_eq) (simp add: history_live_def)
  show ?live
    using assms history_ok_insert
    by (auto simp: rec history_live_def) (auto simp: insert_history_def)
  show ?comps by (simp add: rec insert_history_def)
  show ?mono by (auto simp: rec history_of_insert)
qed

lemma recorded_executed:
  assumes "history_live d" "comp_free i d" "c \<in> set (compensations_of i d)"
  shows "ce_id c \<in> executed_of (history_of i (recorded i c ok msg d))"
proof (cases "has_history i (comp_activity c) d")
  case True
  with assms show ?thesis by (simp add: recorded_eq live_faults comp_free_def)
next
  case False
  have "\<bar>ce_id c\<bar> \<le> 2 ^ 53" using assms(2,3) by (simp add: comp_free_def)
  from comp_event_id [OF this, of _ ok msg] False show ?thesis
    by (auto simp: recorded_eq live_faults [OF assms(1)] history_of_insert executed_of_def)
qed

lemma recorded_comp_free:
  assumes "history_live d" "comp_free i d" "c \<in> set (compensations_of i d)"
  shows "comp_free i (recorded i c ok msg d)"
proof -
  let ?d = "recorded i c ok msg d"
  have comps: "compensations_of i ?d = compensations_of i d"
    using recorded_keeps(2) [OF assms(1)] by (simp add: compensations_of_def)
  have "ce_id x \<in> executed_of (history_of i ?d)"
    if "x \<in> set (compensations_of i d)" "has_history i (comp_activity x) ?d" for x
  proof (cases "has_history i (comp_activity x) d")
    case True
    with that(1) assms(2) have "ce_id x \<in> executed_of (history_of i d)"
      by (simp add: comp_free_def)
    with recorded_keeps(3) [OF assms(1)] show ?thesis by blast
  next
    case False
    with that(2) have "ce_id x = ce_id c"
      by (auto simp: recorded_eq live_faults [OF assms(1)] comp_activity_inject has_history_def
          insert_history_def split: if_splits)
    with recorded_executed [OF assms] show ?thesis by simp
  qed
  with assms(2) comps show ?thesis by (simp add: comp_free_def)
qed

lemma run_entry_db:
  assumes "keeps_db runner" "w_tx w = None"
  obtains ok msg where "w_db (run_entry (by_runner runner) i w c) = recorded i c ok msg (w_db w)"
    and "w_tx (run_entry (by_runner runner) i w c) = None"
proof -
  obtain r w' where r: "runner (ce_name c) (ce_args c) w = (r, w')"
    by (cases "runner (ce_name c) (ce_args c) w")
  with assms have keep: "w_db w' = w_db w" "w_tx w' = None"
    unfolding keeps_db_def by (metis snd_conv)+
  show ?thesis
  proof (cases r)
    case (Inl e)
    with r keep show ?thesis
      by (intro that [of False "err_text e"]) (simp_all add: run_entry_def recorded_def)
  next
    case (Inr u)
    with r keep show ?thesis
      by (intro that [of True "''''"]) (simp_all add: run_entry_def recorded_def)
  qed
qed

lemma run_entries:
  assumes "keeps_db runner"
  shows "w_tx w = None \<Longrightarrow> history_live (w_db w) \<Longrightarrow> comp_free i (w_db w) \<Longrightarrow>
    set cs \<subseteq> set (compensations_of i (w_db w)) \<Longrightarrow>
    w' = foldl (run_entry (by_runner runner) i) w cs \<Longrightarrow>
    w_tx w' = None \<and> history_live (w_db w') \<and> compensations (w_db w') = compensations (w_db w) \<and>
    executed_of (history_of i (w_db w)) \<union> ce_id ` set cs \<subseteq> executed_of (history_of i (w_db w'))"
proof (induction cs arbitrary: w)
  case (Cons c cs)
  obtain ok msg where d: "w_db (run_entry (by_runner runner) i w c) = recorded i c ok msg (w_db w)"
    and t: "w_tx (run_entry (by_runner runner) i w c) = None"
    using run_entry_db [OF assms Cons.prems(1)] by blast
  have c: "c \<in> set (compensations_of i (w_db w))" using Cons.prems(4) by simp
  note k = recorded_keeps [OF Cons.prems(2), of i c ok msg]
  have "set cs \<subseteq> set (compensations_of i (recorded i c ok msg (w_db w)))"
    using Cons.prems(4) k(2) by (simp add: compensations_of_def)
  with Cons.IH [of "run_entry (by_runner runner) i w c"] Cons.prems d t k
    recorded_comp_free [OF Cons.prems(2,3) c, of ok msg]
    recorded_executed [OF Cons.prems(2,3) c, of ok msg]
  show ?case by auto
qed simp

lemma pending_subset: "set (pending_compensations i d) \<subseteq> set (compensations_of i d)"
  by (auto simp: pending_compensations_def)

lemma pending_sorted: "sorted (rev (map comp_key (pending_compensations i d)))"
  by (simp add: pending_compensations_def rev_map rev_filter sorted_filter)

section \<open>Properties\<close>

text \<open>
  C5: compensations run in last-in-first-out order. One call of the engine's routine runs
  exactly the entries of the instance that the history does not yet name as run, newest
  first (creation time, then id, descending), each once, and records each outcome before the
  next one is run; a compensation that fails does not stop the ones after it.
\<close>

theorem compensations_lifo:
  assumes "w_tx w = None" "history_live (w_db w)"
  shows "snd (engine_execute_compensations (Some runner) i w) =
      foldl (run_entry (by_runner runner) i) w (pending_compensations i (w_db w))
    \<and> sorted (rev (map comp_key (pending_compensations i (w_db w))))
    \<and> set (pending_compensations i (w_db w)) =
      {c \<in> set (compensations (w_db w)). ce_instance c = i \<and>
         ce_id c \<notin> executed_of (history_of i (w_db w))}"
  using engine_compensations_run [OF assms] pending_sorted [of i "w_db w"]
  by (auto simp: pending_compensations_def compensations_of_def)

text \<open>A saga with three registered compensations, the first of them already run.\<close>

definition saga_entry :: "int \<Rightarrow> string \<Rightarrow> int \<Rightarrow> compensation_entry" where
  "saga_entry n name t = \<lparr>ce_id = n, ce_instance = ''i'', ce_activity = name @ '':1'', ce_name = name,
     ce_args = BJson (JNum n), ce_created = t\<rparr>"

definition saga_world :: "(string list) world" where
  "saga_world =
     \<lparr>w_db = empty_db\<lparr>compensations := [saga_entry 1 ''a'' 10, saga_entry 2 ''b'' 20, saga_entry 3 ''c'' 20],
         comp_seq := 3,
         history := [\<lparr>he_id = 1, he_instance = ''i'', he_activity = ''compensation:1'',
           he_type = HistoryCompensationExecuted, he_data = BJson (comp_event (saga_entry 1 ''a'' 10) ''''),
           he_data_type = ''json'', he_created = 0\<rparr>],
         history_seq := 1\<rparr>,
      w_tx = None, w_callbacks = [], w_hooks = [], w_ext = []\<rparr>"

definition saga_runner :: "string \<Rightarrow> (string list) executor" where
  "saga_runner name args w =
     (if name = ''b'' then Inl (ErrText ''no'') else Inr (), w\<lparr>w_ext := w_ext w @ [name]\<rparr>)"

lemma saga_live: "w_tx saga_world = None" "history_live (w_db saga_world)"
  by (simp_all add: saga_world_def history_live_def history_ok_def id_ordered_def empty_db_def)

lemma saga_keeps: "keeps_db saga_runner"
  by (simp add: keeps_db_def saga_runner_def)

lemma saga_executed: "executed_of (history_of ''i'' (w_db saga_world)) = {1}"
  by (auto simp: executed_of_def saga_world_def history_of_def compensation_id_of_def comp_event_def
      saga_entry_def f64_of_int_exact)

lemma saga_free: "comp_free ''i'' (w_db saga_world)"
proof -
  have "\<not> has_history ''i'' (comp_activity (saga_entry n m t)) (w_db saga_world)" if "n \<noteq> 1" for n m t
  proof -
    have "''compensation:'' @ show_int n \<noteq> ''compensation:'' @ show_int 1"
      using that by (simp only: same_append_eq show_int_inject) simp
    moreover have "show_int 1 = ''1''" by code_simp
    ultimately show ?thesis
      by (simp add: has_history_def saga_world_def comp_activity_def saga_entry_def)
  qed
  note new = this
  show ?thesis
    using new [of 2 "''b''" 20] new [of 3 "''c''" 20] saga_executed
    unfolding comp_free_def
    by (simp add: compensations_of_def saga_world_def) (simp add: saga_entry_def)
qed

lemma saga_pending:
  "pending_compensations ''i'' (w_db saga_world) = [saga_entry 3 ''c'' 20, saga_entry 2 ''b'' 20]"
  by (simp add: pending_compensations_def saga_executed)
     (simp add: saga_world_def compensations_of_def saga_entry_def comp_key_def sort_key_def)

lemma saga_run_entry:
  "w_ext (run_entry (by_runner saga_runner) i w c) = w_ext w @ [ce_name c]"
  by (simp add: run_entry_def saga_runner_def)

theorem compensations_lifo_witness:
  "w_ext (snd (engine_execute_compensations (Some saga_runner) ''i'' saga_world)) = [''c'', ''b'']"
  using compensations_lifo [OF saga_live, of saga_runner "''i''"]
  by (simp add: saga_pending saga_run_entry) (simp add: saga_entry_def saga_world_def)

text \<open>
  C19: running the compensations again runs nothing. After a call, whatever its outcome, no
  entry is pending, and a second call of the routine returns success without running a
  compensation and without changing anything: what ran, or failed, is never run again.
\<close>

theorem compensations_once:
  assumes "w_tx w = None" "history_live (w_db w)" "comp_free i (w_db w)" "keeps_db runner"
    and "engine_execute_compensations (Some runner) i w = (r, w1)"
  shows "pending_compensations i (w_db w1) = [] \<and>
    engine_execute_compensations (Some runner) i w1 = (Inr (), w1)"
proof -
  let ?p = "pending_compensations i (w_db w)"
  have w1: "w1 = foldl (run_entry (by_runner runner) i) w ?p"
    using engine_compensations_run [OF assms(1,2), of runner i] assms(5) by simp
  have k: "w_tx w1 = None" "history_live (w_db w1)" "compensations (w_db w1) = compensations (w_db w)"
    and e: "executed_of (history_of i (w_db w)) \<union> ce_id ` set ?p \<subseteq> executed_of (history_of i (w_db w1))"
    using run_entries [OF assms(4,1,2,3) pending_subset w1] by auto
  have none: "pending_compensations i (w_db w1) = []"
    using e k(3) by (auto simp: pending_compensations_def compensations_of_def filter_empty_conv)
  then have "engine_comp_loop runner i (executed_of (history_of i (w_db w1))) None cs w1 = (Inr (), w1)"
    if "\<forall>c \<in> set cs. ce_id c \<in> executed_of (history_of i (w_db w1))" for cs
    using that by (induction cs) (simp_all add: finish_def)
  with none show ?thesis
    by (auto simp: engine_compensations_loop [OF k(1,2)] pending_compensations_def filter_empty_conv)
qed

theorem compensations_once_witness:
  "\<exists>r w1. engine_execute_compensations (Some saga_runner) ''i'' saga_world = (r, w1) \<and>
     engine_execute_compensations (Some saga_runner) ''i'' w1 = (Inr (), w1)"
  using compensations_once [OF saga_live saga_free saga_keeps]
  by (cases "engine_execute_compensations (Some saga_runner) ''i'' saga_world") auto

lemma same_runner:
  "all_registered reg (c # cs) \<Longrightarrow>
   registry_runner reg (ce_name c) (ce_args c) = execute_one reg c \<and> all_registered reg cs"
  by (auto simp: all_registered_def registry_runner_def execute_one_def split: option.splits)

lemma engine_executor_state:
  "all_registered reg cs \<Longrightarrow>
   snd (engine_comp_loop (registry_runner reg) i ex err cs w) = snd (executor_comp_loop reg i ex err' cs w)"
proof (induction cs arbitrary: err err' w)
  case (Cons c cs)
  with same_runner [OF Cons.prems] show ?case
    by (simp add: then_go_def try_go_def split: prod.split sum.split)
qed simp

text \<open>An error once met is an error returned.\<close>

lemma loops_fail [simp]:
  "isl (fst (engine_comp_loop runner i ex (Some e) cs w))"
  "isl (fst (executor_comp_loop reg i ex (Some e) cs w))"
  "isl (fst (app_comp_loop reg i ex (Some e) cs w))"
  by (induction cs arbitrary: e w)
     (simp_all add: finish_def then_go_def try_go_def split: prod.split sum.split option.split)

lemma engine_executor_err:
  "all_registered reg cs \<Longrightarrow>
   isl (fst (engine_comp_loop (registry_runner reg) i ex None cs w)) =
   isl (fst (executor_comp_loop reg i ex None cs w))"
proof (induction cs arbitrary: w)
  case (Cons c cs)
  with same_runner [OF Cons.prems] show ?case
    by (simp add: then_go_def try_go_def split: prod.split sum.split)
qed (simp add: finish_def)

lemma app_executor_err:
  "all_registered reg cs \<Longrightarrow>
   isl (fst (app_comp_loop reg i ex None cs w)) = isl (fst (executor_comp_loop reg i ex None cs w))"
proof (induction cs arbitrary: w)
  case (Cons c cs)
  then obtain fn where "registry_get reg (ce_name c) = Some fn" and "all_registered reg cs"
    by (auto simp: all_registered_def)
  with Cons show ?case
    by (simp add: execute_one_def then_go_def try_go_def split: prod.split sum.split)
qed (simp add: finish_def)

lemma compensations_same_state:
  assumes "w_tx w = None" "history_live (w_db w)"
    and "all_registered reg (compensations_of i (w_db w))"
  shows "snd (app_execute_compensations reg i w) =
    snd (engine_execute_compensations (Some (registry_runner reg)) i w)"
proof -
  have all: "all_registered reg (rev (sort_key comp_key (compensations_of i (w_db w))))"
    using assms(3) by (simp add: all_registered_def list_all_iff)
  show ?thesis
    unfolding engine_compensations_loop [OF assms(1,2)] app_compensations_loop [OF assms(1,2)]
    using engine_executor_state [OF all]
    by (simp add: app_comp_loop_state [OF all] executor_comp_loop_state)
qed

text \<open>
  C20: the three copies of the routine do the same. When every entry's function is
  registered, the executor of the compensation package, the engine with the application's
  runner and the application's own loop leave the same world, and they agree on whether an
  error is returned.
\<close>

theorem compensations_same:
  assumes "w_tx w = None" "history_live (w_db w)"
    and "all_registered reg (compensations_of i (w_db w))"
  shows "snd (engine_execute_compensations (Some (registry_runner reg)) i w) =
         snd (executor_execute_compensations reg i w)
    \<and> snd (app_execute_compensations reg i w) = snd (executor_execute_compensations reg i w)
    \<and> isl (fst (engine_execute_compensations (Some (registry_runner reg)) i w)) =
      isl (fst (executor_execute_compensations reg i w))
    \<and> isl (fst (app_execute_compensations reg i w)) =
      isl (fst (executor_execute_compensations reg i w))"
proof -
  have "all_registered reg (rev (sort_key comp_key (compensations_of i (w_db w))))"
    using assms(3) by (simp add: all_registered_def list_all_iff)
  note all = this
  show ?thesis
    unfolding engine_compensations_loop [OF assms(1,2)] executor_compensations_loop [OF assms(1,2)]
      app_compensations_loop [OF assms(1,2)]
    using engine_executor_state [OF all] engine_executor_err [OF all]
      app_executor_err [OF all]
    by (simp add: app_comp_loop_state [OF all] executor_comp_loop_state)
qed

theorem compensations_same_witness:
  "snd (app_execute_compensations (\<lambda>n. Some (saga_runner n)) ''i'' saga_world) =
   snd (executor_execute_compensations (\<lambda>n. Some (saga_runner n)) ''i'' saga_world)"
  using compensations_same [OF saga_live, of "\<lambda>n. Some (saga_runner n)" "''i''"]
  by (simp add: all_registered_def registry_get_def list_all_iff)

end
