(* ===== verification/Replay_Engine.thy ===== *)
theory Replay_Engine
  imports Compensation
begin

text \<open>
  internal/replay/engine.go and the parts of context.go that a workflow run uses.

  One run of a workflow has the state \<open>'x exec\<close>: the WorkflowContext and the
  ExecutionContext it delegates to, on top of the world. Caches are partial functions of the
  activity id. A workflow's code is a state transformer of the run; the engine loads the
  history into the caches, runs it, and turns what it returns into the instance's next
  state. \<open>ex_in_tx\<close> says that the context carries the activity's transaction;
  \<open>ex_direct\<close> is the nil-able map of direct subscriptions.
\<close>

section \<open>The run\<close>

record 'x exec =
  ex_world :: "'x world"
  ex_instance :: string
  ex_worker :: string
  ex_workflow :: string
  ex_replaying :: bool
  ex_counts :: "string \<Rightarrow> nat"
  ex_results :: "string \<Rightarrow> (bytes \<times> gov) option"
  ex_errors :: "string \<Rightarrow> go_error option"
  ex_hits :: nat
  ex_new :: nat
  ex_in_tx :: bool
  ex_cancelled :: bool
  ex_direct :: "string list option"

type_synonym ('x, 'a) em = "('x exec, go_error, 'a) go"

definition on_world :: "('x, 'a) wm \<Rightarrow> ('x, 'a) em" where
  "on_world m s = (case m (ex_world s) of (r, w) \<Rightarrow> (r, s\<lparr>ex_world := w\<rparr>))"

definition ctx_stor :: "'a dbm \<Rightarrow> ('x, 'a) em" where
  "ctx_stor m s = on_world (stor (ex_in_tx s) m) s"

definition ctx_hook :: "(string \<Rightarrow> string \<Rightarrow> hook_call) \<Rightarrow> ('x, unit) em" where
  "ctx_hook h s = on_world (hook (h (ex_instance s) (ex_workflow s))) s"

definition generate_activity_id :: "string \<Rightarrow> ('x, string) em" where
  "generate_activity_id name s =
     (let n = Suc (ex_counts s name)
      in (Inr (name @ CHR '':'' # show_nat n), s\<lparr>ex_counts := (ex_counts s)(name := n)\<rparr>))"

text \<open>A cached value or a cached error; either counts as a hit.\<close>

definition get_cached_result :: "string \<Rightarrow> ('x, (go_error + gov) option) em" where
  "get_cached_result act s =
     (case ex_results s act of
        Some (raw, v) \<Rightarrow> (Inr (Some (Inr v)), s\<lparr>ex_hits := Suc (ex_hits s)\<rparr>)
      | None \<Rightarrow>
          (case ex_errors s act of
             Some e \<Rightarrow> (Inr (Some (Inl e)), s\<lparr>ex_hits := Suc (ex_hits s)\<rparr>)
           | None \<Rightarrow> (Inr None, s)))"

definition get_cached_result_raw :: "string \<Rightarrow> ('x, bytes option) em" where
  "get_cached_result_raw act = get_go (\<lambda>s. map_option fst (ex_results s act))"

definition set_cached_result :: "string \<Rightarrow> go_error + gov \<Rightarrow> ('x, unit) em" where
  "set_cached_result act r s =
     (Inr (),
      case r of
        Inl e \<Rightarrow> s\<lparr>ex_errors := (ex_errors s)(act \<mapsto> e)\<rparr>
      | Inr v \<Rightarrow> s\<lparr>ex_results := (ex_results s)(act \<mapsto> (BNil, v))\<rparr>)"

definition json_error :: go_error where
  "json_error = ErrText ''json: unsupported type''"

definition record_activity_result :: "bool \<Rightarrow> string \<Rightarrow> string \<Rightarrow> go_error + gov \<Rightarrow> ('x, unit) wm" where
  "record_activity_result in_tx i act r =
     (case r of
        Inl e \<Rightarrow> stor in_tx (append_history i act HistoryActivityFailed (BJson (JStr (err_text e))) ''json'')
      | Inr v \<Rightarrow>
          (case marshal v of
             None \<Rightarrow> throw (wrapf ''failed to serialize result'' json_error)
           | Some j \<Rightarrow> stor in_tx (append_history i act HistoryActivityCompleted (BJson j) ''json'')))"

definition exec_record_with_context :: "string \<Rightarrow> go_error + gov \<Rightarrow> ('x, unit) em" where
  "exec_record_with_context act r s =
     on_world (record_activity_result (ex_in_tx s) (ex_instance s) act r) (s\<lparr>ex_new := Suc (ex_new s)\<rparr>)"

definition ctx_record_activity_result :: "string \<Rightarrow> go_error + gov \<Rightarrow> ('x, unit) em" where
  "ctx_record_activity_result act r =
     try_go (exec_record_with_context act r) (\<lambda>_. set_cached_result act r)"

definition record_direct_subscription :: "string \<Rightarrow> ('x, unit) em" where
  "record_direct_subscription ch s =
     (Inr (), s\<lparr>ex_direct := Some (ch # (case ex_direct s of None \<Rightarrow> [] | Some cs \<Rightarrow> cs))\<rparr>)"

definition is_direct_subscription :: "string \<Rightarrow> 'x exec \<Rightarrow> bool" where
  "is_direct_subscription ch s = (case ex_direct s of None \<Rightarrow> False | Some cs \<Rightarrow> ch \<in> set cs)"

definition ctx_cancel :: "('x, unit) em" where
  "ctx_cancel s = (Inr (), s\<lparr>ex_cancelled := True\<rparr>)"

section \<open>The engine\<close>

record 'x engine =
  en_worker :: string
  en_comp :: "(string \<Rightarrow> 'x executor) option"

definition new_engine :: "string \<Rightarrow> 'x engine" where
  "new_engine worker = \<lparr>en_worker = worker, en_comp = None\<rparr>"

definition set_compensation_runner :: "(string \<Rightarrow> 'x executor) \<Rightarrow> 'x engine \<Rightarrow> 'x engine" where
  "set_compensation_runner runner en = en\<lparr>en_comp := Some runner\<rparr>"

type_synonym 'x runner = "('x, gov) em"

subsection \<open>Loading the history\<close>

type_synonym caches = "(string \<Rightarrow> (bytes \<times> gov) option) \<times> (string \<Rightarrow> go_error option)"

definition cache_event :: "caches \<Rightarrow> history_event \<Rightarrow> caches" where
  "cache_event c h =
     (case c of (results, errors) \<Rightarrow>
       if he_type h = HistoryActivityCompleted \<or> he_type h = HistoryChannelMessageReceived then
         (if he_data_type h = ''json'' \<and> bytes_nonempty (he_data h)
          then (case unmarshal_any (he_data h) of
                  Some v \<Rightarrow> (results(he_activity h \<mapsto> (he_data h, v)), errors)
                | None \<Rightarrow> (results, errors))
          else (results, errors))
       else if he_type h = HistoryActivityFailed \<or> he_type h = HistoryMessageTimeout then
         (results, errors(he_activity h \<mapsto> ErrText (unmarshal_string (he_data h))))
       else (results, errors))"

definition build_caches :: "history_event list \<Rightarrow> caches" where
  "build_caches events = foldl cache_event (Map.empty, Map.empty) events"

definition load_history :: "string \<Rightarrow> history_event list dbm" where
  "load_history i d =
     (case iter_collect (get_history_paginated i) he_id (length (history d) + 1)
             (new_history_iterator (Some 1000)) d of
        (Some r, d') \<Rightarrow> (r, d')
      | (None, d') \<Rightarrow> (Inl (ErrText ''history loop does not end''), d'))"

definition new_exec :: "'x world \<Rightarrow> string \<Rightarrow> history_event list \<Rightarrow> 'x exec" where
  "new_exec w i events =
     \<lparr>ex_world = w, ex_instance = i, ex_worker = '''', ex_workflow = '''',
      ex_replaying = (length events > 0), ex_counts = (\<lambda>_. 0),
      ex_results = fst (build_caches events), ex_errors = snd (build_caches events),
      ex_hits = 0, ex_new = 0, ex_in_tx = False, ex_cancelled = False, ex_direct = None\<rparr>"

subsection \<open>Suspension\<close>

definition handle_timer_suspend :: "string \<Rightarrow> string \<Rightarrow> string \<Rightarrow> time \<Rightarrow> ('x, unit) wm" where
  "handle_timer_suspend i timer act expires =
     try_go (map_err (wrapf ''failed to register timer subscription'')
              (stor False (register_timer_subscription i timer expires act))) (\<lambda>_.
     map_err (wrapf ''failed to update status'')
       (stor False (update_instance_status i StatusWaitingForTimer '''')))"

definition handle_channel_suspend ::
    "'x engine \<Rightarrow> string \<Rightarrow> string \<Rightarrow> string \<Rightarrow> time option \<Rightarrow> ('x, unit) wm" where
  "handle_channel_suspend en i channel act timeout =
     try_go (get_go (\<lambda>w. map_option (\<lambda>d. clock (w_db w) + d) timeout)) (\<lambda>timeout_at.
     map_err (wrapf ''failed to register channel receive'')
       (stor False (register_receive_and_release_lock i channel (en_worker en) act timeout_at)))"

definition handle_recur_suspend :: "string \<Rightarrow> gov \<Rightarrow> ('x, unit) wm" where
  "handle_recur_suspend i new_input =
     try_go (map_err (wrapf ''failed to archive history'') (stor False (archive_history i))) (\<lambda>_.
     try_go (map_err (wrapf ''failed to cleanup subscriptions'')
              (stor False (cleanup_instance_subscriptions i))) (\<lambda>_.
     try_go (map_err (wrapf ''failed to leave groups'') (stor False (leave_all_groups i))) (\<lambda>_.
     case marshal new_input of
       None \<Rightarrow> throw (wrapf ''failed to serialize recur input'' json_error)
     | Some j \<Rightarrow>
         try_go (map_err (wrapf ''failed to record recur event'')
           (stor False (append_history i ''recur'' HistoryActivityCompleted (BJson j) ''json''))) (\<lambda>_.
         map_err (wrapf ''failed to update status'')
           (stor False (update_instance_status i StatusRecurred ''''))))))"

definition handle_suspend_signal :: "'x engine \<Rightarrow> string \<Rightarrow> suspend_signal \<Rightarrow> ('x, unit) wm" where
  "handle_suspend_signal en i sig =
     (case sig of
        SuspendTimer inst timer act expires \<Rightarrow> handle_timer_suspend i timer act expires
      | SuspendChannelMessage inst channel act timeout \<Rightarrow> handle_channel_suspend en i channel act timeout
      | SuspendRecur inst new_input \<Rightarrow> handle_recur_suspend i new_input)"

subsection \<open>Running\<close>

definition failure_event :: "go_error \<Rightarrow> json" where
  "failure_event e = JObj [(''error'', JStr (err_text e))]"

definition fail_workflow :: "'x engine \<Rightarrow> string \<Rightarrow> go_error \<Rightarrow> ('x, unit) wm" where
  "fail_workflow en i e =
     then_go (engine_execute_compensations (en_comp en) i) (\<lambda>r.
     try_go (case r of
               Inl ce \<Rightarrow> hook (OnWorkflowFailed i
                 (Wrapped ''workflow failed: '' e (''; compensation also failed: '' @ err_text ce)))
             | Inr u \<Rightarrow> ret ()) (\<lambda>_.
     try_go (ignore_err (stor False
       (append_history i '''' HistoryWorkflowFailed (BJson (failure_event e)) ''json''))) (\<lambda>_.
     try_go (ignore_err (stor False (update_instance_status i StatusFailed (err_text e)))) (\<lambda>_.
     try_go (hook (OnWorkflowFailed i e)) (\<lambda>_.
     throw e)))))"

definition complete_workflow :: "string \<Rightarrow> bool \<Rightarrow> nat \<Rightarrow> nat \<Rightarrow> gov \<Rightarrow> ('x, unit) wm" where
  "complete_workflow i replaying hits new result =
     (case marshal result of
        None \<Rightarrow>
          try_go (ignore_err (stor False
            (update_instance_status i StatusFailed ''failed to serialize result''))) (\<lambda>_.
          throw (wrapf ''failed to serialize result'' json_error))
      | Some j \<Rightarrow>
          try_go (map_err (wrapf ''failed to set result'')
            (stor False (update_instance_output i (BJson j)))) (\<lambda>_.
          try_go (map_err (wrapf ''failed to update status'')
            (stor False (update_instance_status i StatusCompleted ''''))) (\<lambda>_.
          try_go (if replaying then hook (OnReplayComplete i hits new) else ret ()) (\<lambda>_.
          hook (OnWorkflowComplete i result)))))"

definition finish_workflow :: "'x engine \<Rightarrow> string \<Rightarrow> (go_error + gov) \<times> 'x exec \<Rightarrow>
    (go_error + unit) \<times> 'x world" where
  "finish_workflow en i out =
     (case out of (r, s) \<Rightarrow>
        (case r of
           Inl e \<Rightarrow>
             (case as_suspend_signal e of
                Some sig \<Rightarrow> handle_suspend_signal en i sig
              | None \<Rightarrow> fail_workflow en i e)
         | Inr v \<Rightarrow> complete_workflow i (ex_replaying s) (ex_hits s) (ex_new s) v) (ex_world s))"

definition execute_workflow :: "'x engine \<Rightarrow> string \<Rightarrow> 'x runner \<Rightarrow> ('x, unit) wm" where
  "execute_workflow en i runner =
     try_go (map_err (wrapf ''failed to load history'') (stor False (load_history i))) (\<lambda>events.
     try_go (if length events > 0 then hook (OnReplayStart i (length events)) else ret ()) (\<lambda>_.
     try_go (hook (OnWorkflowStart i)) (\<lambda>_.
     \<lambda>w. finish_workflow en i (runner (new_exec w i events)))))"

definition with_instance_lock :: "'x engine \<Rightarrow> string \<Rightarrow> ('x, unit) wm \<Rightarrow> ('x, unit) wm" where
  "with_instance_lock en i body =
     try_go (map_err (wrapf ''failed to acquire lock'')
              (stor False (try_acquire_lock i (en_worker en) 300))) (\<lambda>acquired.
     if \<not> acquired then throw (ErrText (''failed to acquire lock for instance '' @ i))
     else defer_go (stor False (release_lock i (en_worker en)))
       (try_go (map_err (wrapf ''failed to update status'')
                 (stor False (update_instance_status i StatusRunning ''''))) (\<lambda>_. body)))"

definition engine_start_workflow :: "'x engine \<Rightarrow> string \<Rightarrow> 'x runner \<Rightarrow> ('x, unit) wm" where
  "engine_start_workflow en i runner = with_instance_lock en i (execute_workflow en i runner)"

definition engine_resume_workflow :: "'x engine \<Rightarrow> string \<Rightarrow> 'x runner \<Rightarrow> ('x, unit) wm" where
  "engine_resume_workflow en i runner = with_instance_lock en i (execute_workflow en i runner)"

end
