(* ===== verification/Channels_Api.thy ===== *)
theory Channels_Api
  imports Replay_Engine
begin

text \<open>
  channels.go: subscribing, receiving, publishing, direct messages, groups and Recur, as a
  workflow calls them.

  The message type parameter is a \<open>tdesc\<close>: its name, its zero value and what
  \<open>json.Unmarshal\<close> makes of a document (the document of the decoded value). A time inside a
  document is the decimal text of its seconds. \<open>receive_loop\<close> carries fuel, because Receive
  calls itself when a claim is lost; \<open>None\<close> is a call that has not returned.
\<close>

record tdesc =
  td_name :: string
  td_zero :: json
  td_decode :: "json \<Rightarrow> json option"

record received_message =
  rm_id :: int
  rm_channel :: string
  rm_data :: json
  rm_metadata :: "json option"
  rm_sender :: string
  rm_created :: int

text \<open>The zero \<open>time.Time\<close>, 1 January of the year 1.\<close>

definition zero_time :: int where
  "zero_time = - 62135596800"

definition received_json :: "received_message \<Rightarrow> json" where
  "received_json m =
     JObj ([(''id'', JNum (rm_id m)), (''channel_name'', JStr (rm_channel m)), (''data'', rm_data m)]
       @ (case rm_metadata m of
            Some (JObj (kv # kvs)) \<Rightarrow> [(''metadata'', JObj (kv # kvs))] | _ \<Rightarrow> [])
       @ (if rm_sender m = '''' then [] else [(''sender_instance_id'', JStr (rm_sender m))])
       @ [(''created_at'', time_json (rm_created m))])"

definition received_type :: "tdesc \<Rightarrow> string" where
  "received_type T = ''*ReceivedMessage['' @ td_name T @ '']''"

section \<open>Decoding a recorded message\<close>

definition read_int :: "string \<Rightarrow> int option" where
  "read_int s =
     (case s of
        [] \<Rightarrow> None
      | c # cs \<Rightarrow>
          if c = CHR ''-'' then (if cs \<noteq> [] \<and> list_all is_digit cs then Some (- int (read_nat cs)) else None)
          else if list_all is_digit (c # cs) then Some (int (read_nat (c # cs))) else None)"

definition field_int :: "string \<Rightarrow> json \<Rightarrow> int option" where
  "field_int k j = (case json_get k j of None \<Rightarrow> Some 0 | Some JNull \<Rightarrow> Some 0 | Some (JNum n) \<Rightarrow> Some n | _ \<Rightarrow> None)"

definition field_string :: "string \<Rightarrow> json \<Rightarrow> string option" where
  "field_string k j =
     (case json_get k j of None \<Rightarrow> Some '''' | Some JNull \<Rightarrow> Some '''' | Some (JStr s) \<Rightarrow> Some s | _ \<Rightarrow> None)"

definition field_map :: "string \<Rightarrow> json \<Rightarrow> json option option" where
  "field_map k j =
     (case json_get k j of
        None \<Rightarrow> Some None | Some JNull \<Rightarrow> Some None
      | Some (JObj kvs) \<Rightarrow> Some (Some (f64_json (JObj kvs))) | _ \<Rightarrow> None)"

definition field_time :: "string \<Rightarrow> json \<Rightarrow> int option option" where
  "field_time k j =
     (case json_get k j of
        None \<Rightarrow> Some None | Some JNull \<Rightarrow> Some None
      | Some (JStr s) \<Rightarrow> map_option Some (read_int s) | _ \<Rightarrow> None)"

definition field_data :: "tdesc \<Rightarrow> json \<Rightarrow> json option" where
  "field_data T j = (case json_get ''data'' j of None \<Rightarrow> Some (td_zero T) | Some d \<Rightarrow> td_decode T d)"

text \<open>The Go format; a message without a channel name is not taken for one.\<close>

definition decode_go_format :: "tdesc \<Rightarrow> json \<Rightarrow> received_message option" where
  "decode_go_format T j =
     (if \<not> json_is_object j then None
      else case (field_int ''id'' j, field_string ''channel_name'' j, field_data T j,
                 field_map ''metadata'' j, field_string ''sender_instance_id'' j, field_time ''created_at'' j) of
        (Some n, Some ch, Some d, Some md, Some snd_id, Some t) \<Rightarrow>
          if ch = '''' then None
          else Some \<lparr>rm_id = n, rm_channel = ch, rm_data = d, rm_metadata = md, rm_sender = snd_id,
                     rm_created = (case t of None \<Rightarrow> zero_time | Some t \<Rightarrow> t)\<rparr>
      | _ \<Rightarrow> None)"

text \<open>
  The format other language implementations write. \<open>None\<close>: the document does not decode;
  \<open>Some (Inl e)\<close>: its data does not fit the message type.
\<close>

definition decode_cross_format :: "tdesc \<Rightarrow> json \<Rightarrow> (go_error + received_message) option" where
  "decode_cross_format T j =
     (if j \<noteq> JNull \<and> \<not> json_is_object j then None
      else case (field_string ''channel'' j, field_string ''channel_name'' j, field_map ''metadata'' j,
                 field_string ''published_at'' j, field_time ''created_at'' j) of
        (Some ch, Some chn, Some md, Some pub, Some t) \<Rightarrow>
          (case field_data T j of
             None \<Rightarrow> Some (Inl (wrapf ''failed to deserialize cached message data'' (ErrText ''json'')))
           | Some d \<Rightarrow>
               Some (Inr \<lparr>rm_id = (case json_get ''id'' j of Some (JNum n) \<Rightarrow> f64_of_int n | _ \<Rightarrow> 0),
                          rm_channel = (if chn = '''' then ch else chn), rm_data = d, rm_metadata = md,
                          rm_sender = '''',
                          rm_created = (case t of
                             Some t \<Rightarrow> t
                           | None \<Rightarrow> (case read_int pub of Some t \<Rightarrow> t | None \<Rightarrow> zero_time))\<rparr>))
      | _ \<Rightarrow> None)"

definition decode_raw :: "tdesc \<Rightarrow> bytes \<Rightarrow> (go_error + received_message) option" where
  "decode_raw T raw =
     (case raw of
        BJson j \<Rightarrow>
          (case decode_go_format T j of
             Some m \<Rightarrow> Some (Inr m)
           | None \<Rightarrow> decode_cross_format T j)
      | _ \<Rightarrow> None)"

section \<open>Subscribing\<close>

definition direct_channel :: "string \<Rightarrow> string \<Rightarrow> string" where
  "direct_channel channel i = channel @ CHR '':'' # i"

definition subscribe :: "string \<Rightarrow> channel_mode \<Rightarrow> ('x, unit) em" where
  "subscribe channel mode =
     try_go (get_go ex_instance) (\<lambda>i.
     let actual_channel = (if mode = ChannelModeDirect then direct_channel channel i else channel);
         actual_mode = (if mode = ChannelModeDirect then ChannelModeBroadcast else mode)
     in
     try_go (if mode = ChannelModeDirect then record_direct_subscription channel else ret ()) (\<lambda>_.
     try_go (generate_activity_id (''subscribe_'' @ channel)) (\<lambda>act.
     try_go (get_cached_result act) (\<lambda>cached.
     if cached \<noteq> None
     then (if mode = ChannelModeDirect then record_direct_subscription channel else ret ())
     else
     try_go (map_err (wrapf ''failed to check channel mode'')
              (ctx_stor (get_channel_mode actual_channel))) (\<lambda>existing.
     if existing \<noteq> None \<and> existing \<noteq> Some actual_mode
     then throw (ChannelModeConflictError channel (mode_string (the existing)) (mode_string mode))
     else
     try_go (map_err (wrapf ''failed to subscribe to channel'')
              (ctx_stor (subscribe_to_channel i actual_channel actual_mode))) (\<lambda>_.
     set_cached_result act (Inr (VJson (JBool True)))))))))"

definition unsubscribe :: "string \<Rightarrow> ('x, unit) em" where
  "unsubscribe channel =
     try_go (get_go ex_instance) (\<lambda>i.
     try_go (generate_activity_id (''unsubscribe_'' @ channel)) (\<lambda>act.
     try_go (get_cached_result act) (\<lambda>cached.
     if cached \<noteq> None then ret ()
     else
     try_go (map_err (wrapf ''failed to unsubscribe from channel'')
              (ctx_stor (unsubscribe_from_channel i channel))) (\<lambda>_.
     set_cached_result act (Inr (VJson (JBool True)))))))"

section \<open>Receiving\<close>

text \<open>What the caches say of a receive: \<open>None\<close> when it is new.\<close>

definition receive_cached :: "tdesc \<Rightarrow> string \<Rightarrow> string \<Rightarrow> ('x, (go_error + received_message) option) em" where
  "receive_cached T channel act =
     try_go (get_cached_result_raw act) (\<lambda>raw.
     case (case raw of None \<Rightarrow> None | Some b \<Rightarrow> decode_raw T b) of
       Some r \<Rightarrow> ret (Some r)
     | None \<Rightarrow>
         try_go (get_go ex_instance) (\<lambda>i.
         try_go (get_cached_result act) (\<lambda>cached.
         case cached of
           None \<Rightarrow> ret None
         | Some (Inl e) \<Rightarrow>
             ret (Some (Inl (if contains (err_text e) ''timeout waiting for channel message''
                             then ChannelMessageTimeoutError i channel else e)))
         | Some (Inr v) \<Rightarrow>
             ret (Some (if assert_type (TNamed (received_type T)) v
                        then (case v of
                                VTyped t j \<Rightarrow> (case decode_go_format T j of
                                  Some m \<Rightarrow> Inr m | None \<Rightarrow> Inl (ErrText ''no message''))
                              | _ \<Rightarrow> Inl (ErrText ''no message''))
                        else Inl (ErrText (''cached result type mismatch for channel receive '' @ act)))))))"

definition message_metadata :: "channel_message \<Rightarrow> go_error + json option" where
  "message_metadata m =
     (if bytes_nonempty (cm_metadata m)
      then (case unmarshal_map (cm_metadata m) of
              Some j \<Rightarrow> Inr (Some j)
            | None \<Rightarrow> Inl (wrapf ''failed to deserialize metadata'' (ErrText ''json'')))
      else Inr None)"

text \<open>A pending message is taken: the cursor moves, the message is recorded as the result.\<close>

definition take_message ::
    "tdesc \<Rightarrow> string \<Rightarrow> string \<Rightarrow> string \<Rightarrow> channel_subscription \<Rightarrow> channel_message \<Rightarrow>
     ('x, received_message) em" where
  "take_message T channel actual_channel act sub m =
     try_go (get_go ex_instance) (\<lambda>i.
     try_go (if cs_mode sub = ChannelModeBroadcast
             then map_err (wrapf ''failed to update cursor'')
                    (ctx_stor (update_delivery_cursor i actual_channel (cm_id m)))
             else ret ()) (\<lambda>_.
     case (case cm_data m of BJson j \<Rightarrow> td_decode T j | _ \<Rightarrow> None) of
       None \<Rightarrow> throw (wrapf ''failed to deserialize message data'' (ErrText ''json''))
     | Some d \<Rightarrow>
         (case message_metadata m of
            Inl e \<Rightarrow> throw e
          | Inr md \<Rightarrow>
              let result = \<lparr>rm_id = cm_id m, rm_channel = channel, rm_data = d, rm_metadata = md,
                            rm_sender = '''', rm_created = cm_published m\<rparr>;
                  v = VTyped (received_type T) (received_json result)
              in
              try_go (map_err (wrapf ''failed to record activity result'')
                       (ctx_record_activity_result act (Inr v))) (\<lambda>_.
              try_go (set_cached_result act (Inr v)) (\<lambda>_.
              try_go (ctx_hook (\<lambda>i wf. OnEventWaitComplete i channel)) (\<lambda>_.
              ret result))))))"

fun receive_loop ::
    "nat \<Rightarrow> tdesc \<Rightarrow> string \<Rightarrow> time option \<Rightarrow> 'x exec \<Rightarrow> (go_error + received_message) option \<times> 'x exec" where
  "receive_loop 0 T channel timeout s = (None, s)"
| "receive_loop (Suc fuel) T channel timeout s =
     (let i = ex_instance s;
          actual_channel = (if is_direct_subscription channel s then direct_channel channel i else channel)
      in
      case generate_activity_id (''receive_'' @ channel) s of
        (Inl e, s) \<Rightarrow> (Some (Inl e), s)
      | (Inr act, s) \<Rightarrow>
      (case receive_cached T channel act s of
        (Inl e, s) \<Rightarrow> (Some (Inl e), s)
      | (Inr (Some r), s) \<Rightarrow> (Some r, s)
      | (Inr None, s) \<Rightarrow>
      (case ctx_stor (get_channel_subscription i actual_channel) s of
        (Inl e, s) \<Rightarrow> (Some (Inl (Sentinel ErrChannelNotSubscribed)), s)
      | (Inr None, s) \<Rightarrow> (Some (Inl (Sentinel ErrChannelNotSubscribed)), s)
      | (Inr (Some sub), s) \<Rightarrow>
      (case ctx_stor (get_pending_for_instance i actual_channel) s of
        (Inl e, s) \<Rightarrow> (Some (Inl (wrapf ''failed to check pending messages'' e)), s)
      | (Inr [], s) \<Rightarrow>
          (Some (Inl (Suspend (new_channel_message_suspend i actual_channel act timeout))), s)
      | (Inr (m # ms), s) \<Rightarrow>
          if cs_mode sub = ChannelModeCompeting then
            (case ctx_stor (claim_channel_message (cm_id m) i) s of
               (Inl e, s) \<Rightarrow> (Some (Inl (wrapf ''failed to claim message'' e)), s)
             | (Inr claimed, s) \<Rightarrow>
                 if \<not> claimed then receive_loop fuel T channel timeout s
                 else (case take_message T channel actual_channel act sub m s of (r, s) \<Rightarrow> (Some r, s)))
          else (case take_message T channel actual_channel act sub m s of (r, s) \<Rightarrow> (Some r, s))))))"

definition no_return :: go_error where
  "no_return = ErrText ''the call does not return''"

definition receive :: "nat \<Rightarrow> tdesc \<Rightarrow> string \<Rightarrow> time option \<Rightarrow> ('x, received_message) em" where
  "receive fuel T channel timeout s =
     (case receive_loop fuel T channel timeout s of
        (Some r, s') \<Rightarrow> (r, s')
      | (None, s') \<Rightarrow> (Inl no_return, s'))"

section \<open>Publishing\<close>

fun wake_loop ::
    "bool \<Rightarrow> string \<Rightarrow> int \<Rightarrow> string \<Rightarrow> channel_message \<Rightarrow> channel_subscription list \<Rightarrow> ('x, unit) wm" where
  "wake_loop in_tx worker timeout_sec channel m [] = ret ()"
| "wake_loop in_tx worker timeout_sec channel m (sub # subs) =
     then_go (stor in_tx (deliver_channel_message_with_lock (cs_instance sub) channel m worker timeout_sec)) (\<lambda>r.
     case r of
       Inl e \<Rightarrow> wake_loop in_tx worker timeout_sec channel m subs
     | Inr res \<Rightarrow>
         if res \<noteq> None \<and> cs_mode sub = ChannelModeCompeting then ret ()
         else wake_loop in_tx worker timeout_sec channel m subs)"

definition wake_message :: "string \<Rightarrow> int \<Rightarrow> bytes \<Rightarrow> bytes \<Rightarrow> channel_message" where
  "wake_message channel msg_id data metadata =
     \<lparr>cm_id = msg_id, cm_channel = channel, cm_message_id = '''', cm_data = data,
      cm_metadata = metadata, cm_published = zero_time\<rparr>"

definition wake_waiting_subscribers ::
    "bool \<Rightarrow> string \<Rightarrow> string \<Rightarrow> int \<Rightarrow> bytes \<Rightarrow> bytes \<Rightarrow> ('x, unit) wm" where
  "wake_waiting_subscribers in_tx worker channel msg_id data metadata =
     then_go (stor in_tx (get_subscribers_waiting channel)) (\<lambda>r.
     case r of
       Inl e \<Rightarrow> ret ()
     | Inr subs \<Rightarrow> wake_loop in_tx worker 300 channel (wake_message channel msg_id data metadata) subs)"

definition run_wake_call :: "wake_call \<Rightarrow> ('x, unit) wm" where
  "run_wake_call cb =
     wake_waiting_subscribers (wk_in_tx cb) (wk_worker cb) (wk_channel cb) (wk_message cb)
       (wk_data cb) (wk_metadata cb)"

text \<open>In a transaction the wake-up is left to a callback, with the transaction's context.\<close>

definition wake_after_publish :: "string \<Rightarrow> int \<Rightarrow> bytes \<Rightarrow> bytes \<Rightarrow> ('x, unit) em" where
  "wake_after_publish channel msg_id data metadata s =
     (let cb = \<lparr>wk_in_tx = ex_in_tx s, wk_worker = ex_worker s, wk_channel = channel,
                wk_message = msg_id, wk_data = data, wk_metadata = metadata\<rparr>
      in if ex_in_tx s
         then on_world (ignore_err (register_post_commit_callback (ex_in_tx s) cb)) s
         else on_world (run_wake_call cb) s)"

definition publish_on ::
    "string \<Rightarrow> string \<Rightarrow> string \<Rightarrow> gov \<Rightarrow> gov option \<Rightarrow> ('x, unit) em" where
  "publish_on id_name target_channel failure data metadata =
     try_go (generate_activity_id id_name) (\<lambda>act.
     try_go (get_cached_result act) (\<lambda>cached.
     if cached \<noteq> None then ret ()
     else case marshal data of
       None \<Rightarrow> throw (wrapf ''failed to serialize message data'' json_error)
     | Some dj \<Rightarrow>
         (case (case metadata of None \<Rightarrow> Inr BNil
                | Some md \<Rightarrow> (case marshal md of None \<Rightarrow> Inl () | Some j \<Rightarrow> Inr (BJson j))) of
            Inl u \<Rightarrow> throw (wrapf ''failed to serialize message metadata'' json_error)
          | Inr mb \<Rightarrow>
              try_go (map_err (wrapf failure)
                       (ctx_stor (publish_to_channel target_channel (BJson dj) mb))) (\<lambda>msg_id.
              try_go (wake_after_publish target_channel msg_id (BJson dj) mb) (\<lambda>_.
              set_cached_result act (Inr (VJson (JBool True))))))))"

definition publish :: "string \<Rightarrow> gov \<Rightarrow> gov option \<Rightarrow> ('x, unit) em" where
  "publish channel data metadata =
     publish_on (''publish_'' @ channel) channel ''failed to publish to channel'' data metadata"

definition send_to :: "string \<Rightarrow> string \<Rightarrow> gov \<Rightarrow> gov option \<Rightarrow> ('x, unit) em" where
  "send_to target channel data metadata =
     publish_on (''send_to_'' @ target @ ''_'' @ channel) (direct_channel channel target)
       ''failed to send to instance'' data metadata"

section \<open>Groups and recursion\<close>

definition once_per_run :: "string \<Rightarrow> (string \<Rightarrow> ('x, unit) em) \<Rightarrow> ('x, unit) em" where
  "once_per_run id_name m =
     try_go (generate_activity_id id_name) (\<lambda>act.
     try_go (get_cached_result act) (\<lambda>cached.
     if cached \<noteq> None then ret ()
     else
     try_go (get_go ex_instance) (\<lambda>i.
     try_go (m i) (\<lambda>_.
     set_cached_result act (Inr (VJson (JBool True)))))))"

definition ctx_join_group :: "string \<Rightarrow> ('x, unit) em" where
  "ctx_join_group g =
     once_per_run (''join_group_'' @ g)
       (\<lambda>i. map_err (wrapf ''failed to join group'') (ctx_stor (join_group i g)))"

definition ctx_leave_group :: "string \<Rightarrow> ('x, unit) em" where
  "ctx_leave_group g =
     once_per_run (''leave_group_'' @ g)
       (\<lambda>i. map_err (wrapf ''failed to leave group'') (ctx_stor (leave_group i g)))"

definition recur :: "gov \<Rightarrow> ('x, gov) em" where
  "recur input = try_go (get_go ex_instance) (\<lambda>i. throw (Suspend (new_recur_suspend i input)))"

end
