(* ===== verification/Events_Api.thy ===== *)
theory Events_Api
  imports Channels_Api
begin

text \<open>
  events.go and outbox/transactional.go: waiting for an event (a broadcast channel named
  after the event type), timers, and sending an event through the outbox.
\<close>

section \<open>Waiting for an event\<close>

record received_event =
  re_id :: string
  re_type :: string
  re_source :: string
  re_specversion :: string
  re_time :: "int option"
  re_extensions :: "json option"
  re_data :: json

definition any_map :: tdesc where
  "any_map = \<lparr>td_name = ''map[string]interface {}'', td_zero = JNull,
     td_decode = (\<lambda>j. case j of JNull \<Rightarrow> Some JNull | JObj kvs \<Rightarrow> Some (f64_json (JObj kvs)) | _ \<Rightarrow> None)\<rparr>"

definition data_string :: "string \<Rightarrow> json \<Rightarrow> string" where
  "data_string k d = (case json_get k d of Some (JStr s) \<Rightarrow> s | _ \<Rightarrow> '''')"

definition convert_to_received_event :: "tdesc \<Rightarrow> received_message \<Rightarrow> go_error + received_event" where
  "convert_to_received_event T msg =
     (let d = rm_data msg;
          ev = (\<lambda>x. \<lparr>re_id = data_string ''id'' d, re_type = data_string ''type'' d,
                 re_source = data_string ''source'' d, re_specversion = data_string ''specversion'' d,
                 re_time = (case json_get ''time'' d of Some (JStr s) \<Rightarrow> read_int s | _ \<Rightarrow> None),
                 re_extensions = (case json_get ''extensions'' d of
                                    Some (JObj kvs) \<Rightarrow> Some (JObj kvs) | _ \<Rightarrow> None),
                 re_data = x\<rparr>)
      in case json_get ''data'' d of
           None \<Rightarrow> Inr (ev (td_zero T))
         | Some x \<Rightarrow>
             (case td_decode T x of
                None \<Rightarrow> Inl (wrapf ''failed to deserialize event data'' (ErrText ''json''))
              | Some y \<Rightarrow> Inr (ev y)))"

definition wait_event :: "nat \<Rightarrow> tdesc \<Rightarrow> string \<Rightarrow> time option \<Rightarrow> ('x, received_event) em" where
  "wait_event fuel T event_type timeout =
     try_go (ctx_hook (\<lambda>i wf. OnEventWaitStart i event_type timeout)) (\<lambda>_.
     try_go (map_err (wrapf ''failed to subscribe to event channel'')
              (subscribe event_type ChannelModeBroadcast)) (\<lambda>_.
     try_go (receive fuel any_map event_type timeout) (\<lambda>msg.
     case convert_to_received_event T msg of Inl e \<Rightarrow> throw e | Inr ev \<Rightarrow> ret ev)))"

section \<open>Timers\<close>

definition exec_now :: "'x exec \<Rightarrow> time" where
  "exec_now s = clock (w_db (ex_world s))"

text \<open>An empty identifier is replaced by a generated one.\<close>

definition sleep :: "time \<Rightarrow> string \<Rightarrow> ('x, unit) em" where
  "sleep duration timer_opt =
     try_go (if timer_opt = '''' then generate_activity_id ''sleep'' else ret timer_opt) (\<lambda>timer.
     try_go (get_cached_result timer) (\<lambda>cached.
     if cached \<noteq> None then ret ()
     else
     try_go (get_go exec_now) (\<lambda>now.
     let expires = now + duration in
     try_go (ctx_hook (\<lambda>i wf. OnTimerStart i timer expires)) (\<lambda>_.
     try_go (get_go ex_instance) (\<lambda>i.
     throw (Suspend (new_timer_suspend i timer timer expires)))))))"

definition sleep_until :: "time \<Rightarrow> string \<Rightarrow> ('x, unit) em" where
  "sleep_until t timer_opt =
     try_go (get_go exec_now) (\<lambda>now.
     if t - now \<le> 0 then ret () else sleep (t - now) timer_opt)"

section \<open>Sending an event\<close>

text \<open>
  The adapter that carries the context to the storage answers nil to every \<open>Value\<close>, so the
  method sees a context without transaction. \<open>uuid\<close> is the identifier the uuid package
  makes up.
\<close>

definition send_event ::
    "string \<Rightarrow> string \<Rightarrow> string \<Rightarrow> string \<Rightarrow> string \<Rightarrow> gov \<Rightarrow> ('x, unit) em" where
  "send_event uuid event_id content_type event_type source data =
     (case marshal data of
        None \<Rightarrow> throw (wrapf ''failed to serialize event data'' json_error)
      | Some j \<Rightarrow>
          map_err (wrapf ''failed to add event to outbox'')
            (on_world (stor False (add_outbox_event
              \<lparr>ob_id = (if event_id = '''' then uuid else event_id), ob_type = event_type,
               ob_source = source, ob_data = BJson j, ob_data_type = '''',
               ob_content_type = content_type, ob_status = OutboxPending, ob_retry = 0,
               ob_published = None, ob_created = 0\<rparr>))))"

end
