(* ===== verification/Retry_Policy.thy ===== *)
theory Retry_Policy
  imports Go_Errors Complex_Main
begin

text \<open>
  retry/policy.go. Durations are integers of nanoseconds. The float64 computations of the
  delay are exact rational arithmetic here, truncated to a duration as the Go conversion
  does; \<open>u\<close> is the number that \<open>rand.Float64\<close> returns, in \<open>[0, 1)\<close>. \<open>errors.Is\<close> compares
  the errors of the chain by their value.
\<close>

record policy =
  rp_max_attempts :: int
  rp_initial :: time
  rp_max_interval :: time
  rp_multiplier :: rat
  rp_random :: rat
  rp_non_retryable :: "go_error list"

definition ms :: "int \<Rightarrow> time" where
  "ms n = n * 1000000"

definition default_policy :: policy where
  "default_policy = \<lparr>rp_max_attempts = 3, rp_initial = ms 100, rp_max_interval = ms 10000,
     rp_multiplier = 2, rp_random = 1 / 2, rp_non_retryable = []\<rparr>"

definition no_retry :: policy where
  "no_retry = \<lparr>rp_max_attempts = 1, rp_initial = 0, rp_max_interval = 0,
     rp_multiplier = 0, rp_random = 0, rp_non_retryable = []\<rparr>"

definition fixed_policy :: "int \<Rightarrow> time \<Rightarrow> policy" where
  "fixed_policy max_attempts interval =
     \<lparr>rp_max_attempts = max_attempts, rp_initial = interval, rp_max_interval = interval,
      rp_multiplier = 1, rp_random = 0, rp_non_retryable = []\<rparr>"

definition exponential_policy :: "int \<Rightarrow> time \<Rightarrow> time \<Rightarrow> rat \<Rightarrow> policy" where
  "exponential_policy max_attempts initial max_interval multiplier =
     \<lparr>rp_max_attempts = max_attempts, rp_initial = initial, rp_max_interval = max_interval,
      rp_multiplier = multiplier, rp_random = 1 / 2, rp_non_retryable = []\<rparr>"

definition should_retry :: "policy \<Rightarrow> nat \<Rightarrow> go_error \<Rightarrow> bool" where
  "should_retry p attempts e \<longleftrightarrow>
     \<not> (rp_max_attempts p > 0 \<and> int attempts \<ge> rp_max_attempts p)
     \<and> \<not> list_ex (errors_is e) (rp_non_retryable p)"

definition go_trunc :: "rat \<Rightarrow> int" where
  "go_trunc r = (if r < 0 then - \<lfloor>- r\<rfloor> else \<lfloor>r\<rfloor>)"

definition policy_jitter :: "policy \<Rightarrow> rat \<Rightarrow> time \<Rightarrow> time" where
  "policy_jitter p u delay =
     (if rp_random p = 0 then delay
      else go_trunc (of_int delay * (1 + rp_random p * (2 * u - 1))))"

definition base_delay :: "policy \<Rightarrow> nat \<Rightarrow> time" where
  "base_delay p attempts =
     (if attempts \<le> 1 then rp_initial p
      else let delay = of_int (rp_initial p) * rp_multiplier p ^ (attempts - 1)
           in go_trunc (if delay > of_int (rp_max_interval p) then of_int (rp_max_interval p) else delay))"

definition get_delay :: "policy \<Rightarrow> rat \<Rightarrow> nat \<Rightarrow> time" where
  "get_delay p u attempts = policy_jitter p u (base_delay p attempts)"

section \<open>The builder\<close>

definition new_builder :: policy where
  "new_builder = \<lparr>rp_max_attempts = 3, rp_initial = ms 100, rp_max_interval = ms 10000,
     rp_multiplier = 2, rp_random = 0, rp_non_retryable = []\<rparr>"

definition with_max_attempts :: "int \<Rightarrow> policy \<Rightarrow> policy" where
  "with_max_attempts n p = p\<lparr>rp_max_attempts := n\<rparr>"

definition with_initial_interval :: "time \<Rightarrow> policy \<Rightarrow> policy" where
  "with_initial_interval d p = p\<lparr>rp_initial := d\<rparr>"

definition with_max_interval :: "time \<Rightarrow> policy \<Rightarrow> policy" where
  "with_max_interval d p = p\<lparr>rp_max_interval := d\<rparr>"

definition with_multiplier :: "rat \<Rightarrow> policy \<Rightarrow> policy" where
  "with_multiplier m p = p\<lparr>rp_multiplier := m\<rparr>"

definition with_jitter :: "rat \<Rightarrow> policy \<Rightarrow> policy" where
  "with_jitter factor p = p\<lparr>rp_random := factor\<rparr>"

definition with_non_retryable_errors :: "go_error list \<Rightarrow> policy \<Rightarrow> policy" where
  "with_non_retryable_errors errs p = p\<lparr>rp_non_retryable := errs\<rparr>"

section \<open>Bounds\<close>

definition policy_ok :: "policy \<Rightarrow> bool" where
  "policy_ok p \<longleftrightarrow> 0 \<le> rp_initial p \<and> rp_initial p \<le> rp_max_interval p \<and> 1 \<le> rp_multiplier p \<and>
     0 \<le> rp_random p \<and> rp_random p \<le> 1"

lemma go_trunc_int [simp]: "go_trunc (of_int i) = i"
  by (simp add: go_trunc_def)

lemma go_trunc_nonneg: "0 \<le> r \<Longrightarrow> go_trunc r = \<lfloor>r\<rfloor>"
  by (simp add: go_trunc_def)

lemma go_trunc_bounds: "0 \<le> r \<Longrightarrow> r \<le> of_int i \<Longrightarrow> 0 \<le> go_trunc r \<and> go_trunc r \<le> i"
  by (simp add: go_trunc_nonneg) (metis floor_mono floor_of_int)

lemma base_delay_eq:
  assumes "policy_ok p"
  shows "base_delay p n =
    \<lfloor>min (of_int (rp_max_interval p)) (of_int (rp_initial p) * rp_multiplier p ^ (n - 1))\<rfloor>"
proof (cases "n \<le> 1")
  case True
  with assms show ?thesis by (auto simp: base_delay_def policy_ok_def min_def)
next
  case False
  have "0 \<le> of_int (rp_initial p) * rp_multiplier p ^ (n - 1)"
    using assms by (intro mult_nonneg_nonneg) (auto simp: policy_ok_def)
  with False assms show ?thesis
    by (cases "of_int (rp_max_interval p) < of_int (rp_initial p) * rp_multiplier p ^ (n - 1)")
       (simp_all add: base_delay_def policy_ok_def min_absorb1 min_absorb2 go_trunc_nonneg)
qed

lemma base_delay_range: "policy_ok p \<Longrightarrow> 0 \<le> base_delay p n \<and> base_delay p n \<le> rp_max_interval p"
proof -
  assume p: "policy_ok p"
  let ?r = "min (of_int (rp_max_interval p)) (of_int (rp_initial p) * rp_multiplier p ^ (n - 1))"
  have "0 \<le> of_int (rp_initial p) * rp_multiplier p ^ (n - 1)"
    using p by (intro mult_nonneg_nonneg) (auto simp: policy_ok_def)
  then have "0 \<le> ?r" using p by (simp add: policy_ok_def)
  moreover have "?r \<le> of_int (rp_max_interval p)" by simp
  ultimately show ?thesis
    using go_trunc_bounds [of ?r] by (simp add: base_delay_eq [OF p] go_trunc_nonneg)
qed

lemma base_delay_mono: "policy_ok p \<Longrightarrow> m \<le> n \<Longrightarrow> base_delay p m \<le> base_delay p n"
proof -
  assume p: "policy_ok p" and mn: "m \<le> n"
  have "rp_multiplier p ^ (m - 1) \<le> rp_multiplier p ^ (n - 1)"
    using p mn by (intro power_increasing) (auto simp: policy_ok_def)
  then have "of_int (rp_initial p) * rp_multiplier p ^ (m - 1) \<le>
      of_int (rp_initial p) * rp_multiplier p ^ (n - 1)"
    using p by (intro mult_left_mono) (auto simp: policy_ok_def)
  then show ?thesis
    unfolding base_delay_eq [OF p] by (intro floor_mono min.mono) auto
qed



lemma should_retry_bounded:
  "should_retry p n e \<Longrightarrow> rp_max_attempts p > 0 \<Longrightarrow> int n < rp_max_attempts p"
  by (auto simp: should_retry_def)

end
