(* ===== verification/Activity.thy ===== *)
theory Activity
  imports Events_Api Retry_Policy
begin

text \<open>
  activity.go: executing an activity with replay, retry, transaction and compensation.

  The activity's function is user code, a state transformer of the run that takes the
  deadline of the attempt (when the activity has a timeout) and the input; it may call the
  workflow API. \<open>choices\<close> holds what the run does not determine: the random numbers of the
  retry delays, and the fuel given to a retry loop whose policy has no limit.
\<close>

record 'x activity =
  ac_name :: string
  ac_fn :: "time option \<Rightarrow> gov \<Rightarrow> ('x, gov) em"
  ac_out :: gotype
  ac_policy :: "policy option"
  ac_timeout :: time
  ac_comp :: "(gov \<Rightarrow> ('x, unit) wm) option"
  ac_decode :: "bytes \<Rightarrow> go_error + gov"
  ac_transactional :: bool

record choices =
  ch_rand :: "nat \<Rightarrow> rat"
  ch_fuel :: nat

definition register_activity :: "'x activity \<Rightarrow> 'x registry \<Rightarrow> 'x registry" where
  "register_activity a reg =
     (case ac_comp a of
        None \<Rightarrow> reg
      | Some fn \<Rightarrow> reg(ac_name a \<mapsto> (\<lambda>args.
          case ac_decode a args of
            Inl e \<Rightarrow> throw (wrapf ''failed to unmarshal compensation input'' e)
          | Inr v \<Rightarrow> fn v)))"

definition get_compensation_executor :: "'x registry \<Rightarrow> string \<Rightarrow> 'x executor option" where
  "get_compensation_executor reg name = reg name"

definition compensate :: "'x activity \<Rightarrow> gov \<Rightarrow> ('x, unit) wm" where
  "compensate a input = (case ac_comp a of None \<Rightarrow> ret () | Some fn \<Rightarrow> fn input)"

section \<open>Retrying\<close>

definition advance_clock :: "time \<Rightarrow> 'x exec \<Rightarrow> 'x exec" where
  "advance_clock d s =
     s\<lparr>ex_world := (ex_world s)\<lparr>w_db := (w_db (ex_world s))\<lparr>clock := clock (w_db (ex_world s)) + max 0 d\<rparr>\<rparr>\<rparr>"

definition activity_policy :: "'x activity \<Rightarrow> policy" where
  "activity_policy a = (case ac_policy a of None \<Rightarrow> default_policy | Some p \<Rightarrow> p)"

definition attempt_deadline :: "'x activity \<Rightarrow> 'x exec \<Rightarrow> time option" where
  "attempt_deadline a s = (if ac_timeout a > 0 then Some (exec_now s + ac_timeout a) else None)"

definition run_hook :: "(string \<Rightarrow> string \<Rightarrow> hook_call) \<Rightarrow> 'x exec \<Rightarrow> 'x exec" where
  "run_hook h s = snd (ctx_hook h s)"

fun retry_loop ::
    "choices \<Rightarrow> 'x activity \<Rightarrow> gov \<Rightarrow> string \<Rightarrow> nat \<Rightarrow> nat \<Rightarrow> 'x exec \<Rightarrow>
     (go_error + gov) option \<times> 'x exec" where
  "retry_loop ch a input act 0 attempts s = (None, s)"
| "retry_loop ch a input act (Suc fuel) attempts s =
     (let p = activity_policy a; attempts = Suc attempts in
      case ac_fn a (attempt_deadline a s) input s of
        (Inr v, s) \<Rightarrow>
          (Some (Inr v), run_hook (\<lambda>i wf. OnActivityComplete i act (ac_name a) v) s)
      | (Inl e, s) \<Rightarrow>
          if is_terminal_error e then
            (Some (Inl e), run_hook (\<lambda>i wf. OnActivityFailed i act (ac_name a) e attempts) s)
          else if \<not> should_retry p attempts e then
            (let e' = RetryExhaustedError (ac_name a) attempts e
             in (Some (Inl e'), run_hook (\<lambda>i wf. OnActivityFailed i act (ac_name a) e' attempts) s))
          else
            (let delay = get_delay p (ch_rand ch attempts) attempts;
                 s = run_hook (\<lambda>i wf. OnActivityRetry i act (ac_name a) attempts (rp_max_attempts p) delay e) s
             in if ex_cancelled s then (Some (Inl ContextCanceled), s)
                else retry_loop ch a input act fuel attempts (advance_clock delay s)))"

definition retry_fuel :: "choices \<Rightarrow> 'x activity \<Rightarrow> nat" where
  "retry_fuel ch a =
     (if rp_max_attempts (activity_policy a) > 0 then nat (rp_max_attempts (activity_policy a))
      else ch_fuel ch)"

definition execute_with_retry :: "choices \<Rightarrow> 'x activity \<Rightarrow> gov \<Rightarrow> string \<Rightarrow> ('x, gov) em" where
  "execute_with_retry ch a input act s =
     (case retry_loop ch a input act (retry_fuel ch a) 0 s of
        (Some r, s') \<Rightarrow> (r, s')
      | (None, s') \<Rightarrow> (Inl no_return, s'))"

section \<open>Executing\<close>

definition register_compensation :: "'x activity \<Rightarrow> string \<Rightarrow> gov \<Rightarrow> ('x, unit) em" where
  "register_compensation a act input =
     try_go (get_go ex_instance) (\<lambda>i.
     case marshal input of
       None \<Rightarrow> throw (wrapf ''failed to encode compensation argument'' json_error)
     | Some j \<Rightarrow> ctx_stor (add_compensation i act (ac_name a) (BJson j)))"

text \<open>
  The copy of the context that carries the transaction: counters and caches are shared with
  the original, and so is the map of direct subscriptions once it exists.
\<close>

definition with_tx_context :: "('x, 'a) em \<Rightarrow> ('x, 'a) em" where
  "with_tx_context m s =
     (case m (s\<lparr>ex_in_tx := True\<rparr>) of
        (r, s') \<Rightarrow> (r, s'\<lparr>ex_in_tx := ex_in_tx s,
          ex_direct := (if ex_direct s = None then None else ex_direct s')\<rparr>))"

definition execute_in_transaction :: "choices \<Rightarrow> 'x activity \<Rightarrow> gov \<Rightarrow> string \<Rightarrow> ('x, gov) em" where
  "execute_in_transaction ch a input act =
     try_go (map_err (wrapf ''failed to begin transaction'') (on_world begin_transaction)) (\<lambda>_.
     with_tx_context
       (then_go (execute_with_retry ch a input act) (\<lambda>r.
        then_go (ctx_record_activity_result act r) (\<lambda>rec.
        case rec of
          Inl e \<Rightarrow>
            try_go (ignore_err (on_world (rollback_transaction True))) (\<lambda>_.
            throw (wrapf ''failed to record activity result'' e))
        | Inr u \<Rightarrow>
            (case r of
               Inl e \<Rightarrow>
                 try_go (ignore_err (on_world (rollback_transaction True))) (\<lambda>_. throw e)
             | Inr v \<Rightarrow>
                 try_go (if ac_comp a \<noteq> None then ignore_err (register_compensation a act input) else ret ()) (\<lambda>_.
                 try_go (map_err (wrapf ''failed to commit transaction'')
                          (on_world (commit_transaction run_wake_call True))) (\<lambda>_.
                 ret v)))))))"

definition execute_without_transaction :: "choices \<Rightarrow> 'x activity \<Rightarrow> gov \<Rightarrow> string \<Rightarrow> ('x, gov) em" where
  "execute_without_transaction ch a input act =
     then_go (execute_with_retry ch a input act) (\<lambda>r.
     try_go (map_err (wrapf ''failed to record activity result'') (ctx_record_activity_result act r)) (\<lambda>_.
     case r of
       Inl e \<Rightarrow> throw e
     | Inr v \<Rightarrow>
         try_go (if ac_comp a \<noteq> None then ignore_err (register_compensation a act input) else ret ()) (\<lambda>_.
         ret v)))"

text \<open>
  A cached result. An error is a value of every interface type, so the assertion to the
  type parameter \<open>any\<close> takes a cached error for a result.
\<close>

definition error_value :: gov where
  "error_value = VTyped ''error'' (JObj [])"

definition from_cache :: "'x activity \<Rightarrow> string \<Rightarrow> go_error + gov \<Rightarrow> go_error + gov" where
  "from_cache a act r =
     (case r of
        Inr v \<Rightarrow>
          if assert_type (ac_out a) v then Inr v
          else Inl (ErrText (''cached result type mismatch for activity '' @ act))
      | Inl e \<Rightarrow> if ac_out a = TAny then Inr error_value else Inl e)"

definition activity_execute :: "choices \<Rightarrow> 'x activity \<Rightarrow> gov \<Rightarrow> string \<Rightarrow> ('x, gov) em" where
  "activity_execute ch a input act_opt =
     try_go (if act_opt = '''' then generate_activity_id (ac_name a) else ret act_opt) (\<lambda>act.
     try_go (get_go ex_replaying) (\<lambda>replaying.
     try_go (ctx_hook (\<lambda>i wf. OnActivityStart i act (ac_name a) input replaying)) (\<lambda>_.
     try_go (get_cached_result act) (\<lambda>cached.
     case cached of
       Some r \<Rightarrow>
         try_go (ctx_hook (\<lambda>i wf. OnActivityCacheHit i act (ac_name a) r)) (\<lambda>_.
         case from_cache a act r of Inl e \<Rightarrow> throw e | Inr v \<Rightarrow> ret v)
     | None \<Rightarrow>
         if ac_transactional a then execute_in_transaction ch a input act
         else execute_without_transaction ch a input act))))"

end
