(* ===== verification/Workflow.thy ===== *)
theory Workflow
  imports Activity
begin

text \<open>
  workflow.go, and the code a user writes against the workflow API.

  A workflow body is an interaction tree: it makes one API call and goes on with what the
  call returned, or it ends with a value or an error. Any Go function whose only effects are
  API calls, made one after the other, is such a tree; a suspend signal is an error like any
  other to it. \<open>run_wf\<close> interprets the tree with the modelled calls, \<open>step_wf\<close> makes one call.
\<close>

datatype 'x wf =
    WfReturn gov
  | WfFail go_error
  | WfActivity "'x activity" gov string "go_error + gov \<Rightarrow> 'x wf"
  | WfSleep time string "go_error + unit \<Rightarrow> 'x wf"
  | WfSleepUntil time string "go_error + unit \<Rightarrow> 'x wf"
  | WfSubscribe string channel_mode "go_error + unit \<Rightarrow> 'x wf"
  | WfUnsubscribe string "go_error + unit \<Rightarrow> 'x wf"
  | WfReceive tdesc string "time option" "go_error + received_message \<Rightarrow> 'x wf"
  | WfWaitEvent tdesc string "time option" "go_error + received_event \<Rightarrow> 'x wf"
  | WfPublish string gov "gov option" "go_error + unit \<Rightarrow> 'x wf"
  | WfSendTo string string gov "gov option" "go_error + unit \<Rightarrow> 'x wf"
  | WfJoin string "go_error + unit \<Rightarrow> 'x wf"
  | WfLeave string "go_error + unit \<Rightarrow> 'x wf"
  | WfRecur gov "go_error + gov \<Rightarrow> 'x wf"

definition continue :: "('x, 'a) em \<Rightarrow> (go_error + 'a \<Rightarrow> 'x wf) \<Rightarrow> 'x exec \<Rightarrow> 'x wf \<times> 'x exec" where
  "continue m k s = (case m s of (r, s') \<Rightarrow> (k r, s'))"

fun step_wf :: "choices \<Rightarrow> 'x wf \<Rightarrow> 'x exec \<Rightarrow> 'x wf \<times> 'x exec" where
  "step_wf ch (WfReturn v) s = (WfReturn v, s)"
| "step_wf ch (WfFail e) s = (WfFail e, s)"
| "step_wf ch (WfActivity a input act k) s = continue (activity_execute ch a input act) k s"
| "step_wf ch (WfSleep d timer k) s = continue (sleep d timer) k s"
| "step_wf ch (WfSleepUntil t timer k) s = continue (sleep_until t timer) k s"
| "step_wf ch (WfSubscribe c mode k) s = continue (subscribe c mode) k s"
| "step_wf ch (WfUnsubscribe c k) s = continue (unsubscribe c) k s"
| "step_wf ch (WfReceive T c timeout k) s = continue (receive (ch_fuel ch) T c timeout) k s"
| "step_wf ch (WfWaitEvent T ev timeout k) s = continue (wait_event (ch_fuel ch) T ev timeout) k s"
| "step_wf ch (WfPublish c v md k) s = continue (publish c v md) k s"
| "step_wf ch (WfSendTo i c v md k) s = continue (send_to i c v md) k s"
| "step_wf ch (WfJoin g k) s = continue (ctx_join_group g) k s"
| "step_wf ch (WfLeave g k) s = continue (ctx_leave_group g) k s"
| "step_wf ch (WfRecur v k) s = continue (recur v) k s"

definition call :: "('x, 'a) em \<Rightarrow> (go_error + 'a \<Rightarrow> ('x, gov) em) \<Rightarrow> ('x, gov) em" where
  "call m k = then_go m k"

primrec run_wf :: "choices \<Rightarrow> 'x wf \<Rightarrow> ('x, gov) em" where
  "run_wf ch (WfReturn v) = ret v"
| "run_wf ch (WfFail e) = throw e"
| "run_wf ch (WfActivity a input act k) = call (activity_execute ch a input act) (\<lambda>r. run_wf ch (k r))"
| "run_wf ch (WfSleep d timer k) = call (sleep d timer) (\<lambda>r. run_wf ch (k r))"
| "run_wf ch (WfSleepUntil t timer k) = call (sleep_until t timer) (\<lambda>r. run_wf ch (k r))"
| "run_wf ch (WfSubscribe c mode k) = call (subscribe c mode) (\<lambda>r. run_wf ch (k r))"
| "run_wf ch (WfUnsubscribe c k) = call (unsubscribe c) (\<lambda>r. run_wf ch (k r))"
| "run_wf ch (WfReceive T c timeout k) = call (receive (ch_fuel ch) T c timeout) (\<lambda>r. run_wf ch (k r))"
| "run_wf ch (WfWaitEvent T ev timeout k) = call (wait_event (ch_fuel ch) T ev timeout) (\<lambda>r. run_wf ch (k r))"
| "run_wf ch (WfPublish c v md k) = call (publish c v md) (\<lambda>r. run_wf ch (k r))"
| "run_wf ch (WfSendTo i c v md k) = call (send_to i c v md) (\<lambda>r. run_wf ch (k r))"
| "run_wf ch (WfJoin g k) = call (ctx_join_group g) (\<lambda>r. run_wf ch (k r))"
| "run_wf ch (WfLeave g k) = call (ctx_leave_group g) (\<lambda>r. run_wf ch (k r))"
| "run_wf ch (WfRecur v k) = call (recur v) (\<lambda>r. run_wf ch (k r))"

text \<open>The steps of a run: a crash stops it after some of them.\<close>

fun run_steps :: "choices \<Rightarrow> nat \<Rightarrow> 'x wf \<times> 'x exec \<Rightarrow> 'x wf \<times> 'x exec" where
  "run_steps ch 0 c = c"
| "run_steps ch (Suc n) c = run_steps ch n (step_wf ch (fst c) (snd c))"

lemma run_wf_step: "run_wf ch t s = (case step_wf ch t s of (t', s') \<Rightarrow> run_wf ch t' s')"
  by (cases t) (simp_all add: call_def continue_def then_go_def split: prod.split)

lemma run_wf_steps: "run_wf ch (fst c) (snd c) = run_wf ch (fst (run_steps ch n c)) (snd (run_steps ch n c))"
proof (induction n arbitrary: c)
  case (Suc n)
  then show ?case
    using run_wf_step [of ch "fst c" "snd c"] by (simp split: prod.splits)
qed simp

lemma run_steps_add: "run_steps ch (m + n) c = run_steps ch n (run_steps ch m c)"
  by (induction m arbitrary: c) auto

section \<open>Registration\<close>

text \<open>
  \<open>wd_decode\<close> is \<open>json.Unmarshal\<close> into the input type, \<open>wd_zero\<close> its zero value. The runner
  that RegisterWorkflow builds reads the stored input and runs the body.
\<close>

record 'x workflow_def =
  wd_name :: string
  wd_zero :: gov
  wd_decode :: "bytes \<Rightarrow> go_error + gov"
  wd_body :: "gov \<Rightarrow> 'x wf"

definition workflow_runner :: "choices \<Rightarrow> 'x workflow_def \<Rightarrow> 'x runner" where
  "workflow_runner ch wd =
     try_go (get_go ex_instance) (\<lambda>i.
     try_go (map_err (wrapf ''failed to get instance'') (on_world (stor False (get_instance i)))) (\<lambda>inst.
     case inst of
       None \<Rightarrow> throw (ErrText ''runtime error: invalid memory address or nil pointer dereference'')
     | Some r \<Rightarrow>
         if bytes_nonempty (inst_input r)
         then (case wd_decode wd (inst_input r) of
                 Inl e \<Rightarrow> throw (wrapf ''failed to deserialize input'' e)
               | Inr v \<Rightarrow> run_wf ch (wd_body wd v))
         else run_wf ch (wd_body wd (wd_zero wd))))"

section \<open>Results\<close>

record workflow_result =
  wr_instance :: string
  wr_status :: string
  wr_output :: "gov option"
  wr_error :: "string option"

fun last_failure :: "history_event list \<Rightarrow> string" where
  "last_failure [] = ''''"
| "last_failure (h # hs) =
     (if he_type h = HistoryWorkflowFailed
      then (case unmarshal_map (he_data h) of
              None \<Rightarrow> last_failure hs
            | Some j \<Rightarrow> (case json_get ''error'' j of Some (JStr msg) \<Rightarrow> msg | _ \<Rightarrow> last_failure hs))
      else last_failure hs)"

text \<open>The argument of \<open>last_failure\<close> is the page of at most 1000 events, latest first.\<close>

definition get_workflow_error_from_history :: "string \<Rightarrow> ('x, string) wm" where
  "get_workflow_error_from_history i =
     then_go (stor False (get_history_paginated i 0 1000)) (\<lambda>r.
       case r of Inl e \<Rightarrow> ret '''' | Inr (events, has_more) \<Rightarrow> ret (last_failure (rev events)))"

definition app_get_instance :: "string \<Rightarrow> ('x, workflow_instance) wm" where
  "app_get_instance i =
     try_go (stor False (get_instance i)) (\<lambda>inst.
       case inst of None \<Rightarrow> throw (WorkflowNotFoundError i) | Some r \<Rightarrow> ret r)"

definition get_workflow_result ::
    "(bytes \<Rightarrow> go_error + gov) \<Rightarrow> string \<Rightarrow> ('x, workflow_result) wm" where
  "get_workflow_result decode i =
     try_go (app_get_instance i) (\<lambda>r.
     try_go (if inst_status r = StatusFailed
             then try_go (get_workflow_error_from_history i)
                    (\<lambda>msg. ret (if msg \<noteq> '''' then Some msg else None))
             else ret None) (\<lambda>err.
     let result = (\<lambda>res. \<lparr>wr_instance = inst_id r, wr_status = status_string (inst_status r),
                     wr_output = res, wr_error = err\<rparr>)
     in if inst_status r = StatusCompleted \<and> (case inst_output r of None \<Rightarrow> False | Some b \<Rightarrow> bytes_nonempty b)
        then (case decode (the (inst_output r)) of
                Inl e \<Rightarrow> throw (wrapf ''failed to deserialize output'' e)
              | Inr v \<Rightarrow> ret (result (Some v)))
        else ret (result None)))"

end
