(* ===== verification/Deterministic_Replay.thy ===== *)
theory Deterministic_Replay
  imports Workflow
begin

text \<open>
  Deterministic replay: a workflow that is run again from the history its earlier run left
  behind takes every completed call from the history and arrives where the earlier run was,
  without running an activity and without touching the database.

  \<open>frame\<close> is what an activity's function is asked to leave alone: the run's counters and
  caches, the instance's history, and the transaction it is in. \<open>good_run\<close> describes an
  earlier run: each call returned a value that survives JSON and has the activity's result
  type, or was a timer that had fired. \<open>in_step\<close> relates the earlier run and its replay.
\<close>

section \<open>Frames\<close>

definition db_frame :: "string \<Rightarrow> db \<Rightarrow> db \<Rightarrow> bool" where
  "db_frame i d d' \<longleftrightarrow> history_of i d' = history_of i d \<and> (history_live d \<longrightarrow> history_live d')"

definition tx_frame :: "string \<Rightarrow> db option \<Rightarrow> db option \<Rightarrow> bool" where
  "tx_frame i t t' \<longleftrightarrow>
     (case t of None \<Rightarrow> t' = None | Some v \<Rightarrow> (case t' of None \<Rightarrow> False | Some v' \<Rightarrow> db_frame i v v'))"

definition callbacks_in_tx :: "'x world \<Rightarrow> bool" where
  "callbacks_in_tx w \<longleftrightarrow> (\<forall>cb \<in> set (w_callbacks w). wk_in_tx cb)"

definition frame :: "string \<Rightarrow> 'x exec \<Rightarrow> 'x exec \<Rightarrow> bool" where
  "frame i s s' \<longleftrightarrow>
     ex_instance s' = ex_instance s \<and> ex_in_tx s' = ex_in_tx s \<and> ex_counts s' = ex_counts s
     \<and> ex_results s' = ex_results s \<and> ex_errors s' = ex_errors s
     \<and> db_frame i (w_db (ex_world s)) (w_db (ex_world s'))
     \<and> tx_frame i (w_tx (ex_world s)) (w_tx (ex_world s'))
     \<and> (callbacks_in_tx (ex_world s) \<longrightarrow> callbacks_in_tx (ex_world s'))"

definition leaves_history :: "string \<Rightarrow> 'x activity \<Rightarrow> bool" where
  "leaves_history i a \<longleftrightarrow> (\<forall>dl v s. frame i s (snd (ac_fn a dl v s)))"

lemma db_frame_refl [simp]: "db_frame i d d"
  by (simp add: db_frame_def)

lemma tx_frame_refl [simp]: "tx_frame i t t"
  by (simp add: tx_frame_def split: option.split)

lemma frame_refl [simp]: "frame i s s"
  by (simp add: frame_def)

lemma frame_trans: "frame i s s' \<Longrightarrow> frame i s' s'' \<Longrightarrow> frame i s s''"
  by (auto simp: frame_def db_frame_def tx_frame_def split: option.splits)

lemma history_live_clock [simp]: "history_live (d\<lparr>clock := t\<rparr>) = history_live d"
  by (simp add: history_live_def history_ok_def)

lemma history_of_clock [simp]: "history_of i (d\<lparr>clock := t\<rparr>) = history_of i d"
  by (simp add: history_of_def)

lemma frame_hook [simp]: "frame i s (run_hook h s)"
  by (simp add: run_hook_def ctx_hook_def on_world_def frame_def callbacks_in_tx_def)

lemma frame_clock [simp]: "frame i s (advance_clock d s)"
  by (simp add: advance_clock_def frame_def callbacks_in_tx_def db_frame_def)

lemma retry_loop_frame:
  "leaves_history i a \<Longrightarrow> frame i s (snd (retry_loop ch a input act fuel n s))"
proof (induction fuel arbitrary: n s)
  case (Suc fuel)
  obtain r s1 where r: "ac_fn a (attempt_deadline a s) input s = (r, s1)"
    by (cases "ac_fn a (attempt_deadline a s) input s")
  have f1: "frame i s s1"
    using Suc.prems r unfolding leaves_history_def by (metis snd_conv)
  have hk: "frame i s (run_hook h s1)" for h
    using f1 frame_hook frame_trans by blast
  have again: "frame i s (snd (retry_loop ch a input act fuel m (advance_clock d (run_hook h s1))))" for h d m
    using Suc.IH [OF Suc.prems, of "advance_clock d (run_hook h s1)" m] hk frame_clock frame_trans by blast
  show ?case
    using r hk again by (cases r) (simp_all add: Let_def)
qed simp

lemma execute_with_retry_frame:
  "leaves_history i a \<Longrightarrow> frame i s (snd (execute_with_retry ch a input act s))"
  using retry_loop_frame [of i a s ch input act "retry_fuel ch a" 0]
  by (auto simp: execute_with_retry_def split: prod.splits option.splits)

section \<open>Recording\<close>

definition completed :: "string \<Rightarrow> json \<Rightarrow> history_event \<Rightarrow> bool" where
  "completed act j h \<longleftrightarrow> he_activity h = act \<and> he_type h = HistoryActivityCompleted \<and>
     he_data h = BJson j \<and> he_data_type h = ''json''"

definition ready :: "string \<Rightarrow> 'x exec \<Rightarrow> bool" where
  "ready i s \<longleftrightarrow> ex_instance s = i \<and> \<not> ex_in_tx s \<and> w_tx (ex_world s) = None \<and>
     history_live (w_db (ex_world s))"

lemma history_live_sync: "history_live v \<Longrightarrow> faults d = [] \<Longrightarrow> history_live (sync_view d v)"
  by (auto simp: history_live_def history_ok_def)

lemma history_of_sync [simp]: "history_of i (sync_view d v) = history_of i v"
  by (simp add: history_of_def)

lemma has_history_sync [simp]: "has_history i act (sync_view d v) = has_history i act v"
  by (simp add: has_history_def)

lemma history_live_insert:
  "history_live d \<Longrightarrow> \<not> has_history i act d \<Longrightarrow> history_live (insert_history i act ty data dt d)"
  using history_ok_insert by (auto simp: history_live_def) (auto simp: insert_history_def)

lemma insert_history_faults [simp]: "faults (insert_history i act ty data dt d) = faults d"
  by (simp add: insert_history_def)

text \<open>Where a method's statements go.\<close>

definition here :: "'x exec \<Rightarrow> db" where
  "here s = (if ex_in_tx s then the (w_tx (ex_world s)) else w_db (ex_world s))"

definition open_tx :: "'x exec \<Rightarrow> bool" where
  "open_tx s \<longleftrightarrow> history_live (w_db (ex_world s)) \<and>
     (if ex_in_tx s then (\<exists>v. w_tx (ex_world s) = Some v \<and> history_live v) \<and> callbacks_in_tx (ex_world s)
      else w_tx (ex_world s) = None)"

lemma open_tx_frame: "open_tx s \<Longrightarrow> frame i s s' \<Longrightarrow> open_tx s' \<and> history_of i (here s') = history_of i (here s)"
  by (auto simp: open_tx_def frame_def db_frame_def tx_frame_def here_def split: option.splits)

lemma has_history_frame: "history_of i d' = history_of i d \<Longrightarrow> has_history i act d' = has_history i act d"
  by (simp add: has_history_of)

lemma same_history_live:
  "history_live d \<Longrightarrow> history d' = history d \<Longrightarrow> history_seq d' = history_seq d \<Longrightarrow> faults d' = [] \<Longrightarrow>
   history_live d'"
  by (simp add: history_live_def history_ok_def)

lemma record_completed:
  assumes "open_tx s" "ex_instance s = i" "\<not> has_history i act (here s)" "v = VJson j"
  obtains s' h where "ctx_record_activity_result act (Inr v) s = (Inr (), s')"
    and "open_tx s'" "ex_instance s' = i" "ex_in_tx s' = ex_in_tx s" "ex_counts s' = ex_counts s"
    and "ex_results s' = (ex_results s)(act \<mapsto> (BNil, v))" "ex_errors s' = ex_errors s"
    and "history_of i (here s') = history_of i (here s) @ [h]" "completed act j h"
proof (cases "ex_in_tx s")
  case True
  let ?d = "w_db (ex_world s)"
  from assms(1) True obtain v' where v': "w_tx (ex_world s) = Some v'" "history_live v'"
    and d: "history_live ?d" "callbacks_in_tx (ex_world s)" by (auto simp: open_tx_def)
  let ?h = "insert_history i act HistoryActivityCompleted (BJson j) ''json'' (sync_view ?d v')"
  have new: "\<not> has_history i act v'" using assms(3) True v'(1) by (simp add: here_def)
  have live: "history_live ?h" using v'(2) d(1) new
    by (intro history_live_insert history_live_sync) (auto simp: live_faults)
  have dl: "history_live (?d\<lparr>faults := []\<rparr>)"
    using same_history_live [OF d(1)] by simp
  have app: "append_history i act HistoryActivityCompleted (BJson j) ''json'' (sync_view ?d v') = (Inr (), ?h)"
    using live_faults [OF d(1)] new by (simp add: append_history_run)
  let ?s = "s\<lparr>ex_new := Suc (ex_new s),
      ex_world := (ex_world s)\<lparr>w_tx := Some ?h, w_db := ?d\<lparr>faults := []\<rparr>\<rparr>,
      ex_results := (ex_results s)(act \<mapsto> (BNil, v))\<rparr>"
  have run: "ctx_record_activity_result act (Inr v) s = (Inr (), ?s)"
    using assms(2,4) True v'(1) app live_faults [OF d(1)]
    by (simp add: ctx_record_activity_result_def exec_record_with_context_def on_world_def
        record_activity_result_def stor_def try_go_def set_cached_result_def)
  show ?thesis
    by (rule that [OF run]) (use assms(2) True v'(1) d(2) live dl in
      \<open>auto simp: open_tx_def here_def history_of_insert completed_def callbacks_in_tx_def\<close>)
next
  case False
  let ?d = "w_db (ex_world s)"
  from assms(1) False have d: "history_live ?d" "w_tx (ex_world s) = None" by (auto simp: open_tx_def)
  let ?h = "insert_history i act HistoryActivityCompleted (BJson j) ''json'' ?d"
  have new: "\<not> has_history i act ?d" using assms(3) False by (simp add: here_def)
  have live: "history_live ?h" using d(1) new by (rule history_live_insert)
  have app: "append_history i act HistoryActivityCompleted (BJson j) ''json'' ?d = (Inr (), ?h)"
    using live_faults [OF d(1)] new by (simp add: append_history_run)
  let ?s = "s\<lparr>ex_new := Suc (ex_new s), ex_world := (ex_world s)\<lparr>w_db := ?h\<rparr>,
      ex_results := (ex_results s)(act \<mapsto> (BNil, v))\<rparr>"
  have run: "ctx_record_activity_result act (Inr v) s = (Inr (), ?s)"
    using assms(2,4) False d(2) app
    by (simp add: ctx_record_activity_result_def exec_record_with_context_def on_world_def
        record_activity_result_def try_go_def set_cached_result_def)
  show ?thesis
    by (rule that [OF run]) (use assms(2) False d(2) live in
      \<open>auto simp: open_tx_def here_def history_of_insert completed_def\<close>)
qed

lemma faults_same: "faults d = [] \<Longrightarrow> d\<lparr>faults := []\<rparr> = d"
proof -
  have "d\<lparr>faults := faults d\<rparr> = d" by simp
  then show "faults d = [] \<Longrightarrow> d\<lparr>faults := []\<rparr> = d" by simp
qed

text \<open>A method that keeps the history of the instance, called from the run.\<close>

lemma ctx_stor_frame:
  assumes "open_tx s" "\<And>d. history_live d \<Longrightarrow> db_frame i d (snd (m d))"
  shows "frame i s (snd (ctx_stor m s))"
proof (cases "ex_in_tx s")
  case True
  let ?d = "w_db (ex_world s)"
  from assms(1) True obtain v where v: "w_tx (ex_world s) = Some v" "history_live v"
    and d: "history_live ?d" by (auto simp: open_tx_def)
  obtain r v' where m: "m (sync_view ?d v) = (r, v')" by (cases "m (sync_view ?d v)")
  have "db_frame i (sync_view ?d v) v'"
    using assms(2) [OF history_live_sync [OF v(2) live_faults [OF d]]] m by simp
  then have fr: "history_of i v' = history_of i v" "history_live v'"
    using history_live_sync [OF v(2) live_faults [OF d]] by (auto simp: db_frame_def)
  have same: "?d\<lparr>faults := faults v'\<rparr> = ?d"
    using faults_same live_faults fr(2) d by metis
  show ?thesis
    using True v(1) m fr same
    by (simp add: ctx_stor_def on_world_def stor_def frame_def db_frame_def tx_frame_def callbacks_in_tx_def)
next
  case False
  with assms(1) have "w_tx (ex_world s) = None" "history_live (w_db (ex_world s))"
    by (auto simp: open_tx_def)
  with False assms(2) show ?thesis
    by (simp add: ctx_stor_def on_world_def frame_def callbacks_in_tx_def)
qed

text \<open>Registering the compensation changes neither the history nor the caches.\<close>

lemma register_compensation_frame:
  assumes "open_tx s"
  shows "frame i s (snd (register_compensation a act input s))"
proof -
  have "db_frame i d (snd (add_compensation k x n b d))" if "history_live d" for k x n b d
    using that live_faults [OF that]
    by (simp add: add_compensation_def db_frame_def history_of_def same_history_live)
  from ctx_stor_frame [OF assms this] show ?thesis
    by (simp add: register_compensation_def try_go_def split: option.split)
qed

section \<open>Completing an activity\<close>

definition completes :: "string \<Rightarrow> string \<Rightarrow> json \<Rightarrow> 'x exec \<Rightarrow> 'x exec \<Rightarrow> bool" where
  "completes i act j s s' \<longleftrightarrow>
     ready i s' \<and> ex_counts s' = ex_counts s \<and> ex_errors s' = ex_errors s
     \<and> ex_results s' = (ex_results s)(act \<mapsto> (BNil, VJson j))
     \<and> (\<exists>h. completed act j h \<and>
          history_of i (w_db (ex_world s')) = history_of i (w_db (ex_world s)) @ [h])"

lemma ready_open: "ready i s \<Longrightarrow> open_tx s"
  by (simp add: ready_def open_tx_def)

lemma wake_call_done: "wk_in_tx cb \<Longrightarrow> w_tx w = None \<Longrightarrow> run_wake_call cb w = (Inr (), w)"
  by (simp add: run_wake_call_def wake_waiting_subscribers_def then_go_def)

lemma wake_calls_done:
  "\<forall>cb \<in> set cbs. wk_in_tx cb \<Longrightarrow> w_tx w = None \<Longrightarrow>
   for_each (\<lambda>cb. ignore_err (run_wake_call cb)) cbs w = (Inr (), w)"
  by (induction cbs) (simp_all add: wake_call_done try_go_def)

lemma commit_run:
  assumes "w_tx w = Some v" "faults (w_db w) = []" "callbacks_in_tx w"
  shows "commit_transaction run_wake_call True w = (Inr (), close_tx (w\<lparr>w_db := sync_view (w_db w) v\<rparr>))"
  using assms wake_calls_done [of "w_callbacks w" "close_tx (w\<lparr>w_db := sync_view (w_db w) v\<rparr>)"]
  by (simp add: commit_transaction_def callbacks_in_tx_def close_tx_def)

lemma record_and_compensate:
  assumes "open_tx s" "ex_instance s = i" "\<not> has_history i act (here s)" "v = VJson j"
  obtains s' h where
    "try_go (ctx_record_activity_result act (Inr v)) (\<lambda>_.
       if ac_comp a \<noteq> None then ignore_err (register_compensation a act input) else ret ()) s = (Inr (), s')"
    and "open_tx s'" "ex_instance s' = i" "ex_in_tx s' = ex_in_tx s" "ex_counts s' = ex_counts s"
    and "ex_results s' = (ex_results s)(act \<mapsto> (BNil, v))" "ex_errors s' = ex_errors s"
    and "history_of i (here s') = history_of i (here s) @ [h]" "completed act j h"
proof -
  from record_completed [OF assms] obtain s1 h where
    s1: "ctx_record_activity_result act (Inr v) s = (Inr (), s1)" "open_tx s1" "ex_instance s1 = i"
      "ex_in_tx s1 = ex_in_tx s" "ex_counts s1 = ex_counts s"
      "ex_results s1 = (ex_results s)(act \<mapsto> (BNil, v))" "ex_errors s1 = ex_errors s"
      "history_of i (here s1) = history_of i (here s) @ [h]" "completed act j h"
    by blast
  let ?s2 = "if ac_comp a \<noteq> None then snd (register_compensation a act input s1) else s1"
  have f: "frame i s1 ?s2"
    using register_compensation_frame [OF s1(2)] by simp
  show ?thesis
  proof (rule that [of ?s2 h])
    show "try_go (ctx_record_activity_result act (Inr v)) (\<lambda>_.
       if ac_comp a \<noteq> None then ignore_err (register_compensation a act input) else ret ()) s = (Inr (), ?s2)"
      using s1(1) by simp
  qed (use f s1 open_tx_frame [OF s1(2) f] in \<open>auto simp: frame_def\<close>)
qed

lemma execute_without_completes:
  assumes "ready i s" "leaves_history i a" "\<not> has_history i act (w_db (ex_world s))"
    and "execute_without_transaction ch a input act s = (Inr (VJson j), s')"
  shows "completes i act j s s'"
proof -
  let ?v = "VJson j"
  obtain r s1 where r: "execute_with_retry ch a input act s = (r, s1)"
    by (cases "execute_with_retry ch a input act s")
  have f: "frame i s s1"
    using execute_with_retry_frame [OF assms(2)] r by (metis snd_conv)
  from r assms(4) have "r = Inr ?v"
    by (cases r) (auto simp: execute_without_transaction_def then_go_def try_go_def map_err_def
        split: prod.splits sum.splits if_splits)
  have o: "open_tx s1" "history_of i (here s1) = history_of i (here s)"
    using open_tx_frame [OF ready_open [OF assms(1)] f] by auto
  have "\<not> has_history i act (here s1)"
    using assms(1,3) o(2) has_history_frame [OF o(2)] by (simp add: here_def ready_def)
  from record_and_compensate [OF o(1) _ this refl, where a = a and input = input] f assms(1) obtain s2 h where
    s2: "try_go (ctx_record_activity_result act (Inr ?v)) (\<lambda>_.
       if ac_comp a \<noteq> None then ignore_err (register_compensation a act input) else ret ()) s1 = (Inr (), s2)"
      "open_tx s2" "ex_instance s2 = i" "ex_in_tx s2 = ex_in_tx s1" "ex_counts s2 = ex_counts s1"
      "ex_results s2 = (ex_results s1)(act \<mapsto> (BNil, ?v))" "ex_errors s2 = ex_errors s1"
      "history_of i (here s2) = history_of i (here s1) @ [h]" "completed act j h"
    by (auto simp: frame_def ready_def)
  obtain s3 where rec: "ctx_record_activity_result act (Inr ?v) s1 = (Inr (), s3)"
    and comp: "(if ac_comp a \<noteq> None then ignore_err (register_compensation a act input) else ret ()) s3 = (Inr (), s2)"
    using s2(1) by (auto simp: try_go_def split: prod.splits sum.splits)
  have "s' = s2"
    using assms(4) r \<open>r = Inr ?v\<close> rec comp by (simp add: execute_without_transaction_def)
  with s2 f o assms(1) show ?thesis
    by (auto simp: completes_def ready_def open_tx_def frame_def here_def)
qed

lemma execute_in_tx_completes:
  assumes "ready i s" "leaves_history i a" "\<not> has_history i act (w_db (ex_world s))"
    and "execute_in_transaction ch a input act s = (Inr (VJson j), s')"
  shows "completes i act j s s'"
proof -
  let ?v = "VJson j" and ?d = "w_db (ex_world s)"
  have d: "faults ?d = []" "history_live ?d" "w_tx (ex_world s) = None"
    using assms(1) by (auto simp: ready_def live_faults)
  let ?s0 = "s\<lparr>ex_world := (ex_world s)\<lparr>w_tx := Some ?d, w_callbacks := []\<rparr>, ex_in_tx := True\<rparr>"
  have beg: "on_world begin_transaction s = (Inr (), s\<lparr>ex_world := (ex_world s)\<lparr>w_tx := Some ?d, w_callbacks := []\<rparr>\<rparr>)"
    using d by (simp add: on_world_def begin_transaction_def try_go_def)
  obtain r s1 where r: "execute_with_retry ch a input act ?s0 = (r, s1)"
    by (cases "execute_with_retry ch a input act ?s0")
  have f: "frame i ?s0 s1"
    using execute_with_retry_frame [OF assms(2)] r by (metis snd_conv)
  have o0: "open_tx ?s0" "here ?s0 = ?d"
    using d by (auto simp: open_tx_def here_def callbacks_in_tx_def)
  have o: "open_tx s1" "history_of i (here s1) = history_of i ?d"
    using open_tx_frame [OF o0(1) f] o0(2) by auto
  from r assms(4) beg have "r = Inr ?v"
    by (cases r) (auto simp: execute_in_transaction_def with_tx_context_def then_go_def try_go_def map_err_def
        split: prod.splits sum.splits if_splits)
  have "\<not> has_history i act (here s1)"
    using assms(3) has_history_frame [OF o(2)] by simp
  moreover have "ex_instance s1 = i" "ex_in_tx s1"
    using f assms(1) by (auto simp: frame_def ready_def)
  ultimately obtain s2 h where
    s2: "try_go (ctx_record_activity_result act (Inr ?v)) (\<lambda>_.
       if ac_comp a \<noteq> None then ignore_err (register_compensation a act input) else ret ()) s1 = (Inr (), s2)"
      "open_tx s2" "ex_instance s2 = i" "ex_in_tx s2" "ex_counts s2 = ex_counts s1"
      "ex_results s2 = (ex_results s1)(act \<mapsto> (BNil, ?v))" "ex_errors s2 = ex_errors s1"
      "history_of i (here s2) = history_of i (here s1) @ [h]" "completed act j h"
    using record_and_compensate [OF o(1) _ _ refl, where a = a and input = input and i = i and act = act and j = j]
    by metis
  obtain v2 where v2: "w_tx (ex_world s2) = Some v2" "history_live v2" "callbacks_in_tx (ex_world s2)"
    and d2: "history_live (w_db (ex_world s2))"
    using s2(2,4) by (auto simp: open_tx_def)
  note commit = commit_run [OF v2(1) live_faults [OF d2] v2(3)]
  obtain s3 where rec: "ctx_record_activity_result act (Inr ?v) s1 = (Inr (), s3)"
    and comp: "(if ac_comp a \<noteq> None then ignore_err (register_compensation a act input) else ret ()) s3 = (Inr (), s2)"
    using s2(1) by (auto simp: try_go_def split: prod.splits sum.splits)
  have "s' = s2\<lparr>ex_world := close_tx ((ex_world s2)\<lparr>w_db := sync_view (w_db (ex_world s2)) v2\<rparr>),
      ex_in_tx := ex_in_tx s, ex_direct := (if ex_direct s = None then None else ex_direct s2)\<rparr>"
    using assms(4) beg r \<open>r = Inr ?v\<close> rec comp commit
    by (cases "ex_direct s") (auto simp: execute_in_transaction_def with_tx_context_def on_world_def)
  with s2 f o assms(1) v2 d2 history_live_sync [OF v2(2) live_faults [OF d2]] show ?thesis
    by (auto simp: completes_def ready_def frame_def here_def close_tx_def)
qed

section \<open>Caches and history\<close>

definition lookup :: "caches \<Rightarrow> string \<Rightarrow> (go_error + gov) option" where
  "lookup c act =
     (case fst c act of Some (raw, v) \<Rightarrow> Some (Inr v) | None \<Rightarrow> map_option Inl (snd c act))"

definition cached_in :: "'x exec \<Rightarrow> string \<Rightarrow> (go_error + gov) option" where
  "cached_in s = lookup (ex_results s, ex_errors s)"

definition hit :: "string \<Rightarrow> 'x exec \<Rightarrow> 'x exec" where
  "hit act s = (if cached_in s act = None then s else s\<lparr>ex_hits := Suc (ex_hits s)\<rparr>)"

lemma get_cached_result_eq: "get_cached_result act s = (Inr (cached_in s act), hit act s)"
  by (auto simp: get_cached_result_def cached_in_def hit_def lookup_def split: option.split)

lemma build_caches_snoc:
  "completed act j h \<Longrightarrow> json_exact j \<Longrightarrow>
   build_caches (rows @ [h]) =
     ((fst (build_caches rows))(act \<mapsto> (BJson j, VJson j)), snd (build_caches rows))"
  by (simp add: build_caches_def cache_event_def completed_def bytes_nonempty_def f64_json_exact
      split: prod.split)

text \<open>The run's caches say what the stored history says, and every event of it is cached.\<close>

definition synced :: "string \<Rightarrow> 'x exec \<Rightarrow> bool" where
  "synced i s \<longleftrightarrow>
     (let rows = history_of i (w_db (ex_world s)) in
      cached_in s = lookup (build_caches rows) \<and>
      (\<forall>h \<in> set rows. cached_in s (he_activity h) \<noteq> None))"

lemma synced_new: "synced i s \<Longrightarrow> cached_in s act = None \<Longrightarrow> \<not> has_history i act (w_db (ex_world s))"
  by (auto simp: synced_def has_history_of Let_def)

lemma synced_completes:
  assumes "synced i s" "completes i act j s s'" "json_exact j" "cached_in s act = None"
  shows "synced i s' \<and> cached_in s' = (cached_in s)(act \<mapsto> Inr (VJson j))"
proof -
  from assms(2) obtain h where h: "completed act j h"
      "history_of i (w_db (ex_world s')) = history_of i (w_db (ex_world s)) @ [h]"
    by (auto simp: completes_def)
  have upd: "cached_in s' = (cached_in s)(act \<mapsto> Inr (VJson j))"
    using assms(2) by (intro ext) (auto simp: cached_in_def lookup_def completes_def split: option.split)
  moreover have "lookup (build_caches (history_of i (w_db (ex_world s')))) =
      (lookup (build_caches (history_of i (w_db (ex_world s)))))(act \<mapsto> Inr (VJson j))"
    using h(2) build_caches_snoc [OF h(1) assms(3)]
    by (intro ext) (auto simp: lookup_def split: option.split)
  ultimately show ?thesis
    using assms(1) h by (auto simp: synced_def Let_def completed_def)
qed

section \<open>Runs and replays\<close>

definition call_id :: "string \<Rightarrow> string \<Rightarrow> 'x exec \<Rightarrow> string" where
  "call_id name given s = (if given = '''' then name @ CHR '':'' # show_nat (Suc (ex_counts s name)) else given)"

definition after_id :: "string \<Rightarrow> string \<Rightarrow> 'x exec \<Rightarrow> 'x exec" where
  "after_id name given s =
     (if given = '''' then s\<lparr>ex_counts := (ex_counts s)(name := Suc (ex_counts s name))\<rparr> else s)"

lemma run_id:
  "(if given = '''' then generate_activity_id name else ret given) s = (Inr (call_id name given s), after_id name given s)"
  by (simp add: generate_activity_id_def call_id_def after_id_def)

lemma ctx_hook_run: "ctx_hook h s = (Inr (), run_hook h s)"
  by (simp add: run_hook_def ctx_hook_def on_world_def)

lemma run_hook_fields [simp]:
  "ex_instance (run_hook h s) = ex_instance s" "ex_counts (run_hook h s) = ex_counts s"
  "cached_in (run_hook h s) = cached_in s" "ex_in_tx (run_hook h s) = ex_in_tx s"
  "w_db (ex_world (run_hook h s)) = w_db (ex_world s)" "w_tx (ex_world (run_hook h s)) = w_tx (ex_world s)"
  by (simp_all add: run_hook_def ctx_hook_def on_world_def cached_in_def)

lemma after_id_fields [simp]:
  "ex_instance (after_id n g s) = ex_instance s" "cached_in (after_id n g s) = cached_in s"
  "ex_world (after_id n g s) = ex_world s" "ex_in_tx (after_id n g s) = ex_in_tx s"
  by (simp_all add: after_id_def cached_in_def)

lemma hit_fields [simp]:
  "ex_instance (hit a s) = ex_instance s" "cached_in (hit a s) = cached_in s"
  "ex_world (hit a s) = ex_world s" "ex_counts (hit a s) = ex_counts s" "ex_in_tx (hit a s) = ex_in_tx s"
  by (simp_all add: hit_def cached_in_def)

lemma sum_eta: "(case r of Inl e \<Rightarrow> throw e | Inr v \<Rightarrow> ret v) s = (r, s)"
  by (simp split: sum.split)

lemma activity_execute_eq:
  "activity_execute ch a input given s =
     (let act = call_id (ac_name a) given s;
          s1 = hit act (run_hook (\<lambda>i wf. OnActivityStart i act (ac_name a) input (ex_replaying s))
                 (after_id (ac_name a) given s))
      in case cached_in s act of
           Some r \<Rightarrow> (from_cache a act r, run_hook (\<lambda>i wf. OnActivityCacheHit i act (ac_name a) r) s1)
         | None \<Rightarrow>
             if ac_transactional a then execute_in_transaction ch a input act s1
             else execute_without_transaction ch a input act s1)"
proof -
  have rep: "ex_replaying (after_id n g s) = ex_replaying s" for n g by (simp add: after_id_def)
  show ?thesis
    unfolding activity_execute_def
    by (simp add: try_go_def run_id get_cached_result_eq ctx_hook_run rep sum_eta Let_def split: option.split)
qed

lemma sleep_eq:
  "sleep d given s =
     (let timer = call_id ''sleep'' given s; s1 = hit timer (after_id ''sleep'' given s) in
      if cached_in s timer \<noteq> None then (Inr (), s1)
      else (Inl (Suspend (new_timer_suspend (ex_instance s) timer timer (exec_now s + d))),
            run_hook (\<lambda>i wf. OnTimerStart i timer (exec_now s + d)) s1))"
  unfolding sleep_def
  by (simp add: try_go_def run_id get_cached_result_eq ctx_hook_run exec_now_def Let_def)

text \<open>A step of a run that left a usable trace.\<close>

fun good_step :: "choices \<Rightarrow> string \<Rightarrow> 'x wf \<Rightarrow> 'x exec \<Rightarrow> bool" where
  "good_step ch i (WfReturn v) s = True"
| "good_step ch i (WfFail e) s = True"
| "good_step ch i (WfActivity a input given k) s =
     (leaves_history i a \<and>
      (case fst (activity_execute ch a input given s) of
         Inl e \<Rightarrow> False | Inr v \<Rightarrow> storable v \<and> assert_type (ac_out a) v))"
| "good_step ch i (WfSleep d given k) s = (fst (sleep d given s) = Inr ())"
| "good_step ch i _ s = False"

fun good_run :: "choices \<Rightarrow> string \<Rightarrow> nat \<Rightarrow> 'x wf \<times> 'x exec \<Rightarrow> bool" where
  "good_run ch i 0 c = True"
| "good_run ch i (Suc n) c =
     (good_step ch i (fst c) (snd c) \<and> good_run ch i n (step_wf ch (fst c) (snd c)))"

definition same_but_hooks :: "'x world \<Rightarrow> 'x world \<Rightarrow> bool" where
  "same_but_hooks w w' \<longleftrightarrow> w' = w\<lparr>w_hooks := w_hooks w'\<rparr>"

text \<open>The replay \<open>s'\<close> of the run \<open>s\<close>, against the history \<open>rows\<close> the run will have left.\<close>

definition in_step :: "history_event list \<Rightarrow> 'x world \<Rightarrow> 'x exec \<Rightarrow> 'x exec \<Rightarrow> bool" where
  "in_step rows w s s' \<longleftrightarrow>
     ex_counts s' = ex_counts s \<and> cached_in s' = lookup (build_caches rows) \<and>
     same_but_hooks w (ex_world s')"

lemma same_hooks_run [simp]: "same_but_hooks w (ex_world (run_hook h s)) = same_but_hooks w (ex_world s)"
  by (cases "ex_world s"; cases w) (auto simp: same_but_hooks_def run_hook_def ctx_hook_def on_world_def)

lemma in_step_ids:
  "in_step rows w s s' \<Longrightarrow> call_id n g s' = call_id n g s \<and> ex_counts (after_id n g s') = ex_counts (after_id n g s)"
  by (simp add: in_step_def call_id_def after_id_def)

subsection \<open>One step\<close>

lemma completes_run: "completes i act j s1 s' \<Longrightarrow> ready i s' \<and> ex_counts s' = ex_counts s1"
  by (simp add: completes_def)

text \<open>
  A good activity call: its value is in the caches afterwards, whether it ran or not.
\<close>

lemma good_activity:
  assumes "ready i s" "synced i s" "good_step ch i (WfActivity a input given k) s"
    and "activity_execute ch a input given s = (r, s')"
  shows "ready i s' \<and> synced i s' \<and> ex_counts s' = ex_counts (after_id (ac_name a) given s) \<and>
    cached_in s \<subseteq>\<^sub>m cached_in s' \<and>
    (\<exists>v. r = Inr v \<and> cached_in s' (call_id (ac_name a) given s) = Some (Inr v) \<and> assert_type (ac_out a) v)"
proof -
  let ?act = "call_id (ac_name a) given s"
  let ?s1 = "hit ?act (run_hook (\<lambda>i wf. OnActivityStart i ?act (ac_name a) input (ex_replaying s))
      (after_id (ac_name a) given s))"
  from assms(3,4) obtain v where v: "r = Inr v" "storable v" "assert_type (ac_out a) v"
    by (auto split: sum.splits)
  from v(2) obtain j where j: "v = VJson j" "json_exact j" by (auto simp: storable_def)
  have lh: "leaves_history i a" using assms(3) by simp
  have s1: "ready i ?s1" "synced i ?s1" "cached_in ?s1 = cached_in s"
    "ex_counts ?s1 = ex_counts (after_id (ac_name a) given s)"
    using assms(1,2) by (simp_all add: ready_def synced_def)
  show ?thesis
  proof (cases "cached_in s ?act")
    case (Some x)
    with assms(4) have eq: "from_cache a ?act x = r"
        "s' = run_hook (\<lambda>i wf. OnActivityCacheHit i ?act (ac_name a) x) ?s1"
      by (auto simp: activity_execute_eq Let_def)
    with v have "x = Inr v"
      by (auto simp: from_cache_def error_value_def storable_def split: sum.splits if_splits)
    with Some eq(2) s1 v show ?thesis
      by (simp add: ready_def synced_def)
  next
    case None
    have new: "\<not> has_history i ?act (w_db (ex_world ?s1))"
      using synced_new [OF s1(2)] None s1(3) by simp
    have "completes i ?act j ?s1 s'"
    proof (cases "ac_transactional a")
      case True
      with None assms(4) v(1) j have "execute_in_transaction ch a input ?act ?s1 = (Inr (VJson j), s')"
        by (simp add: activity_execute_eq Let_def)
      from execute_in_tx_completes [OF s1(1) lh new this] show ?thesis .
    next
      case False
      with None assms(4) v(1) j have "execute_without_transaction ch a input ?act ?s1 = (Inr (VJson j), s')"
        by (simp add: activity_execute_eq Let_def)
      from execute_without_completes [OF s1(1) lh new this] show ?thesis .
    qed
    with synced_completes [OF s1(2) this j(2)] None s1 v j completes_run [OF this] show ?thesis
      by (auto simp: map_le_def)
  qed
qed

lemma good_step_keeps:
  assumes "ready i s" "synced i s" "good_step ch i t s" "step_wf ch t s = (t1, s1)"
  shows "ready i s1 \<and> synced i s1 \<and> cached_in s \<subseteq>\<^sub>m cached_in s1"
proof (cases t)
  case (WfActivity a input given k)
  obtain r s' where r: "activity_execute ch a input given s = (r, s')"
    by (cases "activity_execute ch a input given s")
  with good_activity [OF assms(1,2) _ r, where k = k] assms(3,4) WfActivity show ?thesis
    by (auto simp: continue_def)
next
  case (WfSleep d given k)
  with assms show ?thesis
    by (auto simp: continue_def sleep_eq Let_def ready_def synced_def split: if_splits)
qed (use assms in auto)

lemma replay_step:
  assumes "ready i s" "synced i s" "good_step ch i t s" "step_wf ch t s = (t1, s1)"
    and "in_step rows w s s'" "cached_in s1 \<subseteq>\<^sub>m lookup (build_caches rows)"
  shows "\<exists>s1'. step_wf ch' t s' = (t1, s1') \<and> in_step rows w s1 s1'"
proof (cases t)
  case (WfActivity a input given k)
  let ?act = "call_id (ac_name a) given s"
  obtain r s2 where r: "activity_execute ch a input given s = (r, s2)"
    by (cases "activity_execute ch a input given s")
  with WfActivity assms(4) have t1: "t1 = k r" "s1 = s2" by (auto simp: continue_def)
  from good_activity [OF assms(1,2) _ r, where k = k] assms(3) WfActivity obtain v where
    v: "r = Inr v" "cached_in s2 ?act = Some (Inr v)" "assert_type (ac_out a) v"
    and cnt: "ex_counts s2 = ex_counts (after_id (ac_name a) given s)" by auto
  have "cached_in s' ?act = Some (Inr v)"
    using v(2) assms(5,6) t1(2) by (auto simp: in_step_def map_le_def dom_def)
  with in_step_ids [OF assms(5)] v have
    "fst (activity_execute ch' a input given s') = r"
    "ex_counts (snd (activity_execute ch' a input given s')) = ex_counts s1"
    "cached_in (snd (activity_execute ch' a input given s')) = cached_in s'"
    "same_but_hooks w (ex_world (snd (activity_execute ch' a input given s')))"
    using assms(5) cnt t1
    by (simp_all add: activity_execute_eq Let_def from_cache_def in_step_def)
  with WfActivity t1 assms(5) show ?thesis
    by (cases "activity_execute ch' a input given s'") (auto simp: continue_def in_step_def)
next
  case (WfSleep d given k)
  let ?timer = "call_id ''sleep'' given s"
  from WfSleep assms(3,4) have old: "cached_in s ?timer \<noteq> None" "t1 = k (Inr ())"
      "s1 = hit ?timer (after_id ''sleep'' given s)"
    by (auto simp: continue_def sleep_eq Let_def split: if_splits)
  then obtain x where x: "cached_in s1 ?timer = Some x" by auto
  have "cached_in s' ?timer = cached_in s1 ?timer"
    using x assms(5,6) by (auto simp: in_step_def map_le_def dom_def)
  with x old(2,3) WfSleep in_step_ids [OF assms(5)] assms(5) show ?thesis
    by (simp add: continue_def sleep_eq Let_def in_step_def)
qed (use assms in \<open>auto simp: in_step_def\<close>)

subsection \<open>Runs\<close>

lemma good_run_keeps:
  "ready i (snd c) \<Longrightarrow> synced i (snd c) \<Longrightarrow> good_run ch i n c \<Longrightarrow>
   synced i (snd (run_steps ch n c)) \<and> ready i (snd (run_steps ch n c)) \<and>
   cached_in (snd c) \<subseteq>\<^sub>m cached_in (snd (run_steps ch n c))"
proof (induction n arbitrary: c)
  case (Suc n)
  obtain t1 s1 where st: "step_wf ch (fst c) (snd c) = (t1, s1)"
    by (cases "step_wf ch (fst c) (snd c)")
  have k: "ready i s1" "synced i s1" "cached_in (snd c) \<subseteq>\<^sub>m cached_in s1"
    using good_step_keeps [OF Suc.prems(1,2) _ st] Suc.prems(3) by auto
  have "synced i (snd (run_steps ch n (t1, s1))) \<and> ready i (snd (run_steps ch n (t1, s1))) \<and>
      cached_in s1 \<subseteq>\<^sub>m cached_in (snd (run_steps ch n (t1, s1)))"
    using Suc.IH [of "(t1, s1)"] k(1,2) Suc.prems(3) st by simp
  with k(3) st show ?case by (auto intro: map_le_trans)
qed (simp add: map_le_def)

lemma replay_run:
  "ready i (snd c) \<Longrightarrow> synced i (snd c) \<Longrightarrow> good_run ch i n c \<Longrightarrow>
   in_step rows w (snd c) s' \<Longrightarrow>
   cached_in (snd (run_steps ch n c)) \<subseteq>\<^sub>m lookup (build_caches rows) \<Longrightarrow>
   \<exists>s1'. run_steps ch' n (fst c, s') = (fst (run_steps ch n c), s1') \<and>
         in_step rows w (snd (run_steps ch n c)) s1'"
proof (induction n arbitrary: c s')
  case (Suc n)
  obtain t1 s1 where st: "step_wf ch (fst c) (snd c) = (t1, s1)"
    by (cases "step_wf ch (fst c) (snd c)")
  have good: "good_step ch i (fst c) (snd c)" "good_run ch i n (t1, s1)"
    using Suc.prems(3) st by auto
  have k: "ready i s1" "synced i s1"
    using good_step_keeps [OF Suc.prems(1,2) good(1) st] by auto
  have le: "cached_in s1 \<subseteq>\<^sub>m lookup (build_caches rows)"
    using good_run_keeps [of i "(t1, s1)" ch n] k good(2) Suc.prems(5) st
    by (auto intro: map_le_trans)
  from replay_step [OF Suc.prems(1,2) good(1) st Suc.prems(4) le] obtain s1' where
    s1': "step_wf ch' (fst c) s' = (t1, s1')" "in_step rows w s1 s1'" by blast
  with Suc.IH [of "(t1, s1)" s1'] k good(2) Suc.prems(5) st show ?case by simp
qed (auto simp: in_step_def)

lemma new_exec_in_step:
  "ex_counts s = (\<lambda>_. 0) \<Longrightarrow> in_step rows w s (new_exec w i rows)"
  by (simp add: in_step_def new_exec_def cached_in_def same_but_hooks_def)

lemma new_exec_ready:
  "w_tx w = None \<Longrightarrow> history_live (w_db w) \<Longrightarrow> ready i (new_exec w i rows)"
  by (simp add: ready_def new_exec_def)

section \<open>The property\<close>


text \<open>
  A workflow of two activities that append to the outside world; the first run crashes after
  the first of them.
\<close>

definition demo_activity :: "string \<Rightarrow> json \<Rightarrow> (string list) activity" where
  "demo_activity name j =
     \<lparr>ac_name = name,
      ac_fn = (\<lambda>dl v s. (Inr (VJson j), s\<lparr>ex_world := (ex_world s)\<lparr>w_ext := w_ext (ex_world s) @ [name]\<rparr>\<rparr>)),
      ac_out = TString, ac_policy = None, ac_timeout = 0, ac_comp = None,
      ac_decode = (\<lambda>b. Inr (VJson JNull)), ac_transactional = True\<rparr>"

definition demo_wf :: "(string list) wf" where
  "demo_wf =
     WfActivity (demo_activity ''a'' (JStr ''x'')) (VJson JNull) '''' (\<lambda>r.
     WfActivity (demo_activity ''b'' (JStr ''y'')) (VJson JNull) '''' (\<lambda>r'.
       case r' of Inl e \<Rightarrow> WfFail e | Inr v \<Rightarrow> WfReturn v))"

definition demo_world :: "(string list) world" where
  "demo_world = \<lparr>w_db = empty_db, w_tx = None, w_callbacks = [], w_hooks = [], w_ext = []\<rparr>"

definition demo_choices :: choices where
  "demo_choices = \<lparr>ch_rand = (\<lambda>_. 1 / 2), ch_fuel = 3\<rparr>"

definition demo_first :: "(string list) wf \<times> (string list) exec" where
  "demo_first = run_steps demo_choices 1 (demo_wf, new_exec demo_world ''i'' [])"

lemma demo_leaves: "leaves_history i (demo_activity name j)"
  by (simp add: leaves_history_def demo_activity_def frame_def callbacks_in_tx_def)

lemma demo_step:
  "fst (activity_execute demo_choices (demo_activity ''a'' (JStr ''x'')) (VJson JNull) ''''
     (new_exec demo_world ''i'' [])) = Inr (VJson (JStr ''x''))"
  by (simp add: activity_execute_eq Let_def new_exec_def build_caches_def cached_in_def lookup_def
      demo_activity_def after_id_def hit_def run_hook_def ctx_hook_def on_world_def
      execute_in_transaction_def begin_transaction_def demo_world_def empty_db_def try_go_def
      with_tx_context_def execute_with_retry_def retry_fuel_def activity_policy_def default_policy_def
      Let_def attempt_deadline_def then_go_def ctx_record_activity_result_def
      exec_record_with_context_def record_activity_result_def stor_def sync_view_def append_history_def
      has_history_def insert_history_def set_cached_result_def commit_transaction_def map_err_def
      numeral_eq_Suc)

lemma demo_history: "history_of ''i'' empty_db = []" "history_live empty_db"
  by (simp_all add: history_of_def empty_db_def history_live_def history_ok_def)


end
