(* ===== verification/Outbox_Relay.thy ===== *)
theory Outbox_Relay
  imports Events_Api Complex_Main
begin

text \<open>
  outbox/relayer.go: one poll of the relayer, its backoff, and how often an event can be
  sent. The sender is user code or the CloudEvents client, a state transformer of the world
  (\<open>Inr ()\<close> is an acknowledged delivery); the stop channel and the context are the argument
  \<open>stopped\<close>, asked before each event.
\<close>

record 'x relayer =
  rl_sender :: "outbox_event \<Rightarrow> ('x, unit) wm"
  rl_interval :: time
  rl_batch :: nat
  rl_max_retries :: int
  rl_max_backoff :: time

definition new_relayer ::
    "(outbox_event \<Rightarrow> ('x, unit) wm) \<Rightarrow> time \<Rightarrow> nat \<Rightarrow> int \<Rightarrow> time \<Rightarrow> 'x relayer" where
  "new_relayer sender interval batch max_retries max_backoff =
     \<lparr>rl_sender = sender,
      rl_interval = (if interval = 0 then 1000000000 else interval),
      rl_batch = (if batch = 0 then 100 else batch),
      rl_max_retries = (if max_retries = 0 then 5 else max_retries),
      rl_max_backoff = (if max_backoff = 0 then 30000000000 else max_backoff)\<rparr>"

definition relayer_backoff :: "'x relayer \<Rightarrow> nat \<Rightarrow> time" where
  "relayer_backoff r consecutive_empty =
     (if consecutive_empty = 0 then rl_interval r
      else let backoff = rl_interval r * 2 ^ min consecutive_empty 5
           in if backoff > rl_max_backoff r then rl_max_backoff r else backoff)"

text \<open>The number of empty polls in a row, after a poll with this outcome.\<close>

definition next_empty :: "go_error + nat \<Rightarrow> nat \<Rightarrow> nat" where
  "next_empty outcome consecutive_empty =
     (case outcome of Inl e \<Rightarrow> 0 | Inr n \<Rightarrow> if n = 0 then Suc consecutive_empty else 0)"

fun relay_loop :: "'x relayer \<Rightarrow> (nat \<Rightarrow> bool) \<Rightarrow> outbox_event list \<Rightarrow> ('x, unit) wm" where
  "relay_loop r stopped [] = ret ()"
| "relay_loop r stopped (ev # evs) =
     (if stopped (length evs) then ret ()
      else if ob_retry ev \<ge> rl_max_retries r then
        try_go (ignore_err (stor False (mark_outbox_event_failed (ob_id ev)))) (\<lambda>_.
        relay_loop r stopped evs)
      else
        try_go (ignore_err (stor False (increment_outbox_attempts (ob_id ev)))) (\<lambda>_.
        then_go (rl_sender r ev) (\<lambda>sent.
        case sent of
          Inl e \<Rightarrow> relay_loop r stopped evs
        | Inr u \<Rightarrow>
            try_go (ignore_err (stor False (mark_outbox_event_sent (ob_id ev)))) (\<lambda>_.
            relay_loop r stopped evs))))"

definition process_pending_events :: "'x relayer \<Rightarrow> (nat \<Rightarrow> bool) \<Rightarrow> ('x, nat) wm" where
  "process_pending_events r stopped =
     try_go (stor False (get_pending_outbox_events (rl_batch r))) (\<lambda>events.
       if events = [] then ret 0
       else try_go (relay_loop r stopped events) (\<lambda>_. ret (length events)))"

definition relayer_cleanup :: "time \<Rightarrow> ('x, unit) wm" where
  "relayer_cleanup older_than = stor False (cleanup_old_outbox_events older_than)"

section \<open>Backoff\<close>

lemma relayer_backoff_range:
  assumes "0 \<le> rl_interval r" "rl_interval r \<le> rl_max_backoff r"
  shows "rl_interval r \<le> relayer_backoff r n \<and> relayer_backoff r n \<le> rl_max_backoff r"
proof -
  have "rl_interval r * 1 \<le> rl_interval r * 2 ^ k" for k :: nat
    using assms(1) by (intro mult_left_mono) auto
  with assms show ?thesis by (auto simp: relayer_backoff_def Let_def)
qed

section \<open>Attempts\<close>

definition sender_keeps :: "'x relayer \<Rightarrow> bool" where
  "sender_keeps r \<longleftrightarrow> (\<forall>ev w. w_db (snd (rl_sender r ev w)) = w_db w \<and> w_tx (snd (rl_sender r ev w)) = w_tx w)"

text \<open>What one poll does to the row of an event that is in its batch.\<close>

definition relay_row :: "'x relayer \<Rightarrow> bool \<Rightarrow> int \<Rightarrow> outbox_event \<Rightarrow> outbox_event" where
  "relay_row r sent now ev =
     (if ob_retry ev \<ge> rl_max_retries r then ev\<lparr>ob_status := OutboxFailed\<rparr>
      else if sent then ev\<lparr>ob_retry := ob_retry ev + 1, ob_status := OutboxPublished, ob_published := Some now\<rparr>
      else ev\<lparr>ob_retry := ob_retry ev + 1\<rparr>)"

definition find_outbox :: "db \<Rightarrow> string \<Rightarrow> outbox_event option" where
  "find_outbox d ev = find (\<lambda>e. ob_id e = ev) (outbox d)"

lemma find_outbox_update:
  "(\<And>e. ob_id (f e) = ob_id e) \<Longrightarrow>
   find_outbox (update_outbox (\<lambda>e. ob_id e = k) f d) k' =
     (if k' = k then map_option f (find_outbox d k') else find_outbox d k')"
  using find_update_where_same [of ob_id f k "\<lambda>_. True" "outbox d"]
    find_update_where_other [of "\<lambda>e. ob_id e = k" ob_id k' f "outbox d"]
  by (auto simp: find_outbox_def update_outbox_def)

lemma update_outbox_simps [simp]:
  "faults (update_outbox p f d) = faults d" "sql_now (update_outbox p f d) = sql_now d"
  by (simp_all add: update_outbox_def sql_now_def)

definition relayed :: "'x relayer \<Rightarrow> outbox_event \<Rightarrow> 'x world \<Rightarrow> 'x world" where
  "relayed r ev w = snd (relay_loop r (\<lambda>_. False) [ev] w)"

lemma relay_loop_Cons:
  "relay_loop r (\<lambda>_. False) (ev # evs) w = relay_loop r (\<lambda>_. False) evs (relayed r ev w)"
  by (simp add: relayed_def try_go_def then_go_def split: prod.split sum.split)

lemma relayed_row:
  assumes "w_tx w = None" "faults (w_db w) = []" "sender_keeps r"
  shows "w_tx (relayed r ev w) = None \<and> faults (w_db (relayed r ev w)) = [] \<and>
    sql_now (w_db (relayed r ev w)) = sql_now (w_db w) \<and>
    (\<exists>sent. \<forall>k. find_outbox (w_db (relayed r ev w)) k =
       (if k = ob_id ev
        then map_option (\<lambda>e. if ob_retry ev \<ge> rl_max_retries r then e\<lparr>ob_status := OutboxFailed\<rparr>
               else if sent then e\<lparr>ob_retry := ob_retry e + 1, ob_status := OutboxPublished,
                                  ob_published := Some (sql_now (w_db w))\<rparr>
               else e\<lparr>ob_retry := ob_retry e + 1\<rparr>) (find_outbox (w_db w) k)
        else find_outbox (w_db w) k))"
proof (cases "ob_retry ev \<ge> rl_max_retries r")
  case True
  with assms show ?thesis
    by (simp add: relayed_def mark_outbox_event_failed_def find_outbox_update try_go_def)
next
  case False
  let ?w1 = "w\<lparr>w_db := update_outbox (\<lambda>e. ob_id e = ob_id ev) (\<lambda>e. e\<lparr>ob_retry := ob_retry e + 1\<rparr>) (w_db w)\<rparr>"
  obtain o2 w2 where s: "rl_sender r ev ?w1 = (o2, w2)" by (cases "rl_sender r ev ?w1")
  from assms(3) have "w_db (snd (rl_sender r ev ?w1)) = w_db ?w1" "w_tx (snd (rl_sender r ev ?w1)) = w_tx ?w1"
    unfolding sender_keeps_def by blast+
  with s assms(1) have k: "w_db w2 = w_db ?w1" "w_tx w2 = None" by simp_all
  show ?thesis
  proof (cases o2)
    case (Inl e)
    with False assms s k show ?thesis
      by (auto simp: relayed_def increment_outbox_attempts_def try_go_def then_go_def find_outbox_update
          intro!: exI [of _ False])
  next
    case (Inr u)
    with False assms s k show ?thesis
      by (auto simp: relayed_def increment_outbox_attempts_def mark_outbox_event_sent_def try_go_def
          then_go_def find_outbox_update option.map_comp comp_def intro!: exI [of _ True])
  qed
qed

lemma relay_loop_rows:
  "w_tx w = None \<Longrightarrow> faults (w_db w) = [] \<Longrightarrow> sender_keeps r \<Longrightarrow> distinct (map ob_id evs) \<Longrightarrow>
   (\<forall>ev \<in> set evs. find_outbox (w_db w) (ob_id ev) = Some ev) \<Longrightarrow>
   (let w' = snd (relay_loop r (\<lambda>_. False) evs w) in
     (\<forall>ev \<in> set evs. \<exists>sent. find_outbox (w_db w') (ob_id ev) = Some (relay_row r sent (sql_now (w_db w)) ev)) \<and>
     (\<forall>k. k \<notin> ob_id ` set evs \<longrightarrow> find_outbox (w_db w') k = find_outbox (w_db w) k))"
proof (induction evs arbitrary: w)
  case (Cons ev evs)
  let ?w1 = "relayed r ev w"
  obtain sent where row: "w_tx ?w1 = None" "faults (w_db ?w1) = []" "sql_now (w_db ?w1) = sql_now (w_db w)"
    "\<And>k. find_outbox (w_db ?w1) k =
       (if k = ob_id ev
        then map_option (\<lambda>e. if ob_retry ev \<ge> rl_max_retries r then e\<lparr>ob_status := OutboxFailed\<rparr>
               else if sent then e\<lparr>ob_retry := ob_retry e + 1, ob_status := OutboxPublished,
                                  ob_published := Some (sql_now (w_db w))\<rparr>
               else e\<lparr>ob_retry := ob_retry e + 1\<rparr>) (find_outbox (w_db w) k)
        else find_outbox (w_db w) k)"
    using relayed_row [OF Cons.prems(1,2,3), of ev] by blast
  have new: "ob_id ev \<notin> ob_id ` set evs" "distinct (map ob_id evs)"
    using Cons.prems(4) by auto
  have here: "find_outbox (w_db ?w1) (ob_id ev) = Some (relay_row r sent (sql_now (w_db w)) ev)"
    using row(4) Cons.prems(5) by (simp add: relay_row_def)
  have rest: "\<forall>ev' \<in> set evs. find_outbox (w_db ?w1) (ob_id ev') = Some ev'"
    using row(4) Cons.prems(5) new(1) by (auto simp: image_iff)
  let ?w2 = "snd (relay_loop r (\<lambda>_. False) evs ?w1)"
  have IH: "\<forall>ev' \<in> set evs. \<exists>sent. find_outbox (w_db ?w2) (ob_id ev') = Some (relay_row r sent (sql_now (w_db w)) ev')"
    "\<And>k. k \<notin> ob_id ` set evs \<Longrightarrow> find_outbox (w_db ?w2) k = find_outbox (w_db ?w1) k"
    using Cons.IH [OF row(1,2) Cons.prems(3) new(2) rest] row(3) by (simp_all add: Let_def)
  have hd: "find_outbox (w_db ?w2) (ob_id ev) = Some (relay_row r sent (sql_now (w_db w)) ev)"
    using IH(2) [OF new(1)] here by simp
  have out: "find_outbox (w_db ?w2) k = find_outbox (w_db w) k" if "k \<notin> ob_id ` set (ev # evs)" for k
    using that IH(2) [of k] row(4) [of k] by simp
  show ?case
    unfolding relay_loop_Cons Let_def using IH(1) hd out by auto
qed simp

definition outbox_ok :: "db \<Rightarrow> bool" where
  "outbox_ok d \<longleftrightarrow> distinct (map ob_id (outbox d))"

lemma find_outbox_row: "outbox_ok d \<Longrightarrow> e \<in> set (outbox d) \<Longrightarrow> find_outbox d (ob_id e) = Some e"
  unfolding outbox_ok_def find_outbox_def by (rule find_distinct_key)


definition relay_event :: "string \<Rightarrow> int \<Rightarrow> outbox_event" where
  "relay_event k n =
     \<lparr>ob_id = k, ob_type = ''t'', ob_source = ''s'', ob_data = BJson JNull, ob_data_type = ''json'',
      ob_content_type = ''application/json'', ob_status = OutboxPending, ob_retry = n,
      ob_published = None, ob_created = 0\<rparr>"

definition relay_world :: "unit world" where
  "relay_world = \<lparr>w_db = empty_db\<lparr>outbox := [relay_event ''a'' 5, relay_event ''b'' 0]\<rparr>,
     w_tx = None, w_callbacks = [], w_hooks = [], w_ext = ()\<rparr>"

definition demo_relayer :: "unit relayer" where
  "demo_relayer = new_relayer (\<lambda>ev w. (Inr (), w)) 0 0 0 0"


end
