(* ===== verification/App_Tasks.thy ===== *)
theory App_Tasks
  imports Deterministic_Replay Outbox_Relay
begin

text \<open>
  app.go: starting, resuming and cancelling workflows, leader election, the background
  tasks, CloudEvents and the HTTP handlers.

  \<open>'x app\<close> is what an App is configured with, \<open>'x proc\<close> the worker process: the world and
  its leader state. A task handles the items of a batch in goroutines under a semaphore;
  here the handlers of a batch run one after the other, each to its end. A goroutine that a
  call starts and does not wait for is returned as a \<open>job\<close>.
\<close>

record 'x app =
  ap_worker :: string
  ap_engine :: "'x engine"
  ap_registry :: "'x registry"
  ap_runners :: "string \<Rightarrow> 'x runner option"
  ap_handlers :: "string \<Rightarrow> string option"
  ap_stale_sec :: int
  ap_lease_sec :: int
  ap_max_timers :: int
  ap_max_messages :: int
  ap_max_workflows :: int
  ap_retention :: time

record 'x proc =
  pr_world :: "'x world"
  pr_leader :: bool
  pr_tasks :: bool
  pr_running :: bool
  pr_initialized :: bool

text \<open>The engine that initStorage builds.\<close>

definition init_engine :: "string \<Rightarrow> 'x registry \<Rightarrow> 'x engine" where
  "init_engine worker reg = set_compensation_runner (registry_runner reg) (new_engine worker)"

definition register_workflow :: "choices \<Rightarrow> 'x workflow_def \<Rightarrow> bool \<Rightarrow> 'x app \<Rightarrow> 'x app" where
  "register_workflow ch wd event_handler ap =
     ap\<lparr>ap_runners := (ap_runners ap)(wd_name wd \<mapsto> workflow_runner ch wd),
        ap_handlers := (if event_handler then (ap_handlers ap)(wd_name wd \<mapsto> wd_name wd) else ap_handlers ap)\<rparr>"

section \<open>Starting and resuming\<close>

datatype job = RunWorkflow string string

text \<open>\<open>uuid\<close> is the identifier the uuid package makes up.\<close>

definition start_workflow :: "string \<Rightarrow> string \<Rightarrow> gov \<Rightarrow> string \<Rightarrow> ('x, string \<times> job) wm" where
  "start_workflow uuid workflow input instance_opt =
     (let i = (if instance_opt = '''' then uuid else instance_opt) in
      case marshal input of
        None \<Rightarrow> throw (wrapf ''failed to serialize input'' json_error)
      | Some j \<Rightarrow>
          try_go (get_go (\<lambda>w. clock (w_db w))) (\<lambda>now.
          try_go (map_err (wrapf ''failed to create instance'') (stor False (create_instance
            \<lparr>inst_id = i, inst_workflow = workflow, inst_framework = '''', inst_status = StatusRunning,
             inst_input = BJson j, inst_output = None, inst_activity = None, inst_source_hash = '''',
             inst_owner = '''', inst_continued_from = None, inst_locked_by = None, inst_locked_at = None,
             inst_lock_timeout = None, inst_lock_expires = None, inst_started = now, inst_updated = now\<rparr>))) (\<lambda>_.
          try_go (hook (OnWorkflowStart i)) (\<lambda>_.
          ret (i, RunWorkflow i workflow)))))"

definition run_workflow :: "'x app \<Rightarrow> string \<Rightarrow> string \<Rightarrow> ('x, unit) wm" where
  "run_workflow ap i workflow =
     (case ap_runners ap workflow of
        None \<Rightarrow> throw (ErrText (''workflow '' @ workflow @ '' not registered''))
      | Some runner \<Rightarrow> engine_start_workflow (ap_engine ap) i runner)"

definition run_job :: "'x app \<Rightarrow> job \<Rightarrow> ('x, unit) wm" where
  "run_job ap j = (case j of RunWorkflow i workflow \<Rightarrow> ignore_err (run_workflow ap i workflow))"

definition resume_workflow :: "'x app \<Rightarrow> string \<Rightarrow> ('x, unit) wm" where
  "resume_workflow ap i =
     try_go (map_err (wrapf ''failed to get instance'') (stor False (get_instance i))) (\<lambda>inst.
     case inst of
       None \<Rightarrow> throw (ErrText (''instance '' @ i @ '' not found''))
     | Some r \<Rightarrow>
         (case ap_runners ap (inst_workflow r) of
            None \<Rightarrow> throw (ErrText (''workflow '' @ inst_workflow r @ '' not registered''))
          | Some runner \<Rightarrow> engine_resume_workflow (ap_engine ap) i runner))"

definition resume_workflow_with_lock :: "'x app \<Rightarrow> string \<Rightarrow> ('x, unit) wm" where
  "resume_workflow_with_lock ap i = resume_workflow ap i"

definition find_instances_with_options ::
    "(string \<times> sql_arg list \<Rightarrow> workflow_instance \<Rightarrow> bool) \<Rightarrow> list_options \<Rightarrow> ('x, list_row list) wm" where
  "find_instances_with_options holds opts =
     try_go (stor False (list_instances holds opts)) (\<lambda>(page, tok, has_more). ret page)"

section \<open>Cancelling\<close>

definition app_lock :: "'x app \<Rightarrow> string \<Rightarrow> ('x, bool) wm" where
  "app_lock ap i = stor False (try_acquire_lock i (ap_worker ap) (ap_stale_sec ap))"

definition app_unlock :: "'x app \<Rightarrow> string \<Rightarrow> ('x, unit) wm" where
  "app_unlock ap i = stor False (release_lock i (ap_worker ap))"

definition cancel_workflow :: "'x app \<Rightarrow> string \<Rightarrow> string \<Rightarrow> ('x, unit) wm" where
  "cancel_workflow ap i reason =
     try_go (map_err (wrapf ''failed to get instance'') (stor False (get_instance i))) (\<lambda>inst.
     case inst of
       None \<Rightarrow> throw (WorkflowNotFoundError i)
     | Some r \<Rightarrow>
         if inst_status r = StatusCompleted then throw (ErrText ''cannot cancel completed workflow'')
         else if inst_status r = StatusFailed then throw (ErrText ''cannot cancel failed workflow'')
         else if inst_status r = StatusCancelled then ret ()
         else
           try_go (map_err (wrapf ''failed to acquire lock'') (app_lock ap i)) (\<lambda>acquired.
           if \<not> acquired then throw (ErrText ''workflow is locked by another worker'')
           else defer_go (app_unlock ap i)
             (try_go (ignore_err (app_execute_compensations (ap_registry ap) i)) (\<lambda>_.
              try_go (map_err (\<lambda>e. if errors_is e (Sentinel ErrWorkflowNotCancellable)
                                   then Sentinel ErrWorkflowNotCancellable
                                   else wrapf ''failed to cancel instance'' e)
                       (stor False (cancel_instance i reason))) (\<lambda>_.
              hook (OnWorkflowCancelled i (inst_workflow r) reason))))))"

section \<open>Leader election\<close>

definition leader_lock :: string where
  "leader_lock = ''romancy_leader''"

definition start_leader_only_tasks :: "'x proc \<Rightarrow> 'x proc" where
  "start_leader_only_tasks p = (if pr_tasks p then p else p\<lparr>pr_tasks := True\<rparr>)"

definition stop_leader_tasks :: "'x proc \<Rightarrow> 'x proc" where
  "stop_leader_tasks p = (if \<not> pr_tasks p then p else p\<lparr>pr_tasks := False\<rparr>)"

definition try_acquire_leadership :: "'x app \<Rightarrow> 'x proc \<Rightarrow> 'x proc" where
  "try_acquire_leadership ap p =
     (case stor False (try_acquire_system_lock leader_lock (ap_worker ap) (ap_lease_sec ap)) (pr_world p) of
        (Inl e, w) \<Rightarrow> p\<lparr>pr_world := w\<rparr>
      | (Inr acquired, w) \<Rightarrow>
          let p = p\<lparr>pr_world := w\<rparr> in
          if acquired \<and> \<not> pr_leader p then start_leader_only_tasks (p\<lparr>pr_leader := True\<rparr>)
          else if \<not> acquired \<and> pr_leader p then stop_leader_tasks (p\<lparr>pr_leader := False\<rparr>)
          else p)"

text \<open>Shutdown, after the background tasks have stopped.\<close>

definition shutdown :: "'x app \<Rightarrow> 'x proc \<Rightarrow> 'x proc" where
  "shutdown ap p =
     (if \<not> pr_running p then p
      else let p = stop_leader_tasks (p\<lparr>pr_running := False\<rparr>) in
        if pr_leader p
        then p\<lparr>pr_world := snd (stor False (release_system_lock leader_lock (ap_worker ap)) (pr_world p)),
               pr_leader := False\<rparr>
        else p)"

section \<open>Backoff\<close>

definition calculate_backoff :: "time \<Rightarrow> nat \<Rightarrow> time \<Rightarrow> time" where
  "calculate_backoff base consecutive_empty max_backoff =
     (if consecutive_empty = 0 then base
      else let backoff = base * 2 ^ min consecutive_empty 5
           in if backoff > max_backoff then max_backoff else backoff)"

text \<open>\<open>u\<close> is the random number in \<open>[0, 1)\<close>; float64 products are exact here.\<close>

definition add_jitter :: "rat \<Rightarrow> time \<Rightarrow> time" where
  "add_jitter u d = go_trunc (of_int d * (1 + 1 / 4 * (2 * u - 1)))"

definition add_jitter_fraction :: "rat \<Rightarrow> time \<Rightarrow> rat \<Rightarrow> time" where
  "add_jitter_fraction u d fraction = d + go_trunc (u * of_int d * fraction)"

section \<open>Background tasks\<close>

definition each_item :: "('a \<Rightarrow> ('x, unit) wm) \<Rightarrow> 'a list \<Rightarrow> ('x, unit) wm" where
  "each_item handler items = for_each (\<lambda>x. ignore_err (handler x)) items"

definition app_cleanup_stale_locks :: "'x app \<Rightarrow> ('x, unit) wm" where
  "app_cleanup_stale_locks ap =
     try_go (stor False (cleanup_stale_locks (ap_stale_sec ap))) (\<lambda>stale.
     each_item (\<lambda>(i, workflow). resume_workflow ap i) stale)"

definition timer_result :: "timer_subscription \<Rightarrow> gov" where
  "timer_result t =
     VJson (JObj [(''completed'', JBool True), (''expires_at'', time_json (ts_expires t)),
                  (''timer_id'', JStr (ts_timer t))])"

definition handle_expired_timer :: "'x app \<Rightarrow> timer_subscription \<Rightarrow> ('x, unit) wm" where
  "handle_expired_timer ap t =
     (let i = ts_instance t in
      try_go (stor False (get_instance i)) (\<lambda>inst.
      case inst of
        None \<Rightarrow> ret ()
      | Some r \<Rightarrow>
          if ap_runners ap (inst_workflow r) = None then ret ()
          else
            try_go (app_lock ap i) (\<lambda>acquired.
            if \<not> acquired then ret ()
            else
              try_go (on_err (app_unlock ap i) (stor False (remove_timer_subscription i (ts_timer t)))) (\<lambda>_.
              try_go (on_err (app_unlock ap i) (map_err (wrapf ''failed to record timer result'')
                       (record_activity_result False i (ts_timer t) (Inr (timer_result t))))) (\<lambda>_.
              try_go (hook (OnTimerFired i (inst_workflow r) (ts_timer t))) (\<lambda>_.
              resume_workflow_with_lock ap i))))))"

definition check_expired_timers :: "'x app \<Rightarrow> ('x, unit) wm" where
  "check_expired_timers ap =
     try_go (stor False (find_expired_timers (ap_max_timers ap))) (each_item (handle_expired_timer ap))"

definition timeout_activity :: "channel_subscription \<Rightarrow> string" where
  "timeout_activity sub =
     (case cs_activity sub of
        None \<Rightarrow> ''receive_'' @ cs_channel sub @ '':timeout''
      | Some a \<Rightarrow> if a = '''' then ''receive_'' @ cs_channel sub @ '':timeout'' else a)"

definition handle_channel_timeout :: "'x app \<Rightarrow> channel_subscription \<Rightarrow> ('x, unit) wm" where
  "handle_channel_timeout ap sub =
     (let i = cs_instance sub in
      try_go (app_lock ap i) (\<lambda>acquired.
      if \<not> acquired then ret ()
      else
        then_go (stor False (get_instance i)) (\<lambda>inst.
        let workflow = (case inst of Inr (Some r) \<Rightarrow> inst_workflow r | _ \<Rightarrow> '''') in
        try_go (hook (OnEventTimeout i workflow (cs_channel sub))) (\<lambda>_.
        try_go (on_err (app_unlock ap i) (map_err (wrapf ''failed to record timeout error'')
          (stor False (append_history i (timeout_activity sub) HistoryMessageTimeout
             (BJson (JStr (err_text (ChannelMessageTimeoutError i (cs_channel sub))))) ''json'')))) (\<lambda>_.
        try_go (on_err (app_unlock ap i) (stor False (clear_channel_waiting_state i (cs_channel sub)))) (\<lambda>_.
        defer_go (app_unlock ap i) (stor False (update_instance_status i StatusRunning ''''))))))))"

definition check_channel_timeouts :: "'x app \<Rightarrow> ('x, unit) wm" where
  "check_channel_timeouts ap =
     try_go (map_err (wrapf ''failed to find expired channel subscriptions'')
              (stor False (find_expired_channel_subscriptions (ap_max_messages ap))))
       (each_item (handle_channel_timeout ap))"

definition check_event_timeouts :: "'x app \<Rightarrow> ('x, unit) wm" where
  "check_event_timeouts ap = check_channel_timeouts ap"

definition handle_recurred_workflow :: "'x app \<Rightarrow> list_row \<Rightarrow> ('x, unit) wm" where
  "handle_recurred_workflow ap row =
     (let i = lr_id row in
      try_go (app_lock ap i) (\<lambda>acquired.
      if \<not> acquired then ret ()
      else
        try_go (on_err (app_unlock ap i) (map_err (wrapf ''failed to update status'')
          (stor False (update_instance_status i StatusRunning '''')))) (\<lambda>_.
        try_go (ignore_err (app_unlock ap i)) (\<lambda>_.
        resume_workflow ap i))))"

definition recurred_options :: list_options where
  "recurred_options =
     \<lparr>lo_limit = 50, lo_token = NoToken, lo_status = Some StatusRecurred, lo_name = '''', lo_id = '''',
      lo_after = None, lo_before = None, lo_inputs = [], lo_old_status = None, lo_old_name = ''''\<rparr>"

definition check_recurred_workflows :: "'x app \<Rightarrow> ('x, unit) wm" where
  "check_recurred_workflows ap =
     try_go (map_err (wrapf ''failed to find recurred workflows'')
              (stor False (list_instances (\<lambda>c r. True) recurred_options)))
       (\<lambda>(page, tok, has_more). each_item (handle_recurred_workflow ap) page)"

definition resume_resumable_workflows :: "'x app \<Rightarrow> ('x, nat) wm" where
  "resume_resumable_workflows ap =
     try_go (map_err (wrapf ''failed to find resumable workflows'')
              (stor False (find_resumable_workflows (ap_max_workflows ap)))) (\<lambda>wfs.
     if wfs = [] then ret 0
     else try_go (each_item (\<lambda>(i, workflow). resume_workflow ap i) wfs) (\<lambda>_. ret (length wfs)))"

definition cleanup_channel_messages :: "'x app \<Rightarrow> ('x, unit) wm" where
  "cleanup_channel_messages ap =
     map_err (wrapf ''failed to cleanup channel messages'')
       (stor False (cleanup_old_channel_messages (ap_retention ap)))"

section \<open>Events\<close>

definition app_wake_waiting_subscribers ::
    "'x app \<Rightarrow> string \<Rightarrow> int \<Rightarrow> bytes \<Rightarrow> bytes \<Rightarrow> ('x, unit) wm" where
  "app_wake_waiting_subscribers ap channel msg_id data metadata =
     then_go (stor False (get_subscribers_waiting channel)) (\<lambda>r.
     case r of
       Inl e \<Rightarrow> ret ()
     | Inr subs \<Rightarrow> wake_loop False (ap_worker ap) (ap_stale_sec ap) channel
                    (wake_message channel msg_id data metadata) subs)"

record cloud_event =
  ev_id :: string
  ev_type :: string
  ev_source :: string
  ev_specversion :: string
  ev_time :: "int option"
  ev_data :: "json option"
  ev_extensions :: "(string \<times> json) list"

definition standard_fields :: "string list" where
  "standard_fields = [''id'', ''type'', ''source'', ''specversion'', ''time'', ''dataschema'', ''subject'',
     ''data'', ''datacontenttype'']"

definition raw_fields :: "json \<Rightarrow> (string \<times> json) list option" where
  "raw_fields j = (case j of JNull \<Rightarrow> Some [] | JObj kvs \<Rightarrow> Some kvs | _ \<Rightarrow> None)"

text \<open>A Go map's entries in the order \<open>json.Marshal\<close> writes them.\<close>

definition sorted_entries :: "(string \<times> json) list \<Rightarrow> (string \<times> json) list" where
  "sorted_entries kvs =
     map (\<lambda>k. (k, the (map_of (rev kvs) k))) (sort (remdups (map fst kvs)))"

definition unmarshal_cloud_event :: "json \<Rightarrow> cloud_event option" where
  "unmarshal_cloud_event j =
     (case raw_fields j of
        None \<Rightarrow> None
      | Some kvs \<Rightarrow>
          let obj = JObj kvs in
          Some \<lparr>ev_id = data_string ''id'' obj, ev_type = data_string ''type'' obj,
                ev_source = data_string ''source'' obj, ev_specversion = data_string ''specversion'' obj,
                ev_time = (case json_get ''time'' obj of Some (JStr s) \<Rightarrow> read_int s | _ \<Rightarrow> None),
                ev_data = json_get ''data'' obj,
                ev_extensions = map (\<lambda>(k, v). (k, f64_json v))
                  (sorted_entries (filter (\<lambda>(k, v). k \<notin> set standard_fields) kvs))\<rparr>)"

definition event_document :: "cloud_event \<Rightarrow> json" where
  "event_document ev =
     JObj ((case ev_data ev of None \<Rightarrow> [] | Some d \<Rightarrow> [(''data'', f64_json d)])
       @ (if ev_extensions ev = [] then [] else [(''extensions'', JObj (ev_extensions ev))])
       @ [(''id'', JStr (ev_id ev)), (''source'', JStr (ev_source ev)),
          (''specversion'', JStr (ev_specversion ev))]
       @ (case ev_time ev of None \<Rightarrow> [] | Some t \<Rightarrow> [(''time'', time_json t)])
       @ [(''type'', JStr (ev_type ev))])"

definition target_instance :: "cloud_event \<Rightarrow> string" where
  "target_instance ev = data_string ''romancyinstanceid'' (JObj (ev_extensions ev))"

definition deliver_event_to_waiting_workflows :: "'x app \<Rightarrow> cloud_event \<Rightarrow> ('x, unit) wm" where
  "deliver_event_to_waiting_workflows ap ev =
     (let channel = (if target_instance ev \<noteq> '''' then direct_channel (ev_type ev) (target_instance ev)
                     else ev_type ev);
          data = BJson (event_document ev)
      in try_go (map_err (wrapf ''failed to publish event to channel'')
                  (stor False (publish_to_channel channel data BNil))) (\<lambda>msg_id.
         app_wake_waiting_subscribers ap channel msg_id data BNil))"

definition process_cloud_event :: "'x app \<Rightarrow> string \<Rightarrow> cloud_event \<Rightarrow> ('x, job option) wm" where
  "process_cloud_event ap uuid ev =
     try_go (hook (OnEventReceived (ev_type ev) (ev_id ev) (ev_source ev))) (\<lambda>_.
     try_go (ignore_err (deliver_event_to_waiting_workflows ap ev)) (\<lambda>_.
     case ap_handlers ap (ev_type ev) of
       None \<Rightarrow> ret None
     | Some workflow \<Rightarrow>
         then_go (start_workflow uuid workflow
                   (VJson (case ev_data ev of None \<Rightarrow> JNull | Some d \<Rightarrow> f64_json d)) '''') (\<lambda>r.
         case r of Inl e \<Rightarrow> ret None | Inr (i, j) \<Rightarrow> ret (Some j))))"

section \<open>HTTP handlers\<close>

text \<open>The response status, and the event handed to the goroutine that processes it.\<close>

definition handle_cloud_event :: "string \<Rightarrow> bytes \<Rightarrow> nat \<times> cloud_event option" where
  "handle_cloud_event http_method body =
     (if http_method \<noteq> ''POST'' then (405, None)
      else case (case body of BJson j \<Rightarrow> unmarshal_cloud_event j | _ \<Rightarrow> None) of
        None \<Rightarrow> (400, None)
      | Some ev \<Rightarrow> if ev_type ev = '''' then (400, None) else (202, Some ev))"

definition handle_readiness_probe :: "'x proc \<Rightarrow> nat" where
  "handle_readiness_probe p = (if pr_running p \<and> pr_initialized p then 200 else 503)"

definition handle_cancel :: "'x app \<Rightarrow> string \<Rightarrow> string \<Rightarrow> bytes \<Rightarrow> 'x world \<Rightarrow> nat \<times> 'x world" where
  "handle_cancel ap http_method i body w =
     (if http_method \<noteq> ''POST'' then (405, w)
      else if i = '''' then (400, w)
      else let reason = (case body of BJson j \<Rightarrow> data_string ''reason'' j | _ \<Rightarrow> '''') in
        case cancel_workflow ap i reason w of
          (Inl e, w') \<Rightarrow> (500, w')
        | (Inr u, w') \<Rightarrow> (200, w'))"

section \<open>Notifications\<close>

definition deliver_to_waiting_subscriber :: "'x app \<Rightarrow> string \<Rightarrow> string \<Rightarrow> ('x, unit) wm" where
  "deliver_to_waiting_subscriber ap i channel =
     then_go (stor False (get_pending_for_instance i channel)) (\<lambda>r.
     case r of
       Inl e \<Rightarrow> ret ()
     | Inr [] \<Rightarrow> ret ()
     | Inr (m # rest) \<Rightarrow>
         then_go (stor False (deliver_channel_message_with_lock i channel m (ap_worker ap) (ap_stale_sec ap)))
           (\<lambda>_. ret ()))"

definition wake_for_notify :: "'x app \<Rightarrow> string \<Rightarrow> string \<Rightarrow> ('x, unit) wm" where
  "wake_for_notify ap channel target =
     (if target \<noteq> '''' then deliver_to_waiting_subscriber ap target channel
      else then_go (stor False (get_subscribers_waiting channel)) (\<lambda>r.
        case r of
          Inl e \<Rightarrow> ret ()
        | Inr subs \<Rightarrow> for_each (\<lambda>s. deliver_to_waiting_subscriber ap (cs_instance s) channel) subs))"

end
