(* ===== verification/Engine_Outcomes.thy ===== *)
theory Engine_Outcomes
  imports App_Tasks
begin

text \<open>
  What an engine run does to the instance's row, and when it runs at all.

  \<open>row_is i st wk d\<close>: the row of instance \<open>i\<close> has status \<open>st\<close> and is locked by nobody or by
  the worker \<open>wk\<close>. The status a run ends with depends on what the workflow returned
  (\<open>outcome_status\<close>).
\<close>

definition row_is :: "string \<Rightarrow> workflow_status \<Rightarrow> string \<Rightarrow> db \<Rightarrow> bool" where
  "row_is i st wk d \<longleftrightarrow> (\<exists>r. find_instance d i = Some r \<and> inst_status r = st \<and>
     inst_locked_by r \<in> {None, Some wk})"

text \<open>Statements that leave the instances alone.\<close>

lemma row_is_same: "instances d' = instances d \<Longrightarrow> row_is i st wk d' = row_is i st wk d"
  unfolding row_is_def find_instance_def by simp

lemma insert_history_instances [simp]: "instances (insert_history i act ty data dt d) = instances d"
  by (simp add: insert_history_def)

lemma append_history_instances:
  "faults d = [] \<Longrightarrow> append_history i act ty data dt d = (r, d') \<Longrightarrow>
   r = Inr () \<and> faults d' = [] \<and> instances d' = instances d"
  by (auto simp: append_history_run)

lemma update_status_row:
  "faults d = [] \<Longrightarrow> row_is i st0 wk d \<Longrightarrow> update_instance_status i st msg d = (r, d') \<Longrightarrow>
   r = Inr () \<and> faults d' = [] \<and> row_is i st wk d'"
  using find_instance_update [of "\<lambda>r. r\<lparr>inst_status := st, inst_updated := sql_now d\<rparr>" i "\<lambda>_. True" d]
  by (auto simp: update_instance_status_def row_is_def)

lemma update_output_row:
  "faults d = [] \<Longrightarrow> row_is i st0 wk d \<Longrightarrow> update_instance_output i b d = (r, d') \<Longrightarrow>
   r = Inr () \<and> faults d' = [] \<and> row_is i StatusCompleted wk d'"
  using find_instance_update [of "\<lambda>r. r\<lparr>inst_output := Some b, inst_status := StatusCompleted,
      inst_updated := sql_now d\<rparr>" i "\<lambda>_. True" d]
  by (auto simp: update_instance_output_def row_is_def)

lemma release_lock_row:
  assumes "faults d = []" "row_is i st wk d" "release_lock i wk d = (r, d')"
  shows "faults d' = [] \<and> (\<exists>r. find_instance d' i = Some r \<and> inst_status r = st \<and> inst_locked_by r = None)"
proof -
  let ?f = "\<lambda>r. r\<lparr>inst_locked_by := None, inst_locked_at := None,
      inst_lock_expires := None, inst_updated := sql_now d\<rparr>"
  from assms(2) obtain r0 where r0: "find_instance d i = Some r0" "inst_status r0 = st"
    "inst_locked_by r0 \<in> {None, Some wk}" by (auto simp: row_is_def)
  have "find_instance d' i = Some (if inst_locked_by r0 = Some wk then ?f r0 else r0)"
    using assms(1,3) r0(1) find_instance_update [of ?f i "\<lambda>r. inst_locked_by r = Some wk" d]
    by (simp add: release_lock_def)
  moreover have "faults d' = []" using assms(1,3) by (auto simp: release_lock_def)
  ultimately show ?thesis using r0(2,3) by (cases "inst_locked_by r0 = Some wk") auto
qed

lemma register_receive_row:
  assumes "faults d = []" "row_is i st0 wk d" "register_receive_and_release_lock i c wk act t d = (r, d')"
  shows "r = Inr () \<and> faults d' = [] \<and> row_is i StatusWaitingForMessage wk d'"
proof -
  let ?d1 = "update_sub i c (\<lambda>s. s\<lparr>cs_timeout := map_option secs t, cs_activity := Some act\<rparr>) d"
  let ?d2 = "update_instances (\<lambda>r. inst_id r = i)
       (\<lambda>r. r\<lparr>inst_status := StatusWaitingForMessage, inst_updated := sql_now ?d1\<rparr>) ?d1"
  have f: "faults ?d1 = []" "find_instance ?d1 i = find_instance d i"
    using assms(1) by (simp_all add: update_sub_def find_instance_def)
  have "find_instance ?d2 i = map_option (\<lambda>r. r\<lparr>inst_status := StatusWaitingForMessage,
      inst_updated := sql_now ?d1\<rparr>) (find_instance d i)"
    using find_instance_update [of "\<lambda>r. r\<lparr>inst_status := StatusWaitingForMessage,
      inst_updated := sql_now ?d1\<rparr>" i "\<lambda>_. True" ?d1] f by simp
  then have row: "row_is i StatusWaitingForMessage wk ?d2"
    using assms(2) by (auto simp: row_is_def)
  have "d' = update_instances (\<lambda>r. inst_id r = i \<and> inst_locked_by r = Some wk)
       (\<lambda>r. r\<lparr>inst_locked_by := None, inst_locked_at := None, inst_lock_expires := None,
              inst_updated := sql_now ?d2\<rparr>) ?d2" "r = Inr ()"
    using assms(1,3) f(1) by (simp_all add: register_receive_and_release_lock_def try_go_def)
  moreover from this have "release_lock i wk ?d2 = (Inr (), d')"
    using f(1) by (simp add: release_lock_def)
  ultimately show ?thesis
    using release_lock_row [OF _ row] f(1) by (fastforce simp: row_is_def)
qed

section \<open>The end of a run\<close>

fun outcome_status :: "go_error + gov \<Rightarrow> workflow_status" where
  "outcome_status (Inr v) = (if marshal v = None then StatusFailed else StatusCompleted)"
| "outcome_status (Inl e) =
     (case as_suspend_signal e of
        None \<Rightarrow> StatusFailed
      | Some sig \<Rightarrow>
          (case suspend_type_of sig of
             SuspendForTimer \<Rightarrow> StatusWaitingForTimer
           | SuspendForChannelMessage \<Rightarrow> StatusWaitingForMessage
           | SuspendForRecur \<Rightarrow> StatusRunning))"

text \<open>
  The columns that the shipped migrations give the archive table; \<open>original_id\<close> is not
  among them, so archiving fails.
\<close>

definition shipped_schema :: "db \<Rightarrow> bool" where
  "shipped_schema d \<longleftrightarrow> archive_columns d = archive_columns empty_db"

lemma archive_fails:
  "shipped_schema d \<Longrightarrow> faults d = [] \<Longrightarrow> \<exists>e. archive_history i d = (Inl e, d)"
  by (simp add: archive_history_def archive_copy_def archive_insert_columns_def shipped_schema_def
      empty_db_def)

definition settled :: "string \<Rightarrow> workflow_status \<Rightarrow> string \<Rightarrow> 'x world \<Rightarrow> bool" where
  "settled i st wk w \<longleftrightarrow> w_tx w = None \<and> faults (w_db w) = [] \<and> row_is i st wk (w_db w)"

lemma settled_hook [simp]: "settled i st wk (w\<lparr>w_hooks := h\<rparr>) = settled i st wk w"
  by (simp add: settled_def)

lemma settled_status:
  "settled i st0 wk w \<Longrightarrow> stor False (update_instance_status i st msg) w = (r, w') \<Longrightarrow>
   r = Inr () \<and> settled i st wk w'"
  using update_status_row [of "w_db w" i st0 wk st msg] by (auto simp: settled_def prod_eq_iff)

lemma settled_append:
  "settled i st wk w \<Longrightarrow> stor False (append_history j act ty data dt) w = (r, w') \<Longrightarrow>
   r = Inr () \<and> settled i st wk w'"
  using append_history_instances [of "w_db w" j act ty data dt]
    row_is_same [of "snd (append_history j act ty data dt (w_db w))" "w_db w"]
  by (auto simp: settled_def prod_eq_iff)

lemma settled_output:
  "settled i st0 wk w \<Longrightarrow> stor False (update_instance_output i b) w = (r, w') \<Longrightarrow>
   r = Inr () \<and> settled i StatusCompleted wk w'"
  using update_output_row [of "w_db w" i st0 wk b] by (auto simp: settled_def prod_eq_iff)

lemma engine_compensations_settled:
  assumes "settled i st wk w" "history_live (w_db w)" "keeps_db runner"
  shows "settled i st wk (snd (engine_execute_compensations (Some runner) i w))"
proof -
  have "settled i st wk w \<Longrightarrow> settled i st wk (foldl (run_entry (by_runner runner) i) w cs)" for cs
  proof (induction cs arbitrary: w)
    case (Cons c cs)
    then have t: "w_tx w = None" and d: "faults (w_db w) = []" by (auto simp: settled_def)
    obtain ok msg where r: "w_db (run_entry (by_runner runner) i w c) = recorded i c ok msg (w_db w)"
      "w_tx (run_entry (by_runner runner) i w c) = None"
      using run_entry_db [OF assms(3) t] by blast
    have "settled i st wk (run_entry (by_runner runner) i w c)"
      using Cons.prems r recorded_eq [OF d, of i c ok msg]
        row_is_same [of "recorded i c ok msg (w_db w)" "w_db w"]
      by (simp add: settled_def)
    with Cons.IH show ?case by simp
  qed simp
  with assms show ?thesis
    by (simp add: engine_compensations_run settled_def)
qed

lemma handle_suspend_settled:
  assumes "settled i StatusRunning (en_worker en) w" "shipped_schema (w_db w)"
  shows "settled i (outcome_status (Inl (Suspend sig))) (en_worker en) (snd (handle_suspend_signal en i sig w))"
proof (cases sig)
  case (SuspendTimer inst timer act expires)
  let ?w = "w\<lparr>w_db := insert_timer i timer expires act (w_db w)\<rparr>"
  have "settled i StatusRunning (en_worker en) ?w"
    using assms(1) row_is_same [of "insert_timer i timer expires act (w_db w)" "w_db w"]
    by (auto simp: settled_def insert_timer_def)
  from settled_status [OF this, of StatusWaitingForTimer "''''"] assms(1) SuspendTimer show ?thesis
    by (cases "stor False (update_instance_status i StatusWaitingForTimer '''') ?w")
       (auto simp: handle_suspend_signal_def handle_timer_suspend_def register_timer_subscription_def
         settled_def try_go_def map_err_def)
next
  case (SuspendChannelMessage inst c act t)
  let ?t = "map_option (\<lambda>d. clock (w_db w) + d) t"
  obtain r d' where d': "register_receive_and_release_lock i c (en_worker en) act ?t (w_db w) = (r, d')"
    by (cases "register_receive_and_release_lock i c (en_worker en) act ?t (w_db w)")
  with register_receive_row [OF _ _ d'] assms(1) SuspendChannelMessage show ?thesis
    by (auto simp: handle_suspend_signal_def handle_channel_suspend_def settled_def try_go_def map_err_def)
next
  case (SuspendRecur inst v)
  with archive_fails [OF assms(2), of i] assms(1) show ?thesis
    by (auto simp: handle_suspend_signal_def handle_recur_suspend_def settled_def try_go_def map_err_def)
qed

lemma fail_workflow_settled:
  assumes "settled i StatusRunning (en_worker en) w" "history_live (w_db w)"
    and "en_comp en = Some runner" "keeps_db runner"
  shows "settled i StatusFailed (en_worker en) (snd (fail_workflow en i e w))"
proof -
  obtain r w1 where c: "engine_execute_compensations (Some runner) i w = (r, w1)"
    by (cases "engine_execute_compensations (Some runner) i w")
  with engine_compensations_settled [OF assms(1,2,4)] have w1: "settled i StatusRunning (en_worker en) w1"
    by simp
  obtain w2 where w2: "(case r of
               Inl ce \<Rightarrow> hook (OnWorkflowFailed i
                 (Wrapped ''workflow failed: '' e (''; compensation also failed: '' @ err_text ce)))
             | Inr u \<Rightarrow> ret ()) w1 = (Inr (), w2)" "settled i StatusRunning (en_worker en) w2"
    using w1 by (cases r) auto
  obtain r3 w3 where w3: "stor False (append_history i '''' HistoryWorkflowFailed
      (BJson (failure_event e)) ''json'') w2 = (r3, w3)" by (cases "stor False (append_history i ''''
        HistoryWorkflowFailed (BJson (failure_event e)) ''json'') w2")
  note s3 = settled_append [OF w2(2) w3]
  obtain r4 w4 where w4: "stor False (update_instance_status i StatusFailed (err_text e)) w3 = (r4, w4)"
    by (cases "stor False (update_instance_status i StatusFailed (err_text e)) w3")
  note s4 = settled_status [OF conjunct2 [OF s3] w4]
  show ?thesis
    using s4 w3 w4 c w2(1) assms(3) by (simp add: fail_workflow_def)
qed

lemma complete_workflow_settled:
  assumes "settled i StatusRunning wk w"
  shows "settled i (outcome_status (Inr v)) wk (snd (complete_workflow i rep h n v w))"
proof (cases "marshal v")
  case None
  obtain r w1 where w1: "stor False (update_instance_status i StatusFailed ''failed to serialize result'') w = (r, w1)"
    by (cases "stor False (update_instance_status i StatusFailed ''failed to serialize result'') w")
  with settled_status [OF assms w1] None show ?thesis
    by (simp add: complete_workflow_def)
next
  case (Some j)
  obtain r w1 where w1: "stor False (update_instance_output i (BJson j)) w = (r, w1)"
    by (cases "stor False (update_instance_output i (BJson j)) w")
  note s1 = settled_output [OF assms w1]
  obtain r2 w2 where w2: "stor False (update_instance_status i StatusCompleted '''') w1 = (r2, w2)"
    by (cases "stor False (update_instance_status i StatusCompleted '''') w1")
  note s2 = settled_status [OF conjunct2 [OF s1] w2]
  show ?thesis
    using s1 s2 w1 w2 Some by (simp add: complete_workflow_def try_go_def map_err_def)
qed

lemma finish_workflow_settled:
  assumes "settled i StatusRunning (en_worker en) (ex_world s)" "shipped_schema (w_db (ex_world s))"
    and "history_live (w_db (ex_world s))" "en_comp en = Some runner" "keeps_db runner"
  shows "settled i (outcome_status r) (en_worker en) (snd (finish_workflow en i (r, s)))"
proof (cases r)
  case (Inr v)
  with complete_workflow_settled [OF assms(1)] show ?thesis by (simp add: finish_workflow_def)
next
  case (Inl e)
  show ?thesis
  proof (cases "as_suspend_signal e")
    case None
    with Inl fail_workflow_settled [OF assms(1,3,4,5)] show ?thesis by (simp add: finish_workflow_def)
  next
    case (Some sig)
    with Inl handle_suspend_settled [OF assms(1,2), of sig] show ?thesis by (simp add: finish_workflow_def)
  qed
qed

section \<open>The whole run\<close>

text \<open>
  What is asked of the workflow's code: it leaves the engine's row, the lock, the connection
  and the schema as they were, and its transactions are closed.
\<close>

definition runner_ok :: "string \<Rightarrow> string \<Rightarrow> 'x runner \<Rightarrow> bool" where
  "runner_ok i wk runner \<longleftrightarrow>
     (\<forall>s. settled i StatusRunning wk (ex_world s) \<and> history_live (w_db (ex_world s)) \<and>
          shipped_schema (w_db (ex_world s)) \<longrightarrow>
        (let w' = ex_world (snd (runner s)) in
         settled i StatusRunning wk w' \<and> history_live (w_db w') \<and> shipped_schema (w_db w')))"

lemma load_history_run:
  assumes "history_live d"
  shows "load_history i d = (Inr (history_of i d), d)"
proof -
  have "length (history_of i d) < length (history d) + 1"
    by (simp add: history_of_def less_Suc_eq_le)
  from history_pages.collect_all [OF assms this, of "Some 1000"] show ?thesis
    by (simp add: load_history_def)
qed

definition lock_available :: "string \<Rightarrow> string \<Rightarrow> db \<Rightarrow> bool" where
  "lock_available i wk d \<longleftrightarrow>
     (case instance_holder i d of None \<Rightarrow> True | Some (v, e) \<Rightarrow> v = wk \<or> e < sql_now d)"

text \<open>The world in which the workflow's code starts.\<close>

definition run_start :: "'x engine \<Rightarrow> string \<Rightarrow> 'x world \<Rightarrow> 'x world" where
  "run_start en i w =
     (let w1 = snd (stor False (try_acquire_lock i (en_worker en) 300) w);
          w2 = snd (stor False (update_instance_status i StatusRunning '''') w1)
      in w2\<lparr>w_hooks := w_hooks w2 @
          (if history_of i (w_db w) = [] then [] else [OnReplayStart i (length (history_of i (w_db w)))])
          @ [OnWorkflowStart i]\<rparr>)"

lemma update_instances_live: "history_live (update_instances p f d) = history_live d"
  by (simp add: history_live_def history_ok_def)

lemma update_instances_history: "history_of i (update_instances p f d) = history_of i d"
  by (simp add: history_of_def)

lemma update_instances_schema: "shipped_schema (update_instances p f d) = shipped_schema d"
  by (simp add: shipped_schema_def update_instances_def)

lemmas update_instances_keep = update_instances_live update_instances_history update_instances_schema

lemma run_start_settled:
  assumes "w_tx w = None" "instance_lock_live i (w_db w)" "history_live (w_db w)" "shipped_schema (w_db w)"
    and "lock_available i (en_worker en) (w_db w)"
  shows "settled i StatusRunning (en_worker en) (run_start en i w)"
    and "history_live (w_db (run_start en i w))" "shipped_schema (w_db (run_start en i w))"
    and "engine_resume_workflow en i runner w =
      defer_go (stor False (release_lock i (en_worker en)))
        (\<lambda>w. finish_workflow en i (runner (new_exec w i (history_of i (w_db w))))) (run_start en i w)"
proof -
  let ?d = "w_db w" and ?wk = "en_worker en"
  have f: "faults ?d = []" using assms(2) by (simp add: instance_lock_live_def)
  obtain d1 where d1: "try_acquire_lock i ?wk 300 ?d = (Inr True, d1)"
      "instance_holder i d1 = Some (?wk, sql_now ?d + 300)" "instance_lock_live i d1"
    using instance_lock.acquire_granted [OF assms(2), of ?wk 300] assms(5) by (auto simp: lock_available_def)
  obtain p g where pg: "d1 = update_instances p g ?d"
    using d1(1) f by (auto simp: try_acquire_lock_run)
  have f1: "faults d1 = []" using pg f by simp
  let ?d2 = "update_instances (\<lambda>r. inst_id r = i)
       (\<lambda>r. r\<lparr>inst_status := StatusRunning, inst_updated := sql_now d1\<rparr>) d1"
  have d2: "update_instance_status i StatusRunning '''' d1 = (Inr (), ?d2)"
    using f1 by (simp add: update_instance_status_def)
  have row: "row_is i StatusRunning ?wk ?d2"
    using d1(2) find_instance_update [of "\<lambda>r. r\<lparr>inst_status := StatusRunning, inst_updated := sql_now d1\<rparr>"
        i "\<lambda>_. True" d1]
    by (auto simp: row_is_def instance_holder_def split: option.splits)
  have keep: "history_live ?d2" "shipped_schema ?d2" "history_of i ?d2 = history_of i ?d"
    using assms(3,4) by (simp_all add: pg update_instances_keep)
  have start: "run_start en i w = w\<lparr>w_db := ?d2, w_hooks := w_hooks w @
          (if history_of i ?d = [] then [] else [OnReplayStart i (length (history_of i ?d))])
          @ [OnWorkflowStart i]\<rparr>"
    using assms(1) d1(1) d2 by (simp add: run_start_def)
  show "settled i StatusRunning ?wk (run_start en i w)"
    using row f1 assms(1) by (simp add: start settled_def)
  show "history_live (w_db (run_start en i w))" "shipped_schema (w_db (run_start en i w))"
    using keep by (simp_all add: start)
  show "engine_resume_workflow en i runner w =
      defer_go (stor False (release_lock i ?wk))
        (\<lambda>w. finish_workflow en i (runner (new_exec w i (history_of i (w_db w))))) (run_start en i w)"
    using assms(1) d1(1) d2 load_history_run [OF keep(1), of i] keep(3)
    by (simp add: engine_resume_workflow_def with_instance_lock_def execute_workflow_def try_go_def
        map_err_def start defer_go_def Let_def split: prod.split)
qed

text \<open>
  C2: what a run of the engine leaves behind. When the lock of the instance can be taken, the
  run ends with the instance unlocked and with the status that belongs to what the workflow
  returned: completed for a result that can be serialised, failed for one that cannot or
  for an error, waiting for a timer or a message for the suspend signals. With the schema of
  the shipped migrations a recurring workflow is left in status running, because archiving
  its history fails.
\<close>

theorem engine_run_outcome:
  assumes "w_tx w = None" "instance_lock_live i (w_db w)" "history_live (w_db w)" "shipped_schema (w_db w)"
    and "lock_available i (en_worker en) (w_db w)"
    and "runner_ok i (en_worker en) runner" "en_comp en = Some comp_runner" "keeps_db comp_runner"
    and "w' = snd (engine_resume_workflow en i runner w)"
    and "start = new_exec (run_start en i w) i (history_of i (w_db (run_start en i w)))"
  shows "\<exists>r. find_instance (w_db w') i = Some r \<and> inst_locked_by r = None \<and>
    inst_status r = outcome_status (fst (runner start))"
proof -
  note st = run_start_settled [OF assms(1-5)]
  have ex: "ex_world start = run_start en i w" by (simp add: assms(10) new_exec_def)
  obtain res s where res: "runner start = (res, s)" by (cases "runner start")
  have ok: "settled i StatusRunning (en_worker en) (ex_world s)" "history_live (w_db (ex_world s))"
    "shipped_schema (w_db (ex_world s))"
    using assms(6) st(1-3) res ex unfolding runner_ok_def Let_def by (metis snd_conv)+
  let ?f = "snd (finish_workflow en i (res, s))"
  have fin: "settled i (outcome_status res) (en_worker en) ?f"
    using finish_workflow_settled [OF ok(1,3,2) assms(7,8)] .
  have "w' = snd (stor False (release_lock i (en_worker en)) ?f)"
    using st(4) [of runner] res assms(9,10) by (simp add: defer_go_def split: prod.split)
  then have "release_lock i (en_worker en) (w_db ?f) = (fst (release_lock i (en_worker en) (w_db ?f)), w_db w')"
    using fin by (simp add: settled_def)
  from release_lock_row [OF _ _ this] fin res show ?thesis by (auto simp: settled_def)
qed

definition demo_instance :: workflow_instance where
  "demo_instance =
     \<lparr>inst_id = ''i'', inst_workflow = ''wf'', inst_framework = ''go'', inst_status = StatusRunning,
      inst_input = BJson JNull, inst_output = None, inst_activity = None, inst_source_hash = '''',
      inst_owner = '''', inst_continued_from = None, inst_locked_by = None, inst_locked_at = None,
      inst_lock_timeout = None, inst_lock_expires = None, inst_started = 0, inst_updated = 0\<rparr>"

definition one_world :: "workflow_instance \<Rightarrow> unit world" where
  "one_world r = \<lparr>w_db = empty_db\<lparr>instances := [r]\<rparr>, w_tx = None, w_callbacks = [], w_hooks = [], w_ext = ()\<rparr>"

definition demo_engine :: "unit engine" where
  "demo_engine = init_engine ''w1'' Map.empty"

lemma one_world_live:
  "w_tx (one_world r) = None" "history_live (w_db (one_world r))" "shipped_schema (w_db (one_world r))"
  "faults (w_db (one_world r)) = []" "instances (w_db (one_world r)) = [r]" "clock (w_db (one_world r)) = 0"
  by (simp_all add: one_world_def history_live_def history_ok_def shipped_schema_def empty_db_def)

lemma demo_lock:
  "instance_lock_live ''i'' (w_db (one_world demo_instance))"
  "lock_available ''i'' ''w1'' (w_db (one_world demo_instance))"
  by (simp_all add: instance_lock_live_def one_world_live locks_ok_def find_instance_def lock_available_def
      instance_holder_def demo_instance_def)

theorem engine_run_outcome_witness:
  "\<exists>r. find_instance (w_db (snd (engine_resume_workflow demo_engine ''i''
       (\<lambda>s. (Inl (Suspend (SuspendTimer ''i'' ''t'' ''t'' 5)), s)) (one_world demo_instance)))) ''i'' = Some r \<and>
     inst_locked_by r = None \<and> inst_status r = StatusWaitingForTimer"
proof -
  let ?runner = "\<lambda>s. (Inl (Suspend (SuspendTimer ''i'' ''t'' ''t'' 5)), s)"
  have en: "en_worker demo_engine = ''w1''" "en_comp demo_engine = Some (registry_runner Map.empty)"
    by (simp_all add: demo_engine_def init_engine_def set_compensation_runner_def new_engine_def)
  have "runner_ok ''i'' ''w1'' ?runner" by (simp add: runner_ok_def)
  moreover have "keeps_db (registry_runner Map.empty)"
    by (simp add: keeps_db_def registry_runner_def registry_get_def)
  ultimately show ?thesis
    using engine_run_outcome [OF one_world_live(1) demo_lock(1) one_world_live(2,3) _ _ en(2) _ refl refl,
        of ?runner] en(1) demo_lock(2) by simp
qed

text \<open>
  C12: a run needs the lock. While another worker holds the instance and its lease has not
  run out, starting or resuming the instance is refused with an error and nothing at all is
  changed.
\<close>

theorem engine_refuses:
  assumes "w_tx w = None" "instance_lock_live i (w_db w)"
    and "instance_holder i (w_db w) = Some (v, e)" "v \<noteq> en_worker en" "sql_now (w_db w) \<le> e"
  shows "engine_resume_workflow en i runner w =
      (Inl (ErrText (''failed to acquire lock for instance '' @ i)), w)
    \<and> engine_start_workflow en i runner w =
      (Inl (ErrText (''failed to acquire lock for instance '' @ i)), w)"
  using assms(1) instance_lock.acquire_refused [OF assms(2-5), of 300]
  by (simp add: engine_resume_workflow_def engine_start_workflow_def with_instance_lock_def
      try_go_def map_err_def)

theorem engine_refuses_witness:
  "\<exists>err. engine_resume_workflow demo_engine ''i'' (\<lambda>s. (Inr (VJson JNull), s))
      (one_world (demo_instance\<lparr>inst_locked_by := Some ''w2'', inst_lock_expires := Some 9\<rparr>)) =
    (Inl err, one_world (demo_instance\<lparr>inst_locked_by := Some ''w2'', inst_lock_expires := Some 9\<rparr>))"
proof -
  let ?w = "one_world (demo_instance\<lparr>inst_locked_by := Some ''w2'', inst_lock_expires := Some 9\<rparr>)"
  have "instance_lock_live ''i'' (w_db ?w)" "instance_holder ''i'' (w_db ?w) = Some (''w2'', 9)"
    by (simp_all add: instance_lock_live_def one_world_live locks_ok_def find_instance_def
        instance_holder_def demo_instance_def)
  moreover have "''w2'' \<noteq> en_worker demo_engine" "sql_now (w_db ?w) \<le> 9"
    by (simp_all add: demo_engine_def init_engine_def set_compensation_runner_def new_engine_def
        sql_now_def secs_def one_world_live)
  ultimately show ?thesis
    using engine_refuses [OF one_world_live(1)] by blast
qed

end
