(* ===== verification/Channel_Delivery.thy ===== *)
theory Channel_Delivery
  imports Engine_Outcomes
begin

text \<open>
  Messages from the publisher's delivery to the workflow's Receive: what a delivery or a
  timeout leaves in the database, and that the replayed Receive returns it.
\<close>

section \<open>Time text\<close>

lemma show_nat_all_digits: "list_all is_digit (show_nat n)"
  using show_nat_digits by (simp add: list_all_iff)

lemma read_show_int [simp]: "read_int (show_int t) = Some t"
proof (cases "t < 0")
  case True
  then show ?thesis
    by (simp add: read_int_def show_int_def show_nat_all_digits)
next
  case False
  obtain c cs where c: "show_nat (nat t) = c # cs" by (cases "show_nat (nat t)") auto
  then have "c \<noteq> CHR ''-''" using show_nat_no_dash [of "nat t"] by metis
  moreover have "list_all is_digit (c # cs)" "read_nat (c # cs) = nat t"
    using show_nat_all_digits [of "nat t"] read_show_nat [of "nat t"] c by simp_all
  ultimately show ?thesis using False c by (simp add: read_int_def show_int_def)
qed

section \<open>Delivery under the lock\<close>

lemma find_sub_update:
  "(\<And>s. cs_instance (f s) = cs_instance s \<and> cs_channel (f s) = cs_channel s) \<Longrightarrow>
   find_sub (update_sub i ch f d) i ch = map_option f (find_sub d i ch)"
  using find_update_where_same [of "\<lambda>s. (cs_instance s, cs_channel s)" f "(i, ch)" "\<lambda>_. True" "subscriptions d"]
  by (simp add: find_sub_def update_sub_def)

lemma insert_history_simps [simp]:
  "subscriptions (insert_history i act ty data dt d) = subscriptions d"
  "cursors (insert_history i act ty data dt d) = cursors d"
  "clock (insert_history i act ty data dt d) = clock d" "messages (insert_history i act ty data dt d) = messages d"
  by (simp_all add: insert_history_def)

lemma find_cursor_set [simp]: "find_cursor (set_cursor i ch n d) i ch = Some \<lparr>dc_instance = i, dc_channel = ch, dc_last = n\<rparr>"
proof (cases "find_cursor d i ch")
  case None
  then show ?thesis by (simp add: set_cursor_def find_cursor_def find_append)
next
  case (Some c)
  then have "dc_instance c = i" "dc_channel c = ch"
    by (auto simp: find_cursor_def find_Some_iff)
  with Some show ?thesis
    using find_update_where_same [of "\<lambda>c. (dc_instance c, dc_channel c)" "\<lambda>c. c\<lparr>dc_last := n\<rparr>" "(i, ch)" "\<lambda>_. True" "cursors d"]
    by (cases c) (simp add: set_cursor_def find_cursor_def)
qed

lemma set_cursor_simps [simp]:
  "messages (set_cursor i ch n d) = messages d"
  "faults (set_cursor i ch n d) = faults d" "history (set_cursor i ch n d) = history d"
  "subscriptions (set_cursor i ch n d) = subscriptions d" "instances (set_cursor i ch n d) = instances d"
  "history_seq (set_cursor i ch n d) = history_seq d"
  by (simp_all add: set_cursor_def split: option.split)

lemma update_sub_simps [simp]:
  "messages (update_sub i ch f d) = messages d" "cursors (update_sub i ch f d) = cursors d"
  "faults (update_sub i ch f d) = faults d" "history (update_sub i ch f d) = history d"
  "instances (update_sub i ch f d) = instances d"
  by (simp_all add: update_sub_def)

text \<open>What a delivery that gets the lock does, statement after statement.\<close>

definition delivery_activity :: "string \<Rightarrow> channel_message \<Rightarrow> channel_subscription \<Rightarrow> string" where
  "delivery_activity ch m sub =
     (case cs_activity sub of
        None \<Rightarrow> legacy_activity_id ch (cm_id m)
      | Some a \<Rightarrow> if a = '''' then legacy_activity_id ch (cm_id m) else a)"

lemma deliver_run:
  assumes live: "instance_lock_live i d" "lock_available i wk d"
    and sub: "find_sub d i ch = Some sub" "delivery_activity ch m sub = act"
    and new: "\<not> has_history i act d"
    and run: "deliver_channel_message_with_lock i ch m wk t d = (r, d')"
  obtains row where "r = Inr (Some \<lparr>cr_instance = i, cr_workflow = inst_workflow row, cr_activity = act\<rparr>)"
    and "find_instance d i = Some row" "faults d' = []"
    and "history_of i d' = history_of i d @ [\<lparr>he_id = history_seq d + 1, he_instance = i, he_activity = act,
           he_type = HistoryChannelMessageReceived, he_data = BJson (wrap_message ch m),
           he_data_type = ''json'', he_created = sql_now d\<rparr>]"
    and "\<exists>r. find_instance d' i = Some r \<and> inst_status r = StatusRunning \<and> inst_locked_by r = None"
    and "find_sub d' i ch = Some (sub\<lparr>cs_activity := None, cs_timeout := None\<rparr>)"
    and "messages d' = messages d"
    and "cs_mode sub = ChannelModeBroadcast \<longrightarrow>
      find_cursor d' i ch = Some \<lparr>dc_instance = i, dc_channel = ch, dc_last = cm_id m\<rparr>"
proof -
  have f: "faults d = []" using live(1) by (simp add: instance_lock_live_def)
  obtain row where row: "find_instance d i = Some row" using live(1) by (auto simp: instance_lock_live_def)
  obtain d1 where d1: "try_acquire_lock i wk t d = (Inr True, d1)"
      "instance_holder i d1 = Some (wk, sql_now d + t)" "instance_lock_live i d1"
    using instance_lock.acquire_granted [OF live(1), of wk t] live(2) by (auto simp: lock_available_def)
  let ?p = "\<lambda>r. lock_free (sql_now d) wk r"
  let ?g = "\<lambda>r. r\<lparr>inst_locked_by := Some wk, inst_locked_at := Some (sql_now d),
      inst_lock_expires := Some (sql_now d + t), inst_updated := sql_now d\<rparr>"
  have d1_eq: "d1 = update_instances (\<lambda>r. inst_id r = i \<and> ?p r) ?g d"
    using d1(1) by (simp add: try_acquire_lock_run [OF f])
  have f1: "faults d1 = []" "sql_now d1 = sql_now d" "history_seq d1 = history_seq d"
    using f by (simp_all add: d1_eq)
  obtain row1 where row1: "find_instance d1 i = Some row1" "inst_locked_by row1 = Some wk"
    using d1(2) by (auto simp: instance_holder_def split: option.splits)
  have "find_instance d1 i = Some (if ?p row then ?g row else row)"
    using row find_instance_update [of ?g i ?p d] by (simp add: d1_eq)
  then have wf: "inst_workflow row1 = inst_workflow row" using row1(1) by (auto split: if_splits)
  have sub1: "find_sub d1 i ch = Some sub" "history_of i d1 = history_of i d"
    using sub(1) by (simp_all add: find_sub_def history_of_def d1_eq)
  have new1: "\<not> has_history i act d1" using new by (simp add: has_history_of sub1(2))
  let ?d2 = "insert_history i act HistoryChannelMessageReceived (BJson (wrap_message ch m)) ''json'' d1"
  let ?d3 = "if cs_mode sub = ChannelModeBroadcast then set_cursor i ch (cm_id m) ?d2 else ?d2"
  let ?d4 = "update_sub i ch (\<lambda>s. s\<lparr>cs_activity := None, cs_timeout := None\<rparr>) ?d3"
  let ?d5 = "update_instances (\<lambda>r. inst_id r = i)
       (\<lambda>r. r\<lparr>inst_status := StatusRunning, inst_updated := sql_now ?d4\<rparr>) ?d4"
  have f3: "faults ?d3 = []" "faults ?d4 = []" using f1 by simp_all
  have inst4: "instances ?d4 = instances d1" by simp
  have row4: "row_is i StatusRunning wk ?d5"
    using find_instance_update [of "\<lambda>r. r\<lparr>inst_status := StatusRunning, inst_updated := sql_now ?d4\<rparr>" i
        "\<lambda>_. True" ?d4] row1
    by (auto simp: row_is_def find_instance_def)
  obtain r6 d6 where d6: "release_lock i wk ?d5 = (r6, d6)" by (cases "release_lock i wk ?d5")
  have r6: "r6 = Inr ()" using d6 f3(2) by (simp add: release_lock_def)
  have run': "deliver_channel_message_with_lock i ch m wk t d =
      (Inr (Some \<lparr>cr_instance = i, cr_workflow = inst_workflow row, cr_activity = act\<rparr>), d6)"
  proof (cases "cs_mode sub = ChannelModeBroadcast")
    case True
    then show ?thesis
      using d1(1) row1(1) wf sub1(1) sub(2) [unfolded delivery_activity_def] new1 f1(1) f3 d6 r6
      by (simp add: deliver_channel_message_with_lock_def insert_history_strict_def
          update_delivery_cursor_def
          clear_channel_waiting_state_def update_instance_status_def try_go_def on_err_def map_err_def)
  next
    case False
    then show ?thesis
      using d1(1) row1(1) wf sub1(1) sub(2) [unfolded delivery_activity_def] new1 f1(1) f3 d6 r6
      by (simp add: deliver_channel_message_with_lock_def insert_history_strict_def
          clear_channel_waiting_state_def update_instance_status_def try_go_def on_err_def map_err_def)
  qed
  obtain p g where d6_eq: "d6 = update_instances p g ?d5"
    using d6 f3(2) by (auto simp: release_lock_def)
  have same: "history_of i d6 = history_of i ?d2" "find_sub d6 i ch = find_sub ?d4 i ch"
    "messages d6 = messages d" "find_cursor d6 i ch = find_cursor ?d3 i ch"
    using f3(2) unfolding d6_eq
    by (simp_all add: history_of_def find_sub_def find_cursor_def d1_eq)
  note rel = release_lock_row [OF _ row4 d6]
  show ?thesis
  proof (rule that [OF _ row])
    show "r = Inr (Some \<lparr>cr_instance = i, cr_workflow = inst_workflow row, cr_activity = act\<rparr>)"
      using run run' by simp
    show "faults d' = []" "\<exists>r. find_instance d' i = Some r \<and> inst_status r = StatusRunning \<and> inst_locked_by r = None"
      using run run' rel f3(2) by auto
    show "history_of i d' = history_of i d @ [\<lparr>he_id = history_seq d + 1, he_instance = i, he_activity = act,
           he_type = HistoryChannelMessageReceived, he_data = BJson (wrap_message ch m),
           he_data_type = ''json'', he_created = sql_now d\<rparr>]"
      using run run' same(1) sub1(2) f1 by (simp add: history_of_insert)
    show "find_sub d' i ch = Some (sub\<lparr>cs_activity := None, cs_timeout := None\<rparr>)"
      using run run' same(2) sub1(1) find_sub_update [of "\<lambda>s. s\<lparr>cs_activity := None, cs_timeout := None\<rparr>" i ch ?d3]
      by (auto simp: find_sub_def)
    show "messages d' = messages d" using run run' same(3) by simp
    show "cs_mode sub = ChannelModeBroadcast \<longrightarrow>
        find_cursor d' i ch = Some \<lparr>dc_instance = i, dc_channel = ch, dc_last = cm_id m\<rparr>"
      using run run' same(4) by simp
  qed
qed

section \<open>The receiving side\<close>

definition receive_id :: "string \<Rightarrow> 'x exec \<Rightarrow> string" where
  "receive_id channel s =
     ''receive_'' @ channel @ CHR '':'' # show_nat (Suc (ex_counts s (''receive_'' @ channel)))"

definition receive_counted :: "string \<Rightarrow> 'x exec \<Rightarrow> 'x exec" where
  "receive_counted channel s = s\<lparr>ex_counts :=
     (ex_counts s)(''receive_'' @ channel := Suc (ex_counts s (''receive_'' @ channel)))\<rparr>"

lemma receive_id_run:
  "generate_activity_id (''receive_'' @ channel) s = (Inr (receive_id channel s), receive_counted channel s)"
  by (simp add: generate_activity_id_def receive_id_def receive_counted_def)

lemma receive_counted_fields [simp]:
  "ex_results (receive_counted c s) = ex_results s" "ex_errors (receive_counted c s) = ex_errors s"
  "ex_world (receive_counted c s) = ex_world s" "ex_instance (receive_counted c s) = ex_instance s"
  "ex_in_tx (receive_counted c s) = ex_in_tx s" "ex_direct (receive_counted c s) = ex_direct s"
  by (simp_all add: receive_counted_def)

text \<open>A call whose result is in the caches returns it at once.\<close>

lemma receive_from_cache:
  assumes "receive_cached T channel (receive_id channel s) (receive_counted channel s) = (Inr (Some r), s')"
  shows "receive (Suc fuel) T channel timeout s = (r, s')"
  using assms by (simp add: receive_def receive_id_run Let_def del: append_Cons)

lemma build_caches_last: "build_caches (rows @ [h]) = cache_event (build_caches rows) h"
  by (simp add: build_caches_def)

lemma cached_result_recorded:
  "fst (build_caches rows) act \<noteq> None \<Longrightarrow> act \<in> he_activity ` set rows"
proof (induction rows rule: rev_induct)
  case (snoc h rows)
  then show ?case
    by (cases "build_caches rows")
       (auto simp: build_caches_last cache_event_def split: if_splits option.splits)
qed (simp add: build_caches_def)

lemma not_cached: "\<not> has_history i act d \<Longrightarrow> fst (build_caches (history_of i d)) act = None"
  using cached_result_recorded [of "history_of i d" act] by (auto simp: has_history_of)

definition bytes_exact :: "bytes \<Rightarrow> bool" where
  "bytes_exact b = (case b of BJson j \<Rightarrow> json_exact j | _ \<Rightarrow> True)"

lemma wrapped_message_decodes:
  assumes "ch \<noteq> ''''" "cm_data m = BJson j" "json_exact j" "td_decode T j = Some x"
    and "message_metadata m = Inr md" "bytes_exact (cm_metadata m)"
  shows "decode_go_format T (wrap_message ch m) =
    Some \<lparr>rm_id = cm_id m, rm_channel = ch, rm_data = x, rm_metadata = md, rm_sender = '''',
          rm_created = cm_published m\<rparr>"
proof (cases "cm_metadata m")
  case BNil
  with assms show ?thesis
    by (auto simp: decode_go_format_def wrap_message_def unmarshal_or_null_def f64_json_exact
        message_metadata_def bytes_nonempty_def field_int_def field_string_def field_data_def
        field_map_def field_time_def time_json_def)
next
  case (BJson k)
  then obtain kvs where k: "md = Some (JObj kvs)" "unmarshal_map (cm_metadata m) = Some (JObj kvs)"
      "f64_json (JObj kvs) = JObj kvs"
    using assms(5,6) f64_json_exact
    by (cases k) (auto simp: message_metadata_def bytes_nonempty_def bytes_exact_def
        simp del: f64_json.simps)
  with assms BJson show ?thesis
    by (simp add: decode_go_format_def wrap_message_def unmarshal_or_null_def f64_json_exact
        bytes_nonempty_def field_int_def field_string_def field_data_def
        field_map_def field_time_def time_json_def del: f64_json.simps unmarshal_map.simps)
next
  case BBad
  with assms(5) show ?thesis by (simp add: message_metadata_def bytes_nonempty_def)
qed

section \<open>From the publisher to the receiver\<close>

text \<open>
  C6: a delivered message is received. When a message is delivered under the lock to an
  instance that waits for it in a Receive call, the instance is running again, unlocked, and
  no longer waiting; and when the workflow is run again from the stored history, that
  Receive call returns exactly the message's id, data, metadata and time.
\<close>

theorem delivered_message_received:
  assumes "instance_lock_live i d" "lock_available i wk d"
    and "find_sub d i ch = Some sub" "cs_activity sub = Some (receive_id channel s)"
    and "\<not> has_history i (receive_id channel s) d"
    and "deliver_channel_message_with_lock i ch m wk t d = (r, d')"
    and "ch \<noteq> ''''" "cm_data m = BJson j" "json_exact j" "td_decode T j = Some x"
    and "message_metadata m = Inr md" "bytes_exact (cm_metadata m)"
    and "ex_results s = fst (build_caches (history_of i d'))"
  shows "(\<exists>r. find_instance d' i = Some r \<and> inst_status r = StatusRunning \<and> inst_locked_by r = None)
    \<and> find_sub d' i ch = Some (sub\<lparr>cs_activity := None, cs_timeout := None\<rparr>)
    \<and> receive (Suc fuel) T channel timeout s =
        (Inr \<lparr>rm_id = cm_id m, rm_channel = ch, rm_data = x, rm_metadata = md, rm_sender = '''',
              rm_created = cm_published m\<rparr>, receive_counted channel s)"
proof -
  let ?act = "receive_id channel s"
  have "delivery_activity ch m sub = ?act"
    using assms(4) by (simp add: delivery_activity_def receive_id_def)
  from deliver_run [OF assms(1-3) this assms(5,6)]
  have hist: "history_of i d' = history_of i d @ [\<lparr>he_id = history_seq d + 1, he_instance = i, he_activity = ?act,
           he_type = HistoryChannelMessageReceived, he_data = BJson (wrap_message ch m),
           he_data_type = ''json'', he_created = sql_now d\<rparr>]"
    and row: "\<exists>r. find_instance d' i = Some r \<and> inst_status r = StatusRunning \<and> inst_locked_by r = None"
    and sub: "find_sub d' i ch = Some (sub\<lparr>cs_activity := None, cs_timeout := None\<rparr>)"
    by metis+
  have "\<exists>v. ex_results s ?act = Some (BJson (wrap_message ch m), v)"
    using assms(13) hist
    by (auto simp: build_caches_last cache_event_def bytes_nonempty_def split: prod.split)
  then have "receive_cached T channel ?act (receive_counted channel s) =
     (Inr (Some (Inr \<lparr>rm_id = cm_id m, rm_channel = ch, rm_data = x, rm_metadata = md, rm_sender = '''',
              rm_created = cm_published m\<rparr>)), receive_counted channel s)"
    using wrapped_message_decodes [OF assms(7-12)]
    by (auto simp: receive_cached_def get_cached_result_raw_def decode_raw_def)
  with row sub receive_from_cache show ?thesis by blast
qed

definition raw_json :: tdesc where
  "raw_json = \<lparr>td_name = ''json.RawMessage'', td_zero = JNull, td_decode = Some\<rparr>"

definition waiting_sub :: channel_subscription where
  "waiting_sub = \<lparr>cs_id = 1, cs_instance = ''i'', cs_channel = ''c'', cs_mode = ChannelModeBroadcast,
     cs_cursor = None, cs_timeout = Some 5, cs_activity = Some ''receive_c:1'', cs_subscribed = 0\<rparr>"

definition waiting_db :: db where
  "waiting_db = empty_db\<lparr>instances := [demo_instance\<lparr>inst_status := StatusWaitingForMessage\<rparr>],
     subscriptions := [waiting_sub]\<rparr>"

definition demo_message :: channel_message where
  "demo_message = \<lparr>cm_id = 7, cm_channel = ''c'', cm_message_id = ''u'', cm_data = BJson (JStr ''hi''),
     cm_metadata = BNil, cm_published = 3\<rparr>"

lemma waiting_db_live:
  "instance_lock_live ''i'' waiting_db" "lock_available ''i'' wk waiting_db"
  "find_sub waiting_db ''i'' ''c'' = Some waiting_sub" "\<not> has_history ''i'' act waiting_db"
  by (simp_all add: waiting_db_def waiting_sub_def empty_db_def instance_lock_live_def locks_ok_def
      find_instance_def demo_instance_def lock_available_def instance_holder_def find_sub_def has_history_def)

lemma first_receive_id: "ex_counts s = (\<lambda>_. 0) \<Longrightarrow> receive_id ''c'' s = ''receive_c:1''"
  by (simp add: receive_id_def show_nat.simps digit_char_def char_of_def bit_0)

theorem delivered_message_received_witness:
  "\<exists>d'. snd (deliver_channel_message_with_lock ''i'' ''c'' demo_message ''w'' 300 waiting_db) = d' \<and>
     fst (receive 1 raw_json ''c'' None (new_exec demo_world ''i'' (history_of ''i'' d'))) =
       Inr \<lparr>rm_id = 7, rm_channel = ''c'', rm_data = JStr ''hi'', rm_metadata = None, rm_sender = '''',
            rm_created = 3\<rparr>"
proof -
  obtain r d' where d': "deliver_channel_message_with_lock ''i'' ''c'' demo_message ''w'' 300 waiting_db = (r, d')"
    by (cases "deliver_channel_message_with_lock ''i'' ''c'' demo_message ''w'' 300 waiting_db")
  let ?s = "new_exec demo_world ''i'' (history_of ''i'' d')"
  have "cs_activity waiting_sub = Some (receive_id ''c'' ?s)"
    by (simp add: first_receive_id new_exec_def waiting_sub_def)
  from delivered_message_received [OF waiting_db_live(1,2,3) this waiting_db_live(4) d',
      of "JStr ''hi''" raw_json "JStr ''hi''" None 0 None]
  show ?thesis
    using d' by (auto simp: demo_message_def raw_json_def message_metadata_def bytes_nonempty_def
        bytes_exact_def new_exec_def)
qed

section \<open>Timeouts\<close>

lemma acquire_run:
  assumes "instance_lock_live i d" "lock_available i wk d"
  obtains p g where "try_acquire_lock i wk t d = (Inr True, update_instances p g d)"
    and "\<exists>st. row_is i st wk (update_instances p g d)"
proof -
  obtain d1 where d1: "try_acquire_lock i wk t d = (Inr True, d1)"
      "instance_holder i d1 = Some (wk, sql_now d + t)"
    using instance_lock.acquire_granted [OF assms(1), of wk t] assms(2) by (auto simp: lock_available_def)
  moreover obtain p g where "d1 = update_instances p g d"
    using d1(1) assms(1) by (auto simp: try_acquire_lock_run instance_lock_live_def)
  moreover have "\<exists>st. row_is i st wk d1"
    using d1(2) by (auto simp: row_is_def instance_holder_def split: option.splits)
  ultimately show ?thesis using that by blast
qed

lemma timeout_run:
  assumes w: "w_tx w = None" and live: "instance_lock_live i (w_db w)" "lock_available i (ap_worker ap) (w_db w)"
    and sub: "cs_instance sub = i" "cs_activity sub = Some act" "act \<noteq> ''''" "find_sub (w_db w) i (cs_channel sub) = Some sub"
    and new: "\<not> has_history i act (w_db w)"
  obtains d' h where "w_db (snd (handle_channel_timeout ap sub w)) = d'"
    and "history_of i d' = history_of i (w_db w) @ [h]" "he_activity h = act" "he_type h = HistoryMessageTimeout"
    and "he_data h = BJson (JStr (err_text (ChannelMessageTimeoutError i (cs_channel sub))))"
    and "\<exists>r. find_instance d' i = Some r \<and> inst_status r = StatusRunning \<and> inst_locked_by r = None"
    and "find_sub d' i (cs_channel sub) = Some (sub\<lparr>cs_activity := None, cs_timeout := None\<rparr>)"
proof -
  let ?d = "w_db w" and ?wk = "ap_worker ap" and ?ch = "cs_channel sub"
  have f: "faults ?d = []" using live(1) by (simp add: instance_lock_live_def)
  obtain p g where d1: "try_acquire_lock i ?wk (ap_stale_sec ap) ?d = (Inr True, update_instances p g ?d)"
    using acquire_run [OF live] by metis
  let ?d1 = "update_instances p g ?d"
  obtain st where row1: "row_is i st ?wk ?d1"
    using acquire_run [OF live, of "ap_stale_sec ap"] d1 by (metis prod.inject)
  let ?data = "BJson (JStr (err_text (ChannelMessageTimeoutError i ?ch)))"
  let ?d2 = "insert_history i act HistoryMessageTimeout ?data ''json'' ?d1"
  let ?d3 = "update_sub i ?ch (\<lambda>s. s\<lparr>cs_activity := None, cs_timeout := None\<rparr>) ?d2"
  have f1: "faults ?d1 = []" "faults ?d2 = []" "faults ?d3 = []" using f by simp_all
  have new1: "\<not> has_history i act ?d1" using new by (simp add: has_history_of history_of_def)
  have row3: "row_is i st ?wk ?d3" using row1 row_is_same [of ?d3 ?d1] by simp
  obtain r4 d4 where d4: "update_instance_status i StatusRunning '''' ?d3 = (r4, d4)"
    by (cases "update_instance_status i StatusRunning '''' ?d3")
  note s4 = update_status_row [OF f1(3) row3 d4]
  obtain r5 d5 where d5: "release_lock i ?wk d4 = (r5, d5)" by (cases "release_lock i ?wk d4")
  note s5 = release_lock_row [OF _ _ d5]
  obtain inst where gi: "get_instance i ?d1 = (Inr inst, ?d1)" using f1 by (simp add: get_instance_def)
  have run: "w_db (snd (handle_channel_timeout ap sub w)) = d5"
    using w sub(1-3) d1 d4 d5 s4 gi new1 f1
    by (simp add: handle_channel_timeout_def app_lock_def app_unlock_def timeout_activity_def
        append_history_def clear_channel_waiting_state_def try_go_def on_err_def map_err_def then_go_def
        defer_go_def Let_def)
  have "history_of i d5 = history_of i ?d2" "find_sub d5 i ?ch = find_sub ?d3 i ?ch"
    using d4 d5 f1 by (auto simp: release_lock_def update_instance_status_def history_of_def find_sub_def)
  moreover have "find_sub ?d3 i ?ch = Some (sub\<lparr>cs_activity := None, cs_timeout := None\<rparr>)"
    using sub(4) find_sub_update [of "\<lambda>s. s\<lparr>cs_activity := None, cs_timeout := None\<rparr>" i ?ch ?d2]
    by (simp add: find_sub_def)
  ultimately show ?thesis
    using that [OF run] s4 s5 by (simp add: history_of_insert history_of_def [of i ?d1] history_of_def [of i ?d])
qed

text \<open>
  C21: a receive that times out returns the timeout error. When the timeout task handles a
  subscription whose deadline has passed, the instance is running again, unlocked, and no
  longer waiting; and when the workflow is run again from the stored history, the Receive
  call that waited returns the timeout error.
\<close>

theorem timeout_received:
  assumes "w_tx w = None" "instance_lock_live i (w_db w)" "lock_available i (ap_worker ap) (w_db w)"
    and "cs_instance sub = i" "cs_activity sub = Some (receive_id channel s)"
    and "find_sub (w_db w) i (cs_channel sub) = Some sub"
    and "\<not> has_history i (receive_id channel s) (w_db w)"
    and "d' = w_db (snd (handle_channel_timeout ap sub w))"
    and "ex_instance s = i" "ex_results s = fst (build_caches (history_of i d'))"
    and "ex_errors s = snd (build_caches (history_of i d'))"
  shows "(\<exists>r. find_instance d' i = Some r \<and> inst_status r = StatusRunning \<and> inst_locked_by r = None)
    \<and> find_sub d' i (cs_channel sub) = Some (sub\<lparr>cs_activity := None, cs_timeout := None\<rparr>)
    \<and> fst (receive (Suc fuel) T channel timeout s) = Inl (ChannelMessageTimeoutError i channel)"
proof -
  let ?act = "receive_id channel s"
  have "?act \<noteq> ''''" by (simp add: receive_id_def)
  then obtain h where hist: "history_of i d' = history_of i (w_db w) @ [h]" and h: "he_activity h = ?act"
      "he_type h = HistoryMessageTimeout"
      "he_data h = BJson (JStr (err_text (ChannelMessageTimeoutError i (cs_channel sub))))"
    and row: "\<exists>r. find_instance d' i = Some r \<and> inst_status r = StatusRunning \<and> inst_locked_by r = None"
    and sub: "find_sub d' i (cs_channel sub) = Some (sub\<lparr>cs_activity := None, cs_timeout := None\<rparr>)"
    using timeout_run [OF assms(1-5) _ assms(6,7)] assms(8) by metis
  have res: "ex_results s ?act = None"
    using assms(10) hist h(2) not_cached [OF assms(7)]
    by (simp add: build_caches_last cache_event_def split: prod.split) (metis fst_conv)
  have err: "ex_errors s ?act = Some (ErrText (err_text (ChannelMessageTimeoutError i (cs_channel sub))))"
    using assms(11) hist h by (simp add: build_caches_last cache_event_def split: prod.split)
  let ?s = "(receive_counted channel s)\<lparr>ex_hits := Suc (ex_hits s)\<rparr>"
  have mentions: "contains (err_text (ErrText (err_text (ChannelMessageTimeoutError i (cs_channel sub)))))
      ''timeout waiting for channel message''"
    by (subst err_text.simps(3)) (rule channel_timeout_text)
  have "receive_cached T channel ?act (receive_counted channel s) =
     (Inr (Some (Inl (ChannelMessageTimeoutError i channel))), ?s)"
    using res err assms(9) mentions
    by (simp add: receive_cached_def get_cached_result_raw_def get_cached_result_def receive_counted_def
        try_go_def del: err_text.simps)
  with row sub receive_from_cache show ?thesis by (metis fst_conv)
qed

definition waiting_app :: "string list app" where
  "waiting_app = \<lparr>ap_worker = ''w'', ap_engine = new_engine ''w'', ap_registry = Map.empty,
     ap_runners = Map.empty, ap_handlers = Map.empty, ap_stale_sec = 300, ap_lease_sec = 30,
     ap_max_timers = 0, ap_max_messages = 0, ap_max_workflows = 0, ap_retention = 0\<rparr>"

definition waiting_world :: "string list world" where
  "waiting_world = demo_world\<lparr>w_db := waiting_db\<rparr>"

theorem timeout_received_witness:
  "\<exists>d'. w_db (snd (handle_channel_timeout waiting_app waiting_sub waiting_world)) = d' \<and>
     fst (receive 1 raw_json ''c'' None (new_exec waiting_world ''i'' (history_of ''i'' d'))) =
       Inl (ChannelMessageTimeoutError ''i'' ''c'')"
proof -
  let ?s = "new_exec waiting_world ''i''
     (history_of ''i'' (w_db (snd (handle_channel_timeout waiting_app waiting_sub waiting_world))))"
  have w: "w_db waiting_world = waiting_db" "w_tx waiting_world = None"
    by (simp_all add: waiting_world_def demo_world_def)
  have sub: "cs_instance waiting_sub = ''i''" "cs_channel waiting_sub = ''c''"
      "cs_activity waiting_sub = Some (receive_id ''c'' ?s)"
    by (simp_all add: first_receive_id new_exec_def waiting_sub_def)
  show ?thesis
    using timeout_received [OF w(2), of "''i''" waiting_app waiting_sub "''c''" ?s _ 0 raw_json None]
      waiting_db_live sub w by (simp add: new_exec_def)
qed

end
