(* ===== verification/Storage_Invariants.thy ===== *)
theory Storage_Invariants
  imports Channel_Delivery
begin

text \<open>
  The constraints of the schema as an invariant of every run of the storage layer.

  \<open>tables_ok\<close> says what the migration's keys and CHECK constraints promise of each table.
  \<open>storage_call\<close> has one rule per method of internal/storage/sqlite.go, \<open>world_step\<close> one
  per way a process acts on the database (a method inside or outside of the open
  transaction, the transaction's own operations, the passing of time, a fault of the
  driver); \<open>reachable\<close> closes the empty database under these steps.
\<close>

section \<open>The constraints\<close>

definition lock_fields_ok :: "workflow_instance \<Rightarrow> bool" where
  "lock_fields_ok r \<longleftrightarrow> (inst_locked_by r \<noteq> None \<longrightarrow> inst_lock_expires r \<noteq> None)"

definition instances_ok :: "workflow_instance list \<Rightarrow> bool" where
  "instances_ok rows \<longleftrightarrow> distinct (map inst_id rows) \<and> list_all lock_fields_ok rows"

definition timer_key :: "timer_subscription \<Rightarrow> string \<times> string" where
  "timer_key t = (ts_instance t, ts_timer t)"

definition timers_ok :: "int \<Rightarrow> timer_subscription list \<Rightarrow> bool" where
  "timers_ok s rows \<longleftrightarrow> id_ordered ts_id s rows \<and> distinct (map timer_key rows)"

definition messages_ok :: "int \<Rightarrow> channel_message list \<Rightarrow> bool" where
  "messages_ok s rows \<longleftrightarrow> id_ordered cm_id s rows \<and> distinct (map cm_message_id rows)
     \<and> list_all (\<lambda>m. cm_data m \<noteq> BNil) rows"

definition sub_key :: "channel_subscription \<Rightarrow> string \<times> string" where
  "sub_key s = (cs_instance s, cs_channel s)"

definition subs_ok :: "int \<Rightarrow> channel_subscription list \<Rightarrow> bool" where
  "subs_ok n rows \<longleftrightarrow> id_ordered cs_id n rows \<and> distinct (map sub_key rows)
     \<and> list_all (\<lambda>s. cs_mode s \<noteq> ChannelModeDirect) rows"

definition cursor_key :: "delivery_cursor \<Rightarrow> string \<times> string" where
  "cursor_key c = (dc_instance c, dc_channel c)"

definition keys_ok :: "db \<Rightarrow> bool" where
  "keys_ok d \<longleftrightarrow> distinct (map cursor_key (cursors d)) \<and> distinct (map cl_message (claims d))
     \<and> distinct (groups d) \<and> distinct (map sl_name (sys_locks d)) \<and> distinct (map ob_id (outbox d))
     \<and> distinct (definitions d)"

definition tables_ok :: "db \<Rightarrow> bool" where
  "tables_ok d \<longleftrightarrow> instances_ok (instances d) \<and> history_ok d \<and> timers_ok (timer_seq d) (timers d)
     \<and> id_ordered ce_id (comp_seq d) (compensations d) \<and> messages_ok (message_seq d) (messages d)
     \<and> subs_ok (sub_seq d) (subscriptions d) \<and> keys_ok d"

lemma tables_ok_empty: "tables_ok empty_db"
  by (simp add: tables_ok_def instances_ok_def timers_ok_def messages_ok_def subs_ok_def keys_ok_def)
     (simp add: empty_db_def)

lemma history_ok_cong:
  "history d' = history d \<Longrightarrow> history_seq d' = history_seq d \<Longrightarrow> history_ok d' = history_ok d"
  by (simp add: history_ok_def)

lemma tables_time_blind [simp]: "time_blind tables_ok"
  by (simp add: time_blind_def tables_ok_def keys_ok_def history_ok_def)

lemma tables_fault_blind [simp]: "fault_blind tables_ok"
  by (rule time_blind_fault_blind) simp

section \<open>Changes of a table\<close>

text \<open>What an UPDATE, a DELETE or an INSERT does to the invariant, table by table.\<close>

named_theorems table_change "changes of one table that keep the schema's constraints"

lemma distinct_delete: "distinct (map k rows) \<Longrightarrow> distinct (map k (delete_where p rows))"
  by (rule distinct_map_delete)

lemma distinct_update:
  "distinct (map k rows) \<Longrightarrow> (\<And>r. k (f r) = k r) \<Longrightarrow> distinct (map k (update_where p f rows))"
  by (simp add: map_update_where_key)

lemma list_all_update:
  "list_all q rows \<Longrightarrow> (\<And>r. q r \<Longrightarrow> q (f r)) \<Longrightarrow> list_all q (update_where p f rows)"
  by (auto simp: list_all_iff update_where_def)

lemma list_all_delete: "list_all q rows \<Longrightarrow> list_all q (delete_where p rows)"
  by (auto simp: list_all_iff)

lemma instances_change [table_change]:
  "tables_ok d \<Longrightarrow> (\<And>r. inst_id (f r) = inst_id r) \<Longrightarrow> (\<And>r. lock_fields_ok r \<Longrightarrow> lock_fields_ok (f r)) \<Longrightarrow>
   tables_ok (update_instances p f d)"
  by (simp add: tables_ok_def instances_ok_def update_instances_def keys_ok_def history_ok_def
      distinct_update list_all_update)

lemma subs_change [table_change]:
  "tables_ok d \<Longrightarrow> (\<And>s. sub_key (f s) = sub_key s) \<Longrightarrow> (\<And>s. cs_id (f s) = cs_id s) \<Longrightarrow>
   (\<And>s. cs_mode s \<noteq> ChannelModeDirect \<Longrightarrow> cs_mode (f s) \<noteq> ChannelModeDirect) \<Longrightarrow>
   tables_ok (d\<lparr>subscriptions := update_where p f (subscriptions d)\<rparr>)"
  by (simp add: tables_ok_def subs_ok_def keys_ok_def history_ok_def distinct_update list_all_update
      id_ordered_update)

lemma history_change [table_change]:
  "tables_ok d \<Longrightarrow> \<not> has_history i act d \<Longrightarrow> tables_ok (insert_history i act ty data dt d)"
  using history_ok_insert [of d i act ty data dt]
  by (auto simp: tables_ok_def keys_ok_def insert_history_def)

lemma deletes [table_change]:
  assumes "tables_ok d"
  shows "tables_ok (d\<lparr>history := delete_where (\<lambda>h. p h) (history d)\<rparr>)"
    and "tables_ok (d\<lparr>timers := delete_where q (timers d)\<rparr>)"
    and "tables_ok (d\<lparr>outbox := delete_where r (outbox d)\<rparr>)"
    and "tables_ok (d\<lparr>messages := delete_where s (messages d)\<rparr>)"
    and "tables_ok (d\<lparr>subscriptions := delete_where t (subscriptions d)\<rparr>)"
    and "tables_ok (d\<lparr>groups := delete_where u (groups d)\<rparr>)"
    and "tables_ok (d\<lparr>sys_locks := delete_where v (sys_locks d)\<rparr>)"
  using assms history_ok_delete [of d p]
  by (simp_all add: tables_ok_def keys_ok_def history_ok_def timers_ok_def messages_ok_def subs_ok_def
      distinct_delete id_ordered_delete list_all_delete distinct_filter [folded delete_where_def])
     (simp add: delete_where_def)

section \<open>Every method keeps them\<close>

lemma outbox_change [table_change]:
  "tables_ok d \<Longrightarrow> (\<And>e. ob_id (f e) = ob_id e) \<Longrightarrow> tables_ok (update_outbox p f d)"
  by (simp add: tables_ok_def keys_ok_def history_ok_def update_outbox_def distinct_update)

lemma update_sub_change [table_change]:
  "tables_ok d \<Longrightarrow> (\<And>s. sub_key (f s) = sub_key s) \<Longrightarrow> (\<And>s. cs_id (f s) = cs_id s) \<Longrightarrow>
   (\<And>s. cs_mode s \<noteq> ChannelModeDirect \<Longrightarrow> cs_mode (f s) \<noteq> ChannelModeDirect) \<Longrightarrow>
   tables_ok (update_sub i c f d)"
  unfolding update_sub_def by (rule subs_change)

lemma archived_change [table_change]: "tables_ok (d\<lparr>archive := x, archive_seq := n\<rparr>) = tables_ok d"
  by (simp add: tables_ok_def keys_ok_def history_ok_def)

lemma table_bookkeeping [simp]:
  "lock_fields_ok (r\<lparr>inst_status := st\<rparr>) = lock_fields_ok r"
  "lock_fields_ok (r\<lparr>inst_updated := t\<rparr>) = lock_fields_ok r"
  "lock_fields_ok (r\<lparr>inst_activity := a\<rparr>) = lock_fields_ok r"
  "lock_fields_ok (r\<lparr>inst_output := out\<rparr>) = lock_fields_ok r"
  "lock_fields_ok (r\<lparr>inst_locked_at := lt\<rparr>) = lock_fields_ok r"
  "lock_fields_ok (r\<lparr>inst_lock_expires := Some e\<rparr>)"
  "lock_fields_ok (r\<lparr>inst_locked_by := None, inst_lock_expires := e'\<rparr>)"
  "sub_key (s\<lparr>cs_mode := m\<rparr>) = sub_key s"
  "sub_key (s\<lparr>cs_activity := a\<rparr>) = sub_key s"
  "sub_key (s\<lparr>cs_timeout := a'\<rparr>) = sub_key s"
  by (simp_all add: lock_fields_ok_def sub_key_def)

lemmas table_defs = tables_ok_def keys_ok_def history_ok_def

lemma insert_timer_keeps: "tables_ok d \<Longrightarrow> tables_ok (insert_timer i timer t act d)"
  by (auto simp: insert_timer_def tables_ok_def keys_ok_def history_ok_def timers_ok_def timer_key_def
      intro: id_ordered_append)

lemma upsert_keeps:
  assumes "tables_ok d" "mode \<noteq> ChannelModeDirect"
  shows "tables_ok (upsert_subscription i c mode d)"
proof (cases "find_sub d i c")
  case None
  then have "(i, c) \<notin> sub_key ` set (subscriptions d)"
    by (auto simp: find_sub_def find_None_iff sub_key_def)
  moreover have "sub_key \<lparr>cs_id = n, cs_instance = i, cs_channel = c, cs_mode = mode, cs_cursor = None,
      cs_timeout = None, cs_activity = None, cs_subscribed = t\<rparr> = (i, c)" for n t
    by (simp add: sub_key_def)
  ultimately show ?thesis
    using assms None
    by (simp add: upsert_subscription_def table_defs subs_ok_def id_ordered_append)
next
  case (Some s)
  with assms show ?thesis
    by (simp add: upsert_subscription_def) (rule subs_change; simp)
qed

lemma cursor_keeps:
  "tables_ok d \<Longrightarrow> tables_ok (init_cursor i c d)" "tables_ok d \<Longrightarrow> tables_ok (set_cursor i c n d)"
  by (auto simp: init_cursor_def set_cursor_def tables_ok_def keys_ok_def history_ok_def cursor_key_def
      find_cursor_def find_None_iff distinct_update split: option.splits)

lemma instance_methods [keeps]:
  "preserves tables_ok (create_instance inst)"
  "preserves tables_ok (get_instance i)"
  "preserves tables_ok (update_instance_status i st msg)"
  "preserves tables_ok (update_instance_activity i act)"
  "preserves tables_ok (update_instance_output i b)"
  "preserves tables_ok (cancel_instance i reason)"
  "preserves tables_ok (list_instances holds opts)"
  "preserves tables_ok (find_resumable_workflows n)"
  "preserves tables_ok (try_acquire_lock i wk t)"
  "preserves tables_ok (release_lock i wk)"
  "preserves tables_ok (refresh_lock i wk t)"
  "preserves tables_ok (cleanup_stale_locks t)"
proof -
  show "preserves tables_ok (create_instance inst)"
    unfolding create_instance_def Let_def
    by (intro keeps tables_fault_blind)
       (force simp: table_defs instances_ok_def lock_fields_ok_def find_instance_None split: if_splits)+
  show "preserves tables_ok (cancel_instance i reason)"
    unfolding cancel_instance_def
    by (intro keeps tables_fault_blind) (auto intro!: table_change)
  show "preserves tables_ok (list_instances holds opts)"
    unfolding list_instances_def Let_def by (intro keeps tables_fault_blind)
  show "preserves tables_ok (try_acquire_lock i wk t)"
    unfolding try_acquire_lock_def Let_def
    by (intro keeps tables_fault_blind) (auto intro!: table_change simp: lock_fields_ok_def)
  show "preserves tables_ok (release_lock i wk)" "preserves tables_ok (refresh_lock i wk t)"
    unfolding release_lock_def refresh_lock_def
    by (intro keeps tables_fault_blind; auto intro!: table_change simp: lock_fields_ok_def)+
  show "preserves tables_ok (cleanup_stale_locks t)"
    unfolding cleanup_stale_locks_def
    by (intro keeps tables_fault_blind) (auto intro!: table_change simp: lock_fields_ok_def)
qed (unfold get_instance_def update_instance_status_def update_instance_activity_def
       update_instance_output_def find_resumable_workflows_def Let_def,
     (intro keeps tables_fault_blind; auto intro!: table_change)+)

lemma timer_methods [keeps]:
  "preserves tables_ok (register_timer_subscription i timer t act)"
  "preserves tables_ok (remove_timer_subscription i timer)"
  "preserves tables_ok (find_expired_timers n)"
  unfolding register_timer_subscription_def remove_timer_subscription_def find_expired_timers_def Let_def
  by (intro keeps tables_fault_blind; auto intro!: insert_timer_keeps table_change)+

lemma atomically_keeps [keeps]:
  assumes "preserves tables_ok m"
  shows "preserves tables_ok (atomically m)"
  unfolding atomically_def
proof (intro preserves_try)
  show "preserves tables_ok (exec id)" by (intro keeps tables_fault_blind) auto
  have body: "preserves tables_ok (try_go m (\<lambda>x. try_go (exec id) (\<lambda>_. ret x)))"
    using assms by (intro keeps tables_fault_blind) auto
  show "preserves tables_ok (\<lambda>d. case try_go m (\<lambda>x. try_go (exec id) (\<lambda>_. ret x)) d of
         (Inl e, d') \<Rightarrow> (Inl e, d\<lparr>faults := faults d'\<rparr>) | (Inr x, d') \<Rightarrow> (Inr x, d'))" for y :: unit
  proof (rule preservesI)
    fix d assume "tables_ok d"
    with preservesD [OF body] tables_fault_blind
    show "tables_ok (snd (case try_go m (\<lambda>x. try_go (exec id) (\<lambda>_. ret x)) d of
         (Inl e, d') \<Rightarrow> (Inl e, d\<lparr>faults := faults d'\<rparr>) | (Inr x, d') \<Rightarrow> (Inr x, d')))"
      by (fastforce simp: fault_blind_def split: prod.splits sum.splits)
  qed
qed

lemma register_timer_and_release_keeps [keeps]:
  "preserves tables_ok (register_timer_and_release_lock in_tx sub_i timer t act i wk)"
proof -
  have "preserves tables_ok
       (try_go (exec (insert_timer sub_i timer t act)) (\<lambda>_.
        try_go (exec (\<lambda>d. update_instances (\<lambda>r. inst_id r = i)
          (\<lambda>r. r\<lparr>inst_status := StatusWaitingForTimer, inst_updated := sql_now d\<rparr>) d)) (\<lambda>_.
        exec (update_instances (\<lambda>r. inst_id r = i \<and> inst_locked_by r = Some wk)
          (\<lambda>r. r\<lparr>inst_locked_by := None, inst_locked_at := None, inst_lock_expires := None\<rparr>)))))"
    by (intro keeps tables_fault_blind) (auto intro!: insert_timer_keeps table_change simp: lock_fields_ok_def)
  then show ?thesis
    unfolding register_timer_and_release_lock_def Let_def by (intro preserves_if atomically_keeps)
qed

lemma history_methods [keeps]:
  "preserves tables_ok (append_history i act ty data dt)"
  "preserves tables_ok (insert_history_strict i act ty data)"
  "preserves tables_ok (get_history_paginated i k n)"
  "preserves tables_ok (get_history_count i)"
  "preserves tables_ok (archive_history i)"
  "preserves tables_ok (get_archived_history i)"
proof -
  show "preserves tables_ok (insert_history_strict i act ty data)"
    unfolding insert_history_strict_def
    by (intro keeps tables_fault_blind) (auto intro!: table_change split: if_splits)
  show "preserves tables_ok (get_history_paginated i k n)"
    unfolding get_history_paginated_def Let_def by (intro keeps tables_fault_blind)
  show "preserves tables_ok (archive_history i)"
    unfolding archive_history_def
    by (intro keeps tables_fault_blind)
       (auto intro!: table_change simp: archive_copy_def archived_change split: option.splits if_splits)
qed (unfold append_history_def get_history_count_def get_archived_history_def,
     (intro keeps tables_fault_blind; auto intro!: table_change)+)

lemma outbox_methods [keeps]:
  "preserves tables_ok (add_outbox_event ev)"
  "preserves tables_ok (get_pending_outbox_events n)"
  "preserves tables_ok (mark_outbox_event_sent e)"
  "preserves tables_ok (mark_outbox_event_failed e)"
  "preserves tables_ok (increment_outbox_attempts e)"
  "preserves tables_ok (cleanup_old_outbox_events t)"
proof -
  show "preserves tables_ok (add_outbox_event ev)"
    unfolding add_outbox_event_def
    by (intro keeps tables_fault_blind) (auto simp: table_defs split: if_splits)
qed (unfold get_pending_outbox_events_def mark_outbox_event_sent_def mark_outbox_event_failed_def
       increment_outbox_attempts_def cleanup_old_outbox_events_def,
     (intro keeps tables_fault_blind; auto intro!: table_change)+)

lemma record_methods [keeps]:
  "preserves tables_ok (add_compensation i act name args)"
  "preserves tables_ok (get_compensations i)"
  "preserves tables_ok (join_group i g)"
  "preserves tables_ok (leave_group i g)"
  "preserves tables_ok (get_group_members g)"
  "preserves tables_ok (leave_all_groups i)"
proof -
  show "preserves tables_ok (add_compensation i act name args)"
    unfolding add_compensation_def
    by (intro keeps tables_fault_blind) (auto simp: table_defs intro: id_ordered_append)
  show "preserves tables_ok (join_group i g)"
    unfolding join_group_def by (intro keeps tables_fault_blind) (auto simp: table_defs)
qed (unfold get_compensations_def leave_group_def get_group_members_def leave_all_groups_def,
     (intro keeps tables_fault_blind; auto intro!: table_change)+)

lemma system_lock_methods [keeps]:
  "preserves tables_ok (try_acquire_system_lock name wk t)"
  "preserves tables_ok (release_system_lock name wk)"
  "preserves tables_ok cleanup_expired_system_locks"
proof -
  show "preserves tables_ok (try_acquire_system_lock name wk t)"
    unfolding try_acquire_system_lock_def Let_def
    by (intro keeps tables_fault_blind)
       (auto simp: table_defs find_system_lock_def find_None_iff distinct_update split: option.splits)
qed (unfold release_system_lock_def cleanup_expired_system_locks_def,
     (intro keeps tables_fault_blind; auto intro!: table_change)+)

lemma publish_keeps [keeps]: "preserves tables_ok (publish_to_channel c data md)"
  unfolding publish_to_channel_def
  by (intro keeps tables_fault_blind)
     (auto simp: table_defs messages_ok_def intro!: id_ordered_append split: if_splits)

lemma subscription_methods [keeps]:
  "preserves tables_ok (subscribe_to_channel i c mode)"
  "preserves tables_ok (unsubscribe_from_channel i c)"
  "preserves tables_ok (get_channel_subscription i c)"
  "preserves tables_ok (get_channel_mode c)"
  "preserves tables_ok (register_receive_and_release_lock i c wk act t)"
  "preserves tables_ok (get_subscribers_waiting c)"
  "preserves tables_ok (clear_channel_waiting_state i c)"
  "preserves tables_ok (find_expired_channel_subscriptions n)"
proof -
  show "preserves tables_ok (subscribe_to_channel i c mode)"
    unfolding subscribe_to_channel_def
    by (intro keeps tables_fault_blind) (auto intro: upsert_keeps cursor_keeps split: if_splits)
  show "preserves tables_ok (register_receive_and_release_lock i c wk act t)"
    unfolding register_receive_and_release_lock_def
    by (intro keeps tables_fault_blind) (auto intro!: table_change simp: lock_fields_ok_def)
qed (unfold unsubscribe_from_channel_def get_channel_subscription_def get_channel_mode_def
       get_subscribers_waiting_def clear_channel_waiting_state_def find_expired_channel_subscriptions_def
       Let_def,
     (intro keeps tables_fault_blind; auto intro!: table_change)+)

lemma message_methods [keeps]:
  "preserves tables_ok (get_pending_channel_messages c n k)"
  "preserves tables_ok (get_pending_for_instance i c)"
  "preserves tables_ok (claim_channel_message n i)"
  "preserves tables_ok (delete_channel_message n)"
  "preserves tables_ok (update_delivery_cursor i c n)"
  "preserves tables_ok (get_delivery_cursor i c)"
  "preserves tables_ok (cleanup_old_channel_messages t)"
  "preserves tables_ok (deliver_channel_message i m)"
proof -
  show "preserves tables_ok (claim_channel_message n i)"
    unfolding claim_channel_message_def by (intro keeps tables_fault_blind) (auto simp: table_defs)
  show "preserves tables_ok (get_pending_for_instance i c)"
    unfolding get_pending_for_instance_def by (intro keeps tables_fault_blind)
  show "preserves tables_ok (deliver_channel_message i m)"
    unfolding deliver_channel_message_def by (intro keeps)
qed (unfold get_pending_channel_messages_def delete_channel_message_def update_delivery_cursor_def
       get_delivery_cursor_def cleanup_old_channel_messages_def,
     (intro keeps tables_fault_blind; auto intro!: table_change cursor_keeps)+)

lemma deliver_keeps [keeps]: "preserves tables_ok (deliver_channel_message_with_lock i c m wk t)"
  unfolding deliver_channel_message_with_lock_def Let_def
  by (intro keeps tables_fault_blind) (auto intro: cursor_keeps)

lemma cleanup_subscriptions_keeps [keeps]: "preserves tables_ok (cleanup_instance_subscriptions i)"
  unfolding cleanup_instance_subscriptions_def
  by (intro keeps tables_fault_blind) (auto intro!: table_change)

section \<open>Every reachable state keeps them\<close>

text \<open>One rule per method; the value it returns does not matter here.\<close>

inductive storage_call :: "unit dbm \<Rightarrow> bool" where
  "storage_call (create_instance inst)"
| "storage_call (ignore_err (get_instance i))"
| "storage_call (update_instance_status i st msg)"
| "storage_call (update_instance_activity i act)"
| "storage_call (update_instance_output i b)"
| "storage_call (cancel_instance i reason)"
| "storage_call (ignore_err (list_instances holds opts))"
| "storage_call (ignore_err (find_resumable_workflows n))"
| "storage_call (ignore_err (try_acquire_lock i wk t))"
| "storage_call (release_lock i wk)"
| "storage_call (refresh_lock i wk t)"
| "storage_call (ignore_err (cleanup_stale_locks t))"
| "storage_call (append_history i act ty data dt)"
| "storage_call (ignore_err (get_history_paginated i k m))"
| "storage_call (ignore_err (get_history_count i))"
| "storage_call (archive_history i)"
| "storage_call (ignore_err (get_archived_history i))"
| "storage_call (register_timer_subscription i timer u act)"
| "storage_call (register_timer_and_release_lock in_tx j timer u act i wk)"
| "storage_call (remove_timer_subscription i timer)"
| "storage_call (ignore_err (find_expired_timers n))"
| "storage_call (add_outbox_event ev)"
| "storage_call (ignore_err (get_pending_outbox_events m))"
| "storage_call (mark_outbox_event_sent e)"
| "storage_call (mark_outbox_event_failed e)"
| "storage_call (increment_outbox_attempts e)"
| "storage_call (cleanup_old_outbox_events u)"
| "storage_call (add_compensation i act name args)"
| "storage_call (ignore_err (get_compensations i))"
| "storage_call (join_group i g)"
| "storage_call (leave_group i g)"
| "storage_call (ignore_err (get_group_members g))"
| "storage_call (leave_all_groups i)"
| "storage_call (ignore_err (try_acquire_system_lock name wk t))"
| "storage_call (release_system_lock name wk)"
| "storage_call cleanup_expired_system_locks"
| "storage_call (ignore_err (publish_to_channel c data md))"
| "storage_call (subscribe_to_channel i c mode)"
| "storage_call (unsubscribe_from_channel i c)"
| "storage_call (ignore_err (get_channel_subscription i c))"
| "storage_call (ignore_err (get_channel_mode c))"
| "storage_call (register_receive_and_release_lock i c wk act deadline)"
| "storage_call (ignore_err (get_subscribers_waiting c))"
| "storage_call (clear_channel_waiting_state i c)"
| "storage_call (ignore_err (find_expired_channel_subscriptions n))"
| "storage_call (ignore_err (get_pending_channel_messages c n m))"
| "storage_call (ignore_err (get_pending_for_instance i c))"
| "storage_call (ignore_err (claim_channel_message n i))"
| "storage_call (delete_channel_message n)"
| "storage_call (update_delivery_cursor i c n)"
| "storage_call (ignore_err (get_delivery_cursor i c))"
| "storage_call (cleanup_old_channel_messages u)"
| "storage_call (deliver_channel_message i msg)"
| "storage_call (ignore_err (deliver_channel_message_with_lock i c msg wk t))"
| "storage_call (cleanup_instance_subscriptions i)"

lemma storage_call_keeps: "storage_call m \<Longrightarrow> preserves tables_ok m"
  by (induction rule: storage_call.induct) (rule keeps | rule preserves_ignore, rule keeps)+

inductive world_step :: "'x world \<Rightarrow> 'x world \<Rightarrow> bool" where
  method_call: "storage_call m \<Longrightarrow> world_step w (snd (stor in_tx m w))"
| tx_begin: "world_step w (snd (begin_transaction w))"
| tx_commit: "world_step w (snd (commit_transaction run_wake_call in_tx w))"
| tx_rollback: "world_step w (snd (rollback_transaction in_tx w))"
| tx_callback: "world_step w (snd (register_post_commit_callback in_tx cb w))"
| hook_call: "world_step w (snd (hook h w))"
| user_code: "world_step w (w\<lparr>w_ext := x\<rparr>)"
| time_passes: "world_step w (w\<lparr>w_db := tick_db n (w_db w)\<rparr>)"
| fault_comes: "world_step w (w\<lparr>w_db := (w_db w)\<lparr>faults := fs\<rparr>\<rparr>)"

inductive reachable :: "'x world \<Rightarrow> bool" where
  fresh: "w_db w = empty_db \<Longrightarrow> w_tx w = None \<Longrightarrow> reachable w"
| step: "reachable w \<Longrightarrow> world_step w w' \<Longrightarrow> reachable w'"

lemma wake_loop_keeps: "preserves (dbs_ok tables_ok) (wake_loop in_tx wk t c m subs)"
  by (induction subs) (auto intro!: keeps)

lemma run_wake_call_keeps [keeps]: "preserves (dbs_ok tables_ok) (run_wake_call cb)"
  unfolding run_wake_call_def wake_waiting_subscribers_def
  by (intro keeps wake_loop_keeps tables_time_blind)

lemma world_step_keeps: "world_step w w' \<Longrightarrow> dbs_ok tables_ok w \<Longrightarrow> dbs_ok tables_ok w'"
proof (induction rule: world_step.induct)
  case (method_call m w in_tx)
  show ?case
    using storage_call_keeps [OF method_call(1)] method_call(2)
    by (intro preservesD [of "dbs_ok tables_ok" "stor in_tx m"] preserves_stor tables_time_blind)
next
  case (tx_begin w)
  then show ?case by (rule preservesD [OF preserves_begin [OF tables_time_blind]])
next
  case (tx_commit w in_tx)
  then show ?case by (rule preservesD [OF preserves_commit [OF tables_time_blind run_wake_call_keeps]])
next
  case (tx_rollback w in_tx)
  then show ?case by (rule preservesD [OF preserves_rollback])
next
  case (tx_callback w in_tx cb)
  then show ?case by (rule preservesD [OF preserves_register])
next
  case (hook_call w h)
  then show ?case by (rule preservesD [OF preserves_hook])
next
  case (time_passes w n)
  then show ?case by (simp add: dbs_ok_def tables_ok_def keys_ok_def history_ok_def tick_db_def)
next
  case (fault_comes w fs)
  then show ?case using time_blind_faults [OF tables_time_blind] by (simp add: dbs_ok_def)
qed (simp add: dbs_ok_def)

text \<open>
  C3: the schema's constraints hold in every reachable state. Whatever methods the workers
  call, in whatever order, inside and outside of transactions that commit or roll back, and
  with faults of the driver at any statement: instance ids, history keys (instance and
  activity), timers, outbox ids, message ids, subscriptions, cursors, claims, group
  memberships and lock names stay unique, row ids keep ascending, a locked instance has an
  expiry, and no subscription is stored in direct mode. This holds of the committed
  database and of what an open transaction sees.
\<close>

theorem schema_invariant:
  assumes "reachable w"
  shows "tables_ok (w_db w) \<and> (\<forall>v. w_tx w = Some v \<longrightarrow> tables_ok v)"
proof -
  from assms have "dbs_ok tables_ok w"
    by (induction rule: reachable.induct) (simp add: dbs_ok_def tables_ok_empty, rule world_step_keeps)
  then show ?thesis by (auto simp: dbs_ok_def)
qed

definition fresh_world :: "unit world" where
  "fresh_world = \<lparr>w_db = empty_db, w_tx = None, w_callbacks = [], w_hooks = [], w_ext = ()\<rparr>"

theorem schema_invariant_witness:
  "tables_ok (w_db (snd (stor False (create_instance demo_instance) fresh_world))) \<and>
   instances (w_db (snd (stor False (create_instance demo_instance) fresh_world))) \<noteq> []"
proof -
  have "reachable fresh_world" by (rule reachable.fresh) (simp_all add: fresh_world_def)
  then have "reachable (snd (stor False (create_instance demo_instance) fresh_world))"
    by (intro reachable.step [OF _ method_call [OF storage_call.intros(1)]])
  then have "tables_ok (w_db (snd (stor False (create_instance demo_instance) fresh_world)))"
    using schema_invariant by blast
  then show ?thesis
    by (simp add: fresh_world_def create_instance_def empty_db_def find_instance_def demo_instance_def Let_def)
qed

end
