(* ===== verification/History_Log.thy ===== *)
theory History_Log
  imports Storage_Invariants
begin

text \<open>
  The history of an instance is a log: no method but ArchiveHistory changes or removes what
  is recorded. \<open>extends i H d\<close> says that the history of \<open>i\<close> starts with \<open>H\<close>.
\<close>

definition extends :: "string \<Rightarrow> history_event list \<Rightarrow> db \<Rightarrow> bool" where
  "extends i H d \<longleftrightarrow> (\<exists>new. history_of i d = H @ new)"

lemma extends_same: "history d' = history d \<Longrightarrow> extends i H d' = extends i H d"
  by (simp add: extends_def history_of_def)

lemma extends_fault_blind [simp]: "fault_blind (extends i H)"
  by (simp add: fault_blind_def extends_def history_of_def)

lemma extends_insert: "extends i H d \<Longrightarrow> extends i H (insert_history j act ty data dt d)"
  by (auto simp: extends_def history_of_insert)

lemma same_history [simp]:
  "history (update_outbox p f d) = history d"
  "history (insert_timer j timer t act d) = history d"
  "history (upsert_subscription j c mode d) = history d"
  "history (init_cursor j c d) = history d"
  by (simp_all add: update_outbox_def insert_timer_def upsert_subscription_def init_cursor_def
      split: option.split)

lemma extends_other_archived:
  "j \<noteq> i \<Longrightarrow> extends i H (d\<lparr>history := delete_where (\<lambda>h. he_instance h = j) (history d)\<rparr>) = extends i H d"
proof -
  assume j: "j \<noteq> i"
  have same: "filter (\<lambda>h. he_instance h = i) (delete_where (\<lambda>h. he_instance h = j) hs) =
      filter (\<lambda>h. he_instance h = i) hs" for hs
    using j by (induction hs) auto
  show ?thesis by (simp add: extends_def history_of_def same)
qed

text \<open>Methods that do not write the history.\<close>

lemma silent_statements [keeps]:
  "(\<And>d. history (f d) = history d) \<Longrightarrow> preserves (extends i H) (exec f)"
  "(\<And>d. history (snd (g d)) = history d) \<Longrightarrow> preserves (extends i H) (stmt g)"
  "(\<And>d d'. h d = Inr d' \<Longrightarrow> history d' = history d) \<Longrightarrow> preserves (extends i H) (exec_try h)"
  "preserves (extends i H) (query q)"
  by (intro keeps extends_fault_blind; metis extends_same)+

lemma silent_instance_methods [keeps]:
  "preserves (extends i H) (create_instance inst)"
  "preserves (extends i H) (get_instance j)"
  "preserves (extends i H) (update_instance_status j st msg)"
  "preserves (extends i H) (update_instance_activity j act)"
  "preserves (extends i H) (update_instance_output j b)"
  "preserves (extends i H) (cancel_instance j reason)"
  "preserves (extends i H) (list_instances holds opts)"
  "preserves (extends i H) (find_resumable_workflows n)"
  "preserves (extends i H) (try_acquire_lock j wk t)"
  "preserves (extends i H) (release_lock j wk)"
  "preserves (extends i H) (refresh_lock j wk t)"
  "preserves (extends i H) (cleanup_stale_locks t)"
  unfolding create_instance_def get_instance_def update_instance_status_def update_instance_activity_def
    update_instance_output_def cancel_instance_def list_instances_def find_resumable_workflows_def
    try_acquire_lock_def release_lock_def refresh_lock_def cleanup_stale_locks_def Let_def
  by (intro keeps silent_statements; auto split: if_splits)+

lemma silent_bookkeeping_methods [keeps]:
  "preserves (extends i H) (register_timer_subscription j timer u act)"
  "preserves (extends i H) (remove_timer_subscription j timer)"
  "preserves (extends i H) (find_expired_timers n)"
  "preserves (extends i H) (add_outbox_event ev)"
  "preserves (extends i H) (get_pending_outbox_events m)"
  "preserves (extends i H) (mark_outbox_event_sent e)"
  "preserves (extends i H) (mark_outbox_event_failed e)"
  "preserves (extends i H) (increment_outbox_attempts e)"
  "preserves (extends i H) (cleanup_old_outbox_events u)"
  "preserves (extends i H) (add_compensation j act name args)"
  "preserves (extends i H) (get_compensations j)"
  "preserves (extends i H) (join_group j g)"
  "preserves (extends i H) (leave_group j g)"
  "preserves (extends i H) (get_group_members g)"
  "preserves (extends i H) (leave_all_groups j)"
  "preserves (extends i H) (try_acquire_system_lock name wk t)"
  "preserves (extends i H) (release_system_lock name wk)"
  "preserves (extends i H) cleanup_expired_system_locks"
  unfolding register_timer_subscription_def remove_timer_subscription_def find_expired_timers_def
    add_outbox_event_def get_pending_outbox_events_def mark_outbox_event_sent_def
    mark_outbox_event_failed_def increment_outbox_attempts_def cleanup_old_outbox_events_def
    add_compensation_def get_compensations_def join_group_def leave_group_def get_group_members_def
    leave_all_groups_def try_acquire_system_lock_def release_system_lock_def
    cleanup_expired_system_locks_def Let_def
  by (intro keeps silent_statements; auto split: if_splits option.splits)+

lemma silent_channel_methods [keeps]:
  "preserves (extends i H) (publish_to_channel c data md)"
  "preserves (extends i H) (subscribe_to_channel j c mode)"
  "preserves (extends i H) (unsubscribe_from_channel j c)"
  "preserves (extends i H) (get_channel_subscription j c)"
  "preserves (extends i H) (get_channel_mode c)"
  "preserves (extends i H) (register_receive_and_release_lock j c wk act t)"
  "preserves (extends i H) (get_subscribers_waiting c)"
  "preserves (extends i H) (clear_channel_waiting_state j c)"
  "preserves (extends i H) (find_expired_channel_subscriptions n)"
  "preserves (extends i H) (get_pending_channel_messages c n k)"
  "preserves (extends i H) (get_pending_for_instance j c)"
  "preserves (extends i H) (claim_channel_message n j)"
  "preserves (extends i H) (delete_channel_message n)"
  "preserves (extends i H) (update_delivery_cursor j c n)"
  "preserves (extends i H) (get_delivery_cursor j c)"
  "preserves (extends i H) (cleanup_old_channel_messages u)"
  "preserves (extends i H) (cleanup_instance_subscriptions j)"
  unfolding publish_to_channel_def subscribe_to_channel_def unsubscribe_from_channel_def
    get_channel_subscription_def get_channel_mode_def register_receive_and_release_lock_def
    get_subscribers_waiting_def clear_channel_waiting_state_def find_expired_channel_subscriptions_def
    get_pending_channel_messages_def get_pending_for_instance_def claim_channel_message_def
    delete_channel_message_def update_delivery_cursor_def get_delivery_cursor_def
    cleanup_old_channel_messages_def cleanup_instance_subscriptions_def Let_def
  by (intro keeps silent_statements; auto split: if_splits)+

section \<open>Methods that write it\<close>

lemma logging_methods [keeps]:
  "preserves (extends i H) (append_history j act ty data dt)"
  "preserves (extends i H) (insert_history_strict j act ty data)"
  "preserves (extends i H) (get_history_paginated j k n)"
  "preserves (extends i H) (get_history_count j)"
  "preserves (extends i H) (get_archived_history j)"
  unfolding append_history_def insert_history_strict_def get_history_paginated_def get_history_count_def
    get_archived_history_def Let_def
  by (intro keeps extends_fault_blind; auto intro: extends_insert split: if_splits)+

lemma delivery_methods [keeps]:
  "preserves (extends i H) (deliver_channel_message j m)"
  "preserves (extends i H) (deliver_channel_message_with_lock j c m wk t)"
  unfolding deliver_channel_message_def deliver_channel_message_with_lock_def Let_def
  by (intro keeps silent_statements; simp)+

lemma archive_others [keeps]: "j \<noteq> i \<Longrightarrow> preserves (extends i H) (archive_history j)"
  unfolding archive_history_def
  by (intro keeps extends_fault_blind)
     (auto simp: archive_copy_def extends_other_archived split: option.splits if_splits)

lemma atomic_timer [keeps]:
  "preserves (extends i H) (register_timer_and_release_lock in_tx sub_i timer t act j wk)"
proof -
  let ?body = "try_go (exec (insert_timer sub_i timer t act)) (\<lambda>_.
        try_go (exec (\<lambda>d. update_instances (\<lambda>r. inst_id r = j)
          (\<lambda>r. r\<lparr>inst_status := StatusWaitingForTimer, inst_updated := sql_now d\<rparr>) d)) (\<lambda>_.
        exec (update_instances (\<lambda>r. inst_id r = j \<and> inst_locked_by r = Some wk)
          (\<lambda>r. r\<lparr>inst_locked_by := None, inst_locked_at := None, inst_lock_expires := None\<rparr>))))"
  have body: "preserves (extends i H) ?body"
    by (intro keeps silent_statements) simp_all
  have "preserves (extends i H) (try_go ?body (\<lambda>x. try_go (exec id) (\<lambda>_. ret x)))"
    using body by (intro keeps silent_statements) simp_all
  then have "preserves (extends i H) (\<lambda>d. case try_go ?body (\<lambda>x. try_go (exec id) (\<lambda>_. ret x)) d of
         (Inl e, d') \<Rightarrow> (Inl e, d\<lparr>faults := faults d'\<rparr>) | (Inr x, d') \<Rightarrow> (Inr x, d'))"
    unfolding preserves_def using extends_fault_blind [of i H]
    by (fastforce simp: fault_blind_def split: prod.splits sum.splits)
  then have "preserves (extends i H) (atomically ?body)"
    unfolding atomically_def by (intro preserves_try silent_statements) simp_all
  with body show ?thesis
    unfolding register_timer_and_release_lock_def Let_def by (intro preserves_if)
qed

lemma storage_call_extends:
  "storage_call m \<Longrightarrow> m \<noteq> archive_history i \<Longrightarrow> preserves (extends i H) m"
proof (induction rule: storage_call.induct)
  case (16 j)
  then show ?case by (intro archive_others) auto
qed (rule keeps | rule preserves_ignore, rule keeps)+

section \<open>The log\<close>

definition run_calls :: "unit dbm list \<Rightarrow> db \<Rightarrow> db" where
  "run_calls calls d = foldl (\<lambda>d m. snd (m d)) d calls"

lemma run_calls_tables:
  "list_all storage_call calls \<Longrightarrow> tables_ok d \<Longrightarrow> tables_ok (run_calls calls d)"
  unfolding run_calls_def
  by (induction calls arbitrary: d) (auto intro: preservesD [OF storage_call_keeps])

lemma run_calls_extends:
  "list_all (\<lambda>m. storage_call m \<and> m \<noteq> archive_history i) calls \<Longrightarrow> extends i H d \<Longrightarrow>
   extends i H (run_calls calls d)"
  unfolding run_calls_def
  by (induction calls arbitrary: d) (auto intro: preservesD [OF storage_call_extends])

text \<open>
  C11: a recorded result is never changed, lost or recorded twice. Whatever storage methods
  are called after an event of an instance was recorded, in whatever order, the history of
  the instance is the old history followed by new events, whose activity ids are new and
  whose row ids are larger; only archiving the instance's own history takes it away.
\<close>

theorem history_is_a_log:
  assumes "tables_ok d" "list_all (\<lambda>m. storage_call m \<and> m \<noteq> archive_history i) calls"
  shows "\<exists>new. history_of i (run_calls calls d) = history_of i d @ new
    \<and> (\<forall>h \<in> set (history_of i d). \<forall>h' \<in> set new. he_id h < he_id h' \<and> he_activity h \<noteq> he_activity h')"
proof -
  have "extends i (history_of i d) d" by (simp add: extends_def)
  from run_calls_extends [OF assms(2) this] obtain new
    where new: "history_of i (run_calls calls d) = history_of i d @ new" by (auto simp: extends_def)
  have ok: "history_ok (run_calls calls d)"
    using run_calls_tables [OF _ assms(1), of calls] assms(2) by (auto simp: tables_ok_def list_all_iff)
  have "sorted_wrt (<) (map he_id (history_of i d @ new))"
    using history_of_ordered [OF ok, of i] new by (simp add: id_ordered_def)
  moreover have "distinct (map he_activity (history_of i d @ new))"
    using history_of_acts_distinct [OF ok, of i] new by simp
  ultimately have "\<forall>h \<in> set (history_of i d). \<forall>h' \<in> set new. he_id h < he_id h' \<and> he_activity h \<noteq> he_activity h'"
    by (auto simp: sorted_wrt_append)
  with new show ?thesis by blast
qed

theorem history_is_a_log_witness:
  "\<exists>new. history_of ''i'' (run_calls [append_history ''i'' ''a:1'' HistoryActivityCompleted (BJson JNull) ''json'']
      (insert_history ''i'' ''b:1'' HistoryActivityFailed BNil ''json'' empty_db)) =
    history_of ''i'' (insert_history ''i'' ''b:1'' HistoryActivityFailed BNil ''json'' empty_db) @ new"
proof -
  let ?d = "insert_history ''i'' ''b:1'' HistoryActivityFailed BNil ''json'' empty_db"
  let ?m = "append_history ''i'' ''a:1'' HistoryActivityCompleted (BJson JNull) ''json''"
  have ok: "tables_ok ?d"
    by (intro history_change tables_ok_empty) (simp add: has_history_def empty_db_def)
  have "history (snd (?m ?d)) \<noteq> history (snd (archive_history ''i'' ?d))"
    by (simp add: insert_history_def empty_db_def append_history_def has_history_def archive_history_def
        archive_copy_def archive_insert_columns_def history_of_def)
  then have "?m \<noteq> archive_history ''i''" by metis
  with history_is_a_log [OF ok, of "''i''" "[?m]"] show ?thesis
    by (auto intro: storage_call.intros)
qed

end
