(* ===== verification/Leader_Election.thy ===== *)
theory Leader_Election
  imports App_Tasks
begin

text \<open>
  Leader election of app.go as a system of workers over one database.

  Every worker runs tryAcquireLeadership from time to time, the driver may let a statement
  fail, time passes, expired locks are cleaned up, and a worker may shut down. The state is
  the shared world and, for each worker, its flags; \<open>el_until\<close> is a ghost: the end of the
  lease that the worker was granted last.
\<close>

record 'x election =
  el_world :: "'x world"
  el_leader :: "string \<Rightarrow> bool"
  el_tasks :: "string \<Rightarrow> bool"
  el_running :: "string \<Rightarrow> bool"
  el_until :: "string \<Rightarrow> int"

definition proc_of :: "string \<Rightarrow> 'x election \<Rightarrow> 'x proc" where
  "proc_of wk s = \<lparr>pr_world = el_world s, pr_leader = el_leader s wk, pr_tasks = el_tasks s wk,
     pr_running = el_running s wk, pr_initialized = True\<rparr>"

definition lease_end :: "string \<Rightarrow> db \<Rightarrow> int \<Rightarrow> int" where
  "lease_end wk d old = (case system_holder leader_lock d of
     Some (v, e) \<Rightarrow> if v = wk then e else old | None \<Rightarrow> old)"

definition put_proc :: "string \<Rightarrow> 'x proc \<Rightarrow> 'x election \<Rightarrow> 'x election" where
  "put_proc wk p s =
     \<lparr>el_world = pr_world p, el_leader = (el_leader s)(wk := pr_leader p),
      el_tasks = (el_tasks s)(wk := pr_tasks p), el_running = (el_running s)(wk := pr_running p),
      el_until = (el_until s)(wk := lease_end wk (w_db (pr_world p)) (el_until s wk))\<rparr>"

inductive election_step :: "(string \<Rightarrow> 'x app) \<Rightarrow> 'x election \<Rightarrow> 'x election \<Rightarrow> bool" for ap where
  campaign: "election_step ap s (put_proc wk (try_acquire_leadership (ap wk) (proc_of wk s)) s)"
| stop: "election_step ap s (put_proc wk (shutdown (ap wk) (proc_of wk s)) s)"
| clean: "election_step ap s
    (s\<lparr>el_world := snd (stor False cleanup_expired_system_locks (el_world s))\<rparr>)"
| wait: "election_step ap s
    (s\<lparr>el_world := (el_world s)\<lparr>w_db := tick_db n (w_db (el_world s))\<rparr>\<rparr>)"
| fault: "election_step ap s
    (s\<lparr>el_world := (el_world s)\<lparr>w_db := (w_db (el_world s))\<lparr>faults := fs\<rparr>\<rparr>\<rparr>)"

definition nobody_leads :: "'x election \<Rightarrow> bool" where
  "nobody_leads s \<longleftrightarrow> w_tx (el_world s) = None \<and> system_locks_ok (w_db (el_world s)) \<and>
     el_leader s = (\<lambda>_. False) \<and> el_tasks s = (\<lambda>_. False)"

inductive elected :: "(string \<Rightarrow> 'x app) \<Rightarrow> 'x election \<Rightarrow> bool" for ap where
  start: "nobody_leads s \<Longrightarrow> elected ap s"
| next_step: "elected ap s \<Longrightarrow> election_step ap s s' \<Longrightarrow> elected ap s'"

section \<open>The methods under faults\<close>

lemma system_lock_fault_blind [simp]:
  "system_holder n (d\<lparr>faults := fs\<rparr>) = system_holder n d"
  "system_locks_ok (d\<lparr>faults := fs\<rparr>) = system_locks_ok d"
  "sql_now (d\<lparr>faults := fs\<rparr>) = sql_now d"
  by (simp_all add: system_holder_def find_system_lock_def system_locks_ok_def sql_now_def)

lemma system_lock_tick [simp]:
  "system_holder m (tick_db n d) = system_holder m d" "system_locks_ok (tick_db n d) = system_locks_ok d"
  by (simp_all add: system_holder_def find_system_lock_def system_locks_ok_def)

lemma acquire_under_faults:
  "try_acquire_system_lock n wk t d =
     (case faults d of
        [] \<Rightarrow> try_acquire_system_lock n wk t (d\<lparr>faults := []\<rparr>)
      | b # bs \<Rightarrow> if b then (Inl DriverError, d\<lparr>faults := bs\<rparr>)
          else (case try_acquire_system_lock n wk t (d\<lparr>faults := []\<rparr>) of (r, d') \<Rightarrow> (r, d'\<lparr>faults := bs\<rparr>)))"
proof (cases "faults d")
  case Nil
  then show ?thesis by (simp add: faults_same)
next
  case (Cons b bs)
  then show ?thesis
    by (auto simp: try_acquire_system_lock_def Let_def stmt_def find_system_lock_def sql_now_def
        split: option.split)
qed

text \<open>One attempt: refused by a living lease of another worker, granted, or failed.\<close>

lemma acquire_system_cases:
  assumes "system_locks_ok d"
  obtains (failed) e d' where "try_acquire_system_lock n wk t d = (Inl e, d')"
      "system_holder n d' = system_holder n d" "system_locks_ok d'" "sql_now d' = sql_now d"
  | (refused) v e d' where "try_acquire_system_lock n wk t d = (Inr False, d')"
      "system_holder n d = Some (v, e)" "v \<noteq> wk" "system_holder n d' = system_holder n d"
      "system_locks_ok d'" "sql_now d' = sql_now d"
  | (granted) d' where "try_acquire_system_lock n wk t d = (Inr True, d')"
      "\<And>v e. system_holder n d = Some (v, e) \<Longrightarrow> v \<noteq> wk \<Longrightarrow> e < sql_now d"
      "system_holder n d' = Some (wk, sql_now d + t)" "system_locks_ok d'" "sql_now d' = sql_now d"
proof -
  let ?d = "d\<lparr>faults := []\<rparr>"
  have live: "system_lock_live ?d" using assms by (simp add: system_lock_live_def)
  obtain r d0 where run0: "try_acquire_system_lock n wk t ?d = (r, d0)"
    by (cases "try_acquire_system_lock n wk t ?d")
  note under = acquire_under_faults [of n wk t d, unfolded run0]
  show ?thesis
  proof (cases "case system_holder n d of None \<Rightarrow> True | Some (v, e) \<Rightarrow> v = wk \<or> e < sql_now d")
    case True
    then have "case system_holder n ?d of None \<Rightarrow> True | Some (v, e) \<Rightarrow> v = wk \<or> e < sql_now ?d"
      by (auto split: option.splits)
    from system_lock.acquire_granted [OF live this, of t] run0
    have g: "r = Inr True" "system_holder n d0 = Some (wk, sql_now d + t)" "sql_now d0 = sql_now d"
        "system_locks_ok d0"
      by (auto simp: system_lock_live_def)
    have old: "\<And>v e. system_holder n d = Some (v, e) \<Longrightarrow> v \<noteq> wk \<Longrightarrow> e < sql_now d" using True by auto
    show ?thesis
    proof (cases "faults d")
      case Nil
      with under g old granted show ?thesis by auto
    next
      case (Cons b bs)
      with under g old granted [of "d0\<lparr>faults := bs\<rparr>"] failed [of DriverError "d\<lparr>faults := bs\<rparr>"] assms
      show ?thesis by (cases b) auto
    qed
  next
    case False
    then have "\<exists>v e. system_holder n d = Some (v, e) \<and> v \<noteq> wk \<and> sql_now d \<le> e"
      by (cases "system_holder n d") (auto simp: not_less)
    then obtain v e where h: "system_holder n d = Some (v, e)" "v \<noteq> wk" "sql_now d \<le> e"
      by blast
    with system_lock.acquire_refused [OF live, where name = n and v = v and e = e and w = wk and t = t] run0
    have g: "r = Inr False" "d0 = ?d" by auto
    show ?thesis
    proof (cases "faults d")
      case Nil
      with under g h assms refused [of ?d v e] show ?thesis by auto
    next
      case (Cons b bs)
      with under g h assms refused [of "d\<lparr>faults := bs\<rparr>" v e] failed [of DriverError "d\<lparr>faults := bs\<rparr>"]
      show ?thesis by (cases b) auto
    qed
  qed
qed

lemma release_system_effect:
  assumes "system_locks_ok d" "release_system_lock n wk d = (r, d')"
  shows "system_locks_ok d' \<and> sql_now d' = sql_now d \<and>
    (\<forall>v e. v \<noteq> wk \<longrightarrow> (system_holder n d' = Some (v, e)) = (system_holder n d = Some (v, e)))"
proof -
  have del: "system_locks_ok (d\<lparr>faults := fs, sys_locks := delete_where (\<lambda>l. sl_name l = n \<and> sl_by l = wk) (sys_locks d)\<rparr>)"
    "v \<noteq> wk \<Longrightarrow> (system_holder n (d\<lparr>faults := fs, sys_locks :=
        delete_where (\<lambda>l. sl_name l = n \<and> sl_by l = wk) (sys_locks d)\<rparr>) = Some (v, e)) = (system_holder n d = Some (v, e))"
    for fs v e
    using assms(1) find_system_lock_delete [of "sys_locks d" n wk]
    by (auto simp: system_locks_ok_def distinct_map_delete system_holder_def find_system_lock_def
        split: option.splits if_splits)
  show ?thesis
    using assms del [where fs = "faults d"] del [where fs = "tl (faults d)"]
    by (auto simp: release_system_lock_def exec_def stmt_def sql_now_def split: list.splits if_splits)
qed

lemma find_unexpired:
  "find (\<lambda>l. sl_name l = n) ls = Some l \<Longrightarrow> t \<le> sl_expires l \<Longrightarrow>
   find (\<lambda>l. sl_name l = n) (delete_where (\<lambda>l. sl_expires l < t) ls) = Some l"
  by (induction ls) (auto split: if_splits)

lemma cleanup_system_effect:
  assumes "system_locks_ok d" "cleanup_expired_system_locks d = (r, d')"
  shows "system_locks_ok d' \<and> sql_now d' = sql_now d \<and>
    (\<forall>v e. sql_now d \<le> e \<longrightarrow> system_holder n d = Some (v, e) \<longrightarrow> system_holder n d' = Some (v, e))"
proof -
  show ?thesis
    using assms find_unexpired [of n "sys_locks d" _ "secs (clock d)"]
    by (fastforce simp: cleanup_expired_system_locks_def exec_def stmt_def sql_now_def system_locks_ok_def
        distinct_map_delete system_holder_def find_system_lock_def split: list.splits if_splits)
qed

section \<open>At most one leader per lease\<close>

text \<open>
  A worker that believes to lead holds the lock with the lease it was granted, or that lease
  has run out without its having noticed.
\<close>

definition rightful :: "'x election \<Rightarrow> string \<Rightarrow> bool" where
  "rightful s wk \<longleftrightarrow> el_until s wk < sql_now (w_db (el_world s)) \<or>
     system_holder leader_lock (w_db (el_world s)) = Some (wk, el_until s wk)"

definition election_ok :: "'x election \<Rightarrow> bool" where
  "election_ok s \<longleftrightarrow> w_tx (el_world s) = None \<and> system_locks_ok (w_db (el_world s)) \<and>
     el_tasks s = el_leader s \<and> (\<forall>wk. el_leader s wk \<longrightarrow> rightful s wk)"

lemma campaign_ok:
  assumes ok: "election_ok s" and worker: "ap_worker ap = wk"
  shows "election_ok (put_proc wk (try_acquire_leadership ap (proc_of wk s)) s)"
proof -
  let ?d = "w_db (el_world s)" and ?t = "ap_lease_sec ap"
  have w: "w_tx (el_world s) = None" and l: "system_locks_ok ?d" and t: "el_tasks s = el_leader s"
    and r: "\<forall>v. el_leader s v \<longrightarrow> rightful s v"
    using ok by (auto simp: election_ok_def)
  show ?thesis
    using l
  proof (cases rule: acquire_system_cases [of ?d leader_lock wk ?t])
    case (failed e d')
    then show ?thesis
      using w t r worker
      by (auto simp: try_acquire_leadership_def proc_of_def put_proc_def election_ok_def rightful_def
          lease_end_def fun_eq_iff split: option.splits)
  next
    case (refused v e d')
    then show ?thesis
      using w t r worker
      by (auto simp: try_acquire_leadership_def proc_of_def put_proc_def election_ok_def rightful_def
          lease_end_def stop_leader_tasks_def fun_eq_iff Let_def split: option.splits)
  next
    case (granted d')
    then show ?thesis
      using w t r worker
      by (fastforce simp: try_acquire_leadership_def proc_of_def put_proc_def election_ok_def rightful_def
          lease_end_def start_leader_only_tasks_def fun_eq_iff Let_def split: option.splits)
  qed
qed

lemma stop_ok:
  assumes ok: "election_ok s" and worker: "ap_worker ap = wk"
  shows "election_ok (put_proc wk (shutdown ap (proc_of wk s)) s)"
proof -
  let ?d = "w_db (el_world s)"
  obtain r d' where d': "release_system_lock leader_lock wk ?d = (r, d')"
    by (cases "release_system_lock leader_lock wk ?d")
  from ok d' worker release_system_effect [OF _ d'] show ?thesis
    by (auto simp: shutdown_def proc_of_def put_proc_def election_ok_def rightful_def lease_end_def
        stop_leader_tasks_def fun_eq_iff Let_def split: option.splits)
qed

lemma election_step_ok:
  assumes "election_step ap s s'" "\<And>wk. ap_worker (ap wk) = wk" "election_ok s"
  shows "election_ok s'"
  using assms(1)
proof cases
  case (campaign wk)
  with campaign_ok assms(2,3) show ?thesis by blast
next
  case (stop wk)
  with stop_ok assms(2,3) show ?thesis by blast
next
  case clean
  obtain r d' where d': "cleanup_expired_system_locks (w_db (el_world s)) = (r, d')"
    by (cases "cleanup_expired_system_locks (w_db (el_world s))")
  with d' clean assms(3) cleanup_system_effect [of "w_db (el_world s)" r d' leader_lock]
  show ?thesis
    by (auto simp: election_ok_def rightful_def not_less)
next
  case (wait n)
  have "rightful s' wk" if "rightful s wk" for wk
    using that wait sql_now_tick [of "w_db (el_world s)" n] by (auto simp: rightful_def)
  with wait assms(3) show ?thesis by (simp add: election_ok_def)
next
  case (fault fs)
  with assms(3) show ?thesis by (auto simp: election_ok_def rightful_def)
qed

text \<open>
  C7: at most one worker leads within its lease. In every state the workers can reach, from a
  state in which nobody leads, by campaigning, stopping, cleaning up, waiting, and failing
  statements: if two different workers both take themselves for the leader, the lease of one
  of them has run out; and a worker runs the leader's tasks exactly when it takes itself for
  the leader.
\<close>

theorem one_leader_per_lease:
  assumes "elected ap s" "\<And>wk. ap_worker (ap wk) = wk"
    and "el_leader s v" "el_leader s u" "v \<noteq> u"
  shows "(el_until s v < sql_now (w_db (el_world s)) \<or> el_until s u < sql_now (w_db (el_world s)))
    \<and> el_tasks s = el_leader s"
proof -
  have "election_ok s"
    using assms(1)
  proof induction
    case (start s)
    then show ?case by (simp add: election_ok_def nobody_leads_def)
  next
    case (next_step s s')
    with election_step_ok assms(2) show ?case by blast
  qed
  then have "rightful s v" "rightful s u" "el_tasks s = el_leader s"
    using assms(3,4) by (auto simp: election_ok_def)
  with assms(5) show ?thesis by (auto simp: rightful_def)
qed

text \<open>
  The lease matters: when the leader stalls past its lease, another worker is elected and
  there are two that take themselves for the leader.
\<close>

definition worker_app :: "string \<Rightarrow> unit app" where
  "worker_app wk = \<lparr>ap_worker = wk, ap_engine = new_engine wk, ap_registry = Map.empty,
     ap_runners = Map.empty, ap_handlers = Map.empty, ap_stale_sec = 300, ap_lease_sec = 30,
     ap_max_timers = 0, ap_max_messages = 0, ap_max_workflows = 0, ap_retention = 0\<rparr>"

definition election0 :: "unit election" where
  "election0 = \<lparr>el_world = \<lparr>w_db = empty_db, w_tx = None, w_callbacks = [], w_hooks = [], w_ext = ()\<rparr>,
     el_leader = (\<lambda>_. False), el_tasks = (\<lambda>_. False), el_running = (\<lambda>_. True), el_until = (\<lambda>_. 0)\<rparr>"

definition elect :: "string \<Rightarrow> unit election \<Rightarrow> unit election" where
  "elect wk s = put_proc wk (try_acquire_leadership (worker_app wk) (proc_of wk s)) s"

definition stalled :: "unit election" where
  "stalled = (elect ''a'' election0)\<lparr>el_world := (el_world (elect ''a'' election0))
     \<lparr>w_db := tick_db 31000000000 (w_db (el_world (elect ''a'' election0)))\<rparr>\<rparr>"

lemma elected_demo: "elected worker_app (elect ''b'' stalled)"
proof -
  have "elected worker_app election0"
    by (rule elected.start) (simp add: nobody_leads_def election0_def system_locks_ok_def empty_db_def)
  then have "elected worker_app (elect ''a'' election0)"
    unfolding elect_def by (rule elected.next_step [OF _ campaign])
  then have "elected worker_app stalled"
    unfolding stalled_def by (rule elected.next_step [OF _ wait])
  then show ?thesis
    unfolding elect_def [of "''b''"] by (rule elected.next_step [OF _ campaign])
qed

lemma two_leaders: "el_leader (elect ''b'' stalled) ''a'' \<and> el_leader (elect ''b'' stalled) ''b''"
  by (simp add: stalled_def elect_def election0_def put_proc_def proc_of_def try_acquire_leadership_def
      worker_app_def try_acquire_system_lock_def find_system_lock_def empty_db_def start_leader_only_tasks_def
      secs_def sql_now_def Let_def)

theorem one_leader_per_lease_witness:
  "el_until (elect ''b'' stalled) ''a'' < sql_now (w_db (el_world (elect ''b'' stalled))) \<or>
   el_until (elect ''b'' stalled) ''b'' < sql_now (w_db (el_world (elect ''b'' stalled)))"
  using one_leader_per_lease [OF elected_demo, of "''a''" "''b''"] two_leaders
  by (simp add: worker_app_def)

end
