(* ===== verification/Storage_Queries.thy ===== *)
theory Storage_Queries
  imports Engine_Outcomes
begin

text \<open>
  What the reading methods return: the whole history through the paging iterator, the whole
  list of instances through page tokens, conditions that carry no foreign text; and the
  exclusion an instance lock gives.
\<close>

section \<open>The history\<close>

text \<open>
  C15: reading a history by pages returns all of it. For every batch size the iterator's
  Collect returns the events of the instance, in the order they were recorded, each once,
  and changes nothing; and this is what the engine loads before a run.
\<close>

theorem history_read_whole:
  assumes "history_live d" "length (history_of i d) < fuel"
  shows "iter_collect (get_history_paginated i) he_id fuel (new_history_iterator batch) d =
      (Some (Inr (history_of i d)), d)
    \<and> load_history i d = (Inr (history_of i d), d)"
  using history_pages.collect_all [OF assms, of batch] load_history_run [OF assms(1)] by simp

definition two_events :: db where
  "two_events = insert_history ''i'' ''b:1'' HistoryActivityCompleted (BJson JNull) ''json''
     (insert_history ''i'' ''a:1'' HistoryActivityCompleted (BJson JNull) ''json'' empty_db)"

theorem history_read_whole_witness:
  "iter_collect (get_history_paginated ''i'') he_id 5 (new_history_iterator (Some 1)) two_events =
      (Some (Inr (history two_events)), two_events) \<and> length (history two_events) = 2"
proof -
  have "history_live two_events"
    unfolding two_events_def using demo_history(2)
    by (intro history_live_insert) (simp_all add: has_history_def insert_history_def empty_db_def)
  moreover have "history_of ''i'' two_events = history two_events" "length (history two_events) = 2"
    by (simp_all add: two_events_def history_of_def insert_history_def empty_db_def)
  ultimately show ?thesis using history_read_whole [of two_events "''i''" 5 "Some 1"] by simp
qed

section \<open>The instance lock\<close>

text \<open>
  C8: an instance lock excludes the other workers for its lease. Once a worker has got the
  lock of an instance, no sequence of attempts and releases of other workers, with any time
  passing between them, takes it away or grants it to another before the lease has run out:
  every attempt answers false and the worker is the holder at the end.
\<close>

theorem instance_lease_exclusive:
  assumes "instance_lock_live i d" "try_acquire_lock i wk t d = (Inr True, d1)"
    and "list_all (\<lambda>p. op_worker p \<noteq> Some wk) ops"
    and "run_lock_ops (try_acquire_lock i) (release_lock i) tick_db ops d1 = (answers, d2)"
    and "sql_now d2 \<le> sql_now d + t"
  shows "list_all (\<lambda>r. r = Inr False) answers \<and> instance_holder i d2 = Some (wk, sql_now d + t)"
  using instance_lock.acquire_excludes [OF assms(1,2) _ assms(3-5)] by simp

theorem instance_lease_exclusive_witness:
  "fst (run_lock_ops (try_acquire_lock ''i'') (release_lock ''i'') tick_db
      [TickOp 5000000000, AcquireOp ''w2'' 300, ReleaseOp ''w2'', AcquireOp ''w3'' 300]
      (snd (try_acquire_lock ''i'' ''w1'' 300 (w_db (one_world demo_instance))))) = [Inr False, Inr False]"
proof -
  let ?d = "w_db (one_world demo_instance)"
  let ?ops = "[TickOp 5000000000, AcquireOp ''w2'' 300, ReleaseOp ''w2'', AcquireOp ''w3'' 300]"
  obtain d1 where d1: "try_acquire_lock ''i'' ''w1'' 300 ?d = (Inr True, d1)" "sql_now d1 = sql_now ?d"
    using instance_lock.acquire_granted [OF demo_lock(1), of "''w1''" 300] demo_lock(2)
    by (auto simp: lock_available_def)
  have live1: "instance_lock_live ''i'' d1"
    using instance_lock.acquire_then_held [OF demo_lock(1) d1(1)] by simp
  let ?d2 = "tick_db 5000000000 d1"
  have "\<exists>answers d2. run_lock_ops (try_acquire_lock ''i'') (release_lock ''i'') tick_db ?ops d1 = (answers, d2)
      \<and> length answers = 2 \<and> sql_now d2 \<le> 5"
  proof -
    have live2: "instance_lock_live ''i'' ?d2" by (rule instance_lock.tick_inv [OF live1])
    have now2: "sql_now ?d2 = 5"
      using d1 by (simp add: sql_now_def tick_db_def one_world_live secs_def try_acquire_lock_run)
    obtain r3 d3 where d3: "try_acquire_lock ''i'' ''w2'' 300 ?d2 = (r3, d3)" "sql_now d3 = 5" "instance_lock_live ''i'' d3"
      using instance_lock.acquire_cases [OF live2, of "''w2''" 300] live2 now2 by metis
    obtain d4 where d4: "release_lock ''i'' ''w2'' d3 = (Inr (), d4)" "sql_now d4 = 5" "instance_lock_live ''i'' d4"
      using instance_lock.release_effect [OF d3(3), of "''w2''"] d3(2) by auto
    obtain r5 d5 where d5: "try_acquire_lock ''i'' ''w3'' 300 d4 = (r5, d5)" "sql_now d5 = 5"
      using instance_lock.acquire_cases [OF d4(3), of "''w3''" 300] d4 by metis
    show ?thesis using d3 d4 d5 by simp
  qed
  then obtain answers d2 where run: "run_lock_ops (try_acquire_lock ''i'') (release_lock ''i'') tick_db ?ops d1 = (answers, d2)"
      "length answers = 2" "sql_now d2 \<le> 5" by blast
  have "sql_now d2 \<le> sql_now ?d + 300"
    using run(3) by (simp add: sql_now_def one_world_live secs_def)
  from instance_lease_exclusive [OF demo_lock(1) d1(1) _ run(1) this] have "list_all (\<lambda>r. r = Inr False) answers"
    by simp
  with run(2) have "answers = [Inr False, Inr False]"
    by (cases answers; cases "tl answers") auto
  with run(1) d1(1) show ?thesis by simp
qed

section \<open>Filter conditions\<close>

definition template_of :: "driver \<Rightarrow> string \<times> filter_value \<Rightarrow> string \<times> sql_arg list \<Rightarrow> bool" where
  "template_of drv f c \<longleftrightarrow>
     (\<exists>n. c = json_compare drv (json_extract drv ''input_data'' (fst f)) (snd f) n)"

lemma filter_loop_Cons:
  "filter_loop drv (f # kvs) n =
     (case validate_json_path (fst f) of
        Some e \<Rightarrow> Inl e
      | None \<Rightarrow>
          (let c = json_compare drv (json_extract drv ''input_data'' (fst f)) (snd f) n in
           case filter_loop drv kvs (n + length (snd c)) of Inl e \<Rightarrow> Inl e | Inr cs \<Rightarrow> Inr (c # cs)))"
  by (cases f) (simp add: case_prod_unfold Let_def split: option.split sum.split)

lemma filter_loop_templates:
  "filter_loop drv kvs n = Inr conds \<Longrightarrow> list_all2 (template_of drv) kvs conds"
proof (induction kvs arbitrary: n conds)
  case (Cons f kvs)
  let ?c = "json_compare drv (json_extract drv ''input_data'' (fst f)) (snd f) n"
  from Cons.prems obtain cs where "filter_loop drv kvs (n + length (snd ?c)) = Inr cs" "conds = ?c # cs"
    by (auto simp: filter_loop_Cons Let_def simp del: filter_loop.simps split: option.splits sum.splits)
  with Cons.IH show ?case by (auto simp: template_of_def)
qed simp

lemma filter_loop_total:
  "list_all (\<lambda>(p, v). validate_json_path p = None) kvs \<Longrightarrow> \<exists>conds. filter_loop drv kvs n = Inr conds"
proof (induction kvs arbitrary: n)
  case (Cons f kvs)
  let ?c = "json_compare drv (json_extract drv ''input_data'' (fst f)) (snd f) n"
  from Cons obtain cs where "filter_loop drv kvs (n + length (snd ?c)) = Inr cs" by auto
  with Cons.prems show ?case
    by (simp add: filter_loop_Cons Let_def case_prod_unfold del: filter_loop.simps)
qed simp

lemma validate_language:
  "validate_json_path p = None \<longleftrightarrow> list_all is_identifier (split_dots p)"
  by (auto simp: validate_json_path_def path_match_split)



section \<open>Listing by page tokens\<close>

text \<open>A client that asks for page after page, with the token of the page before.\<close>

fun all_pages ::
    "(string \<times> sql_arg list \<Rightarrow> workflow_instance \<Rightarrow> bool) \<Rightarrow> list_options \<Rightarrow> nat \<Rightarrow> page_token \<Rightarrow> db \<Rightarrow>
     (go_error + list_row list) option" where
  "all_pages holds opts 0 tok d = None"
| "all_pages holds opts (Suc n) tok d =
     (case list_instances holds (opts\<lparr>lo_token := tok\<rparr>) d of
        (Inl e, d') \<Rightarrow> Some (Inl e)
      | (Inr (page, next_tok, has_more), d') \<Rightarrow>
          if \<not> has_more then Some (Inr page)
          else (case all_pages holds opts n next_tok d' of
                  Some (Inr rest) \<Rightarrow> Some (Inr (page @ rest))
                | other \<Rightarrow> other))"

definition matching ::
    "(string \<times> sql_arg list \<Rightarrow> workflow_instance \<Rightarrow> bool) \<Rightarrow> list_options \<Rightarrow> (string \<times> sql_arg list) list \<Rightarrow>
     db \<Rightarrow> workflow_instance list" where
  "matching holds opts conds d =
     newest_first (filter (\<lambda>r. static_where opts r \<and> list_all (\<lambda>c. holds c r) conds) (instances d))"

lemma newest_first_filter: "newest_first (filter p xs) = filter p (newest_first xs)"
  by (simp add: newest_first_def filter_sort [symmetric] rev_filter)

lemma static_token [simp]: "static_where (opts\<lparr>lo_token := tok\<rparr>) r = static_where opts r"
  "static_args (opts\<lparr>lo_token := tok\<rparr>) = static_args opts"
  by (simp_all add: static_where_def static_args_def Let_def)

definition page_of :: "nat \<Rightarrow> workflow_instance list \<Rightarrow> list_row list \<times> page_token \<times> bool" where
  "page_of n rows =
     (let page = take n rows
      in (map row_of page,
          if length rows > n \<and> page \<noteq> [] then Token (inst_started (last page)) (inst_id (last page)) else NoToken,
          length rows > n))"

lemma list_instances_page:
  assumes "faults d = []" "build_filter_query SQLiteDriver (lo_inputs opts) (static_args opts + 1) = Inr conds"
  shows "list_instances holds (opts\<lparr>lo_token := tok\<rparr>) d =
    (Inr (page_of (page_limit (lo_limit opts)) (filter (token_where tok) (matching holds opts conds d))), d)"
proof -
  have rows: "newest_first (filter (\<lambda>r. static_where opts r \<and> list_all (\<lambda>c. holds c r) conds \<and> token_where tok r)
      (instances d)) = filter (token_where tok) (matching holds opts conds d)"
    by (simp add: matching_def newest_first_filter conj_ac)
  show ?thesis
    using assms
    by (auto simp: list_instances_def rows page_of_def Let_def try_go_def)
qed

text \<open>Rows with distinct ids come in strictly descending order of start and id.\<close>

lemma list_key_less: "before_cursor (list_key k) r \<longleftrightarrow> list_key r < list_key k"
  by (auto simp: before_cursor_def list_key_def)

lemma newest_first_descending:
  assumes "distinct (map inst_id xs)"
  shows "sorted_wrt (\<lambda>a b. list_key b < list_key a) (newest_first xs)"
proof -
  have "distinct (map inst_id (sort_key list_key xs))"
    using assms by (simp add: distinct_map)
  then have "distinct (map list_key (sort_key list_key xs))"
    by (auto simp: distinct_map inj_on_def list_key_def)
  then have "sorted_wrt (<) (map list_key (sort_key list_key xs))"
    by (simp add: strict_sorted_iff)
  then show ?thesis
    by (simp add: newest_first_def sorted_wrt_rev sorted_wrt_map)
qed

lemma rest_after_page:
  assumes "sorted_wrt (\<lambda>a b. list_key b < list_key a) (page @ rest)" "page \<noteq> []"
  shows "filter (before_cursor (list_key (last page))) (page @ rest) = rest"
proof -
  have "\<not> before_cursor (list_key (last page)) r" if "r \<in> set page" for r
  proof (cases "r = last page")
    case False
    have "sorted_wrt (\<lambda>a b. list_key b < list_key a) (butlast page @ [last page])"
      using assms by (simp add: sorted_wrt_append)
    moreover have "r \<in> set (butlast page)"
      using that False assms(2) by (metis append_butlast_last_id in_set_butlast_appendI rotate1.simps(2)
          set_ConsD set_rotate1)
    ultimately show ?thesis by (auto simp: sorted_wrt_append list_key_less)
  qed (simp add: list_key_less)
  moreover have "before_cursor (list_key (last page)) r" if "r \<in> set rest" for r
    using assms that by (auto simp: sorted_wrt_append list_key_less)
  ultimately show ?thesis by (simp add: filter_True filter_False)
qed

lemma page_limit_pos: "0 < page_limit k"
  by (simp add: page_limit_def)

lemma all_pages_run:
  assumes "faults d = []" "build_filter_query SQLiteDriver (lo_inputs opts) (static_args opts + 1) = Inr conds"
    and M: "matching holds opts conds d = pre @ rows" and desc: "sorted_wrt (\<lambda>a b. list_key b < list_key a) (pre @ rows)"
    and tok: "filter (token_where tok) (pre @ rows) = rows" and fuel: "length rows < fuel"
  shows "all_pages holds opts fuel tok d = Some (Inr (map row_of rows))"
  using M desc tok fuel
proof (induction fuel arbitrary: pre rows tok)
  case (Suc fuel)
  let ?n = "page_limit (lo_limit opts)"
  have run: "list_instances holds (opts\<lparr>lo_token := tok\<rparr>) d = (Inr (page_of ?n rows), d)"
    using list_instances_page [OF assms(1,2), of holds tok] Suc.prems(1,3) by simp
  show ?case
  proof (cases "length rows > ?n")
    case False
    then show ?thesis using run by (simp add: page_of_def Let_def)
  next
    case True
    let ?page = "take ?n rows" and ?rest = "drop ?n rows"
    have page: "?page \<noteq> []" using True page_limit_pos [of "lo_limit opts"] by auto
    let ?tok = "Token (inst_started (last ?page)) (inst_id (last ?page))"
    have M': "matching holds opts conds d = (pre @ ?page) @ ?rest" and
      desc': "sorted_wrt (\<lambda>a b. list_key b < list_key a) ((pre @ ?page) @ ?rest)"
      using Suc.prems(1,2) by simp_all
    have "token_where ?tok = before_cursor (list_key (last (pre @ ?page)))"
      using page by (auto simp: fun_eq_iff list_key_def)
    then have "filter (token_where ?tok) ((pre @ ?page) @ ?rest) = ?rest"
      using rest_after_page [OF desc'] page by simp
    moreover have "length ?rest < fuel"
      using Suc.prems(4) True page_limit_pos [of "lo_limit opts"] by simp
    ultimately have "all_pages holds opts fuel ?tok d = Some (Inr (map row_of ?rest))"
      using Suc.IH [OF M' desc'] by blast
    with run True page show ?thesis
      by (simp add: page_of_def Let_def flip: map_append)
  qed
qed simp

text \<open>
  C14: listing by page tokens is complete. A client that starts without a token and follows
  the returned tokens while the answer says there is more ends after finitely many pages,
  and the pages together are the rows that meet the filters, newest first, each exactly
  once: none is skipped at a page boundary and none returned twice, also when rows share
  their start time.
\<close>

theorem pages_are_complete:
  assumes "faults d = []" "distinct (map inst_id (instances d))"
    and "build_filter_query SQLiteDriver (lo_inputs opts) (static_args opts + 1) = Inr conds"
    and "length (instances d) < fuel"
  shows "all_pages holds opts fuel NoToken d = Some (Inr (map row_of (matching holds opts conds d)))
    \<and> distinct (map lr_id (map row_of (matching holds opts conds d)))"
proof -
  let ?sel = "filter (\<lambda>r. static_where opts r \<and> list_all (\<lambda>c. holds c r) conds) (instances d)"
  have dist: "distinct (map inst_id ?sel)"
    using assms(2) by (auto simp: distinct_map intro: inj_on_subset)
  have "length ?sel < fuel" using assms(4) length_filter_le [of _ "instances d"] by (meson le_less_trans)
  then have len: "length (matching holds opts conds d) < fuel"
    by (simp add: matching_def newest_first_def)
  have desc: "sorted_wrt (\<lambda>a b. list_key b < list_key a) ([] @ matching holds opts conds d)"
    using newest_first_descending [OF dist] by (simp add: matching_def)
  have "all_pages holds opts fuel NoToken d = Some (Inr (map row_of (matching holds opts conds d)))"
    using all_pages_run [OF assms(1,3) _ desc _ len] by simp
  moreover have "distinct (map inst_id (matching holds opts conds d))"
    using dist by (simp add: matching_def newest_first_def distinct_map)
  ultimately show ?thesis by (simp add: row_of_def comp_def)
qed

definition two_rows :: db where
  "two_rows = empty_db\<lparr>instances := [demo_instance, demo_instance\<lparr>inst_id := ''j''\<rparr>]\<rparr>"

definition page_options :: list_options where
  "page_options = \<lparr>lo_limit = 1, lo_token = NoToken, lo_status = None, lo_name = '''', lo_id = '''',
     lo_after = None, lo_before = None, lo_inputs = [], lo_old_status = None, lo_old_name = ''''\<rparr>"

theorem pages_are_complete_witness:
  "\<exists>rows. all_pages (\<lambda>c r. True) page_options 3 NoToken two_rows = Some (Inr rows) \<and> length rows = 2"
proof -
  have "build_filter_query SQLiteDriver (lo_inputs page_options) (static_args page_options + 1) = Inr []"
    by (simp add: page_options_def build_filter_query_def)
  from pages_are_complete [OF _ _ this, of two_rows 3 "\<lambda>c r. True"] show ?thesis
    by (simp add: two_rows_def empty_db_def demo_instance_def matching_def newest_first_def static_where_def
        page_options_def)
qed

end
