(* ===== verification/Activity_Outcomes.thy ===== *)
theory Activity_Outcomes
  imports Engine_Outcomes
begin

text \<open>
  What executing an activity comes to: how often its function is called and with which
  result the retry loop ends, and what a transactional activity that fails leaves behind.
\<close>

section \<open>The retry loop ends\<close>

text \<open>The outside world counts the calls of the activity's function.\<close>

definition counts_calls :: "nat activity \<Rightarrow> bool" where
  "counts_calls a \<longleftrightarrow> (\<forall>dl v s. w_ext (ex_world (snd (ac_fn a dl v s))) = Suc (w_ext (ex_world s)))"

text \<open>The ways a retry loop that has made \<open>k\<close> attempts in all may end.\<close>

definition retry_outcome :: "policy \<Rightarrow> string \<Rightarrow> nat \<Rightarrow> go_error + gov \<Rightarrow> bool" where
  "retry_outcome p name k r \<longleftrightarrow>
     (case r of
        Inr v \<Rightarrow> True
      | Inl e \<Rightarrow> is_terminal_error e \<or> e = ContextCanceled
          \<or> (\<exists>e'. e = RetryExhaustedError name k e' \<and> \<not> should_retry p k e'))"

lemma run_hook_ext [simp]: "w_ext (ex_world (run_hook h s)) = w_ext (ex_world s)"
  by (simp add: run_hook_def ctx_hook_def on_world_def)

lemma advance_clock_ext [simp]: "w_ext (ex_world (advance_clock d s)) = w_ext (ex_world s)"
  by (simp add: advance_clock_def)

lemma retry_loop_ends:
  assumes "counts_calls a" "rp_max_attempts (activity_policy a) = int n" "n = fuel + k" "0 < fuel"
  shows "\<exists>r s' m. retry_loop ch a input act fuel k s = (Some r, s') \<and>
    w_ext (ex_world s') = w_ext (ex_world s) + m \<and> 1 \<le> m \<and> k + m \<le> n \<and>
    retry_outcome (activity_policy a) (ac_name a) (k + m) r"
  using assms(3,4)
proof (induction fuel arbitrary: k s)
  case (Suc fuel)
  let ?p = "activity_policy a"
  obtain r s1 where r: "ac_fn a (attempt_deadline a s) input s = (r, s1)"
    by (cases "ac_fn a (attempt_deadline a s) input s")
  have ext: "w_ext (ex_world s1) = Suc (w_ext (ex_world s))"
    using assms(1) r unfolding counts_calls_def by (metis snd_conv)
  show ?case
  proof (cases r)
    case (Inr v)
    with r ext Suc.prems show ?thesis
      by (intro exI [of _ "Inr v"] exI [of _ "run_hook (\<lambda>i wf. OnActivityComplete i act (ac_name a) v) s1"]
          exI [of _ 1]) (simp add: Let_def retry_outcome_def)
  next
    case (Inl e)
    show ?thesis
    proof (cases "is_terminal_error e \<or> \<not> should_retry ?p (Suc k) e")
      case True
      with r Inl ext Suc.prems show ?thesis
        by (cases "is_terminal_error e")
           (auto simp: Let_def retry_outcome_def intro!: exI [of _ "1::nat"])
    next
      case again: False
      let ?s = "run_hook (\<lambda>i wf. OnActivityRetry i act (ac_name a) (Suc k) (rp_max_attempts ?p)
                  (get_delay ?p (ch_rand ch (Suc k)) (Suc k)) e) s1"
      show ?thesis
      proof (cases "ex_cancelled ?s")
        case True
        with r Inl ext again Suc.prems show ?thesis
          by (intro exI [of _ "Inl ContextCanceled"] exI [of _ ?s] exI [of _ 1])
             (simp add: Let_def retry_outcome_def)
      next
        case False
        have "0 < fuel"
          using again assms(2) Suc.prems(1) by (cases fuel) (auto simp: should_retry_def)
        moreover have "n = fuel + Suc k" using Suc.prems(1) by simp
        ultimately obtain r' s' m where IH:
            "retry_loop ch a input act fuel (Suc k) (advance_clock (get_delay ?p (ch_rand ch (Suc k)) (Suc k)) ?s)
               = (Some r', s')"
            "w_ext (ex_world s') = w_ext (ex_world s1) + m" "1 \<le> m" "Suc k + m \<le> n"
            "retry_outcome ?p (ac_name a) (Suc k + m) r'"
          using Suc.IH [of "Suc k" "advance_clock (get_delay ?p (ch_rand ch (Suc k)) (Suc k)) ?s"] by auto
        with r Inl ext again False show ?thesis
          by (intro exI [of _ r'] exI [of _ s'] exI [of _ "Suc m"]) (simp add: Let_def)
      qed
    qed
  qed
qed simp


definition counting_world :: "nat world" where
  "counting_world = \<lparr>w_db = empty_db, w_tx = None, w_callbacks = [], w_hooks = [], w_ext = 0\<rparr>"

definition failing_activity :: "nat activity" where
  "failing_activity =
     \<lparr>ac_name = ''pay'',
      ac_fn = (\<lambda>dl v s. (Inl (ErrText ''declined''),
                s\<lparr>ex_world := (ex_world s)\<lparr>w_ext := Suc (w_ext (ex_world s))\<rparr>\<rparr>)),
      ac_out = TString, ac_policy = None, ac_timeout = 0, ac_comp = None,
      ac_decode = (\<lambda>b. Inr (VJson JNull)), ac_transactional = True\<rparr>"


section \<open>Atomicity\<close>

text \<open>
  Same committed tables: the database differs at most in its clock. \<open>inside\<close> is what a
  well-behaved function of a transactional activity does: everything it stores goes through
  the transaction it was given.
\<close>

definition same_tables :: "db \<Rightarrow> db \<Rightarrow> bool" where
  "same_tables d d' \<longleftrightarrow> d' = d\<lparr>clock := clock d'\<rparr>"

definition inside :: "'x exec \<Rightarrow> 'x exec \<Rightarrow> bool" where
  "inside s s' \<longleftrightarrow> same_tables (w_db (ex_world s)) (w_db (ex_world s')) \<and>
     (ex_in_tx s \<longrightarrow> ex_in_tx s') \<and> ex_instance s' = ex_instance s \<and>
     (w_tx (ex_world s) \<noteq> None \<longrightarrow> w_tx (ex_world s') \<noteq> None)"

definition uses_tx :: "'x activity \<Rightarrow> bool" where
  "uses_tx a \<longleftrightarrow> (\<forall>dl v s. ex_in_tx s \<and> w_tx (ex_world s) \<noteq> None \<longrightarrow> inside s (snd (ac_fn a dl v s)))"

lemma same_tables_refl [simp]: "same_tables d d"
  by (simp add: same_tables_def)

lemma same_tables_trans: "same_tables d d' \<Longrightarrow> same_tables d' d'' \<Longrightarrow> same_tables d d''"
  unfolding same_tables_def by (metis db.update_convs(21) db.surjective db.select_convs)

lemma same_tables_clock [simp]: "same_tables d (d\<lparr>clock := t\<rparr>)"
  by (simp add: same_tables_def)

lemma same_tables_faults: "same_tables d d' \<Longrightarrow> faults d' = faults d"
proof -
  assume "same_tables d d'"
  then have eq: "d' = d\<lparr>clock := clock d'\<rparr>" by (simp add: same_tables_def)
  show "faults d' = faults d" using arg_cong [OF eq, of faults] by simp
qed

definition in_open :: "'x exec \<Rightarrow> bool" where
  "in_open s \<longleftrightarrow> ex_in_tx s \<and> w_tx (ex_world s) \<noteq> None \<and> faults (w_db (ex_world s)) = []"

lemma inside_open: "inside s s' \<Longrightarrow> in_open s \<Longrightarrow> in_open s'"
  using same_tables_faults by (auto simp: inside_def in_open_def)

lemma inside_trans: "inside s s' \<Longrightarrow> inside s' s'' \<Longrightarrow> inside s s''"
  unfolding inside_def using same_tables_trans by fastforce

lemma inside_hook: "inside s (run_hook h s)"
  by (simp add: inside_def run_hook_def ctx_hook_def on_world_def)

lemma inside_clock: "inside s (advance_clock d s)"
  by (simp add: inside_def advance_clock_def)

lemma retry_loop_inside:
  "uses_tx a \<Longrightarrow> ex_in_tx s \<Longrightarrow> w_tx (ex_world s) \<noteq> None \<Longrightarrow>
   inside s (snd (retry_loop ch a input act fuel n s))"
proof (induction fuel arbitrary: n s)
  case (Suc fuel)
  obtain r s1 where r: "ac_fn a (attempt_deadline a s) input s = (r, s1)"
    by (cases "ac_fn a (attempt_deadline a s) input s")
  have f1: "inside s s1"
    using Suc.prems r unfolding uses_tx_def by (metis snd_conv)
  have hk: "inside s (run_hook h s1)" for h
    using f1 inside_hook inside_trans by blast
  have next_s: "inside s (advance_clock d (run_hook h s1))" for h d
    using hk inside_clock inside_trans by blast
  have again: "inside s (snd (retry_loop ch a input act fuel m (advance_clock d (run_hook h s1))))" for h d m
  proof -
    let ?s = "advance_clock d (run_hook h s1)"
    have "ex_in_tx ?s" "w_tx (ex_world ?s) \<noteq> None"
      using next_s [of d h] Suc.prems(2,3) by (auto simp: inside_def)
    with Suc.IH [OF Suc.prems(1)] next_s inside_trans show ?thesis by blast
  qed
  show ?case using r hk again by (cases r) (simp_all add: Let_def)
qed (simp add: inside_def)

lemma execute_with_retry_inside:
  "uses_tx a \<Longrightarrow> ex_in_tx s \<Longrightarrow> w_tx (ex_world s) \<noteq> None \<Longrightarrow>
   inside s (snd (execute_with_retry ch a input act s))"
  using retry_loop_inside [of a s ch input act "retry_fuel ch a" 0]
  by (auto simp: execute_with_retry_def split: prod.splits option.splits)

text \<open>A method that runs on the transaction, without faults.\<close>

lemma stor_inside:
  assumes "w_tx w = Some v" "faults (w_db w) = []" "\<And>d. faults d = [] \<Longrightarrow> faults (snd (m d)) = []"
  shows "\<exists>r v'. stor True m w = (r, w\<lparr>w_tx := Some v'\<rparr>)"
proof -
  obtain r v' where m: "m (sync_view (w_db w) v) = (r, v')" by (cases "m (sync_view (w_db w) v)")
  with assms have "faults v' = []" by (metis snd_conv sync_view_fields(1))
  then have "(w_db w)\<lparr>faults := faults v'\<rparr> = w_db w" using assms(2) by simp
  with m assms(1) show ?thesis by (auto simp: stor_def)
qed

lemma append_history_faults: "faults d = [] \<Longrightarrow> faults (snd (append_history i act ty data dt d)) = []"
  by (simp add: append_history_run)

lemma record_inside:
  assumes "ex_in_tx s" "w_tx (ex_world s) = Some v" "faults (w_db (ex_world s)) = []"
  shows "inside s (snd (ctx_record_activity_result act r s))"
proof -
  have st: "\<exists>q v'. stor True (append_history i act ty data dt) (ex_world s) = (q, (ex_world s)\<lparr>w_tx := Some v'\<rparr>)"
    for i ty data dt using stor_inside [OF assms(2,3)] append_history_faults by metis
  show ?thesis
  proof (cases r)
    case (Inl e)
    from st [of "ex_instance s" HistoryActivityFailed "BJson (JStr (err_text e))" "''json''"] obtain q v'
      where "stor True (append_history (ex_instance s) act HistoryActivityFailed (BJson (JStr (err_text e))) ''json'')
        (ex_world s) = (q, (ex_world s)\<lparr>w_tx := Some v'\<rparr>)" by blast
    with Inl assms(1) show ?thesis
      by (cases q) (simp_all add: ctx_record_activity_result_def exec_record_with_context_def
          record_activity_result_def on_world_def inside_def set_cached_result_def)
  next
    case (Inr x)
    show ?thesis
    proof (cases "marshal x")
      case None
      with Inr assms(1,2) show ?thesis
        by (simp add: ctx_record_activity_result_def exec_record_with_context_def record_activity_result_def
            on_world_def inside_def)
    next
      case (Some j)
      from st [of "ex_instance s" HistoryActivityCompleted "BJson j" "''json''"] obtain q v'
        where "stor True (append_history (ex_instance s) act HistoryActivityCompleted (BJson j) ''json'')
          (ex_world s) = (q, (ex_world s)\<lparr>w_tx := Some v'\<rparr>)" by blast
      with Inr Some assms(1) show ?thesis
        by (cases q) (simp_all add: ctx_record_activity_result_def exec_record_with_context_def
            record_activity_result_def on_world_def inside_def set_cached_result_def)
    qed
  qed
qed

lemma register_compensation_inside:
  assumes "ex_in_tx s" "w_tx (ex_world s) = Some v" "faults (w_db (ex_world s)) = []"
  shows "inside s (snd (register_compensation a act input s))"
proof (cases "marshal input")
  case (Some j)
  have "\<exists>q v'. stor True (add_compensation (ex_instance s) act (ac_name a) (BJson j)) (ex_world s) =
      (q, (ex_world s)\<lparr>w_tx := Some v'\<rparr>)"
    by (rule stor_inside [OF assms(2,3)]) (simp add: add_compensation_def)
  with Some assms(1) show ?thesis
    by (auto simp: register_compensation_def ctx_stor_def on_world_def inside_def)
qed (simp add: register_compensation_def inside_def)

lemma for_each_ignored: "fst (for_each (\<lambda>x. ignore_err (f x)) xs w) = Inr ()"
  by (induction xs arbitrary: w) simp_all

lemma commit_succeeds:
  assumes "w_tx w = Some v" "faults (w_db w) = []"
  shows "fst (commit_transaction run True w) = Inr ()"
  using assms by (simp add: commit_transaction_def for_each_ignored)


definition once_failing :: "nat activity" where
  "once_failing = failing_activity\<lparr>ac_policy := Some no_retry\<rparr>"

lemma once_failing_run:
  "fst (execute_in_transaction demo_choices once_failing (VJson JNull) ''pay:1'' (new_exec counting_world ''i'' []))
   = Inl (RetryExhaustedError ''pay'' 1 (ErrText ''declined''))"
  by (simp add: execute_in_transaction_def new_exec_def build_caches_def on_world_def begin_transaction_def
      counting_world_def empty_db_def try_go_def with_tx_context_def execute_with_retry_def retry_fuel_def
      activity_policy_def once_failing_def failing_activity_def no_retry_def attempt_deadline_def then_go_def
      is_terminal_error_def should_retry_def run_hook_def ctx_hook_def Let_def
      ctx_record_activity_result_def exec_record_with_context_def record_activity_result_def stor_def
      sync_view_def append_history_def has_history_def insert_history_def set_cached_result_def
      rollback_transaction_def close_tx_def map_err_def)


end
