(* ===== verification/Channel_Receive.thy ===== *)
theory Channel_Receive
  imports Channel_Delivery Storage_Invariants
begin

text \<open>
  A Receive call that is new to the run: what it takes from the channel, and the cases in
  which the calls of channels.go do not do what they are meant to.
\<close>

section \<open>Broadcast subscribers\<close>

lemma lookup_none: "lookup c act = None \<longleftrightarrow> fst c act = None \<and> snd c act = None"
  by (auto simp: lookup_def split: option.splits)

lemma receive_new:
  assumes "cached_in s act = None"
  shows "receive_cached T channel act s = (Inr None, s)"
proof -
  have "ex_results s act = None" using assms by (simp add: cached_in_def lookup_none)
  with assms show ?thesis
    by (simp add: receive_cached_def get_cached_result_raw_def get_cached_result_eq hit_def try_go_def)
qed

lemma receive_counted_same [simp]: "(receive_counted c s)\<lparr>ex_world := ex_world s\<rparr> = receive_counted c s"
  by (simp add: receive_counted_def)

text \<open>The messages of a channel above the cursor, oldest first.\<close>

definition unread :: "string \<Rightarrow> string \<Rightarrow> db \<Rightarrow> channel_message list" where
  "unread i channel d =
     sort_key cm_id (filter (\<lambda>m. cm_channel m = channel \<and>
       cm_id m > (case find_cursor d i channel of None \<Rightarrow> 0 | Some c \<Rightarrow> dc_last c)) (messages d))"

lemma pending_broadcast:
  assumes "faults d = []" "find_sub d i channel = Some sub" "cs_mode sub = ChannelModeBroadcast"
  shows "get_pending_for_instance i channel d = (Inr (take 10 (unread i channel d)), d)"
  using assms by (simp add: get_pending_for_instance_def unread_def try_go_def)

lemma insert_history_channels [simp]:
  "find_cursor (insert_history j act ty data dt d) i c = find_cursor d i c"
  by (simp add: insert_history_def find_cursor_def)

lemma set_cursor_messages [simp]: "messages (set_cursor j c n d) = messages d"
  by (simp add: set_cursor_def split: option.split)

definition message_result :: "string \<Rightarrow> channel_message \<Rightarrow> json \<Rightarrow> json option \<Rightarrow> received_message" where
  "message_result channel m x md =
     \<lparr>rm_id = cm_id m, rm_channel = channel, rm_data = x, rm_metadata = md, rm_sender = '''',
      rm_created = cm_published m\<rparr>"

lemma cursor_history [simp]: "has_history i act (set_cursor j c n d) = has_history i act d"
  by (simp add: has_history_def)

lemma take_broadcast:
  assumes "\<not> ex_in_tx s" "w_tx (ex_world s) = None" "faults (w_db (ex_world s)) = []" "ex_instance s = i"
    and "cs_mode sub = ChannelModeBroadcast" "\<not> has_history i act (w_db (ex_world s))"
    and "cm_data m = BJson j" "td_decode T j = Some x" "message_metadata m = Inr md"
  shows "\<exists>s'. take_message T channel actual act sub m s = (Inr (message_result channel m x md), s')
    \<and> w_db (ex_world s') = insert_history i act HistoryActivityCompleted
        (BJson (received_json (message_result channel m x md))) ''json''
        (set_cursor i actual (cm_id m) (w_db (ex_world s)))
    \<and> w_tx (ex_world s') = None \<and> \<not> ex_in_tx s' \<and> ex_instance s' = i"
  using assms
  by (simp add: take_message_def ctx_stor_def on_world_def update_delivery_cursor_def message_result_def
      ctx_record_activity_result_def exec_record_with_context_def record_activity_result_def
      append_history_run set_cached_result_def ctx_hook_def try_go_def map_err_def Let_def)

text \<open>
  C22: a broadcast subscriber reads the channel in order. A Receive call that is new to the
  run, made by a subscriber of a broadcast channel with unread messages, returns the oldest
  of them, moves the cursor to it, and records it in the history; what is then unread is
  exactly the other messages that were unread. So every message is received once, in the
  order of publication.
\<close>

theorem broadcast_in_order:
  assumes "\<not> ex_in_tx s" "w_tx (ex_world s) = None" "faults (w_db (ex_world s)) = []"
    and "\<not> is_direct_subscription channel s" "cached_in s (receive_id channel s) = None"
    and "\<not> has_history (ex_instance s) (receive_id channel s) (w_db (ex_world s))"
    and "find_sub (w_db (ex_world s)) (ex_instance s) channel = Some sub" "cs_mode sub = ChannelModeBroadcast"
    and "messages_ok (message_seq (w_db (ex_world s))) (messages (w_db (ex_world s)))"
    and "unread (ex_instance s) channel (w_db (ex_world s)) = m # later"
    and "cm_data m = BJson j" "td_decode T j = Some x" "message_metadata m = Inr md"
  shows "\<exists>s'. receive (Suc fuel) T channel timeout s = (Inr (message_result channel m x md), s')
    \<and> unread (ex_instance s) channel (w_db (ex_world s')) = later
    \<and> has_history (ex_instance s) (receive_id channel s) (w_db (ex_world s'))"
proof -
  let ?s = "receive_counted channel s" and ?i = "ex_instance s" and ?d = "w_db (ex_world s)"
  let ?act = "receive_id channel s"
  have new: "receive_cached T channel ?act ?s = (Inr None, ?s)"
    using assms(5) by (intro receive_new) (simp add: cached_in_def)
  have pend: "get_pending_for_instance ?i channel ?d = (Inr (m # take 9 later), ?d)"
    using pending_broadcast [OF assms(3,7,8)] assms(10) by simp
  from take_broadcast [of ?s ?i sub ?act m j T x md channel channel] assms obtain s' where
    s': "take_message T channel channel ?act sub m ?s = (Inr (message_result channel m x md), s')"
    and db: "w_db (ex_world s') = insert_history ?i ?act HistoryActivityCompleted
        (BJson (received_json (message_result channel m x md))) ''json'' (set_cursor ?i channel (cm_id m) ?d)"
    by auto
  have run: "receive (Suc fuel) T channel timeout s = (Inr (message_result channel m x md), s')"
    using assms(1,2,3,4,7,8) new pend s'
    by (simp add: receive_def receive_id_run Let_def ctx_stor_def on_world_def get_channel_subscription_def
        del: append_Cons)
  let ?c = "case find_cursor ?d ?i channel of None \<Rightarrow> 0 | Some c \<Rightarrow> dc_last c"
  let ?all = "filter (\<lambda>m. cm_channel m = channel) (messages ?d)"
  have sorted: "sorted_wrt (<) (map cm_id (messages ?d))"
    using assms(9) by (simp add: messages_ok_def id_ordered_def)
  have un: "unread ?i channel ?d = filter (\<lambda>m. cm_id m > ?c) ?all"
    using sorted by (simp add: unread_def sort_key_sorted sorted_filter_map strict_sorted_iff conj_commute)
  have "unread ?i channel (w_db (ex_world s')) = filter (\<lambda>m'. cm_id m' > cm_id m) ?all"
    using sorted unfolding db
    by (simp add: unread_def sort_key_sorted sorted_filter_map strict_sorted_iff conj_commute)
  also have "\<dots> = later"
    using above_Cons [of cm_id ?all ?c m later] sorted un assms(10)
    by (simp add: sorted_wrt_map sorted_wrt_filter)
  finally show ?thesis
    using run db by (auto simp: has_history_def insert_history_def)
qed

definition reader_world :: "channel_mode \<Rightarrow> message_claim list \<Rightarrow> string list world" where
  "reader_world mode cls = demo_world\<lparr>w_db := empty_db\<lparr>messages := [demo_message], message_seq := 7,
     claims := cls, subscriptions := [waiting_sub\<lparr>cs_mode := mode, cs_activity := None\<rparr>]\<rparr>\<rparr>"

definition reader :: "channel_mode \<Rightarrow> message_claim list \<Rightarrow> string list exec" where
  "reader mode cls = new_exec (reader_world mode cls) ''i'' []"

lemma reader_fields:
  "ex_world (reader mode cls) = reader_world mode cls" "\<not> ex_in_tx (reader mode cls)"
  "ex_instance (reader mode cls) = ''i''" "cached_in (reader mode cls) act = None"
  "\<not> is_direct_subscription c (reader mode cls)" "receive_id ''c'' (reader mode cls) = ''receive_c:1''"
  "w_tx (reader_world mode cls) = None" "faults (w_db (reader_world mode cls)) = []"
  "\<not> has_history j act (w_db (reader_world mode cls))"
  "find_sub (w_db (reader_world mode cls)) ''i'' ''c'' = Some (waiting_sub\<lparr>cs_mode := mode, cs_activity := None\<rparr>)"
  "messages (w_db (reader_world mode cls)) = [demo_message]" "claims (w_db (reader_world mode cls)) = cls"
  "message_seq (w_db (reader_world mode cls)) = 7" "messages_ok 7 [demo_message]"
  "cursors (w_db (reader_world mode cls)) = []"
  by (simp_all add: reader_def reader_world_def new_exec_def build_caches_def cached_in_def lookup_def
      is_direct_subscription_def first_receive_id demo_world_def empty_db_def has_history_def find_sub_def
      waiting_sub_def messages_ok_def demo_message_def id_ordered_def)

lemma demo_message_fields:
  "cm_data demo_message = BJson (JStr ''hi'')" "td_decode raw_json (JStr ''hi'') = Some (JStr ''hi'')"
  "message_metadata demo_message = Inr None" "cm_id demo_message = 7" "cm_channel demo_message = ''c''"
  "cs_mode (waiting_sub\<lparr>cs_mode := mode, cs_activity := None\<rparr>) = mode"
  by (simp_all add: demo_message_def raw_json_def message_metadata_def bytes_nonempty_def)

theorem broadcast_in_order_witness:
  "\<exists>s'. receive 1 raw_json ''c'' None (reader ChannelModeBroadcast []) =
      (Inr (message_result ''c'' demo_message (JStr ''hi'') None), s') \<and>
    unread ''i'' ''c'' (w_db (ex_world s')) = []"
proof -
  let ?s = "reader ChannelModeBroadcast []"
  have "unread (ex_instance ?s) ''c'' (w_db (ex_world ?s)) = [demo_message]"
    by (simp add: unread_def reader_fields find_cursor_def demo_message_def)
  from broadcast_in_order [of ?s "''c''" _ demo_message "[]" "JStr ''hi''" raw_json "JStr ''hi''" None 0 None,
      OF _ _ _ _ _ _ _ _ _ this]
  show ?thesis
    by (auto simp: reader_fields demo_message_fields)
qed

section \<open>Competing subscribers\<close>

text \<open>
  GetPendingChannelMessagesForInstance looks for a claim under the message's \<open>message_id\<close>,
  which PublishToChannel makes of two times with a dash between them; ClaimChannelMessage
  writes the decimal of the integer id. So a claimed message stays pending, and the claim
  of a Receive call that finds it is refused.
\<close>

lemma dash_not_in_number: "CHR ''-'' \<notin> set (show_nat n)"
  using show_nat_digits [of n] dash_not_digit by blast

lemma uuid_is_no_number:
  assumes "0 \<le> clock d"
  shows "message_uuid d \<noteq> show_int n"
proof
  assume eq: "message_uuid d = show_int n"
  have dash: "CHR ''-'' \<in> set (tl (message_uuid d))"
  proof -
    obtain c cs where c: "show_int (clock d) = c # cs"
      using assms show_nat_nonempty [of "nat (clock d)"] by (cases "show_int (clock d)") (auto simp: show_int_def)
    then show ?thesis by (simp add: message_uuid_def)
  qed
  have "CHR ''-'' \<notin> set (tl (show_int n))"
    using dash_not_in_number [of "nat n"] dash_not_in_number [of "nat (- n)"]
    by (auto simp: show_int_def dest!: list.set_sel(2) [rotated])
  with dash eq show False by simp
qed

text \<open>The messages that a competing subscriber is offered.\<close>

definition offered :: "string \<Rightarrow> db \<Rightarrow> channel_message list" where
  "offered channel d = sort_key cm_id (filter (\<lambda>m. cm_channel m = channel \<and> \<not> is_claimed d m) (messages d))"

lemma pending_competing:
  assumes "faults d = []" "find_sub d i channel = Some sub" "cs_mode sub = ChannelModeCompeting"
  shows "get_pending_for_instance i channel d = (Inr (take 10 (offered channel d)), d)"
  using assms by (simp add: get_pending_for_instance_def offered_def try_go_def)

lemma claim_refused:
  "faults d = [] \<Longrightarrow> show_int n \<in> cl_message ` set (claims d) \<Longrightarrow> claim_channel_message n i d = (Inr False, d)"
  by (simp add: claim_channel_message_def)

lemma claimed_loop:
  assumes "\<not> ex_in_tx s" "w_tx (ex_world s) = None" "faults (w_db (ex_world s)) = []"
    and "\<not> is_direct_subscription channel s"
    and "\<forall>n > ex_counts s (''receive_'' @ channel). cached_in s (''receive_'' @ channel @ CHR '':'' # show_nat n) = None"
    and "find_sub (w_db (ex_world s)) (ex_instance s) channel = Some sub" "cs_mode sub = ChannelModeCompeting"
    and "offered channel (w_db (ex_world s)) = m # later"
    and "show_int (cm_id m) \<in> cl_message ` set (claims (w_db (ex_world s)))"
  shows "fst (receive_loop fuel T channel timeout s) = None"
  using assms
proof (induction fuel arbitrary: s)
  case (Suc fuel)
  let ?s = "receive_counted channel s" and ?i = "ex_instance s" and ?d = "w_db (ex_world s)"
  have "cached_in ?s (receive_id channel s) = None"
    using Suc.prems(5) by (simp add: cached_in_def receive_id_def)
  note new = receive_new [OF this, of T channel]
  have pend: "get_pending_for_instance ?i channel ?d = (Inr (m # take 9 later), ?d)"
    using pending_competing [OF Suc.prems(3,6,7)] Suc.prems(8) by simp
  have "fst (receive_loop fuel T channel timeout ?s) = None"
    using Suc.prems
    by (intro Suc.IH) (simp_all add: is_direct_subscription_def cached_in_def receive_counted_def)
  with Suc.prems new pend claim_refused [OF Suc.prems(3,9)] show ?case
    by (simp add: receive_id_run Let_def ctx_stor_def on_world_def get_channel_subscription_def
        del: append_Cons)
qed simp

definition claim_db :: "int \<Rightarrow> string \<Rightarrow> db \<Rightarrow> db" where
  "claim_db n i d = d\<lparr>claims := claims d @ [\<lparr>cl_message = show_int n, cl_instance = i\<rparr>]\<rparr>"

lemma claim_granted:
  "faults d = [] \<Longrightarrow> show_int n \<notin> cl_message ` set (claims d) \<Longrightarrow>
   claim_channel_message n i d = (Inr True, claim_db n i d)"
  by (simp add: claim_channel_message_def claim_db_def)

lemma claim_db_fields [simp]:
  "faults (claim_db n i d) = faults d" "history (claim_db n i d) = history d"
  "messages (claim_db n i d) = messages d" "find_sub (claim_db n i d) j c = find_sub d j c"
  "claims (claim_db n i d) = claims d @ [\<lparr>cl_message = show_int n, cl_instance = i\<rparr>]"
  by (simp_all add: claim_db_def find_sub_def)

lemma take_competing:
  assumes "\<not> ex_in_tx s" "w_tx (ex_world s) = None" "faults (w_db (ex_world s)) = []"
    and "cs_mode sub = ChannelModeCompeting" "\<not> has_history (ex_instance s) act (w_db (ex_world s))"
    and "cm_data m = BJson j" "td_decode T j = Some x" "message_metadata m = Inr md"
  shows "\<exists>s' d v. take_message T channel actual act sub m s = (Inr (message_result channel m x md), s')
    \<and> w_db (ex_world s') = d \<and> faults d = [] \<and> messages d = messages (w_db (ex_world s))
    \<and> claims d = claims (w_db (ex_world s)) \<and> subscriptions d = subscriptions (w_db (ex_world s))
    \<and> w_tx (ex_world s') = None \<and> \<not> ex_in_tx s' \<and> ex_instance s' = ex_instance s
    \<and> ex_counts s' = ex_counts s \<and> ex_direct s' = ex_direct s
    \<and> cached_in s' = (cached_in s)(act \<mapsto> Inr v)"
  using assms
  by (simp add: take_message_def message_result_def
      ctx_record_activity_result_def exec_record_with_context_def record_activity_result_def on_world_def
      append_history_run set_cached_result_def ctx_hook_def try_go_def map_err_def Let_def)
     (auto simp: insert_history_def cached_in_def lookup_def fun_eq_iff split: option.split)

text \<open>
  C31: the second Receive of a competing subscriber does not return. A subscriber of a
  competing channel that is offered a message receives it with its first call; every later
  call of Receive on that channel calls itself for ever, because the claim that the first
  call wrote does not take the message from the list of pending ones but refuses the next
  claim: whatever number of rounds it is given, it has not returned.
\<close>

theorem second_competing_receive_diverges:
  assumes "\<not> ex_in_tx s" "w_tx (ex_world s) = None" "faults (w_db (ex_world s)) = []"
    and "\<not> is_direct_subscription channel s"
    and "\<forall>n > ex_counts s (''receive_'' @ channel). cached_in s (''receive_'' @ channel @ CHR '':'' # show_nat n) = None"
    and "\<not> has_history (ex_instance s) (receive_id channel s) (w_db (ex_world s))"
    and "find_sub (w_db (ex_world s)) (ex_instance s) channel = Some sub" "cs_mode sub = ChannelModeCompeting"
    and "offered channel (w_db (ex_world s)) = m # later"
    and "show_int (cm_id m) \<notin> cl_message ` set (claims (w_db (ex_world s)))"
    and "\<forall>k \<in> set (messages (w_db (ex_world s))). \<forall>n. cm_message_id k \<noteq> show_int n"
    and "cm_data m = BJson j" "td_decode T j = Some x" "message_metadata m = Inr md"
  shows "\<exists>s'. receive (Suc fuel) T channel timeout s = (Inr (message_result channel m x md), s')
    \<and> (\<forall>n. fst (receive_loop n T channel timeout s') = None)"
proof -
  let ?s = "receive_counted channel s" and ?i = "ex_instance s" and ?d = "w_db (ex_world s)"
  let ?act = "receive_id channel s"
  have "cached_in ?s ?act = None" using assms(5) by (simp add: cached_in_def receive_id_def)
  note new = receive_new [OF this, of T channel]
  have pend: "get_pending_for_instance ?i channel ?d = (Inr (m # take 9 later), ?d)"
    using pending_competing [OF assms(3,7,8)] assms(9) by simp
  let ?s1 = "?s\<lparr>ex_world := (ex_world s)\<lparr>w_db := claim_db (cm_id m) ?i ?d\<rparr>\<rparr>"
  from take_competing [of ?s1 sub ?act m j T x md channel channel] assms obtain s' v where
    s': "take_message T channel channel ?act sub m ?s1 = (Inr (message_result channel m x md), s')"
    and f: "faults (w_db (ex_world s')) = []" "messages (w_db (ex_world s')) = messages ?d"
      "claims (w_db (ex_world s')) = claims (claim_db (cm_id m) ?i ?d)"
      "subscriptions (w_db (ex_world s')) = subscriptions ?d" "w_tx (ex_world s') = None" "\<not> ex_in_tx s'"
      "ex_instance s' = ?i" "ex_counts s' = ex_counts ?s" "ex_direct s' = ex_direct ?s"
      "cached_in s' = (cached_in ?s1)(?act \<mapsto> Inr v)"
    by (auto simp: has_history_def claim_db_def)
  have run: "receive (Suc fuel) T channel timeout s = (Inr (message_result channel m x md), s')"
    using assms(1,2,3,4,7,8) new pend s' claim_granted [OF assms(3,10)]
    by (simp add: receive_def receive_id_run Let_def ctx_stor_def on_world_def get_channel_subscription_def
        del: append_Cons)
  have "is_claimed (w_db (ex_world s')) k = is_claimed ?d k" if "k \<in> set (messages ?d)" for k
    using that assms(11) f(3) by (auto simp: is_claimed_def)
  then have off: "offered channel (w_db (ex_world s')) = m # later"
    using assms(9) f(2) unfolding offered_def by (metis (no_types, lifting) filter_cong)
  have "fst (receive_loop n T channel timeout s') = None" for n
  proof (rule claimed_loop [where m = m and later = later and sub = sub])
    show "\<forall>k > ex_counts s' (''receive_'' @ channel). cached_in s' (''receive_'' @ channel @ CHR '':'' # show_nat k) = None"
      using f(8,10) assms(5) by (auto simp: receive_counted_def receive_id_def cached_in_def)
    show "find_sub (w_db (ex_world s')) (ex_instance s') channel = Some sub"
      using f(4,7) assms(7) by (simp add: find_sub_def)
    show "\<not> is_direct_subscription channel s'"
      using f(9) assms(4) by (simp add: is_direct_subscription_def)
  qed (use f assms(8) off in simp_all)
  with run show ?thesis by blast
qed

theorem second_competing_receive_diverges_witness:
  "\<exists>s'. receive 1 raw_json ''c'' None (reader ChannelModeCompeting []) =
      (Inr (message_result ''c'' demo_message (JStr ''hi'') None), s') \<and>
    fst (receive_loop 1000 raw_json ''c'' None s') = None"
proof -
  let ?s = "reader ChannelModeCompeting []"
  have off: "offered ''c'' (w_db (ex_world ?s)) = [demo_message]"
    by (simp add: offered_def reader_fields is_claimed_def demo_message_def)
  have "''u'' \<noteq> show_int n" for n
  proof
    assume eq: "''u'' = show_int n"
    then have "CHR ''u'' \<in> set (show_int n)" by (metis list.set_intros(1))
    then show False
      using show_nat_digits [of "nat n"] show_nat_digits [of "nat (- n)"]
      by (auto simp: show_int_def is_digit_def split: if_splits)
  qed
  then have "\<forall>n. cm_message_id demo_message \<noteq> show_int n" by (simp add: demo_message_def)
  with off second_competing_receive_diverges [where s = ?s and m = demo_message and later = "[]"
      and sub = "waiting_sub\<lparr>cs_mode := ChannelModeCompeting, cs_activity := None\<rparr>"
      and T = raw_json and channel = "''c''" and fuel = 0 and timeout = None and md = None
      and j = "JStr ''hi''" and x = "JStr ''hi''"]
  show ?thesis by (auto simp: reader_fields demo_message_fields)
qed

end
