(* ===== verification/Replay_Gaps.thy ===== *)
theory Replay_Gaps
  imports Activity_Outcomes Channel_Receive
begin

text \<open>
  Calls of the workflow API whose effects a transaction or a replay does not cover: events
  sent from a transaction that rolls back, subscribers that are not woken by a publication
  in a transaction, publications that every replay repeats, and timers that change their
  identifier between the first run and its replay. Each is stated as the code behaves.
\<close>

section \<open>The outbox and the transaction\<close>

lemma add_outbox_run:
  "faults d = [] \<Longrightarrow> ob_id ev \<notin> ob_id ` set (outbox d) \<Longrightarrow> add_outbox_event ev d =
     (Inr (), d\<lparr>outbox := outbox d @ [ev\<lparr>ob_retry := 0, ob_published := None, ob_created := sql_now d\<rparr>]\<rparr>)"
  by (simp add: add_outbox_event_def)

definition event_row :: "string \<Rightarrow> string \<Rightarrow> string \<Rightarrow> string \<Rightarrow> string \<Rightarrow> json \<Rightarrow> db \<Rightarrow> outbox_event" where
  "event_row uuid event_id content_type event_type source j d =
     \<lparr>ob_id = (if event_id = '''' then uuid else event_id), ob_type = event_type, ob_source = source,
      ob_data = BJson j, ob_data_type = '''', ob_content_type = content_type, ob_status = OutboxPending,
      ob_retry = 0, ob_published = None, ob_created = sql_now d\<rparr>"

text \<open>
  C33: an event sent from a transaction is not part of it. When an activity calls SendEvent
  while its transaction is open, the event is committed at once; when the transaction is
  then rolled back, the event stays in the outbox as pending and the relayer will publish
  it.
\<close>

theorem sent_event_survives_rollback:
  assumes "ex_in_tx s" "w_tx (ex_world s) = Some v" "faults (w_db (ex_world s)) = []"
    and "marshal data = Some j"
    and "row = event_row uuid event_id content_type event_type source j (w_db (ex_world s))"
    and "ob_id row \<notin> ob_id ` set (outbox (w_db (ex_world s)))"
    and "send_event uuid event_id content_type event_type source data s = (r, s1)"
    and "rollback_transaction True (ex_world s1) = (r', w2)"
  shows "r = Inr () \<and> w_tx w2 = None \<and> outbox (w_db w2) = outbox (w_db (ex_world s)) @ [row]"
proof -
  let ?w = "ex_world s"
  let ?ev = "row\<lparr>ob_created := 0\<rparr>"
  have "add_outbox_event ?ev (w_db ?w) = (Inr (), (w_db ?w)\<lparr>outbox := outbox (w_db ?w) @ [row]\<rparr>)"
    using add_outbox_run [OF assms(3), of ?ev] assms(5,6) by (simp add: event_row_def)
  then obtain v' where st: "stor False (add_outbox_event ?ev) ?w =
      (Inr (), ?w\<lparr>w_db := (w_db ?w)\<lparr>outbox := outbox (w_db ?w) @ [row]\<rparr>, w_tx := Some v'\<rparr>)"
    using assms(2) by (simp add: stor_def)
  have "?ev = \<lparr>ob_id = (if event_id = '''' then uuid else event_id), ob_type = event_type, ob_source = source,
      ob_data = BJson j, ob_data_type = '''', ob_content_type = content_type, ob_status = OutboxPending,
      ob_retry = 0, ob_published = None, ob_created = 0\<rparr>"
    by (simp add: assms(5) event_row_def)
  then have "send_event uuid event_id content_type event_type source data s =
      (Inr (), s\<lparr>ex_world := ?w\<lparr>w_db := (w_db ?w)\<lparr>outbox := outbox (w_db ?w) @ [row]\<rparr>, w_tx := Some v'\<rparr>\<rparr>)"
    using st assms(4) by (simp add: send_event_def on_world_def map_err_def)
  with assms(7,8) show ?thesis by (auto simp: rollback_transaction_def close_tx_def)
qed

definition tx_exec :: "string list exec" where
  "tx_exec = (new_exec (demo_world\<lparr>w_tx := Some empty_db\<rparr>) ''i'' [])\<lparr>ex_in_tx := True\<rparr>"

lemma tx_exec_fields:
  "ex_in_tx tx_exec" "w_tx (ex_world tx_exec) = Some empty_db" "w_db (ex_world tx_exec) = empty_db"
  "faults empty_db = []" "outbox empty_db = []" "w_callbacks (ex_world tx_exec) = []"
  by (simp_all add: tx_exec_def new_exec_def demo_world_def empty_db_def)

theorem sent_event_survives_rollback_witness:
  "map ob_id (outbox (w_db (snd (rollback_transaction True (ex_world (snd
     (send_event ''u1'' '''' ''application/json'' ''order'' ''/shop'' (VJson (JNum 1)) tx_exec))))))) = [''u1'']"
proof -
  obtain r s1 where s1: "send_event ''u1'' '''' ''application/json'' ''order'' ''/shop'' (VJson (JNum 1)) tx_exec = (r, s1)"
    by (cases "send_event ''u1'' '''' ''application/json'' ''order'' ''/shop'' (VJson (JNum 1)) tx_exec")
  obtain r' w2 where w2: "rollback_transaction True (ex_world s1) = (r', w2)"
    by (cases "rollback_transaction True (ex_world s1)")
  from sent_event_survives_rollback [OF tx_exec_fields(1,2) _ _ refl _ s1 w2] s1 w2 show ?thesis
    by (simp add: tx_exec_fields event_row_def)
qed

section \<open>Waking after a commit\<close>

text \<open>
  C34: a publication in a transaction wakes nobody. The callback that Publish registers for
  the time after the commit carries the transaction's context; when it runs the transaction
  is finished, its first statement fails and the error is dropped. So the commit makes the
  message visible and leaves every waiting subscriber waiting: apart from the callbacks
  the world is the one with the transaction's tables.
\<close>

theorem publish_in_transaction_wakes_nobody:
  assumes "ex_in_tx s" "w_tx (ex_world s) = Some v" "faults (w_db (ex_world s)) = []"
    and "w_callbacks (ex_world s) = []"
    and "wake_after_publish channel n data md s = (r, s1)"
  shows "r = Inr () \<and> length (w_callbacks (ex_world s1)) = 1
    \<and> commit_transaction run_wake_call True (ex_world s1) =
        (Inr (), (ex_world s)\<lparr>w_db := sync_view (w_db (ex_world s)) v, w_tx := None, w_callbacks := []\<rparr>)"
proof -
  let ?cb = "\<lparr>wk_in_tx = True, wk_worker = ex_worker s, wk_channel = channel, wk_message = n,
                wk_data = data, wk_metadata = md\<rparr>"
  have s1: "r = Inr ()" "ex_world s1 = (ex_world s)\<lparr>w_callbacks := [?cb]\<rparr>"
    using assms by (auto simp: wake_after_publish_def on_world_def register_post_commit_callback_def Let_def)
  have "callbacks_in_tx (ex_world s1)" by (simp add: s1 callbacks_in_tx_def)
  with s1 assms(2,3) commit_run [of "ex_world s1" v] show ?thesis
    by (simp add: close_tx_def)
qed

theorem publish_in_transaction_wakes_nobody_witness:
  "fst (commit_transaction run_wake_call True
     (ex_world (snd (wake_after_publish ''c'' 1 (BJson JNull) BNil tx_exec)))) = Inr () \<and>
   length (w_callbacks (ex_world (snd (wake_after_publish ''c'' 1 (BJson JNull) BNil tx_exec)))) = 1"
proof -
  obtain r s1 where "wake_after_publish ''c'' 1 (BJson JNull) BNil tx_exec = (r, s1)"
    by (cases "wake_after_publish ''c'' 1 (BJson JNull) BNil tx_exec")
  with publish_in_transaction_wakes_nobody [OF tx_exec_fields(1,2) _ tx_exec_fields(6) this]
  show ?thesis by (simp add: tx_exec_fields)
qed

section \<open>Publishing again\<close>

lemma publish_channel_run:
  "faults d = [] \<Longrightarrow> data \<noteq> BNil \<Longrightarrow> message_uuid d \<notin> cm_message_id ` set (messages d) \<Longrightarrow>
   \<exists>m. publish_to_channel c data md d =
     (Inr (message_seq d + 1), d\<lparr>messages := messages d @ [m], message_seq := message_seq d + 1\<rparr>)"
  by (simp add: publish_to_channel_def try_go_def) (rule exI, rule refl)

text \<open>
  A replayed publication is published again. Publish notes its result only in the memory
  of the run: after a successful call the instance's history is what it was, so a run that
  is loaded from it has no result for the call, and publishes the message a second time.
\<close>

theorem publish_is_not_recorded:
  assumes "\<not> ex_in_tx s" "w_tx (ex_world s) = None" "faults (w_db (ex_world s)) = []"
    and "cached_in s (call_id (''publish_'' @ channel) '''' s) = None" "marshal data = Some j"
    and "message_uuid (w_db (ex_world s)) \<notin> cm_message_id ` set (messages (w_db (ex_world s)))"
    and "\<forall>sub \<in> set (subscriptions (w_db (ex_world s))). \<not> (cs_channel sub = channel \<and> is_waiting sub)"
  shows "\<exists>s' m. publish channel data None s = (Inr (), s')
    \<and> messages (w_db (ex_world s')) = messages (w_db (ex_world s)) @ [m]
    \<and> history (w_db (ex_world s')) = history (w_db (ex_world s))"
proof -
  let ?d = "w_db (ex_world s)" and ?name = "''publish_'' @ channel"
  let ?s0 = "after_id ?name '''' s"
  obtain m where pub: "publish_to_channel channel (BJson j) BNil ?d =
     (Inr (message_seq ?d + 1), ?d\<lparr>messages := messages ?d @ [m], message_seq := message_seq ?d + 1\<rparr>)"
    using publish_channel_run [OF assms(3) _ assms(6), of "BJson j" channel BNil] by auto
  let ?d1 = "?d\<lparr>messages := messages ?d @ [m], message_seq := message_seq ?d + 1\<rparr>"
  have id: "generate_activity_id ?name s = (Inr (call_id ?name '''' s), ?s0)"
    using run_id [of "''''" ?name s] by simp
  have none: "get_subscribers_waiting channel ?d1 = (Inr [], ?d1)"
    using assms(3,7) by (auto simp: get_subscribers_waiting_def filter_empty_conv)
  have cached: "get_cached_result (call_id ?name '''' s) ?s0 = (Inr None, ?s0)"
    using assms(4) by (simp add: get_cached_result_eq hit_def)
  show ?thesis
    using assms(1,2,3,5) pub id none cached
    by (simp add: publish_def publish_on_def ctx_stor_def on_world_def map_err_def try_go_def
        wake_after_publish_def run_wake_call_def wake_waiting_subscribers_def then_go_def
        set_cached_result_def Let_def del: append_Cons)
qed

theorem publish_is_not_recorded_witness:
  "\<exists>s' m. publish ''c'' (VJson (JNum 1)) None (new_exec demo_world ''i'' []) = (Inr (), s') \<and>
     messages (w_db (ex_world s')) = [m] \<and> history (w_db (ex_world s')) = []"
proof -
  let ?s = "new_exec demo_world ''i'' []"
  have s: "\<not> ex_in_tx ?s" "w_tx (ex_world ?s) = None" "w_db (ex_world ?s) = empty_db"
    "cached_in ?s act = None" "faults empty_db = []" "messages empty_db = []" "subscriptions empty_db = []"
    "history empty_db = []" for act
    by (simp_all add: new_exec_def demo_world_def build_caches_def cached_in_def lookup_def empty_db_def)
  from publish_is_not_recorded [OF s(1,2), of "''c''" "VJson (JNum 1)" "JNum 1"] show ?thesis
    using s by auto
qed

section \<open>Timers that change their name\<close>

lemma sleep_until_past: "t \<le> exec_now s \<Longrightarrow> sleep_until t given s = (Inr (), s)"
  by (simp add: sleep_until_def try_go_def)

lemma sleep_until_future:
  "t > exec_now s \<Longrightarrow> sleep_until t given s = sleep (t - exec_now s) given s"
  by (simp add: sleep_until_def try_go_def)

text \<open>
  C35: after a SleepUntil, a Sleep is skipped. A workflow calls SleepUntil and then Sleep,
  both without an identifier. Before the time SleepUntil suspends the run with the timer
  \<open>sleep:n\<close>. When that timer has fired and the run is replayed, the time is past, SleepUntil
  returns without taking an identifier, and Sleep takes \<open>sleep:n\<close>, finds the fired timer's
  result, and returns at once without having slept.
\<close>

theorem sleep_after_sleep_until_is_skipped:
  assumes "t > exec_now s" "cached_in s (call_id ''sleep'' '''' s) = None"
    and "ex_counts s' = ex_counts s" "t \<le> exec_now s'" "cached_in s' (call_id ''sleep'' '''' s') \<noteq> None"
  shows "fst (sleep_until t '''' s) =
      Inl (Suspend (new_timer_suspend (ex_instance s) (call_id ''sleep'' '''' s) (call_id ''sleep'' '''' s) t))
    \<and> call_id ''sleep'' '''' s' = call_id ''sleep'' '''' s
    \<and> fst (run_wf ch (WfSleepUntil t '''' (\<lambda>_. WfSleep d '''' (\<lambda>r. WfReturn v))) s') = Inr v
    \<and> w_db (ex_world (snd (run_wf ch (WfSleepUntil t '''' (\<lambda>_. WfSleep d '''' (\<lambda>r. WfReturn v))) s'))) =
        w_db (ex_world s')"
proof -
  have a: "fst (sleep_until t '''' s) =
      Inl (Suspend (new_timer_suspend (ex_instance s) (call_id ''sleep'' '''' s) (call_id ''sleep'' '''' s) t))"
    using assms(1,2) by (simp add: sleep_until_future sleep_eq Let_def)
  have b: "run_wf ch (WfSleepUntil t '''' (\<lambda>_. WfSleep d '''' (\<lambda>r. WfReturn v))) s' =
      (Inr v, hit (call_id ''sleep'' '''' s') (after_id ''sleep'' '''' s'))"
    using assms(4,5) by (simp add: call_def then_go_def sleep_until_past sleep_eq Let_def)
  show ?thesis using a b assms(3) by (simp add: call_id_def)
qed

text \<open>The run before the timer fires, and the replay two seconds later.\<close>

definition before_timer :: "string list exec" where
  "before_timer = new_exec demo_world ''i'' []"

definition after_timer :: "string list exec" where
  "after_timer = new_exec (demo_world\<lparr>w_db := tick_db 2000000000 empty_db\<rparr>) ''i''
     [\<lparr>he_id = 1, he_instance = ''i'', he_activity = ''sleep:1'', he_type = HistoryActivityCompleted,
       he_data = BJson (JObj []), he_data_type = ''json'', he_created = 1\<rparr>]"

theorem sleep_after_sleep_until_is_skipped_witness:
  "fst (run_wf demo_choices (WfSleepUntil 1000000000 '''' (\<lambda>_. WfSleep 3600000000000 ''''
     (\<lambda>r. WfReturn (VJson JNull)))) after_timer) = Inr (VJson JNull)"
proof -
  have id: "call_id ''sleep'' '''' after_timer = ''sleep:1''" "call_id ''sleep'' '''' before_timer = ''sleep:1''"
    by (simp_all add: call_id_def after_timer_def before_timer_def new_exec_def show_nat.simps digit_char_def
        char_of_def bit_0)
  have "exec_now before_timer < 1000000000" "1000000000 \<le> exec_now after_timer"
      "ex_counts after_timer = ex_counts before_timer" "cached_in before_timer act = None"
      "cached_in after_timer ''sleep:1'' \<noteq> None" for act
    by (simp_all add: exec_now_def before_timer_def after_timer_def new_exec_def demo_world_def empty_db_def
        tick_db_def cached_in_def lookup_def build_caches_def cache_event_def bytes_nonempty_def)
  with id sleep_after_sleep_until_is_skipped [of before_timer 1000000000 after_timer demo_choices 3600000000000 "VJson JNull"]
  show ?thesis by simp
qed

end
