(* ===== verification/App_Outcomes.thy ===== *)
theory App_Outcomes
  imports Engine_Outcomes
begin

text \<open>
  What the application reports and does about a workflow as a whole: the result it returns
  after a run has failed or completed, and cancelling an instance.
\<close>

section \<open>A failed run\<close>

lemma row_statusE:
  assumes "settled i st wk w"
  obtains r where "find_instance (w_db w) i = Some r" "inst_status r = st"
  using assms by (auto simp: settled_def row_is_def)

definition no_failure_yet :: "string \<Rightarrow> nat \<Rightarrow> 'x world \<Rightarrow> bool" where
  "no_failure_yet i n w \<longleftrightarrow> w_tx w = None \<and> history_live (w_db w) \<and> \<not> has_history i '''' (w_db w)
     \<and> length (history_of i (w_db w)) \<le> n"

lemma run_entries_history:
  assumes "keeps_db runner"
  shows "no_failure_yet i n w \<Longrightarrow>
    no_failure_yet i (n + length cs) (foldl (run_entry (by_runner runner) i) w cs)"
proof (induction cs arbitrary: n w)
  case (Cons c cs)
  then have t: "w_tx w = None" and l: "history_live (w_db w)" by (auto simp: no_failure_yet_def)
  obtain ok msg where d: "w_db (run_entry (by_runner runner) i w c) = recorded i c ok msg (w_db w)"
    "w_tx (run_entry (by_runner runner) i w c) = None"
    using run_entry_db [OF assms t] by blast
  have "comp_activity c \<noteq> ''''" by (simp add: comp_activity_def)
  then have "no_failure_yet i (Suc n) (run_entry (by_runner runner) i w c)"
    using Cons.prems d recorded_keeps(1) [OF l, of i c ok msg]
    by (auto simp: no_failure_yet_def recorded_eq [OF live_faults [OF l]] has_history_of history_of_insert
        split: if_splits)
  from Cons.IH [OF this] show ?case by simp
qed simp

definition failed_event :: "string \<Rightarrow> go_error \<Rightarrow> history_event \<Rightarrow> bool" where
  "failed_event i e h \<longleftrightarrow> he_type h = HistoryWorkflowFailed \<and> he_data h = BJson (failure_event e)"

lemma last_failure_event: "failed_event i e h \<Longrightarrow> last_failure (h # hs) = err_text e"
  by (simp add: failed_event_def failure_event_def)

lemma update_status_history: "history (snd (update_instance_status i st msg d)) = history d"
  by (simp add: update_instance_status_def exec_def stmt_def split: list.split)

lemma update_status_live: "faults d = [] \<Longrightarrow> history_live (snd (update_instance_status i st msg d)) = history_live d"
  by (simp add: update_instance_status_def update_instances_live)

lemma fail_workflow_history:
  assumes "settled i StatusRunning (en_worker en) w" "no_failure_yet i n w"
    and "en_comp en = Some runner" "keeps_db runner"
  shows "\<exists>rows h. history_of i (w_db (snd (fail_workflow en i e w))) = rows @ [h] \<and> failed_event i e h
    \<and> length rows \<le> n + length (pending_compensations i (w_db w))
    \<and> history_live (w_db (snd (fail_workflow en i e w)))"
proof -
  have l: "history_live (w_db w)" and t: "w_tx w = None" using assms(2) by (auto simp: no_failure_yet_def)
  obtain r w1 where c: "engine_execute_compensations (Some runner) i w = (r, w1)"
    by (cases "engine_execute_compensations (Some runner) i w")
  have w1: "no_failure_yet i (n + length (pending_compensations i (w_db w))) w1"
    using run_entries_history [OF assms(4,2), of "pending_compensations i (w_db w)"]
      engine_compensations_run [OF t l, of runner i] c by simp
  obtain w2 where w2: "(case r of
               Inl ce \<Rightarrow> hook (OnWorkflowFailed i
                 (Wrapped ''workflow failed: '' e (''; compensation also failed: '' @ err_text ce)))
             | Inr u \<Rightarrow> ret ()) w1 = (Inr (), w2)" "w_db w2 = w_db w1" "w_tx w2 = None"
    using w1 by (cases r) (auto simp: no_failure_yet_def)
  let ?d3 = "insert_history i '''' HistoryWorkflowFailed (BJson (failure_event e)) ''json'' (w_db w2)"
  have l1: "history_live (w_db w1)" "\<not> has_history i '''' (w_db w1)" using w1 by (auto simp: no_failure_yet_def)
  have app: "append_history i '''' HistoryWorkflowFailed (BJson (failure_event e)) ''json'' (w_db w2) = (Inr (), ?d3)"
    using l1 w2(2) by (simp add: append_history_run live_faults)
  have l3: "history_live ?d3" using l1 w2(2) by (intro history_live_insert) simp_all
  have end_db: "w_db (snd (fail_workflow en i e w)) = snd (update_instance_status i StatusFailed (err_text e) ?d3)"
    using c assms(3) w2 app by (simp add: fail_workflow_def)
  have "history_of i (w_db (snd (fail_workflow en i e w))) = history_of i ?d3"
    by (simp add: end_db history_of_def update_status_history)
  moreover have "history_live (w_db (snd (fail_workflow en i e w)))"
    using l3 update_status_live [OF live_faults [OF l3]] by (simp add: end_db)
  ultimately show ?thesis
    using w1 w2(2) by (auto simp: history_of_insert failed_event_def no_failure_yet_def)
qed

lemma release_lock_history:
  "faults d = [] \<Longrightarrow> history_of i (snd (release_lock j wk d)) = history_of i d
    \<and> history_live (snd (release_lock j wk d)) = history_live d"
  by (simp add: release_lock_def update_instances_live update_instances_history)

lemma reported_failure:
  assumes "w_tx w = None" "history_live (w_db w)" "find_instance (w_db w) i = Some r" "inst_status r = StatusFailed"
    and "history_of i (w_db w) = rows @ [h]" "failed_event i e h" "length rows < 1000" "err_text e \<noteq> ''''"
  shows "fst (get_workflow_result decode i w) =
    Inr \<lparr>wr_instance = i, wr_status = ''failed'', wr_output = None, wr_error = Some (err_text e)\<rparr>"
proof -
  let ?d = "w_db w"
  have f: "faults ?d = []" "history_ok ?d" using assms(2) by (auto simp: history_live_def)
  have "after 0 (history_of i ?d) = history_of i ?d"
    using assms(2) by (auto simp: after_def history_live_def history_of_def intro!: filter_cong)
  then have page: "get_history_paginated i 0 1000 ?d = (Inr (rows @ [h], False), ?d)"
    using get_history_paginated_run [OF f, of i 0 1000] assms(5,7) by simp
  have "inst_id r = i" using find_instance_id [OF assms(3)] by simp
  with page f assms(1,3,4,8) last_failure_event [OF assms(6)] show ?thesis
    by (simp add: get_workflow_result_def app_get_instance_def get_workflow_error_from_history_def
        get_instance_def try_go_def then_go_def Let_def)
qed

text \<open>
  C17: a failure is reported. When the workflow's code returns an error that is no suspend
  signal, the engine runs the compensations, and the application then reports the instance
  as failed with exactly the text of that error (the lookup reads the first thousand
  events, so the instance must have fewer, and the workflow must not have failed before).
\<close>

theorem failed_run_is_reported:
  assumes "w_tx w = None" "instance_lock_live i (w_db w)" "history_live (w_db w)" "shipped_schema (w_db w)"
    and "lock_available i (en_worker en) (w_db w)" "en_comp en = Some comp_runner" "keeps_db comp_runner"
    and "runner (new_exec (run_start en i w) i (history_of i (w_db (run_start en i w)))) = (Inl e, s)"
    and "settled i StatusRunning (en_worker en) (ex_world s)" "no_failure_yet i n (ex_world s)"
    and "n + length (pending_compensations i (w_db (ex_world s))) < 1000"
    and "as_suspend_signal e = None" "err_text e \<noteq> ''''"
  shows "fst (get_workflow_result decode i (snd (engine_resume_workflow en i runner w))) =
    Inr \<lparr>wr_instance = i, wr_status = ''failed'', wr_output = None, wr_error = Some (err_text e)\<rparr>"
proof -
  let ?f = "snd (finish_workflow en i (Inl e, s))" and ?wk = "en_worker en"
  have fail: "?f = snd (fail_workflow en i e (ex_world s))" using assms(12) by (simp add: finish_workflow_def)
  have live: "history_live (w_db (ex_world s))" using assms(10) by (simp add: no_failure_yet_def)
  have st: "settled i StatusFailed ?wk ?f"
    using fail_workflow_settled [OF assms(9) live assms(6,7)] fail by simp
  obtain rows h where hist: "history_of i (w_db ?f) = rows @ [h]" "failed_event i e h" "history_live (w_db ?f)"
      "length rows < 1000"
    using fail_workflow_history [OF assms(9,10,6,7), of e] fail assms(11) by auto
  have w': "snd (engine_resume_workflow en i runner w) = snd (stor False (release_lock i ?wk) ?f)"
    using run_start_settled(4) [OF assms(1-5), of runner] assms(8) by (simp add: defer_go_def split: prod.split)
  have f: "faults (w_db ?f) = []" "w_tx ?f = None" "row_is i StatusFailed ?wk (w_db ?f)"
    using st by (auto simp: settled_def)
  let ?w' = "snd (engine_resume_workflow en i runner w)"
  have db: "w_db ?w' = snd (release_lock i ?wk (w_db ?f))" "w_tx ?w' = None" using w' f(2) by simp_all
  obtain r where "find_instance (w_db ?w') i = Some r" "inst_status r = StatusFailed"
    using release_lock_row [OF f(1,3), of "fst (release_lock i ?wk (w_db ?f))" "w_db ?w'"] db by auto
  with reported_failure [of ?w' i r rows h e decode] db release_lock_history [OF f(1), of i i ?wk] hist assms(13)
  show ?thesis by simp
qed

lemma demo_engine_fields:
  "en_worker demo_engine = ''w1''" "en_comp demo_engine = Some (registry_runner Map.empty)"
  "keeps_db (registry_runner Map.empty)"
  by (simp_all add: demo_engine_def init_engine_def set_compensation_runner_def new_engine_def
      keeps_db_def registry_runner_def registry_get_def)

lemma demo_run_start:
  "settled ''i'' StatusRunning ''w1'' (run_start demo_engine ''i'' (one_world demo_instance))"
  "history_live (w_db (run_start demo_engine ''i'' (one_world demo_instance)))"
  "history (w_db (run_start demo_engine ''i'' (one_world demo_instance))) = []"
  "compensations (w_db (run_start demo_engine ''i'' (one_world demo_instance))) = []"
proof -
  note st = run_start_settled [OF one_world_live(1) demo_lock(1) one_world_live(2,3), of demo_engine]
  show "settled ''i'' StatusRunning ''w1'' (run_start demo_engine ''i'' (one_world demo_instance))"
    "history_live (w_db (run_start demo_engine ''i'' (one_world demo_instance)))"
    using st(1,2) demo_lock(2) demo_engine_fields(1) by simp_all
  show "history (w_db (run_start demo_engine ''i'' (one_world demo_instance))) = []"
    "compensations (w_db (run_start demo_engine ''i'' (one_world demo_instance))) = []"
    using one_world_live(1,4)
    by (simp_all add: run_start_def Let_def try_acquire_lock_run update_instance_status_def)
       (simp_all add: one_world_def empty_db_def)
qed

theorem failed_run_is_reported_witness:
  "fst (get_workflow_result (\<lambda>b. Inr (VJson JNull)) ''i'' (snd (engine_resume_workflow demo_engine ''i''
     (\<lambda>s. (Inl (ErrText ''out of stock''), s)) (one_world demo_instance)))) =
   Inr \<lparr>wr_instance = ''i'', wr_status = ''failed'', wr_output = None, wr_error = Some ''out of stock''\<rparr>"
proof -
  let ?runner = "\<lambda>s. (Inl (ErrText ''out of stock''), s)"
  let ?start = "run_start demo_engine ''i'' (one_world demo_instance)"
  have "no_failure_yet ''i'' 0 ?start" "pending_compensations ''i'' (w_db ?start) = []"
    using demo_run_start
    by (simp_all add: no_failure_yet_def settled_def has_history_def history_of_def pending_compensations_def
        compensations_of_def)
  with failed_run_is_reported [OF one_world_live(1) demo_lock(1) one_world_live(2,3) _ demo_engine_fields(2,3),
      of ?runner "ErrText ''out of stock''" "new_exec ?start ''i'' (history_of ''i'' (w_db ?start))" 0
         "\<lambda>b. Inr (VJson JNull)"]
  show ?thesis
    using demo_lock(2) demo_run_start(1) by (simp add: demo_engine_fields new_exec_def as_suspend_signal_def)
qed

section \<open>A completed run\<close>

definition output_is :: "string \<Rightarrow> bytes \<Rightarrow> string \<Rightarrow> db \<Rightarrow> bool" where
  "output_is i b wk d \<longleftrightarrow> faults d = [] \<and> (\<exists>r. find_instance d i = Some r \<and> inst_status r = StatusCompleted \<and>
     inst_output r = Some b)"

lemma output_after_complete:
  assumes "settled i StatusRunning wk w" "marshal v = Some j"
  shows "output_is i (BJson j) wk (w_db (snd (complete_workflow i rep h n v w)))
    \<and> w_tx (snd (complete_workflow i rep h n v w)) = None"
proof -
  let ?d = "w_db w"
  have f: "faults ?d = []" "w_tx w = None" using assms(1) by (auto simp: settled_def)
  obtain r where r: "find_instance ?d i = Some r" using assms(1) by (auto simp: settled_def row_is_def)
  let ?f = "\<lambda>r. r\<lparr>inst_output := Some (BJson j), inst_status := StatusCompleted, inst_updated := sql_now ?d\<rparr>"
  let ?d1 = "update_instances (\<lambda>r. inst_id r = i) ?f ?d"
  let ?g = "\<lambda>r. r\<lparr>inst_status := StatusCompleted, inst_updated := sql_now ?d1\<rparr>"
  let ?d2 = "update_instances (\<lambda>r. inst_id r = i) ?g ?d1"
  have "find_instance ?d1 i = Some (?f r)"
    using find_instance_update [of ?f i "\<lambda>_. True" ?d] r by simp
  then have "find_instance ?d2 i = Some (?g (?f r))"
    using find_instance_update [of ?g i "\<lambda>_. True" ?d1] by simp
  moreover have "w_db (snd (complete_workflow i rep h n v w)) = ?d2 \<and> w_tx (snd (complete_workflow i rep h n v w)) = None"
    using f assms(2)
    by (simp add: complete_workflow_def update_instance_output_def update_instance_status_def try_go_def map_err_def)
  ultimately show ?thesis using f(1) by (simp add: output_is_def)
qed

lemma output_after_release:
  assumes "output_is i b wk d"
  shows "output_is i b wk (snd (release_lock j u d))"
proof -
  let ?f = "\<lambda>r. r\<lparr>inst_locked_by := None, inst_locked_at := None, inst_lock_expires := None,
      inst_updated := sql_now d\<rparr>"
  obtain r where r: "find_instance d i = Some r" "inst_status r = StatusCompleted" "inst_output r = Some b"
    and f: "faults d = []" using assms by (auto simp: output_is_def)
  have "find_instance (update_instances (\<lambda>r. inst_id r = j \<and> inst_locked_by r = Some u) ?f d) i =
      Some (if j = i \<and> inst_locked_by r = Some u then ?f r else r)"
  proof (cases "j = i")
    case True
    then show ?thesis using find_instance_update [of ?f i "\<lambda>r. inst_locked_by r = Some u" d] r(1) by simp
  next
    case False
    then show ?thesis
      using find_instance_update_other [of "\<lambda>r. inst_id r = j \<and> inst_locked_by r = Some u" i ?f d] r(1) by simp
  qed
  with r f show ?thesis by (simp add: output_is_def release_lock_def)
qed

text \<open>
  C16: a result comes back. When the workflow's code returns a value that has a JSON form,
  the instance is completed, and the application's result has status completed, no error,
  and the output decoded from exactly that JSON text.
\<close>

theorem completed_run_is_reported:
  assumes "w_tx w = None" "instance_lock_live i (w_db w)" "history_live (w_db w)" "shipped_schema (w_db w)"
    and "lock_available i (en_worker en) (w_db w)"
    and "runner (new_exec (run_start en i w) i (history_of i (w_db (run_start en i w)))) = (Inr v, s)"
    and "settled i StatusRunning (en_worker en) (ex_world s)" "marshal v = Some j" "decode (BJson j) = Inr u"
  shows "fst (get_workflow_result decode i (snd (engine_resume_workflow en i runner w))) =
    Inr \<lparr>wr_instance = i, wr_status = ''completed'', wr_output = Some u, wr_error = None\<rparr>"
proof -
  let ?f = "snd (finish_workflow en i (Inr v, s))" and ?wk = "en_worker en"
  let ?w' = "snd (engine_resume_workflow en i runner w)"
  have f: "output_is i (BJson j) ?wk (w_db ?f)" "w_tx ?f = None"
    using output_after_complete [OF assms(7,8)] by (auto simp: finish_workflow_def)
  have "?w' = snd (stor False (release_lock i ?wk) ?f)"
    using run_start_settled(4) [OF assms(1-5), of runner] assms(6) by (simp add: defer_go_def split: prod.split)
  then have "output_is i (BJson j) ?wk (w_db ?w')" "w_tx ?w' = None"
    using f output_after_release [OF f(1)] by simp_all
  then obtain r where r: "find_instance (w_db ?w') i = Some r" "inst_status r = StatusCompleted"
      "inst_output r = Some (BJson j)" "faults (w_db ?w') = []" "w_tx ?w' = None"
    by (auto simp: output_is_def)
  have "inst_id r = i" using find_instance_id [OF r(1)] by simp
  with r assms(9) show ?thesis
    by (simp add: get_workflow_result_def app_get_instance_def get_instance_def try_go_def
        bytes_nonempty_def Let_def)
qed

theorem completed_run_is_reported_witness:
  "fst (get_workflow_result (\<lambda>b. case unmarshal_any b of Some v \<Rightarrow> Inr v | None \<Rightarrow> Inl json_error) ''i''
     (snd (engine_resume_workflow demo_engine ''i'' (\<lambda>s. (Inr (VTyped ''Receipt'' (JNum 42)), s)) (one_world demo_instance)))) =
   Inr \<lparr>wr_instance = ''i'', wr_status = ''completed'', wr_output = Some (VJson (JNum 42)), wr_error = None\<rparr>"
proof -
  let ?runner = "\<lambda>s. (Inr (VTyped ''Receipt'' (JNum 42)), s)"
  let ?start = "run_start demo_engine ''i'' (one_world demo_instance)"
  from completed_run_is_reported [OF one_world_live(1) demo_lock(1) one_world_live(2,3), of demo_engine ?runner
      "VTyped ''Receipt'' (JNum 42)" "new_exec ?start ''i'' (history_of ''i'' (w_db ?start))" "JNum 42"
      "\<lambda>b. case unmarshal_any b of Some v \<Rightarrow> Inr v | None \<Rightarrow> Inl json_error" "VJson (JNum 42)"]
  show ?thesis
    using demo_lock(2) demo_run_start(1) by (simp add: demo_engine_fields new_exec_def f64_of_int_exact)
qed

section \<open>Cancelling\<close>

lemma cancel_row:
  assumes "faults d = []" "row_is i st wk d" "cancellable_status st" "cancel_instance i reason d = (r, d')"
  shows "r = Inr () \<and> faults d' = [] \<and> row_is i StatusCancelled wk d'"
proof -
  obtain q where q: "find_instance d i = Some q" "inst_status q = st" "inst_locked_by q \<in> {None, Some wk}"
    using assms(2) by (auto simp: row_is_def)
  let ?p = "\<lambda>r. cancellable_status (inst_status r)"
  let ?f = "\<lambda>r. r\<lparr>inst_status := StatusCancelled, inst_updated := sql_now d\<rparr>"
  have cnt: "count_where (\<lambda>r. inst_id r = i \<and> ?p r) (instances d) \<noteq> 0"
    using find_instance_id [OF q(1)] q(2) assms(3) by auto
  have "find_instance (update_instances (\<lambda>r. inst_id r = i \<and> ?p r) ?f d) i = Some (?f q)"
    using find_instance_update [of ?f i ?p d] q(1,2) assms(3) by simp
  with cnt q(3) assms(1,4) show ?thesis
    by (auto simp: cancel_instance_def try_go_def row_is_def simp del: count_where_0)
qed

lemma cancel_locked:
  assumes "w_tx w = None" "instance_lock_live i (w_db w)" "find_instance (w_db w) i = Some r"
    and "inst_status r \<notin> {StatusCompleted, StatusFailed, StatusCancelled}"
    and "\<not> lock_available i (ap_worker ap) (w_db w)"
  shows "cancel_workflow ap i reason w = (Inl (ErrText ''workflow is locked by another worker''), w)"
proof -
  have get: "get_instance i (w_db w) = (Inr (Some (r\<lparr>inst_continued_from := None\<rparr>)), w_db w)"
    using assms(2,3) by (simp add: get_instance_def instance_lock_live_def)
  have "\<exists>v e. instance_holder i (w_db w) = Some (v, e) \<and> v \<noteq> ap_worker ap \<and> sql_now (w_db w) \<le> e"
    using assms(5) by (auto simp: lock_available_def not_less split: option.splits)
  then obtain v e where "instance_holder i (w_db w) = Some (v, e)" "v \<noteq> ap_worker ap" "sql_now (w_db w) \<le> e"
    by blast
  from instance_lock.acquire_refused [OF assms(2) this, of "ap_stale_sec ap"] assms(4) get assms(1) show ?thesis
    by (simp add: cancel_workflow_def app_lock_def try_go_def map_err_def)
qed

lemma cancel_runs:
  assumes "w_tx w = None" "instance_lock_live i (w_db w)" "history_live (w_db w)"
    and "find_instance (w_db w) i = Some r"
    and "all_registered (ap_registry ap) (compensations_of i (w_db w))" "keeps_db (registry_runner (ap_registry ap))"
    and can: "cancellable_status (inst_status r)" and av: "lock_available i (ap_worker ap) (w_db w)"
  shows "\<exists>w' q. cancel_workflow ap i reason w = (Inr (), w') \<and> find_instance (w_db w') i = Some q
        \<and> inst_status q = StatusCancelled \<and> inst_locked_by q = None"
proof -
  let ?d = "w_db w" and ?wk = "ap_worker ap" and ?t = "ap_stale_sec ap"
  have f: "faults ?d = []" using assms(2) by (simp add: instance_lock_live_def)
  have get: "get_instance i ?d = (Inr (Some (r\<lparr>inst_continued_from := None\<rparr>)), ?d)"
    using f assms(4) by (simp add: get_instance_def)
  obtain d1 where d1: "try_acquire_lock i ?wk ?t ?d = (Inr True, d1)" "instance_holder i d1 = Some (?wk, sql_now ?d + ?t)"
    using instance_lock.acquire_granted [OF assms(2), of ?wk ?t] av by (auto simp: lock_available_def)
  let ?p = "\<lambda>r. lock_free (sql_now ?d) ?wk r"
  let ?g = "\<lambda>r. r\<lparr>inst_locked_by := Some ?wk, inst_locked_at := Some (sql_now ?d),
      inst_lock_expires := Some (sql_now ?d + ?t), inst_updated := sql_now ?d\<rparr>"
  have d1_eq: "d1 = update_instances (\<lambda>r. inst_id r = i \<and> ?p r) ?g ?d"
    using d1(1) by (simp add: try_acquire_lock_run [OF f])
  have "find_instance d1 i = Some (if ?p r then ?g r else r)"
    using assms(4) find_instance_update [of ?g i ?p ?d] by (simp add: d1_eq)
  then have row1: "row_is i (inst_status r) ?wk d1"
    using d1(2) by (auto simp: row_is_def instance_holder_def split: if_splits option.splits)
  let ?w1 = "w\<lparr>w_db := d1\<rparr>"
  have s1: "settled i (inst_status r) ?wk ?w1" "history_live (w_db ?w1)" "w_tx ?w1 = None"
    using row1 assms(1,3) f by (simp_all add: settled_def d1_eq update_instances_live)
  have reg1: "all_registered (ap_registry ap) (compensations_of i (w_db ?w1))"
    using assms(5) by (simp add: d1_eq compensations_of_def)
  obtain q2 w2 where w2: "app_execute_compensations (ap_registry ap) i ?w1 = (q2, w2)"
    by (cases "app_execute_compensations (ap_registry ap) i ?w1")
  have "w2 = snd (engine_execute_compensations (Some (registry_runner (ap_registry ap))) i ?w1)"
    using compensations_same_state [OF s1(3,2) reg1] w2 by simp
  then have s2: "settled i (inst_status r) ?wk w2"
    using engine_compensations_settled [OF s1(1,2) assms(6)] by simp
  then have t2: "w_tx w2 = None" and f2: "faults (w_db w2) = []" and row2: "row_is i (inst_status r) ?wk (w_db w2)"
    by (auto simp: settled_def)
  obtain q3 d3 where d3: "cancel_instance i reason (w_db w2) = (q3, d3)" by (cases "cancel_instance i reason (w_db w2)")
  note c3 = cancel_row [OF f2 row2 can d3]
  obtain q4 d4 where d4: "release_lock i ?wk d3 = (q4, d4)" by (cases "release_lock i ?wk d3")
  note r4 = release_lock_row [OF _ _ d4]
  have "inst_status r \<notin> {StatusCompleted, StatusFailed, StatusCancelled}"
    using can by (auto simp: cancellable_status_def)
  then have "\<exists>w'. cancel_workflow ap i reason w = (Inr (), w') \<and> w_db w' = d4"
    using assms(1) get d1(1) w2 t2 d3 c3 d4
    by (simp add: cancel_workflow_def app_lock_def app_unlock_def try_go_def map_err_def defer_go_def)
  with r4 c3 show ?thesis by blast
qed

text \<open>
  C18: cancelling, case by case. A completed or failed instance is refused with its reason and
  nothing changes; a cancelled one is left alone without an error; an instance locked by
  another worker is refused; and any other instance in a cancellable status has its
  compensations run (those not yet recorded), ends cancelled and unlocked, and the call
  succeeds even when a compensation failed.
\<close>

theorem cancel_by_status:
  assumes "w_tx w = None" "instance_lock_live i (w_db w)" "history_live (w_db w)"
    and "find_instance (w_db w) i = Some r"
    and "all_registered (ap_registry ap) (compensations_of i (w_db w))" "keeps_db (registry_runner (ap_registry ap))"
  shows "(inst_status r = StatusCompleted \<longrightarrow>
      cancel_workflow ap i reason w = (Inl (ErrText ''cannot cancel completed workflow''), w))
    \<and> (inst_status r = StatusFailed \<longrightarrow>
      cancel_workflow ap i reason w = (Inl (ErrText ''cannot cancel failed workflow''), w))
    \<and> (inst_status r = StatusCancelled \<longrightarrow> cancel_workflow ap i reason w = (Inr (), w))
    \<and> (inst_status r \<notin> {StatusCompleted, StatusFailed, StatusCancelled} \<and>
        \<not> lock_available i (ap_worker ap) (w_db w) \<longrightarrow>
      cancel_workflow ap i reason w = (Inl (ErrText ''workflow is locked by another worker''), w))
    \<and> (cancellable_status (inst_status r) \<and> lock_available i (ap_worker ap) (w_db w) \<longrightarrow>
      (\<exists>w' q. cancel_workflow ap i reason w = (Inr (), w') \<and> find_instance (w_db w') i = Some q
        \<and> inst_status q = StatusCancelled \<and> inst_locked_by q = None))"
  (is "?done \<and> ?failed \<and> ?cancelled \<and> ?locked \<and> ?free")
proof (intro conjI)
  have f: "faults (w_db w) = []" using assms(2) by (simp add: instance_lock_live_def)
  have get: "get_instance i (w_db w) = (Inr (Some (r\<lparr>inst_continued_from := None\<rparr>)), w_db w)"
    using f assms(4) by (simp add: get_instance_def)
  show ?done ?failed ?cancelled
    using assms(1) get by (simp_all add: cancel_workflow_def try_go_def map_err_def)
  show ?locked using cancel_locked [OF assms(1,2,4)] by blast
  show ?free using cancel_runs [OF assms] by blast
qed

definition demo_app :: "unit app" where
  "demo_app = \<lparr>ap_worker = ''w1'', ap_engine = demo_engine, ap_registry = Map.empty,
     ap_runners = Map.empty, ap_handlers = Map.empty, ap_stale_sec = 300, ap_lease_sec = 30,
     ap_max_timers = 0, ap_max_messages = 0, ap_max_workflows = 0, ap_retention = 0\<rparr>"

theorem cancel_by_status_witness:
  "\<exists>w' q. cancel_workflow demo_app ''i'' ''why'' (one_world demo_instance) = (Inr (), w')
     \<and> find_instance (w_db w') ''i'' = Some q \<and> inst_status q = StatusCancelled \<and> inst_locked_by q = None"
proof -
  have "find_instance (w_db (one_world demo_instance)) ''i'' = Some demo_instance"
    by (simp add: find_instance_def one_world_live demo_instance_def)
  moreover have "all_registered (ap_registry demo_app) (compensations_of ''i'' (w_db (one_world demo_instance)))"
    by (simp add: all_registered_def compensations_of_def one_world_def empty_db_def)
  moreover have "keeps_db (registry_runner (ap_registry demo_app))"
    using demo_engine_fields(3) by (simp add: demo_app_def)
  ultimately have "cancellable_status (inst_status demo_instance) \<and>
      lock_available ''i'' (ap_worker demo_app) (w_db (one_world demo_instance)) \<longrightarrow> ?thesis"
    using cancel_by_status [OF one_world_live(1) demo_lock(1) one_world_live(2), of demo_instance demo_app "''why''"]
    by blast
  moreover have "cancellable_status (inst_status demo_instance)" "ap_worker demo_app = ''w1''"
    by (simp_all add: cancellable_status_def demo_instance_def demo_app_def)
  ultimately show ?thesis using demo_lock(2) by simp
qed

end
