(* ===== verification/Storage_Servers.thy ===== *)
theory Storage_Servers
  imports Storage_Timers Storage_Channels Storage_Locks
begin

text \<open>
  What the models of postgres.go and mysql.go share: the microseconds of a time, the LIKE of
  both servers (the backslash escapes), and the foreign keys of their migrations, which both
  servers enforce (SQLite leaves them off): every row of an instance refers to a row of
  workflow_instances, and a deleted message takes its claims along (ON DELETE CASCADE).
\<close>

definition usecs :: "time \<Rightarrow> int" where
  "usecs t = t div 1000"

fun like_escape :: "string \<Rightarrow> string \<Rightarrow> bool" where
  "like_escape [] s = (s = [])"
| "like_escape (p # ps) [] = (p = CHR ''%'' \<and> like_escape ps [])"
| "like_escape (p # ps) (c # cs) =
     (if p = CHR ''%'' then like_escape ps (c # cs) \<or> like_escape (p # ps) cs
      else if p = CHR 0x5C then
        (case ps of [] \<Rightarrow> False | q # qs \<Rightarrow> q = c \<and> like_escape qs cs)
      else (p = CHR ''_'' \<or> p = c) \<and> like_escape ps cs)"

definition fk_instance :: "db \<Rightarrow> string \<Rightarrow> bool" where
  "fk_instance d i \<longleftrightarrow> find_instance d i \<noteq> None"

definition fk_error :: "string \<Rightarrow> go_error" where
  "fk_error table = SqlConstraint (''foreign key constraint failed: '' @ table)"

definition delete_messages :: "(channel_message \<Rightarrow> bool) \<Rightarrow> db \<Rightarrow> db" where
  "delete_messages p d =
     d\<lparr>messages := delete_where p (messages d),
       claims := delete_where (\<lambda>c. \<exists>m \<in> set (messages d). p m \<and> cm_message_id m = cl_message c) (claims d)\<rparr>"

section \<open>Statements that do not fail\<close>

lemma live_stmt:
  "(\<And>d. faults d = [] \<Longrightarrow> faults (snd (f d)) = []) \<Longrightarrow> preserves (\<lambda>d. faults d = []) (stmt f)"
  by (rule preservesI) simp

lemma live_query: "preserves (\<lambda>d. faults d = []) (query f)"
  by (rule preservesI) simp

lemma live_exec: "(\<And>d. faults d = [] \<Longrightarrow> faults (f d) = []) \<Longrightarrow> preserves (\<lambda>d. faults d = []) (exec f)"
  by (rule preservesI) simp

lemma live_exec_try:
  assumes "\<And>d d'. faults d = [] \<Longrightarrow> f d = Inr d' \<Longrightarrow> faults d' = []"
  shows "preserves (\<lambda>d. faults d = []) (exec_try f)"
proof (rule preservesI)
  fix d :: db
  assume "faults d = []"
  with assms [of d] show "faults (snd (exec_try f d)) = []" by (cases "f d") simp_all
qed

lemmas live_rules =
  live_stmt live_query live_exec live_exec_try preserves_try preserves_ret preserves_throw preserves_get
  preserves_map_err preserves_on_err preserves_if preserves_case_option

end
