(* ===== verification/Notifications.thy ===== *)
theory Notifications
  imports Storage_Instances Go_Values
begin

text \<open>
  internal/notify/listener.go: the channels of PostgreSQL's LISTEN/NOTIFY, the documents
  sent over them, and the listener, a state machine that connects, dispatches notifications
  to the registered handlers and reconnects after a failure. A payload is the JSON document
  its text holds.
\<close>

section \<open>Channels and documents\<close>

datatype notify_channel =
    ChannelWorkflowResumable
  | ChannelTimerExpired
  | ChannelChannelMessage
  | ChannelOutboxPending

fun notify_channel_name :: "notify_channel \<Rightarrow> string" where
  "notify_channel_name ChannelWorkflowResumable = ''workflow_resumable''"
| "notify_channel_name ChannelTimerExpired = ''workflow_timer_expired''"
| "notify_channel_name ChannelChannelMessage = ''workflow_channel_message''"
| "notify_channel_name ChannelOutboxPending = ''workflow_outbox_pending''"

definition all_channels :: "notify_channel list" where
  "all_channels =
     [ChannelWorkflowResumable, ChannelTimerExpired, ChannelChannelMessage, ChannelOutboxPending]"

record workflow_notification =
  wn_instance :: string
  wn_workflow :: string

record timer_notification =
  tn_instance :: string
  tn_timer :: string
  tn_expires :: string

record channel_message_notification =
  cn_channel :: string
  cn_message :: int
  cn_target :: string

record outbox_notification =
  on_event :: string

text \<open>
  A field of a struct as encoding/json fills it: keys are compared without regard to case,
  a later key overwrites an earlier one, null leaves the field alone, and a value of another
  type is an error.
\<close>

definition unmarshal_error :: go_error where
  "unmarshal_error = ErrText ''json: cannot unmarshal into Go struct field''"

definition text_field :: "string \<Rightarrow> (string \<times> json) list \<Rightarrow> go_error + string" where
  "text_field name kvs =
     foldl (\<lambda>acc (k, v). case acc of
         Inl e \<Rightarrow> Inl e
       | Inr t \<Rightarrow> if lower k \<noteq> lower name then Inr t
           else (case v of JStr u \<Rightarrow> Inr u | JNull \<Rightarrow> Inr t | _ \<Rightarrow> Inl unmarshal_error))
       (Inr '''') kvs"

definition int64_field :: "string \<Rightarrow> (string \<times> json) list \<Rightarrow> go_error + int" where
  "int64_field name kvs =
     foldl (\<lambda>acc (k, v). case acc of
         Inl e \<Rightarrow> Inl e
       | Inr n \<Rightarrow> if lower k \<noteq> lower name then Inr n
           else (case v of
               JNum m \<Rightarrow> if - (2 ^ 63) \<le> m \<and> m < 2 ^ 63 then Inr m else Inl unmarshal_error
             | JNull \<Rightarrow> Inr n
             | _ \<Rightarrow> Inl unmarshal_error))
       (Inr 0) kvs"

definition struct_fields :: "json \<Rightarrow> go_error + (string \<times> json) list" where
  "struct_fields j = (case j of JObj kvs \<Rightarrow> Inr kvs | JNull \<Rightarrow> Inr [] | _ \<Rightarrow> Inl unmarshal_error)"

definition bind_sum :: "'e + 'a \<Rightarrow> ('a \<Rightarrow> 'e + 'b) \<Rightarrow> 'e + 'b" where
  "bind_sum r k = (case r of Inl e \<Rightarrow> Inl e | Inr x \<Rightarrow> k x)"

lemma bind_sum_simps [simp]: "bind_sum (Inl e) k = Inl e" "bind_sum (Inr x) k = k x"
  by (simp_all add: bind_sum_def)

definition parse_workflow_notification :: "json \<Rightarrow> go_error + workflow_notification" where
  "parse_workflow_notification payload =
     bind_sum (struct_fields payload) (\<lambda>kvs.
     bind_sum (text_field ''instance_id'' kvs) (\<lambda>i.
     bind_sum (text_field ''workflow_name'' kvs) (\<lambda>w.
     Inr \<lparr>wn_instance = i, wn_workflow = w\<rparr>)))"

definition parse_timer_notification :: "json \<Rightarrow> go_error + timer_notification" where
  "parse_timer_notification payload =
     bind_sum (struct_fields payload) (\<lambda>kvs.
     bind_sum (text_field ''instance_id'' kvs) (\<lambda>i.
     bind_sum (text_field ''timer_id'' kvs) (\<lambda>t.
     bind_sum (text_field ''expires_at'' kvs) (\<lambda>e.
     Inr \<lparr>tn_instance = i, tn_timer = t, tn_expires = e\<rparr>))))"

definition parse_channel_message_notification :: "json \<Rightarrow> go_error + channel_message_notification" where
  "parse_channel_message_notification payload =
     bind_sum (struct_fields payload) (\<lambda>kvs.
     bind_sum (text_field ''channel_name'' kvs) (\<lambda>c.
     bind_sum (int64_field ''message_id'' kvs) (\<lambda>m.
     bind_sum (text_field ''target_instance_id'' kvs) (\<lambda>t.
     Inr \<lparr>cn_channel = c, cn_message = m, cn_target = t\<rparr>))))"

definition parse_outbox_notification :: "json \<Rightarrow> go_error + outbox_notification" where
  "parse_outbox_notification payload =
     bind_sum (struct_fields payload) (\<lambda>kvs.
     bind_sum (text_field ''event_id'' kvs) (\<lambda>e. Inr \<lparr>on_event = e\<rparr>))"

section \<open>The listener\<close>

text \<open>
  \<open>ln_handlers\<close> are the registered handlers by channel, in the order of registration;
  \<open>ln_conn\<close> says whether there is a connection.
\<close>

record 'h listener =
  ln_delay :: time
  ln_handlers :: "notify_channel \<Rightarrow> 'h list"
  ln_conn :: bool
  ln_active :: bool
  ln_last_error :: "go_error option"
  ln_error_count :: nat

definition new_listener :: "time option \<Rightarrow> 'h listener" where
  "new_listener reconnect_delay =
     \<lparr>ln_delay = (case reconnect_delay of None \<Rightarrow> 60 * 1000000000 | Some d \<Rightarrow> d),
      ln_handlers = (\<lambda>_. []), ln_conn = False, ln_active = False, ln_last_error = None,
      ln_error_count = 0\<rparr>"

definition on_notification :: "notify_channel \<Rightarrow> 'h \<Rightarrow> 'h listener \<Rightarrow> 'h listener" where
  "on_notification ch h l = l\<lparr>ln_handlers := (ln_handlers l)(ch := ln_handlers l ch @ [h])\<rparr>"

definition close_connection :: "'h listener \<Rightarrow> 'h listener" where
  "close_connection l = l\<lparr>ln_conn := False, ln_active := False\<rparr>"

text \<open>The calls a notification makes; the code starts one goroutine for each.\<close>

definition dispatch_notification :: "notify_channel \<Rightarrow> json \<Rightarrow> 'h listener \<Rightarrow> ('h \<times> notify_channel \<times> json) list" where
  "dispatch_notification ch payload l = map (\<lambda>h. (h, ch, payload)) (ln_handlers l ch)"

text \<open>
  \<open>connect\<close>: the connection is made and every channel is listened to, one statement after
  the other; \<open>listen\<close> is the answer of the server to one of them. When one fails the new
  connection is closed and not kept.
\<close>

fun listen_all :: "(notify_channel \<Rightarrow> go_error option) \<Rightarrow> notify_channel list \<Rightarrow> go_error option" where
  "listen_all listen [] = None"
| "listen_all listen (ch # chs) =
     (case listen ch of Some e \<Rightarrow> Some e | None \<Rightarrow> listen_all listen chs)"

definition connect :: "go_error option \<Rightarrow> (notify_channel \<Rightarrow> go_error option) \<Rightarrow> 'h listener \<Rightarrow> (go_error option \<times> 'h listener)" where
  "connect dial listen l =
     (case dial of
        Some e \<Rightarrow> (Some e, l)
      | None \<Rightarrow> (case listen_all listen all_channels of
            Some e \<Rightarrow> (Some e, l)
          | None \<Rightarrow> (None, l\<lparr>ln_conn := True\<rparr>)))"

text \<open>
  \<open>listenLoop\<close> as a step relation: the place of the loop, the listener, and the calls made so
  far. \<open>Stopped\<close> is the end after the context was cancelled.
\<close>

datatype listen_place = Connecting | Listening | Waiting | Stopped

type_synonym 'h listen_state = "listen_place \<times> 'h listener \<times> ('h \<times> notify_channel \<times> json) list"

inductive listen_step :: "'h listen_state \<Rightarrow> 'h listen_state \<Rightarrow> bool" where
  cancelled: "listen_step (Connecting, l, calls) (Stopped, close_connection l, calls)"
| connect_failed: "connect dial listen l = (Some e, l') \<Longrightarrow>
    listen_step (Connecting, l, calls)
      (Waiting, l'\<lparr>ln_active := False, ln_last_error := Some e, ln_error_count := ln_error_count l' + 1\<rparr>, calls)"
| connected: "connect dial listen l = (None, l') \<Longrightarrow>
    listen_step (Connecting, l, calls)
      (Listening, l'\<lparr>ln_active := True, ln_last_error := None, ln_error_count := 0\<rparr>, calls)"
| notified: "ln_conn l \<Longrightarrow>
    listen_step (Listening, l, calls) (Listening, l, calls @ dispatch_notification ch payload l)"
| connection_lost:
    "listen_step (Listening, l, calls)
      (Waiting, close_connection (l\<lparr>ln_active := False, ln_last_error := Some e\<rparr>), calls)"
| shutdown: "listen_step (Listening, l, calls) (Connecting, l, calls)"
| waited: "listen_step (Waiting, l, calls) (Connecting, l, calls)"
| stop_waiting: "listen_step (Waiting, l, calls) (Stopped, l, calls)"

inductive_cases listen_stepE: "listen_step s t"

end
