(* ===== verification/Storage_Postgres.thy ===== *)
theory Storage_Postgres
  imports Storage_Servers Notifications
begin

text \<open>
  internal/storage/postgres.go: one definition per method of PostgresStorage, on the same
  tables as the SQLite model. A stored time is a number of microseconds. Where the code
  sends a notification (sendNotify) the method runs on \<open>pg\<close>, the database with the switch
  \<open>notifyEnabled\<close> and the notifications sent; the other methods run on the database.

  What differs from sqlite.go and is kept: TryAcquireLock is two statements, a SELECT ... FOR
  UPDATE SKIP LOCKED and an UPDATE without a condition; foreign keys are enforced;
  CreateInstance always writes the framework go; a waiting subscription is one whose
  activity id is not null; the deadline of RegisterChannelReceiveAndReleaseLock is handed
  over in local time, of which the driver stores the wall clock; the id handed to
  ClaimChannelMessage is an integer for a text column (\<open>encode\<close> is what the driver makes of
  it). \<open>row_locked\<close> says which rows another open transaction has locked; \<open>uuid\<close> is the
  identifier gen_random_uuid returns.
\<close>

definition pg_now :: "db \<Rightarrow> int" where
  "pg_now d = usecs (clock d)"

section \<open>Notifications\<close>

record pg =
  pg_db :: db
  pg_notify_enabled :: bool
  pg_sent :: "(notify_channel \<times> json) list"

type_synonym 'a pgm = "(pg, go_error, 'a) go"

definition on_db :: "'a dbm \<Rightarrow> 'a pgm" where
  "on_db m s = (case m (pg_db s) of (r, d) \<Rightarrow> (r, s\<lparr>pg_db := d\<rparr>))"

definition set_notify_enabled :: "bool \<Rightarrow> pg \<Rightarrow> pg" where
  "set_notify_enabled enabled s = s\<lparr>pg_notify_enabled := enabled\<rparr>"

definition send_notify :: "notify_channel \<Rightarrow> json \<Rightarrow> unit pgm" where
  "send_notify ch payload s =
     (if \<not> pg_notify_enabled s then (Inr (), s)
      else case exec id (pg_db s) of
        (Inl e, d) \<Rightarrow> (Inr (), s\<lparr>pg_db := d\<rparr>)
      | (Inr u, d) \<Rightarrow> (Inr (), s\<lparr>pg_db := d, pg_sent := pg_sent s @ [(ch, payload)]\<rparr>))"

section \<open>Instances\<close>

definition pg_create_instance :: "workflow_instance \<Rightarrow> unit dbm" where
  "pg_create_instance inst =
     try_go
       (map_err (wrapf ''failed to ensure workflow definition'')
         (exec (\<lambda>d. if (inst_workflow inst, inst_source_hash inst) \<in> set (definitions d) then d
                    else d\<lparr>definitions := definitions d @ [(inst_workflow inst, inst_source_hash inst)]\<rparr>)))
       (\<lambda>_. exec_try (\<lambda>d.
          if find_instance d (inst_id inst) \<noteq> None
          then Inl (SqlConstraint ''duplicate key: workflow_instances.instance_id'')
          else Inr (d\<lparr>instances := instances d @
            [\<lparr>inst_id = inst_id inst, inst_workflow = inst_workflow inst,
              inst_framework = ''go'', inst_status = inst_status inst,
              inst_input = inst_input inst, inst_output = None, inst_activity = None,
              inst_source_hash = inst_source_hash inst, inst_owner = inst_owner inst,
              inst_continued_from = None, inst_locked_by = None, inst_locked_at = None,
              inst_lock_timeout = None, inst_lock_expires = None,
              inst_started = usecs (inst_started inst), inst_updated = usecs (inst_updated inst)\<rparr>]\<rparr>)))"

definition pg_get_instance :: "string \<Rightarrow> workflow_instance option dbm" where
  "pg_get_instance i =
     query (\<lambda>d. map_option (\<lambda>r. r\<lparr>inst_continued_from := None\<rparr>) (find_instance d i))"

definition pg_update_instance_status :: "string \<Rightarrow> workflow_status \<Rightarrow> string \<Rightarrow> unit dbm" where
  "pg_update_instance_status i status error_msg =
     exec (\<lambda>d. update_instances (\<lambda>r. inst_id r = i)
       (\<lambda>r. r\<lparr>inst_status := status, inst_updated := pg_now d\<rparr>) d)"

definition pg_update_instance_activity :: "string \<Rightarrow> string \<Rightarrow> unit dbm" where
  "pg_update_instance_activity i act =
     exec (\<lambda>d. update_instances (\<lambda>r. inst_id r = i)
       (\<lambda>r. r\<lparr>inst_activity := Some act, inst_updated := pg_now d\<rparr>) d)"

definition pg_update_instance_output :: "string \<Rightarrow> bytes \<Rightarrow> unit dbm" where
  "pg_update_instance_output i output =
     exec (\<lambda>d. update_instances (\<lambda>r. inst_id r = i)
       (\<lambda>r. r\<lparr>inst_output := Some output, inst_status := StatusCompleted, inst_updated := pg_now d\<rparr>) d)"

definition pg_cancel_instance :: "string \<Rightarrow> string \<Rightarrow> unit dbm" where
  "pg_cancel_instance i reason =
     try_go (stmt (\<lambda>d.
        (count_where (\<lambda>r. inst_id r = i \<and> cancellable_status (inst_status r)) (instances d),
         update_instances (\<lambda>r. inst_id r = i \<and> cancellable_status (inst_status r))
           (\<lambda>r. r\<lparr>inst_status := StatusCancelled, inst_updated := pg_now d\<rparr>) d)))
       (\<lambda>rows. if rows = 0 then throw (Sentinel ErrWorkflowNotCancellable) else ret ())"

definition pg_static_where :: "list_options \<Rightarrow> workflow_instance \<Rightarrow> bool" where
  "pg_static_where opts r \<longleftrightarrow>
     (let name = (if lo_name opts = '''' then lo_old_name opts else lo_name opts);
          status = (if lo_status opts = None then lo_old_status opts else lo_status opts)
      in inst_framework r = ''go''
       \<and> (name \<noteq> '''' \<longrightarrow> like_escape (lower (''%'' @ name @ ''%'')) (lower (inst_workflow r)))
       \<and> (case status of None \<Rightarrow> True | Some st \<Rightarrow> inst_status r = st)
       \<and> (lo_id opts \<noteq> '''' \<longrightarrow> like_escape (lower (''%'' @ lo_id opts @ ''%'')) (lower (inst_id r)))
       \<and> (case lo_after opts of None \<Rightarrow> True | Some t \<Rightarrow> inst_started r > usecs t)
       \<and> (case lo_before opts of None \<Rightarrow> True | Some t \<Rightarrow> inst_started r < usecs t))"

definition pg_list_instances ::
    "(string \<times> sql_arg list \<Rightarrow> workflow_instance \<Rightarrow> bool) \<Rightarrow> list_options \<Rightarrow>
     (list_row list \<times> page_token \<times> bool) dbm" where
  "pg_list_instances holds opts =
     (case build_filter_query PostgresDriver (lo_inputs opts) (static_args opts + 1) of
        Inl e \<Rightarrow> throw (wrapf ''invalid input filter'' e)
      | Inr conds \<Rightarrow>
          try_go (query (\<lambda>d. take (page_limit (lo_limit opts) + 1) (newest_first
                   (filter (\<lambda>r. pg_static_where opts r \<and> list_all (\<lambda>c. holds c r) conds \<and>
                                token_where (lo_token opts) r) (instances d)))))
            (\<lambda>rows.
               let has_more = length rows > page_limit (lo_limit opts);
                   page = (if has_more then take (page_limit (lo_limit opts)) rows else rows);
                   tok = (if has_more \<and> page \<noteq> []
                          then Token (inst_started (last page)) (inst_id (last page)) else NoToken)
               in ret (map row_of page, tok, has_more)))"

definition pg_find_resumable_workflows :: "int \<Rightarrow> (string \<times> string) list dbm" where
  "pg_find_resumable_workflows limit =
     (let limit = (if limit \<le> 0 then 100 else limit)
      in query (\<lambda>d. map (\<lambda>r. (inst_id r, inst_workflow r)) (take (nat limit)
           (sort_key inst_updated
             (filter (\<lambda>r. inst_status r = StatusRunning \<and> lock_absent r \<and>
                          inst_framework r = ''go'') (instances d))))))"

section \<open>Locks\<close>

definition pg_lock_row :: "(string \<Rightarrow> bool) \<Rightarrow> string \<Rightarrow> workflow_instance option dbm" where
  "pg_lock_row row_locked i = query (\<lambda>d. if row_locked i then None else find_instance d i)"

definition pg_can_acquire :: "time \<Rightarrow> string \<Rightarrow> workflow_instance \<Rightarrow> bool" where
  "pg_can_acquire now worker r \<longleftrightarrow>
     inst_locked_by r = None \<or> inst_locked_by r = Some '''' \<or> inst_locked_by r = Some worker
     \<or> (case inst_lock_expires r of None \<Rightarrow> False | Some e \<Rightarrow> e * 1000 < now)"

definition pg_take_lock :: "string \<Rightarrow> string \<Rightarrow> time \<Rightarrow> int \<Rightarrow> unit dbm" where
  "pg_take_lock i worker now timeout_sec =
     exec (update_instances (\<lambda>r. inst_id r = i)
       (\<lambda>r. r\<lparr>inst_locked_by := Some worker, inst_locked_at := Some (usecs now),
              inst_lock_expires := Some (usecs (now + timeout_sec * 1000000000)),
              inst_updated := usecs now\<rparr>))"

definition pg_try_acquire_lock :: "(string \<Rightarrow> bool) \<Rightarrow> string \<Rightarrow> string \<Rightarrow> int \<Rightarrow> bool dbm" where
  "pg_try_acquire_lock row_locked i worker timeout_sec =
     try_go (get_go clock) (\<lambda>now.
     try_go (pg_lock_row row_locked i) (\<lambda>row.
     case row of
       None \<Rightarrow> ret False
     | Some r \<Rightarrow>
         if \<not> pg_can_acquire now worker r then ret False
         else try_go (pg_take_lock i worker now timeout_sec) (\<lambda>_. ret True)))"


definition pg_release_lock :: "string \<Rightarrow> string \<Rightarrow> unit dbm" where
  "pg_release_lock i worker =
     exec (\<lambda>d. update_instances (\<lambda>r. inst_id r = i \<and> inst_locked_by r = Some worker)
       (\<lambda>r. r\<lparr>inst_locked_by := None, inst_locked_at := None, inst_lock_expires := None,
              inst_updated := pg_now d\<rparr>) d)"

definition pg_refresh_lock :: "string \<Rightarrow> string \<Rightarrow> int \<Rightarrow> unit dbm" where
  "pg_refresh_lock i worker timeout_sec =
     exec (\<lambda>d. update_instances (\<lambda>r. inst_id r = i \<and> inst_locked_by r = Some worker)
       (\<lambda>r. r\<lparr>inst_lock_expires := Some (usecs (clock d + timeout_sec * 1000000000)),
              inst_updated := pg_now d\<rparr>) d)"

definition pg_cleanup_stale_locks :: "int \<Rightarrow> (string \<times> string) list dbm" where
  "pg_cleanup_stale_locks timeout_sec =
     try_go (query (\<lambda>d. map (\<lambda>r. (inst_id r, inst_workflow r)) (take 100
         (filter (\<lambda>r. stale_lock (pg_now d) r \<and>
             inst_status r \<in> {StatusRunning, StatusWaitingForEvent, StatusWaitingForTimer})
           (instances d)))))
       (\<lambda>stale. try_go
         (exec (\<lambda>d. update_instances (stale_lock (pg_now d))
            (\<lambda>r. r\<lparr>inst_locked_by := None, inst_locked_at := None, inst_lock_expires := None,
                   inst_updated := pg_now d\<rparr>) d))
         (\<lambda>_. ret stale))"

section \<open>History\<close>

definition pg_insert_history ::
    "string \<Rightarrow> string \<Rightarrow> history_type \<Rightarrow> bytes \<Rightarrow> string \<Rightarrow> db \<Rightarrow> db" where
  "pg_insert_history i act ty data data_type d =
     d\<lparr>history := history d @ [\<lparr>he_id = history_seq d + 1, he_instance = i, he_activity = act,
         he_type = ty, he_data = data, he_data_type = data_type, he_created = pg_now d\<rparr>],
       history_seq := history_seq d + 1\<rparr>"

definition pg_append_history ::
    "string \<Rightarrow> string \<Rightarrow> history_type \<Rightarrow> bytes \<Rightarrow> string \<Rightarrow> unit dbm" where
  "pg_append_history i act ty data data_type =
     exec_try (\<lambda>d.
       if has_history i act d then Inr d
       else if \<not> fk_instance d i then Inl (fk_error ''workflow_history'')
       else Inr (pg_insert_history i act ty data data_type d))"

definition pg_get_history_paginated ::
    "string \<Rightarrow> int \<Rightarrow> nat \<Rightarrow> (history_event list \<times> bool) dbm" where
  "pg_get_history_paginated i after_id limit =
     try_go (query (\<lambda>d. take (limit + 1) (sort_key he_id
               (filter (\<lambda>h. he_instance h = i \<and> he_id h > after_id) (history d)))))
       (\<lambda>rows. let has_more = length rows > limit
               in ret (if has_more then take limit rows else rows, has_more))"

definition pg_get_history_count :: "string \<Rightarrow> int dbm" where
  "pg_get_history_count i = query (\<lambda>d. int (length (history_of i d)))"

definition pg_archive_copy :: "string \<Rightarrow> db \<Rightarrow> go_error + db" where
  "pg_archive_copy i d =
     (case find (\<lambda>c. c \<notin> set (archive_columns d)) archive_insert_columns of
        Some c \<Rightarrow> Inl (SqlConstraint (''unknown column of workflow_history_archive: '' @ c))
      | None \<Rightarrow>
          if ''created_at'' \<in> set (archive_columns d) \<and> history_of i d \<noteq> []
          then Inl (SqlConstraint ''null value in column created_at of workflow_history_archive'')
          else Inr (d\<lparr>archive := archive d @ map (\<lambda>(n, h).
                  \<lparr>ae_id = archive_seq d + n, ae_original_id = Some (he_id h), ae_instance = he_instance h,
                   ae_activity = he_activity h, ae_type = he_type h, ae_data = he_data h,
                   ae_data_type = he_data_type h, ae_original_created = Some (he_created h),
                   ae_archived = pg_now d\<rparr>)
                  (zip [1..int (length (history_of i d))] (history_of i d)),
                archive_seq := archive_seq d + int (length (history_of i d))\<rparr>))"

definition pg_archive_history :: "string \<Rightarrow> unit dbm" where
  "pg_archive_history i =
     try_go (exec_try (pg_archive_copy i))
       (\<lambda>_. exec (\<lambda>d. d\<lparr>history := delete_where (\<lambda>h. he_instance h = i) (history d)\<rparr>))"

definition pg_get_archived_history :: "string \<Rightarrow> archived_event list dbm" where
  "pg_get_archived_history i =
     query (\<lambda>d. sort_key (\<lambda>a. case ae_original_id a of None \<Rightarrow> 0 | Some n \<Rightarrow> n)
                  (filter (\<lambda>a. ae_instance a = i) (archive d)))"

section \<open>Timers\<close>

definition pg_insert_timer :: "string \<Rightarrow> string \<Rightarrow> time \<Rightarrow> string \<Rightarrow> db \<Rightarrow> go_error + db" where
  "pg_insert_timer i timer expires act d =
     (if \<exists>t \<in> set (timers d). ts_instance t = i \<and> ts_timer t = timer then Inr d
      else if \<not> fk_instance d i then Inl (fk_error ''workflow_timer_subscriptions'')
      else Inr (d\<lparr>timers := timers d @ [\<lparr>ts_id = timer_seq d + 1, ts_instance = i, ts_timer = timer,
               ts_expires = usecs expires, ts_activity = Some act, ts_created = pg_now d\<rparr>],
             timer_seq := timer_seq d + 1\<rparr>))"

definition timer_payload :: "string \<Rightarrow> string \<Rightarrow> time \<Rightarrow> json" where
  "timer_payload i timer expires =
     JObj [(''expires_at'', time_json (secs expires)), (''instance_id'', JStr i), (''timer_id'', JStr timer)]"

definition pg_register_timer_subscription :: "string \<Rightarrow> string \<Rightarrow> time \<Rightarrow> string \<Rightarrow> unit pgm" where
  "pg_register_timer_subscription i timer expires act =
     try_go (on_db (exec_try (pg_insert_timer i timer expires act))) (\<lambda>_.
     send_notify ChannelTimerExpired (timer_payload i timer expires))"

definition pg_timer_and_release ::
    "bool \<Rightarrow> string \<Rightarrow> string \<Rightarrow> time \<Rightarrow> string \<Rightarrow> string \<Rightarrow> string \<Rightarrow> unit dbm" where
  "pg_timer_and_release in_tx sub_i timer expires act i worker =
     (let body =
        try_go (exec_try (pg_insert_timer sub_i timer expires act)) (\<lambda>_.
        try_go (exec (\<lambda>d. update_instances (\<lambda>r. inst_id r = i)
          (\<lambda>r. r\<lparr>inst_status := StatusWaitingForTimer, inst_updated := pg_now d\<rparr>) d)) (\<lambda>_.
        exec (update_instances (\<lambda>r. inst_id r = i \<and> inst_locked_by r = Some worker)
          (\<lambda>r. r\<lparr>inst_locked_by := None, inst_locked_at := None, inst_lock_expires := None\<rparr>))))
      in if in_tx then body else atomically body)"

definition pg_register_timer_and_release_lock ::
    "bool \<Rightarrow> string \<Rightarrow> string \<Rightarrow> time \<Rightarrow> string \<Rightarrow> string \<Rightarrow> string \<Rightarrow> unit pgm" where
  "pg_register_timer_and_release_lock in_tx sub_i timer expires act i worker =
     try_go (on_db (pg_timer_and_release in_tx sub_i timer expires act i worker)) (\<lambda>_.
     send_notify ChannelTimerExpired (timer_payload sub_i timer expires))"


definition pg_remove_timer_subscription :: "string \<Rightarrow> string \<Rightarrow> unit dbm" where
  "pg_remove_timer_subscription i timer =
     exec (\<lambda>d. d\<lparr>timers := delete_where (\<lambda>t. ts_instance t = i \<and> ts_timer t = timer) (timers d)\<rparr>)"

definition pg_find_expired_timers :: "int \<Rightarrow> timer_subscription list dbm" where
  "pg_find_expired_timers limit =
     (let limit = (if limit \<le> 0 then 100 else limit)
      in query (\<lambda>d. take (nat limit) (sort_key ts_expires
           (filter (\<lambda>t. ts_expires t \<le> pg_now d \<and> go_instance d (ts_instance t)) (timers d)))))"

section \<open>Outbox\<close>

definition pg_add_outbox_row :: "outbox_event \<Rightarrow> unit dbm" where
  "pg_add_outbox_row ev =
     exec_try (\<lambda>d.
       if ob_id ev \<in> ob_id ` set (outbox d)
       then Inl (SqlConstraint ''duplicate key: outbox_events.event_id'')
       else Inr (d\<lparr>outbox := outbox d @ [ev\<lparr>ob_retry := 0, ob_published := None,
                     ob_created := pg_now d\<rparr>]\<rparr>))"

definition pg_add_outbox_event :: "outbox_event \<Rightarrow> unit pgm" where
  "pg_add_outbox_event ev =
     try_go (on_db (pg_add_outbox_row ev)) (\<lambda>_.
     send_notify ChannelOutboxPending (JObj [(''event_id'', JStr (ob_id ev))]))"


definition pg_get_pending_outbox_events :: "(string \<Rightarrow> bool) \<Rightarrow> nat \<Rightarrow> outbox_event list dbm" where
  "pg_get_pending_outbox_events row_locked limit =
     query (\<lambda>d. take limit (filter (\<lambda>e. \<not> row_locked (ob_id e))
       (sort_key ob_created (filter (\<lambda>e. ob_status e = OutboxPending) (outbox d)))))"

definition pg_mark_outbox_event_sent :: "string \<Rightarrow> unit dbm" where
  "pg_mark_outbox_event_sent ev =
     exec (\<lambda>d. update_outbox (\<lambda>e. ob_id e = ev)
       (\<lambda>e. e\<lparr>ob_status := OutboxPublished, ob_published := Some (pg_now d)\<rparr>) d)"

definition pg_mark_outbox_event_failed :: "string \<Rightarrow> unit dbm" where
  "pg_mark_outbox_event_failed ev =
     exec (update_outbox (\<lambda>e. ob_id e = ev) (\<lambda>e. e\<lparr>ob_status := OutboxFailed\<rparr>))"

definition pg_increment_outbox_attempts :: "string \<Rightarrow> unit dbm" where
  "pg_increment_outbox_attempts ev =
     exec (update_outbox (\<lambda>e. ob_id e = ev) (\<lambda>e. e\<lparr>ob_retry := ob_retry e + 1\<rparr>))"

definition pg_cleanup_old_outbox_events :: "time \<Rightarrow> unit dbm" where
  "pg_cleanup_old_outbox_events older_than =
     exec (\<lambda>d. d\<lparr>outbox := delete_where
       (\<lambda>e. ob_status e = OutboxPublished \<and> ob_created e < usecs (clock d - older_than)) (outbox d)\<rparr>)"

section \<open>Compensations\<close>

definition pg_add_compensation :: "string \<Rightarrow> string \<Rightarrow> string \<Rightarrow> bytes \<Rightarrow> unit dbm" where
  "pg_add_compensation i act name args =
     exec_try (\<lambda>d.
       if \<not> fk_instance d i then Inl (fk_error ''workflow_compensations'')
       else Inr (d\<lparr>compensations := compensations d @ [\<lparr>ce_id = comp_seq d + 1, ce_instance = i,
               ce_activity = act, ce_name = name, ce_args = args, ce_created = pg_now d\<rparr>],
             comp_seq := comp_seq d + 1\<rparr>))"

definition pg_get_compensations :: "string \<Rightarrow> compensation_entry list dbm" where
  "pg_get_compensations i = query (\<lambda>d. rev (sort_key comp_key (compensations_of i d)))"

section \<open>Channels\<close>

definition pg_sub_row :: "channel_subscription \<Rightarrow> channel_subscription" where
  "pg_sub_row s = s\<lparr>cs_cursor := None,
     cs_activity := Some (case cs_activity s of None \<Rightarrow> '''' | Some a \<Rightarrow> a)\<rparr>"

definition pg_publish_row :: "string \<Rightarrow> string \<Rightarrow> bytes \<Rightarrow> bytes \<Rightarrow> int dbm" where
  "pg_publish_row uuid channel data metadata =
     try_go (exec_try (\<lambda>d.
        if data = BNil then Inl (SqlConstraint ''check constraint failed: data_type_consistency'')
        else if uuid \<in> cm_message_id ` set (messages d)
        then Inl (SqlConstraint ''duplicate key: channel_messages.message_id'')
        else Inr (d\<lparr>messages := messages d @ [\<lparr>cm_id = message_seq d + 1, cm_channel = channel,
                    cm_message_id = uuid, cm_data = data, cm_metadata = metadata,
                    cm_published = pg_now d\<rparr>],
                  message_seq := message_seq d + 1\<rparr>)))
       (\<lambda>_. get_go message_seq)"

definition pg_publish_to_channel :: "string \<Rightarrow> string \<Rightarrow> bytes \<Rightarrow> bytes \<Rightarrow> int pgm" where
  "pg_publish_to_channel uuid channel data metadata =
     try_go (on_db (pg_publish_row uuid channel data metadata)) (\<lambda>msg_id.
     try_go (send_notify ChannelChannelMessage
       (JObj [(''channel'', JStr channel), (''message_id'', JNum msg_id)])) (\<lambda>_. ret msg_id))"


definition pg_upsert_subscription :: "string \<Rightarrow> string \<Rightarrow> channel_mode \<Rightarrow> db \<Rightarrow> go_error + db" where
  "pg_upsert_subscription i channel mode d =
     (if mode = ChannelModeDirect then Inl (SqlConstraint ''check constraint failed: valid_mode'')
      else case find_sub d i channel of
        None \<Rightarrow>
          if \<not> fk_instance d i then Inl (fk_error ''channel_subscriptions'')
          else Inr (d\<lparr>subscriptions := subscriptions d @ [\<lparr>cs_id = sub_seq d + 1, cs_instance = i,
                   cs_channel = channel, cs_mode = mode, cs_cursor = None, cs_timeout = None,
                   cs_activity = None, cs_subscribed = pg_now d\<rparr>],
                 sub_seq := sub_seq d + 1\<rparr>)
      | Some s \<Rightarrow> Inr (d\<lparr>subscriptions := update_where
                   (\<lambda>s. (cs_instance s, cs_channel s) = (i, channel)) (\<lambda>s. s\<lparr>cs_mode := mode\<rparr>)
                   (subscriptions d)\<rparr>))"

definition pg_init_cursor :: "string \<Rightarrow> string \<Rightarrow> db \<Rightarrow> go_error + db" where
  "pg_init_cursor i channel d =
     (case find_cursor d i channel of
        None \<Rightarrow>
          if \<not> fk_instance d i then Inl (fk_error ''channel_delivery_cursors'')
          else Inr (d\<lparr>cursors := cursors d @
                 [\<lparr>dc_instance = i, dc_channel = channel, dc_last = max_message_id d channel\<rparr>]\<rparr>)
      | Some c \<Rightarrow> Inr d)"

definition pg_subscribe_to_channel :: "string \<Rightarrow> string \<Rightarrow> channel_mode \<Rightarrow> unit dbm" where
  "pg_subscribe_to_channel i channel mode =
     try_go (exec_try (pg_upsert_subscription i channel mode))
       (\<lambda>_. if mode = ChannelModeBroadcast then exec_try (pg_init_cursor i channel) else ret ())"

definition pg_unsubscribe_from_channel :: "string \<Rightarrow> string \<Rightarrow> unit dbm" where
  "pg_unsubscribe_from_channel i channel =
     exec (\<lambda>d. d\<lparr>subscriptions := delete_where
       (\<lambda>s. (cs_instance s, cs_channel s) = (i, channel)) (subscriptions d)\<rparr>)"

definition pg_get_channel_subscription :: "string \<Rightarrow> string \<Rightarrow> channel_subscription option dbm" where
  "pg_get_channel_subscription i channel = query (\<lambda>d. map_option pg_sub_row (find_sub d i channel))"

definition pg_get_channel_mode :: "string \<Rightarrow> channel_mode option dbm" where
  "pg_get_channel_mode channel =
     query (\<lambda>d. map_option cs_mode (find (\<lambda>s. cs_channel s = channel) (subscriptions d)))"

definition pg_register_receive_and_release_lock ::
    "string \<Rightarrow> string \<Rightarrow> string \<Rightarrow> string \<Rightarrow> time option \<Rightarrow> unit dbm" where
  "pg_register_receive_and_release_lock i channel worker act timeout_at =
     try_go (exec (\<lambda>d. update_sub i channel
       (\<lambda>s. s\<lparr>cs_timeout := map_option (\<lambda>t. usecs (t + local_offset d)) timeout_at, cs_activity := Some act\<rparr>) d)) (\<lambda>_.
     try_go (exec (\<lambda>d. update_instances (\<lambda>r. inst_id r = i)
       (\<lambda>r. r\<lparr>inst_status := StatusWaitingForMessage, inst_updated := pg_now d\<rparr>) d)) (\<lambda>_.
     exec (\<lambda>d. update_instances (\<lambda>r. inst_id r = i \<and> inst_locked_by r = Some worker)
       (\<lambda>r. r\<lparr>inst_locked_by := None, inst_locked_at := None, inst_lock_expires := None,
              inst_updated := pg_now d\<rparr>) d)))"

definition pg_get_subscribers_waiting :: "string \<Rightarrow> channel_subscription list dbm" where
  "pg_get_subscribers_waiting channel =
     query (\<lambda>d. map pg_sub_row (filter (\<lambda>s. cs_channel s = channel \<and> cs_activity s \<noteq> None) (subscriptions d)))"

definition pg_clear_channel_waiting_state :: "string \<Rightarrow> string \<Rightarrow> unit dbm" where
  "pg_clear_channel_waiting_state i channel =
     exec (update_sub i channel (\<lambda>s. s\<lparr>cs_activity := None, cs_timeout := None\<rparr>))"

definition pg_find_expired_channel_subscriptions :: "int \<Rightarrow> channel_subscription list dbm" where
  "pg_find_expired_channel_subscriptions limit =
     (let limit = (if limit \<le> 0 then 100 else limit)
      in query (\<lambda>d. map pg_sub_row (take (nat limit) (sort_key (\<lambda>s. case cs_timeout s of None \<Rightarrow> 0 | Some t \<Rightarrow> t)
           (filter (\<lambda>s. cs_activity s \<noteq> None
               \<and> (case cs_timeout s of None \<Rightarrow> False | Some t \<Rightarrow> t < pg_now d)
               \<and> go_instance d (cs_instance s))
             (subscriptions d))))))"

definition pg_get_pending_channel_messages ::
    "string \<Rightarrow> int \<Rightarrow> nat \<Rightarrow> channel_message list dbm" where
  "pg_get_pending_channel_messages channel after_id limit =
     query (\<lambda>d. take limit (sort_key cm_id
       (filter (\<lambda>m. cm_channel m = channel \<and> cm_id m > after_id) (messages d))))"

definition pg_get_pending_for_instance :: "string \<Rightarrow> string \<Rightarrow> channel_message list dbm" where
  "pg_get_pending_for_instance i channel =
     try_go (query (\<lambda>d. find_sub d i channel)) (\<lambda>sub.
       case sub of
         None \<Rightarrow> ret []
       | Some s \<Rightarrow>
           if cs_mode s = ChannelModeBroadcast then
             try_go (query (\<lambda>d. case find_cursor d i channel of None \<Rightarrow> 0 | Some c \<Rightarrow> dc_last c)) (\<lambda>cursor.
               query (\<lambda>d. take 10 (sort_key cm_id
                 (filter (\<lambda>m. cm_channel m = channel \<and> cm_id m > cursor) (messages d)))))
           else
             query (\<lambda>d. take 10 (sort_key cm_id
               (filter (\<lambda>m. cm_channel m = channel \<and> \<not> is_claimed d m) (messages d)))))"

definition pg_claim_channel_message :: "(int \<Rightarrow> go_error + string) \<Rightarrow> int \<Rightarrow> string \<Rightarrow> bool dbm" where
  "pg_claim_channel_message encode msg_id i =
     (case encode msg_id of
        Inl e \<Rightarrow> throw e
      | Inr key \<Rightarrow>
          try_go (stmt (\<lambda>d.
            if key \<in> cl_message ` set (claims d) then (Inr False, d)
            else if key \<notin> cm_message_id ` set (messages d) \<or> \<not> fk_instance d i
            then (Inl (fk_error ''channel_message_claims''), d)
            else (Inr True, d\<lparr>claims := claims d @ [\<lparr>cl_message = key, cl_instance = i\<rparr>]\<rparr>)))
          (\<lambda>r. case r of Inl e \<Rightarrow> throw e | Inr granted \<Rightarrow> ret granted))"


definition pg_delete_channel_message :: "int \<Rightarrow> unit dbm" where
  "pg_delete_channel_message msg_id = exec (delete_messages (\<lambda>m. cm_id m = msg_id))"

definition pg_set_cursor :: "string \<Rightarrow> string \<Rightarrow> int \<Rightarrow> db \<Rightarrow> go_error + db" where
  "pg_set_cursor i channel last_id d =
     (case find_cursor d i channel of
        None \<Rightarrow>
          if \<not> fk_instance d i then Inl (fk_error ''channel_delivery_cursors'')
          else Inr (d\<lparr>cursors := cursors d @ [\<lparr>dc_instance = i, dc_channel = channel, dc_last = last_id\<rparr>]\<rparr>)
      | Some c \<Rightarrow> Inr (d\<lparr>cursors := update_where (\<lambda>c. (dc_instance c, dc_channel c) = (i, channel))
                   (\<lambda>c. c\<lparr>dc_last := last_id\<rparr>) (cursors d)\<rparr>))"

definition pg_update_delivery_cursor :: "string \<Rightarrow> string \<Rightarrow> int \<Rightarrow> unit dbm" where
  "pg_update_delivery_cursor i channel last_id = exec_try (pg_set_cursor i channel last_id)"

definition pg_get_delivery_cursor :: "string \<Rightarrow> string \<Rightarrow> int dbm" where
  "pg_get_delivery_cursor i channel =
     query (\<lambda>d. case find_cursor d i channel of None \<Rightarrow> 0 | Some c \<Rightarrow> dc_last c)"

definition pg_cleanup_old_channel_messages :: "time \<Rightarrow> unit dbm" where
  "pg_cleanup_old_channel_messages older_than =
     exec (\<lambda>d. delete_messages (\<lambda>m. cm_published m < usecs (clock d - older_than)) d)"

section \<open>Delivery\<close>

definition pg_insert_history_strict ::
    "string \<Rightarrow> string \<Rightarrow> history_type \<Rightarrow> bytes \<Rightarrow> unit dbm" where
  "pg_insert_history_strict i act ty data =
     exec_try (\<lambda>d. if has_history i act d
       then Inl (SqlConstraint ''duplicate key: workflow_history'')
       else if \<not> fk_instance d i then Inl (fk_error ''workflow_history'')
       else Inr (pg_insert_history i act ty data ''json'' d))"

definition pg_deliver_channel_message :: "string \<Rightarrow> channel_message \<Rightarrow> unit dbm" where
  "pg_deliver_channel_message i m =
     try_go (pg_insert_history_strict i (legacy_activity_id (cm_channel m) (cm_id m))
              (HistoryOther ''channel_message_received'') (cm_data m))
       (\<lambda>_. pg_clear_channel_waiting_state i (cm_channel m))"

definition pg_deliver_locked ::
    "(string \<Rightarrow> bool) \<Rightarrow> string \<Rightarrow> string \<Rightarrow> channel_message \<Rightarrow> string \<Rightarrow> int \<Rightarrow>
     channel_delivery_result option dbm" where
  "pg_deliver_locked row_locked i channel m worker timeout_sec =
     try_go (pg_try_acquire_lock row_locked i worker timeout_sec) (\<lambda>acquired.
     if \<not> acquired then ret None else
     try_go (on_err (pg_release_lock i worker) (map_err (wrapf ''failed to get workflow info'')
       (try_go (query (\<lambda>d. find_instance d i)) (\<lambda>r.
          case r of None \<Rightarrow> throw (Sentinel ErrNoRows) | Some r \<Rightarrow> ret (inst_workflow r))))) (\<lambda>workflow.
     try_go (on_err (pg_release_lock i worker) (map_err (wrapf ''failed to get subscription info'')
       (try_go (query (\<lambda>d. find_sub d i channel)) (\<lambda>s.
          case s of None \<Rightarrow> throw (Sentinel ErrNoRows) | Some s \<Rightarrow> ret s)))) (\<lambda>sub.
     let act = (case cs_activity sub of
                  None \<Rightarrow> legacy_activity_id channel (cm_id m)
                | Some a \<Rightarrow> if a = '''' then legacy_activity_id channel (cm_id m) else a)
     in
     try_go (on_err (pg_release_lock i worker) (map_err (wrapf ''failed to record history'')
       (pg_insert_history_strict i act HistoryChannelMessageReceived (BJson (wrap_message channel m))))) (\<lambda>_.
     try_go (if cs_mode sub = ChannelModeBroadcast
             then on_err (pg_release_lock i worker) (map_err (wrapf ''failed to update delivery cursor'')
                    (exec_try (pg_set_cursor i channel (cm_id m))))
             else ret ()) (\<lambda>_.
     try_go (on_err (pg_release_lock i worker) (map_err (wrapf ''failed to clear waiting state'')
       (pg_clear_channel_waiting_state i channel))) (\<lambda>_.
     try_go (on_err (pg_release_lock i worker) (map_err (wrapf ''failed to update status'')
       (exec (\<lambda>d. update_instances (\<lambda>r. inst_id r = i)
          (\<lambda>r. r\<lparr>inst_status := StatusRunning, inst_updated := pg_now d\<rparr>) d)))) (\<lambda>_.
     try_go (map_err (wrapf ''failed to release lock'') (pg_release_lock i worker)) (\<lambda>_.
     ret (Some \<lparr>cr_instance = i, cr_workflow = workflow, cr_activity = act\<rparr>)))))))))"

definition pg_deliver_channel_message_with_lock ::
    "(string \<Rightarrow> bool) \<Rightarrow> string \<Rightarrow> string \<Rightarrow> channel_message \<Rightarrow> string \<Rightarrow> int \<Rightarrow>
     channel_delivery_result option pgm" where
  "pg_deliver_channel_message_with_lock row_locked i channel m worker timeout_sec =
     try_go (on_db (pg_deliver_locked row_locked i channel m worker timeout_sec)) (\<lambda>delivered.
     case delivered of
       None \<Rightarrow> ret None
     | Some res \<Rightarrow>
         try_go (send_notify ChannelWorkflowResumable
           (JObj [(''instance_id'', JStr (cr_instance res)), (''workflow_name'', JStr (cr_workflow res))]))
         (\<lambda>_. ret delivered))"


section \<open>Groups, system locks, cleanup\<close>

definition pg_join_group :: "string \<Rightarrow> string \<Rightarrow> unit dbm" where
  "pg_join_group i g =
     exec_try (\<lambda>d. if \<lparr>gm_instance = i, gm_group = g\<rparr> \<in> set (groups d) then Inr d
       else if \<not> fk_instance d i then Inl (fk_error ''workflow_group_memberships'')
       else Inr (d\<lparr>groups := groups d @ [\<lparr>gm_instance = i, gm_group = g\<rparr>]\<rparr>))"

definition pg_leave_group :: "string \<Rightarrow> string \<Rightarrow> unit dbm" where
  "pg_leave_group i g =
     exec (\<lambda>d. d\<lparr>groups := delete_where (\<lambda>m. gm_instance m = i \<and> gm_group m = g) (groups d)\<rparr>)"

definition pg_get_group_members :: "string \<Rightarrow> string list dbm" where
  "pg_get_group_members g =
     query (\<lambda>d. map gm_instance (filter (\<lambda>m. gm_group m = g) (groups d)))"

definition pg_leave_all_groups :: "string \<Rightarrow> unit dbm" where
  "pg_leave_all_groups i =
     exec (\<lambda>d. d\<lparr>groups := delete_where (\<lambda>m. gm_instance m = i) (groups d)\<rparr>)"

definition pg_try_acquire_system_lock :: "string \<Rightarrow> string \<Rightarrow> int \<Rightarrow> bool dbm" where
  "pg_try_acquire_system_lock name worker timeout_sec =
     stmt (\<lambda>d.
       let at = usecs (clock d); expires = usecs (clock d + timeout_sec * 1000000000)
       in case find_system_lock d name of
            None \<Rightarrow> (True, d\<lparr>sys_locks := sys_locks d @
                 [\<lparr>sl_name = name, sl_by = worker, sl_at = at, sl_expires = expires\<rparr>]\<rparr>)
          | Some l \<Rightarrow>
              if sl_expires l < pg_now d \<or> sl_by l = worker
              then (True, d\<lparr>sys_locks := update_where (\<lambda>l. sl_name l = name)
                     (\<lambda>l. l\<lparr>sl_by := worker, sl_at := at, sl_expires := expires\<rparr>) (sys_locks d)\<rparr>)
              else (False, d))"


definition pg_release_system_lock :: "string \<Rightarrow> string \<Rightarrow> unit dbm" where
  "pg_release_system_lock name worker =
     exec (\<lambda>d. d\<lparr>sys_locks := delete_where (\<lambda>l. sl_name l = name \<and> sl_by l = worker) (sys_locks d)\<rparr>)"

definition pg_cleanup_expired_system_locks :: "unit dbm" where
  "pg_cleanup_expired_system_locks =
     exec (\<lambda>d. d\<lparr>sys_locks := delete_where (\<lambda>l. sl_expires l < pg_now d) (sys_locks d)\<rparr>)"

definition pg_cleanup_instance_subscriptions :: "string \<Rightarrow> unit dbm" where
  "pg_cleanup_instance_subscriptions i =
     try_go (map_err (wrapf ''failed to delete timer subscriptions'')
       (exec (\<lambda>d. d\<lparr>timers := delete_where (\<lambda>t. ts_instance t = i) (timers d)\<rparr>))) (\<lambda>_.
     try_go (map_err (wrapf ''failed to delete channel subscriptions'')
       (exec (\<lambda>d. d\<lparr>subscriptions := delete_where (\<lambda>s. cs_instance s = i) (subscriptions d)\<rparr>))) (\<lambda>_.
     map_err (wrapf ''failed to delete group memberships'')
       (exec (\<lambda>d. d\<lparr>groups := delete_where (\<lambda>m. gm_instance m = i) (groups d)\<rparr>))))"

end
