(* ===== verification/Server_Locks.thy ===== *)
theory Server_Locks
  imports Storage_Postgres Storage_Mysql
begin

text \<open>
  The lease locks of the server databases. When the statements of a method are not
  interleaved with another worker's, PostgreSQL's and MySQL's instance locks and system
  locks keep the contract \<open>lease_lock\<close> of the SQLite ones: the interpretations below. The
  instance lock is two statements, though; \<open>lock_step\<close> lets the statements of several
  workers interleave, and then two workers get the same lock.
\<close>

section \<open>The instance lock, run without interleaving\<close>

text \<open>
  The holder with the expiry on the nanosecond clock; \<open>unit\<close> is the resolution of the
  column. The code takes the empty name for no holder.
\<close>

definition holder_in :: "int \<Rightarrow> string \<Rightarrow> db \<Rightarrow> (string \<times> int) option" where
  "holder_in unit i d =
     (case instance_holder i d of
        None \<Rightarrow> None
      | Some (w, e) \<Rightarrow> if w = '''' then None else Some (w, e * unit))"

lemma holder_in_row:
  assumes "instance_lock_live i d" "find_instance d i = Some r"
  shows "holder_in u i d =
    (case inst_locked_by r of None \<Rightarrow> None
     | Some w \<Rightarrow> if w = '''' then None else Some (w, the (inst_lock_expires r) * u))"
  using assms find_instance_id [OF assms(2)]
  by (auto simp: instance_lock_live_def locks_ok_def holder_in_def instance_holder_def split: option.splits)

lemma live_row:
  assumes "instance_lock_live i d"
  obtains r where "find_instance d i = Some r" "faults d = []"
    "inst_locked_by r \<noteq> None \<longrightarrow> inst_lock_expires r \<noteq> None"
proof -
  obtain r where r: "find_instance d i = Some r" using assms by (auto simp: instance_lock_live_def)
  with assms find_instance_id [OF r] that [OF r] show thesis
    by (simp add: instance_lock_live_def locks_ok_def)
qed

lemma live_update:
  assumes "instance_lock_live i d" "\<And>r. inst_id (f r) = inst_id r"
    and "\<And>r. (inst_locked_by r \<noteq> None \<longrightarrow> inst_lock_expires r \<noteq> None) \<Longrightarrow>
           inst_locked_by (f r) \<noteq> None \<longrightarrow> inst_lock_expires (f r) \<noteq> None"
  shows "instance_lock_live i (update_instances (\<lambda>r. inst_id r = i \<and> p r) f d)"
  using assms locks_ok_update [OF _ assms(2,3), of d]
  by (auto simp: instance_lock_live_def find_instance_update [OF assms(2)])

lemma release_holder:
  assumes "instance_lock_live i d"
  shows "holder_in u i (update_instances (\<lambda>r. inst_id r = i \<and> inst_locked_by r = Some w)
      (\<lambda>r. r\<lparr>inst_locked_by := None, inst_locked_at := None, inst_lock_expires := None, inst_updated := n\<rparr>) d) =
    (case holder_in u i d of None \<Rightarrow> None | Some (v, e) \<Rightarrow> if v = w then None else Some (v, e))"
proof -
  obtain r where "find_instance d i = Some r" using assms by (rule live_row)
  then show ?thesis
    by (auto simp: holder_in_def instance_holder_def find_instance_update split: option.splits)
qed

lemma take_holder:
  assumes "instance_lock_live i d"
  shows "holder_in u i (update_instances (\<lambda>r. inst_id r = i)
      (\<lambda>r. r\<lparr>inst_locked_by := Some w, inst_locked_at := a, inst_lock_expires := Some e, inst_updated := n\<rparr>) d) =
    (if w = '''' then None else Some (w, e * u))"
proof -
  obtain r where "find_instance d i = Some r" using assms by (rule live_row)
  then show ?thesis
    using find_instance_update [of _ i "\<lambda>_. True" d]
    by (simp add: holder_in_def instance_holder_def)
qed

lemma pg_try_acquire_run:
  assumes "faults d = []" "find_instance d i = Some r"
  shows "pg_try_acquire_lock (\<lambda>_. False) i w t d =
    (if pg_can_acquire (clock d) w r then (Inr True, snd (pg_take_lock i w (clock d) t d)) else (Inr False, d))"
  using assms by (simp add: pg_try_acquire_lock_def pg_lock_row_def pg_take_lock_def)

lemma my_try_acquire_run:
  assumes "faults d = []" "find_instance d i = Some r"
  shows "my_try_acquire_lock (\<lambda>_. False) i w t d =
    (if my_can_acquire (clock d) w r then (Inr True, snd (my_take_lock i w (clock d) t d)) else (Inr False, d))"
  using assms by (simp add: my_try_acquire_lock_def my_lock_row_def my_take_lock_def)

text \<open>Both servers' tests are the same up to the unit.\<close>

lemma can_acquire_holder:
  assumes "instance_lock_live i d" "find_instance d i = Some r"
  shows "pg_can_acquire n w r =
      (case holder_in 1000 i d of None \<Rightarrow> True | Some (v, e) \<Rightarrow> v = w \<or> e < n)"
    and "my_can_acquire n w r =
      (case holder_in 1000000000 i d of None \<Rightarrow> True | Some (v, e) \<Rightarrow> v = w \<or> e < n)"
  using assms find_instance_id [OF assms(2)]
  by (auto simp: holder_in_row pg_can_acquire_def my_can_acquire_def instance_lock_live_def locks_ok_def
      split: option.splits)

definition pg_lease :: "db \<Rightarrow> int \<Rightarrow> int" where
  "pg_lease d t = usecs (clock d + t * 1000000000) * 1000"

definition my_lease :: "db \<Rightarrow> int \<Rightarrow> int" where
  "my_lease d t = my_stamp (clock d + t * 1000000000) * 1000000000"

interpretation pg_instance_lock: lease_lock "instance_lock_live i" clock "holder_in 1000 i"
  "pg_try_acquire_lock (\<lambda>_. False) i" "pg_release_lock i" tick_db pg_lease "\<lambda>w. w \<noteq> ''''" for i
proof (unfold_locales, goal_cases)
  case (1 d v e w t)
  obtain r where r: "find_instance d i = Some r" "faults d = []" using 1(1) by (rule live_row)
  from 1 r show ?case by (simp add: pg_try_acquire_run can_acquire_holder)
next
  case (2 d w t)
  obtain r where r: "find_instance d i = Some r" "faults d = []" using 2(1) by (rule live_row)
  from 2(1) have "instance_lock_live i (snd (pg_take_lock i w (clock d) t d))"
    using live_update [OF 2(1), of _ "\<lambda>_. True"] r(2) by (simp add: pg_take_lock_def)
  moreover have "holder_in 1000 i (snd (pg_take_lock i w (clock d) t d)) = (if w = '''' then None else Some (w, pg_lease d t))"
    using r(2) take_holder [OF 2(1)] by (simp add: pg_take_lock_def pg_lease_def)
  moreover have "clock (snd (pg_take_lock i w (clock d) t d)) = clock d" using r(2) by (simp add: pg_take_lock_def)
  ultimately show ?case using 2 r by (simp add: pg_try_acquire_run can_acquire_holder)
next
  case (3 d w)
  obtain r where r: "find_instance d i = Some r" "faults d = []" using 3 by (rule live_row)
  with 3 show ?case by (simp add: pg_release_lock_def release_holder live_update)
next
  case (4 d n)
  then show ?case by (simp add: holder_in_def instance_holder_def find_instance_def)
next
  case (5 d n)
  then show ?case by simp
next
  case (6 d n)
  then show ?case by (rule instance_lock.tick_inv)
qed

interpretation my_instance_lock: lease_lock "instance_lock_live i" clock "holder_in 1000000000 i"
  "my_try_acquire_lock (\<lambda>_. False) i" "my_release_lock i" tick_db my_lease "\<lambda>w. w \<noteq> ''''" for i
proof (unfold_locales, goal_cases)
  case (1 d v e w t)
  obtain r where r: "find_instance d i = Some r" "faults d = []" using 1(1) by (rule live_row)
  from 1 r show ?case by (simp add: my_try_acquire_run can_acquire_holder)
next
  case (2 d w t)
  obtain r where r: "find_instance d i = Some r" "faults d = []" using 2(1) by (rule live_row)
  from 2(1) have "instance_lock_live i (snd (my_take_lock i w (clock d) t d))"
    using live_update [OF 2(1), of _ "\<lambda>_. True"] r(2) by (simp add: my_take_lock_def)
  moreover have "holder_in 1000000000 i (snd (my_take_lock i w (clock d) t d)) =
      (if w = '''' then None else Some (w, my_lease d t))"
    using r(2) take_holder [OF 2(1)] by (simp add: my_take_lock_def my_lease_def)
  moreover have "clock (snd (my_take_lock i w (clock d) t d)) = clock d" using r(2) by (simp add: my_take_lock_def)
  ultimately show ?case using 2 r by (simp add: my_try_acquire_run can_acquire_holder)
next
  case (3 d w)
  obtain r where r: "find_instance d i = Some r" "faults d = []" using 3 by (rule live_row)
  with 3 show ?case by (simp add: my_release_lock_def release_holder live_update)
next
  case (4 d n)
  then show ?case by (simp add: holder_in_def instance_holder_def find_instance_def)
next
  case (5 d n)
  then show ?case by simp
next
  case (6 d n)
  then show ?case by (rule instance_lock.tick_inv)
qed

section \<open>The system locks\<close>

text \<open>
  PostgreSQL's single conditional upsert and MySQL's upsert followed by a SELECT come to the
  same function of the table, \<open>lock_upsert\<close>.
\<close>

definition lock_upsert :: "int \<Rightarrow> int \<Rightarrow> int \<Rightarrow> string \<Rightarrow> string \<Rightarrow> db \<Rightarrow> bool \<times> db" where
  "lock_upsert now at expires name worker d =
     (case find_system_lock d name of
        None \<Rightarrow> (True, d\<lparr>sys_locks := sys_locks d @
             [\<lparr>sl_name = name, sl_by = worker, sl_at = at, sl_expires = expires\<rparr>]\<rparr>)
      | Some l \<Rightarrow>
          if sl_expires l < now \<or> sl_by l = worker
          then (True, d\<lparr>sys_locks := update_where (\<lambda>l. sl_name l = name)
                 (\<lambda>l. l\<lparr>sl_by := worker, sl_at := at, sl_expires := expires\<rparr>) (sys_locks d)\<rparr>)
          else (False, d))"

lemma find_lock_update:
  "(\<And>l. sl_name (f l) = sl_name l) \<Longrightarrow>
   find (\<lambda>l. sl_name l = name) (update_where (\<lambda>l. sl_name l = name) f ls) =
   map_option f (find (\<lambda>l. sl_name l = name) ls)"
  using find_update_where_same [of sl_name f name "\<lambda>_. True"] by simp

lemma lock_upsert_held:
  "system_holder name d = Some (v, e) \<Longrightarrow> v \<noteq> w \<Longrightarrow> now \<le> e \<Longrightarrow> lock_upsert now at expires name w d = (False, d)"
  by (auto simp: lock_upsert_def system_holder_def)

lemma lock_upsert_free:
  assumes "system_lock_live d" "case system_holder name d of None \<Rightarrow> True | Some (v, e) \<Rightarrow> v = w \<or> e < now"
  shows "\<exists>d'. lock_upsert now at expires name w d = (True, d') \<and> system_holder name d' = Some (w, expires)
    \<and> clock d' = clock d \<and> system_lock_live d'"
proof (cases "find_system_lock d name")
  case None
  then have "find (\<lambda>l. sl_name l = name) (sys_locks d) = None" "name \<notin> sl_name ` set (sys_locks d)"
    by (auto simp: find_system_lock_def find_None_iff)
  with None assms(1) show ?thesis
    by (simp add: lock_upsert_def system_lock_live_def system_holder_def system_locks_ok_def find_append)
next
  case (Some l)
  then have "find (\<lambda>l. sl_name l = name) (sys_locks d) = Some l" by (simp add: find_system_lock_def)
  with Some assms show ?thesis
    by (auto simp: lock_upsert_def system_lock_live_def system_holder_def system_locks_ok_def
        map_update_where_key find_lock_update)
qed

lemma pg_system_lock_run:
  "faults d = [] \<Longrightarrow> pg_try_acquire_system_lock name w t d =
     (case lock_upsert (pg_now d) (usecs (clock d)) (usecs (clock d + t * 1000000000)) name w d of
        (granted, d') \<Rightarrow> (Inr granted, d'))"
  by (simp add: pg_try_acquire_system_lock_def lock_upsert_def Let_def split: option.split prod.split)

lemma my_takeover:
  "my_lock_takeover now w at expires l =
     (if sl_expires l < now \<or> sl_by l = w then l\<lparr>sl_by := w, sl_at := at, sl_expires := expires\<rparr> else l)"
  by (simp add: my_lock_takeover_def Let_def)

lemma takeover_none:
  assumes "system_locks_ok d" "find_system_lock d name = Some l" "\<not> sl_expires l < now" "sl_by l \<noteq> w"
  shows "update_where (\<lambda>l. sl_name l = name) (my_lock_takeover now w at expires) (sys_locks d) = sys_locks d"
proof -
  have l: "l \<in> set (sys_locks d)" "sl_name l = name"
    using assms(2) by (auto simp: find_system_lock_def find_Some_iff)
  have "k = l" if "k \<in> set (sys_locks d)" "sl_name k = name" for k
    using assms(1) l that by (auto simp: system_locks_ok_def distinct_map inj_on_def)
  then show ?thesis using assms(3,4) by (auto simp: update_where_def my_takeover intro!: map_idI)
qed

lemma takeover_all:
  assumes "system_locks_ok d" "find_system_lock d name = Some l" "sl_expires l < now \<or> sl_by l = w"
  shows "update_where (\<lambda>l. sl_name l = name) (my_lock_takeover now w at expires) (sys_locks d) =
    update_where (\<lambda>l. sl_name l = name) (\<lambda>l. l\<lparr>sl_by := w, sl_at := at, sl_expires := expires\<rparr>) (sys_locks d)"
proof -
  have l: "l \<in> set (sys_locks d)" "sl_name l = name"
    using assms(2) by (auto simp: find_system_lock_def find_Some_iff)
  have "k = l" if "k \<in> set (sys_locks d)" "sl_name k = name" for k
    using assms(1) l that by (auto simp: system_locks_ok_def distinct_map inj_on_def)
  then show ?thesis using assms(3) by (auto simp: update_where_def my_takeover)
qed

lemma my_system_lock_run:
  assumes "system_lock_live d"
  shows "my_try_acquire_system_lock name w t d =
     (case lock_upsert (my_now d) (my_stamp (clock d)) (my_stamp (clock d + t * 1000000000)) name w d of
        (granted, d') \<Rightarrow> (Inr granted, d'))"
proof (cases "find_system_lock d name")
  case None
  then have "find (\<lambda>l. sl_name l = name) (sys_locks d) = None" by (simp add: find_system_lock_def)
  with None assms show ?thesis
    by (simp add: my_try_acquire_system_lock_def lock_upsert_def Let_def system_lock_live_def find_append)
next
  case (Some l)
  then have f: "find (\<lambda>l. sl_name l = name) (sys_locks d) = Some l" by (simp add: find_system_lock_def)
  from assms have ok: "system_locks_ok d" "faults d = []" by (simp_all add: system_lock_live_def)
  show ?thesis
  proof (cases "sl_expires l < my_now d \<or> sl_by l = w")
    case True
    with Some f ok show ?thesis
      by (auto simp: my_try_acquire_system_lock_def lock_upsert_def Let_def takeover_all [OF ok(1) Some True]
          find_lock_update)
  next
    case False
    with Some f ok show ?thesis
      by (simp add: my_try_acquire_system_lock_def lock_upsert_def Let_def takeover_none [OF ok(1) Some])
  qed
qed

interpretation pg_system_lock: lease_lock system_lock_live pg_now "system_holder name"
  "pg_try_acquire_system_lock name" "pg_release_system_lock name" tick_db
  "\<lambda>d t. usecs (clock d + t * 1000000000)" "\<lambda>_. True" for name
proof (unfold_locales, goal_cases)
  case (1 d v e w t)
  then show ?case by (simp add: pg_system_lock_run system_lock_live_def lock_upsert_held)
next
  case (2 d w t)
  from 2(1) have f: "faults d = []" by (simp add: system_lock_live_def)
  from lock_upsert_free [OF 2, of "usecs (clock d)" "usecs (clock d + t * 1000000000)"] show ?case
    by (auto simp: pg_system_lock_run [OF f] pg_now_def)
next
  case (3 d w)
  then show ?case
    using system_lock.release_effect [OF 3, of name w]
    by (simp add: pg_release_system_lock_def release_system_lock_def system_lock_live_def pg_now_def)
next
  case (4 d n)
  then show ?case by (rule system_lock.tick_holder)
next
  case (5 d n)
  then show ?case by (simp add: pg_now_def usecs_def zdiv_mono1)
next
  case (6 d n)
  then show ?case by (rule system_lock.tick_inv)
qed

interpretation my_system_lock: lease_lock system_lock_live my_now "system_holder name"
  "my_try_acquire_system_lock name" "my_release_system_lock name" tick_db
  "\<lambda>d t. my_stamp (clock d + t * 1000000000)" "\<lambda>_. True" for name
proof (unfold_locales, goal_cases)
  case (1 d v e w t)
  then show ?case by (simp add: my_system_lock_run lock_upsert_held)
next
  case (2 d w t)
  from lock_upsert_free [OF 2, of "my_stamp (clock d)" "my_stamp (clock d + t * 1000000000)"] show ?case
    by (auto simp: my_system_lock_run [OF 2(1)] my_now_def)
next
  case (3 d w)
  then show ?case
    using system_lock.release_effect [OF 3, of name w]
    by (simp add: my_release_system_lock_def release_system_lock_def system_lock_live_def my_now_def)
next
  case (4 d n)
  then show ?case by (rule system_lock.tick_holder)
next
  case (5 d n)
  then show ?case by (simp add: my_now_def secs_mono)
next
  case (6 d n)
  then show ?case by (rule system_lock.tick_inv)
qed


end
