(* ===== verification/Server_Lock_Race.thy ===== *)
theory Server_Lock_Race
  imports Server_Locks Engine_Outcomes
begin

text \<open>
  The instance lock of the server databases with the statements of several workers
  interleaved. TryAcquireLock on PostgreSQL and MySQL reads the row (SELECT ... FOR UPDATE
  SKIP LOCKED) and then writes it without a condition; outside a transaction the row lock of
  the SELECT ends with the statement.
\<close>

text \<open>
  A worker is asking, has read the row at some time and may take the lock (or not), or has
  its answer.
\<close>

datatype lock_pc = Asking | Allowed time | Refused | Answered bool

type_synonym lock_state = "db \<times> (string \<Rightarrow> lock_pc)"

inductive lock_step ::
    "(string \<Rightarrow> workflow_instance option dbm) \<Rightarrow> (time \<Rightarrow> string \<Rightarrow> workflow_instance \<Rightarrow> bool) \<Rightarrow>
     (string \<Rightarrow> string \<Rightarrow> time \<Rightarrow> int \<Rightarrow> unit dbm) \<Rightarrow> string \<Rightarrow> int \<Rightarrow> lock_state \<Rightarrow> lock_state \<Rightarrow> bool"
  for sel can take_it i t where
  select: "pc w = Asking \<Longrightarrow> sel i d = (Inr row, d') \<Longrightarrow>
    lock_step sel can take_it i t (d, pc)
      (d', pc(w := if \<exists>r. row = Some r \<and> can (clock d) w r then Allowed (clock d) else Refused))"
| update: "pc w = Allowed now \<Longrightarrow> take_it i w now t d = (Inr (), d') \<Longrightarrow>
    lock_step sel can take_it i t (d, pc) (d', pc(w := Answered True))"
| refuse: "pc w = Refused \<Longrightarrow> lock_step sel can take_it i t (d, pc) (d, pc(w := Answered False))"
| tick: "lock_step sel can take_it i t (d, pc) (tick_db n d, pc)"

inductive_cases lock_stepE: "lock_step sel can take_it i t s s'"

abbreviation pg_step :: "string \<Rightarrow> int \<Rightarrow> lock_state \<Rightarrow> lock_state \<Rightarrow> bool" where
  "pg_step \<equiv> lock_step (pg_lock_row (\<lambda>_. False)) pg_can_acquire pg_take_lock"

abbreviation my_step :: "string \<Rightarrow> int \<Rightarrow> lock_state \<Rightarrow> lock_state \<Rightarrow> bool" where
  "my_step \<equiv> lock_step (my_lock_row (\<lambda>_. False)) my_can_acquire my_take_lock"

text \<open>The two statements of one worker, with nothing between them, are the method.\<close>

lemma two_statements:
  assumes "pc w = Asking" "sel i d = (Inr (Some r), d)" "can (clock d) w r"
    and "take_it i w (clock d) t d = (Inr (), d')"
  shows "(lock_step sel can take_it i t)\<^sup>*\<^sup>* (d, pc) (d', pc(w := Answered True))"
proof -
  have "lock_step sel can take_it i t (d, pc) (d, pc(w := Allowed (clock d)))"
    using select [of pc w sel i d "Some r" d can take_it t] assms(1-3) by simp
  moreover have "lock_step sel can take_it i t (d, pc(w := Allowed (clock d))) (d', pc(w := Answered True))"
    using update [of "pc(w := Allowed (clock d))" w "clock d" take_it i t d d' sel can] assms(4) by simp
  ultimately show ?thesis by (meson converse_rtranclp_into_rtranclp r_into_rtranclp)
qed

lemma interleaved:
  assumes "pc a = Asking" "pc b = Asking" "a \<noteq> b"
    and "sel i d = (Inr (Some r), d)" "can (clock d) a r" "can (clock d) b r"
    and "take_it i a (clock d) t d = (Inr (), d1)" "take_it i b (clock d) t d1 = (Inr (), d2)"
  shows "(lock_step sel can take_it i t)\<^sup>*\<^sup>* (d, pc) (d2, pc(a := Answered True, b := Answered True))"
proof -
  let ?R = "lock_step sel can take_it i t" and ?n = "clock d"
  have "?R (d, pc) (d, pc(a := Allowed ?n))"
    using select [of pc a sel i d "Some r" d can take_it t] assms(1,4,5) by simp
  moreover have "?R (d, pc(a := Allowed ?n)) (d, pc(a := Allowed ?n, b := Allowed ?n))"
    using select [of "pc(a := Allowed ?n)" b sel i d "Some r" d can take_it t] assms(2-4,6) by simp
  moreover have "?R (d, pc(a := Allowed ?n, b := Allowed ?n)) (d1, pc(a := Answered True, b := Allowed ?n))"
    using update [of "pc(a := Allowed ?n, b := Allowed ?n)" a ?n take_it i t d d1 sel can] assms(3,7)
    by (simp add: fun_upd_twist)
  moreover have "?R (d1, pc(a := Answered True, b := Allowed ?n)) (d2, pc(a := Answered True, b := Answered True))"
    using update [of "pc(a := Answered True, b := Allowed ?n)" b ?n take_it i t d1 d2 sel can] assms(8) by simp
  ultimately show ?thesis
    by (meson converse_rtranclp_into_rtranclp r_into_rtranclp)
qed

lemma lock_row_found:
  assumes "instance_lock_live i d" "find_instance d i = Some r"
  shows "pg_lock_row (\<lambda>_. False) i d = (Inr (Some r), d)" "my_lock_row (\<lambda>_. False) i d = (Inr (Some r), d)"
  using assms by (simp_all add: pg_lock_row_def my_lock_row_def instance_lock_live_def)

text \<open>
  C37: two workers can get the same lock. On PostgreSQL and on MySQL, when the lock of an
  instance is free and two workers ask for it at the same time, there is an interleaving of
  their statements in which both are told that they have acquired it, with no time passing;
  the row then names the second one as the holder for the whole lease.
\<close>

theorem server_lock_race:
  assumes "instance_lock_live i d" "find_instance d i = Some r" "inst_locked_by r = None"
    and "pc a = Asking" "pc b = Asking" "a \<noteq> b" "b \<noteq> ''''"
  shows "(\<exists>d'. (pg_step i t)\<^sup>*\<^sup>* (d, pc) (d', pc(a := Answered True, b := Answered True))
       \<and> clock d' = clock d \<and> holder_in 1000 i d' = Some (b, pg_lease d t))
    \<and> (\<exists>d'. (my_step i t)\<^sup>*\<^sup>* (d, pc) (d', pc(a := Answered True, b := Answered True))
       \<and> clock d' = clock d \<and> holder_in 1000000000 i d' = Some (b, my_lease d t))"
proof -
  have f: "faults d = []" using assms(1) by (simp add: instance_lock_live_def)
  have can: "pg_can_acquire n w r" "my_can_acquire n w r" for n w
    using assms(3) by (simp_all add: pg_can_acquire_def my_can_acquire_def)
  let ?p = "snd (pg_take_lock i a (clock d) t d)" and ?m = "snd (my_take_lock i a (clock d) t d)"
  have live: "instance_lock_live i ?p" "instance_lock_live i ?m" "clock ?p = clock d" "clock ?m = clock d"
      "faults ?p = []" "faults ?m = []"
    using live_update [OF assms(1), of _ "\<lambda>_. True"] f by (simp_all add: pg_take_lock_def my_take_lock_def)
  have take1: "pg_take_lock i a (clock d) t d = (Inr (), ?p)" "my_take_lock i a (clock d) t d = (Inr (), ?m)"
    "pg_take_lock i b (clock d) t ?p = (Inr (), snd (pg_take_lock i b (clock d) t ?p))"
    "my_take_lock i b (clock d) t ?m = (Inr (), snd (my_take_lock i b (clock d) t ?m))"
    using f live(5,6) by (simp_all add: pg_take_lock_def my_take_lock_def)
  have "(pg_step i t)\<^sup>*\<^sup>* (d, pc) (snd (pg_take_lock i b (clock d) t ?p), pc(a := Answered True, b := Answered True))"
    using interleaved [where sel = "pg_lock_row (\<lambda>_. False)" and can = pg_can_acquire and take_it = pg_take_lock, OF assms(4-6)
        lock_row_found(1) [OF assms(1,2)] _ _ take1(1,3)] can(1) by blast
  moreover have "(my_step i t)\<^sup>*\<^sup>* (d, pc) (snd (my_take_lock i b (clock d) t ?m), pc(a := Answered True, b := Answered True))"
    using interleaved [where sel = "my_lock_row (\<lambda>_. False)" and can = my_can_acquire and take_it = my_take_lock, OF assms(4-6)
        lock_row_found(2) [OF assms(1,2)] _ _ take1(2,4)] can(2) by blast
  moreover have "holder_in 1000 i (snd (pg_take_lock i b (clock d) t ?p)) = Some (b, pg_lease d t)"
      "clock (snd (pg_take_lock i b (clock d) t ?p)) = clock d"
    using take_holder [OF live(1), where u = 1000 and w = b] live(3,5) assms(7) by (simp_all add: pg_take_lock_def [of _ b] pg_lease_def)
  moreover have "holder_in 1000000000 i (snd (my_take_lock i b (clock d) t ?m)) = Some (b, my_lease d t)"
      "clock (snd (my_take_lock i b (clock d) t ?m)) = clock d"
    using take_holder [OF live(2), where u = 1000000000 and w = b] live(4,6) assms(7) by (simp_all add: my_take_lock_def [of _ b] my_lease_def)
  ultimately show ?thesis by blast
qed

theorem server_lock_race_witness:
  "\<exists>d'. (pg_step ''i'' 300)\<^sup>*\<^sup>* (w_db (one_world demo_instance), \<lambda>_. Asking)
      (d', (\<lambda>_. Asking)(''w1'' := Answered True, ''w2'' := Answered True))
    \<and> holder_in 1000 ''i'' d' = Some (''w2'', 300000000000)"
proof -
  have "find_instance (w_db (one_world demo_instance)) ''i'' = Some demo_instance"
    by (simp add: find_instance_def one_world_live demo_instance_def)
  from server_lock_race [OF demo_lock(1) this, of "\<lambda>_. Asking" "''w1''" "''w2''" 300]
  show ?thesis
    by (auto simp: demo_instance_def pg_lease_def usecs_def one_world_live)
qed

text \<open>
  C36: without such an interleaving the lock of the server databases excludes the other
  workers for its lease, as SQLite's does. Once a worker with a name has got the lock, no
  sequence of attempts and releases of other workers with names, with any time passing
  between them, takes it away or grants it to another before the lease has run out.
\<close>

theorem server_lease_exclusive:
  assumes "instance_lock_live i d" "w \<noteq> ''''" "list_all (\<lambda>p. op_worker p \<noteq> Some w) ops"
  shows "(pg_try_acquire_lock (\<lambda>_. False) i w t d = (Inr True, d1) \<and>
      run_lock_ops (pg_try_acquire_lock (\<lambda>_. False) i) (pg_release_lock i) tick_db ops d1 = (answers, d2) \<and>
      clock d2 \<le> pg_lease d t \<longrightarrow>
        list_all (\<lambda>r. r = Inr False) answers \<and> holder_in 1000 i d2 = Some (w, pg_lease d t))
    \<and> (my_try_acquire_lock (\<lambda>_. False) i w t d = (Inr True, d1) \<and>
      run_lock_ops (my_try_acquire_lock (\<lambda>_. False) i) (my_release_lock i) tick_db ops d1 = (answers, d2) \<and>
      clock d2 \<le> my_lease d t \<longrightarrow>
        list_all (\<lambda>r. r = Inr False) answers \<and> holder_in 1000000000 i d2 = Some (w, my_lease d t))"
  using pg_instance_lock.acquire_excludes [OF assms(1) _ assms(2,3), of t d1 answers d2]
    my_instance_lock.acquire_excludes [OF assms(1) _ assms(2,3), of t d1 answers d2]
  by blast

theorem server_lease_exclusive_witness:
  "\<exists>d1 d2. pg_try_acquire_lock (\<lambda>_. False) ''i'' ''w1'' 300 (w_db (one_world demo_instance)) = (Inr True, d1)
     \<and> run_lock_ops (pg_try_acquire_lock (\<lambda>_. False) ''i'') (pg_release_lock ''i'') tick_db
         [TickOp 5, AcquireOp ''w2'' 300] d1 = ([Inr False], d2)
     \<and> holder_in 1000 ''i'' d2 = Some (''w1'', 300000000000)"
proof -
  let ?d = "w_db (one_world demo_instance)" and ?acq = "pg_try_acquire_lock (\<lambda>_. False) ''i''"
  let ?ops = "[TickOp 5, AcquireOp ''w2'' 300]"
  have "holder_in 1000 ''i'' ?d = None"
    by (simp add: holder_in_def instance_holder_def find_instance_def one_world_live demo_instance_def)
  then obtain d1 where d1: "?acq ''w1'' 300 ?d = (Inr True, d1)"
      "holder_in 1000 ''i'' d1 = Some (''w1'', pg_lease ?d 300)" "clock d1 = 0" "instance_lock_live ''i'' d1"
    using pg_instance_lock.acquire_granted [OF demo_lock(1), of "''w1''" 300] by (auto simp: one_world_live)
  have lease: "pg_lease ?d 300 = 300000000000" by (simp add: pg_lease_def usecs_def one_world_live)
  let ?d2 = "tick_db 5 d1"
  have "holder_in 1000 ''i'' ?d2 = Some (''w1'', 300000000000)"
    using pg_instance_lock.tick_holder [OF d1(4)] d1(2) lease by simp
  with pg_instance_lock.acquire_refused [OF pg_instance_lock.tick_inv [OF d1(4)] this, of "''w2''" 300] d1(3)
  have run: "run_lock_ops ?acq (pg_release_lock ''i'') tick_db ?ops d1 = ([Inr False], ?d2)" by simp
  from server_lease_exclusive [OF demo_lock(1), of "''w1''" ?ops 300 d1 "[Inr False]" ?d2] d1(1,3) run lease
  show ?thesis by simp
qed


end
