(* ===== verification/App_Notify.thy ===== *)
theory App_Notify
  imports App_Tasks Storage_Postgres
begin

text \<open>
  How the application (app.go) uses the server databases: which storage a database URL
  selects, whether notifications are enabled, and what the handlers of the four
  notification channels do. A handler is a value of \<open>notify_handler\<close>; \<open>run_handler\<close> is its
  body. The signals that reset the backoff of a polling loop are not modelled.
\<close>

section \<open>The storage\<close>

datatype backend = PostgresBackend | MySQLBackend | SQLiteBackend

definition select_backend :: "string \<Rightarrow> backend" where
  "select_backend configured =
     (let url = (if configured = '''' then ''romancy.db'' else configured)
      in if take 8 url = ''postgres'' then PostgresBackend
         else if take 5 url = ''mysql'' then MySQLBackend
         else SQLiteBackend)"

definition should_enable_listen_notify :: "bool option \<Rightarrow> bool \<Rightarrow> bool" where
  "should_enable_listen_notify use_listen_notify is_postgres =
     (case use_listen_notify of Some b \<Rightarrow> b | None \<Rightarrow> is_postgres)"

section \<open>Notification handlers\<close>

datatype notify_handler = ResumableHandler | TimerHandler | ChannelHandler | OutboxHandler

definition init_notify_listener :: "time \<Rightarrow> notify_handler listener" where
  "init_notify_listener reconnect_delay =
     on_notification ChannelOutboxPending OutboxHandler
       (on_notification ChannelChannelMessage ChannelHandler
         (on_notification ChannelTimerExpired TimerHandler
           (on_notification ChannelWorkflowResumable ResumableHandler
             (new_listener (Some reconnect_delay)))))"

definition handle_workflow_resumable_notify :: "'x app \<Rightarrow> json \<Rightarrow> ('x, unit) wm" where
  "handle_workflow_resumable_notify ap payload =
     (case parse_workflow_notification payload of
        Inl e \<Rightarrow> ret ()
      | Inr n \<Rightarrow> ignore_err (resume_workflow ap (wn_instance n)))"

definition handle_timer_expired_notify :: "json \<Rightarrow> ('x, unit) wm" where
  "handle_timer_expired_notify payload = ret ()"

definition handle_channel_message_notify :: "'x app \<Rightarrow> json \<Rightarrow> ('x, unit) wm" where
  "handle_channel_message_notify ap payload =
     (case parse_channel_message_notification payload of
        Inl e \<Rightarrow> ret ()
      | Inr n \<Rightarrow> wake_for_notify ap (cn_channel n) (cn_target n))"

definition handle_outbox_pending_notify :: "json \<Rightarrow> ('x, unit) wm" where
  "handle_outbox_pending_notify payload = ret ()"

definition run_handler :: "'x app \<Rightarrow> notify_handler \<Rightarrow> json \<Rightarrow> ('x, unit) wm" where
  "run_handler ap h payload =
     (case h of
        ResumableHandler \<Rightarrow> handle_workflow_resumable_notify ap payload
      | TimerHandler \<Rightarrow> handle_timer_expired_notify payload
      | ChannelHandler \<Rightarrow> handle_channel_message_notify ap payload
      | OutboxHandler \<Rightarrow> handle_outbox_pending_notify payload)"

end
