(* ===== verification/Server_Gaps.thy ===== *)
theory Server_Gaps
  imports Server_Lock_Race App_Notify Channel_Delivery
begin

text \<open>
  Where the three storages differ on the same call, and what becomes of PostgreSQL's
  notifications: properties that each show a divergence of the code from what its comments
  or its callers take for granted.
\<close>

section \<open>Claims\<close>

text \<open>
  Competing mode works on none of the databases alike. ClaimChannelMessage is called with
  the row id of a message, the claim table's key is a message's text id: where the row id is
  no text id, SQLite grants the claim (without taking the message from the list of pending
  ones), PostgreSQL returns an error because the foreign key is violated (or because the
  driver does not encode the argument), and MySQL drops the row and answers that the message
  has been claimed already; the server databases record no claim.
\<close>

theorem claims_on_three_databases:
  assumes "faults d = []" "\<forall>m \<in> set (messages d). \<forall>n. cm_message_id m \<noteq> show_int n"
    and "\<forall>c \<in> set (claims d). \<exists>m \<in> set (messages d). cm_message_id m = cl_message c"
    and "\<forall>key. encode n = Inr key \<longrightarrow> key = show_int n"
  shows "(\<exists>d'. claim_channel_message n i d = (Inr True, d')
       \<and> get_pending_for_instance j channel d' = (fst (get_pending_for_instance j channel d), d'))
    \<and> (\<exists>e. pg_claim_channel_message encode n i d = (Inl e, d))
    \<and> my_claim_channel_message n i d = (Inr False, d)"
proof (intro conjI)
  have new: "show_int n \<notin> cl_message ` set (claims d)"
    using assms(2,3) by (metis imageE)
  have no_id: "show_int n \<notin> cm_message_id ` set (messages d)"
    using assms(2) by (metis imageE)
  let ?d = "d\<lparr>claims := claims d @ [\<lparr>cl_message = show_int n, cl_instance = i\<rparr>]\<rparr>"
  have "claim_channel_message n i d = (Inr True, ?d)"
    using new assms(1) by (simp add: claim_channel_message_def)
  moreover have "is_claimed ?d m = is_claimed d m" if "m \<in> set (messages d)" for m
    using assms(2) that by (auto simp: is_claimed_def)
  then have "filter (\<lambda>m. cm_channel m = channel \<and> \<not> is_claimed ?d m) (messages d) =
      filter (\<lambda>m. cm_channel m = channel \<and> \<not> is_claimed d m) (messages d)"
    by (intro filter_cong) simp_all
  then have "get_pending_for_instance j channel ?d = (fst (get_pending_for_instance j channel d), ?d)"
    using assms(1)
    by (simp add: get_pending_for_instance_def try_go_def find_sub_def find_cursor_def split: option.split)
  ultimately show "\<exists>d'. claim_channel_message n i d = (Inr True, d')
       \<and> get_pending_for_instance j channel d' = (fst (get_pending_for_instance j channel d), d')"
    by blast
  show "\<exists>e. pg_claim_channel_message encode n i d = (Inl e, d)"
  proof (cases "encode n")
    case (Inl e)
    then show ?thesis by (simp add: pg_claim_channel_message_def)
  next
    case (Inr key)
    with new no_id assms(1,4) show ?thesis by (simp add: pg_claim_channel_message_def)
  qed
  show "my_claim_channel_message n i d = (Inr False, d)"
    using new no_id assms(1) by (simp add: my_claim_channel_message_def)
qed

section \<open>Foreign keys\<close>

text \<open>
  An event for an instance that does not exist. AppendHistory and
  RegisterTimerSubscription for an instance without a row store their row on SQLite, return
  an error on PostgreSQL, and on MySQL return without an error and store nothing.
\<close>

theorem unknown_instance_on_three_databases:
  assumes "faults d = []" "find_instance d i = None" "\<not> has_history i act d"
    and "\<forall>t \<in> set (timers d). ts_instance t \<noteq> i"
  shows "append_history i act ty data dt d = (Inr (), insert_history i act ty data dt d)
    \<and> (\<exists>e. pg_append_history i act ty data dt d = (Inl e, d))
    \<and> my_append_history i act ty data dt d = (Inr (), d)
    \<and> register_timer_subscription i timer expires act d = (Inr (), insert_timer i timer expires act d)
    \<and> length (timers (insert_timer i timer expires act d)) = Suc (length (timers d))
    \<and> (\<exists>e. pg_register_timer_subscription i timer expires act (\<lparr>pg_db = d, pg_notify_enabled = b, pg_sent = ns\<rparr>) =
          (Inl e, \<lparr>pg_db = d, pg_notify_enabled = b, pg_sent = ns\<rparr>))
    \<and> my_register_timer_subscription i timer expires act d = (Inr (), d)"
  using assms
  by (auto simp: append_history_def pg_append_history_def my_append_history_def fk_instance_def
      register_timer_subscription_def insert_timer_def pg_register_timer_subscription_def on_db_def
      pg_insert_timer_def my_register_timer_subscription_def my_insert_timer_def try_go_def)

section \<open>Deadlines\<close>

text \<open>
  On PostgreSQL the deadline of a Receive is off by the worker's distance to UTC.
  RegisterChannelReceiveAndReleaseLock hands the deadline over in local time, of which the
  driver stores the wall clock: the expiry task finds the subscription when the clock has
  passed the deadline plus the offset, and not before. SQLite and MySQL store the deadline.
\<close>

theorem deadline_off_by_the_timezone:
  assumes "faults d = []" "find_sub d i channel = Some sub"
  shows "\<exists>d'. pg_register_receive_and_release_lock i channel wk act (Some t) d = (Inr (), d')
    \<and> (\<exists>s. find_sub d' i channel = Some s \<and> cs_timeout s = Some (usecs (t + local_offset d)))
    \<and> (\<exists>d''. register_receive_and_release_lock i channel wk act (Some t) d = (Inr (), d'')
      \<and> (\<exists>s. find_sub d'' i channel = Some s \<and> cs_timeout s = Some (secs t)))
    \<and> (\<exists>d''. my_register_receive_and_release_lock i channel wk act (Some t) d = (Inr (), d'')
      \<and> (\<exists>s. find_sub d'' i channel = Some s \<and> cs_timeout s = Some (my_stamp t)))"
proof -
  have upd: "find_sub (update_sub i channel f d) i channel = Some (f sub)"
    if "\<And>s. (cs_instance (f s), cs_channel (f s)) = (cs_instance s, cs_channel s)" for f
    using assms(2) that find_update_where_same [of "\<lambda>s. (cs_instance s, cs_channel s)" f "(i, channel)" "\<lambda>_. True" "subscriptions d"]
    by (simp add: find_sub_def update_sub_def)
  have keep: "find_sub (update_instances p g e) i channel = find_sub e i channel" for p g e
    by (simp add: find_sub_def)
  have f: "faults (update_sub i channel g d) = []" for g
    using assms(1) by (simp add: update_sub_def)
  show ?thesis
    using assms(1) f
    by (simp add: pg_register_receive_and_release_lock_def register_receive_and_release_lock_def
        my_register_receive_and_release_lock_def keep upd)
qed

section \<open>Notifications\<close>

definition last_sent :: "pg \<Rightarrow> json" where
  "last_sent s = snd (last (pg_sent s))"

lemma field_names:
  "lower ''channel'' \<noteq> lower ''channel_name''" "lower ''message_id'' \<noteq> lower ''channel_name''"
  "lower ''channel'' \<noteq> lower ''message_id''" "lower ''channel'' \<noteq> lower ''target_instance_id''"
  "lower ''message_id'' \<noteq> lower ''target_instance_id''" "lower ''instance_id'' \<noteq> lower ''timer_id''"
  "lower ''instance_id'' \<noteq> lower ''expires_at''" "lower ''timer_id'' \<noteq> lower ''expires_at''"
  "lower ''workflow_name'' \<noteq> lower ''instance_id''"
  by (simp_all add: lower_def lower_char_def Let_def)

lemma send_notify_live:
  "pg_notify_enabled s \<Longrightarrow> faults (pg_db s) = [] \<Longrightarrow>
   send_notify ch p s = (Inr (), s\<lparr>pg_sent := pg_sent s @ [(ch, p)]\<rparr>)"
  by (simp add: send_notify_def)

lemma on_db_live:
  assumes "preserves (\<lambda>d. faults d = []) m" "faults (pg_db s) = []" "on_db m s = (r, s')"
  shows "faults (pg_db s') = [] \<and> pg_notify_enabled s' = pg_notify_enabled s"
  using preservesD [OF assms(1), of "pg_db s"] assms(2,3) by (auto simp: on_db_def split: prod.splits)

lemma sent_last:
  assumes "preserves (\<lambda>d. faults d = []) m" "faults (pg_db s) = []" "pg_notify_enabled s"
    and "try_go (on_db m) (\<lambda>x. try_go (send_notify ch (doc x)) (\<lambda>_. ret x)) s = (Inr y, s')"
  shows "last_sent s' = doc y"
proof (cases "on_db m s")
  case (Pair r s1)
  note live = on_db_live [OF assms(1,2) Pair]
  show ?thesis
  proof (cases r)
    case (Inl e)
    with Pair assms(4) show ?thesis by simp
  next
    case (Inr x)
    with Pair assms(3,4) live show ?thesis
      by (auto simp: send_notify_live last_sent_def)
  qed
qed

lemma live_insert_timer: "preserves (\<lambda>d. faults d = []) (exec_try (pg_insert_timer i timer expires act))"
  by (rule live_exec_try) (auto simp: pg_insert_timer_def split: if_splits)

lemma live_outbox_row: "preserves (\<lambda>d. faults d = []) (pg_add_outbox_row ev)"
  unfolding pg_add_outbox_row_def by (rule live_exec_try) (auto split: if_splits)

lemma live_publish_row: "preserves (\<lambda>d. faults d = []) (pg_publish_row uuid channel data md)"
  unfolding pg_publish_row_def by (intro live_rules) (auto split: if_splits)

lemma live_deliver_locked: "preserves (\<lambda>d. faults d = []) (pg_deliver_locked locked i channel m wk t)"
  unfolding pg_deliver_locked_def pg_try_acquire_lock_def pg_lock_row_def pg_take_lock_def pg_release_lock_def
    pg_insert_history_strict_def pg_clear_channel_waiting_state_def Let_def
  by (intro live_rules)
    (auto simp: pg_insert_history_def pg_set_cursor_def update_sub_def split: if_splits option.splits)

lemma deliver_sends:
  assumes "pg_notify_enabled s" "faults (pg_db s) = []"
    and "preserves (\<lambda>d. faults d = []) (pg_deliver_locked locked i channel m wk t)"
    and "pg_deliver_channel_message_with_lock locked i channel m wk t s = (Inr (Some res), s')"
  shows "last_sent s' =
    JObj [(''instance_id'', JStr (cr_instance res)), (''workflow_name'', JStr (cr_workflow res))]"
proof (cases "on_db (pg_deliver_locked locked i channel m wk t) s")
  case (Pair r s1)
  note live = on_db_live [OF assms(3,2) Pair]
  show ?thesis
  proof (cases r)
    case (Inl e)
    with Pair assms(4) show ?thesis by (simp add: pg_deliver_channel_message_with_lock_def)
  next
    case (Inr x)
    with Pair assms(1,4) live show ?thesis
      by (auto simp: pg_deliver_channel_message_with_lock_def send_notify_live last_sent_def split: option.splits)
  qed
qed

text \<open>
  C38: what is sent is understood, but for one field. Of the notifications PostgresStorage
  sends, the listener's parsers read back the instance and timer of a timer, the event id of
  an outbox event, the instance and workflow of a resumable workflow, and the id of a
  published message; the channel of the published message is lost, because it is sent under
  the key \<open>channel\<close> and read under \<open>channel_name\<close>.
\<close>

theorem notifications_read_back:
  assumes "pg_notify_enabled s" "faults (pg_db s) = []"
  shows "(pg_register_timer_subscription i timer expires act s = (Inr (), s1) \<longrightarrow>
      parse_timer_notification (last_sent s1) =
        Inr \<lparr>tn_instance = i, tn_timer = timer, tn_expires = show_int (secs expires)\<rparr>)
    \<and> (pg_add_outbox_event ev s = (Inr (), s2) \<longrightarrow>
      parse_outbox_notification (last_sent s2) = Inr \<lparr>on_event = ob_id ev\<rparr>)
    \<and> (pg_deliver_channel_message_with_lock locked i channel m wk t s = (Inr (Some res), s3) \<longrightarrow>
      parse_workflow_notification (last_sent s3) =
        Inr \<lparr>wn_instance = cr_instance res, wn_workflow = cr_workflow res\<rparr>)
    \<and> (pg_publish_to_channel uuid channel data md s = (Inr n, s4) \<and> - (2 ^ 63) \<le> n \<and> n < 2 ^ 63 \<longrightarrow>
      parse_channel_message_notification (last_sent s4) =
        Inr \<lparr>cn_channel = '''', cn_message = n, cn_target = ''''\<rparr>)"
proof (intro conjI impI)
  assume "pg_register_timer_subscription i timer expires act s = (Inr (), s1)"
  then have "last_sent s1 = timer_payload i timer expires"
    using sent_last [of "exec_try (pg_insert_timer i timer expires act)" s ChannelTimerExpired
        "\<lambda>_. timer_payload i timer expires" "()" s1] assms live_insert_timer
    by (simp add: pg_register_timer_subscription_def try_go_ret)
  then show "parse_timer_notification (last_sent s1) =
      Inr \<lparr>tn_instance = i, tn_timer = timer, tn_expires = show_int (secs expires)\<rparr>"
    by (simp add: timer_payload_def parse_timer_notification_def struct_fields_def text_field_def
        time_json_def field_names field_names [symmetric])
next
  assume "pg_add_outbox_event ev s = (Inr (), s2)"
  then have "last_sent s2 = JObj [(''event_id'', JStr (ob_id ev))]"
    using sent_last [of "pg_add_outbox_row ev" s ChannelOutboxPending "\<lambda>_. JObj [(''event_id'', JStr (ob_id ev))]" "()" s2]
      assms live_outbox_row
    by (simp add: pg_add_outbox_event_def try_go_ret)
  then show "parse_outbox_notification (last_sent s2) = Inr \<lparr>on_event = ob_id ev\<rparr>"
    by (simp add: parse_outbox_notification_def struct_fields_def text_field_def)
next
  assume "pg_deliver_channel_message_with_lock locked i channel m wk t s = (Inr (Some res), s3)"
  then have "last_sent s3 =
      JObj [(''instance_id'', JStr (cr_instance res)), (''workflow_name'', JStr (cr_workflow res))]"
    using assms deliver_sends live_deliver_locked by blast
  then show "parse_workflow_notification (last_sent s3) =
      Inr \<lparr>wn_instance = cr_instance res, wn_workflow = cr_workflow res\<rparr>"
    by (simp add: parse_workflow_notification_def struct_fields_def text_field_def field_names field_names [symmetric])
next
  assume "pg_publish_to_channel uuid channel data md s = (Inr n, s4) \<and> - (2 ^ 63) \<le> n \<and> n < 2 ^ 63"
  then have "last_sent s4 = JObj [(''channel'', JStr channel), (''message_id'', JNum n)]" "- (2 ^ 63) \<le> n" "n < 2 ^ 63"
    using sent_last [of "pg_publish_row uuid channel data md" s ChannelChannelMessage
        "\<lambda>n. JObj [(''channel'', JStr channel), (''message_id'', JNum n)]" n s4] assms live_publish_row
    by (simp_all add: pg_publish_to_channel_def)
  then show "parse_channel_message_notification (last_sent s4) =
      Inr \<lparr>cn_channel = '''', cn_message = n, cn_target = ''''\<rparr>"
    by (simp add: parse_channel_message_notification_def struct_fields_def text_field_def int64_field_def
        field_names field_names [symmetric])
qed

text \<open>
  The notification of a published message wakes nobody. Whatever handlers the
  application has registered for it, run on what PublishToChannel sent, they leave the world
  as it is, unless a subscriber waits on the channel with the empty name: the waiting
  subscribers of the channel are left to the polling loop.
\<close>

theorem publish_notification_wakes_nobody:
  assumes "pg_notify_enabled s" "faults (pg_db s) = []"
    and "pg_publish_to_channel uuid channel data md s = (Inr n, s')" "- (2 ^ 63) \<le> n" "n < 2 ^ 63"
    and "w_tx w = None" "faults (w_db w) = []"
    and "\<forall>sub \<in> set (subscriptions (w_db w)). cs_channel sub \<noteq> ''''"
  shows "list_all (\<lambda>(h, ch, doc). run_handler ap h doc w = (Inr (), w))
    (dispatch_notification ChannelChannelMessage (last_sent s') (init_notify_listener delay))"
proof -
  have sent: "last_sent s' = JObj [(''channel'', JStr channel), (''message_id'', JNum n)]"
    using sent_last [of "pg_publish_row uuid channel data md" s ChannelChannelMessage
        "\<lambda>n. JObj [(''channel'', JStr channel), (''message_id'', JNum n)]" n s'] assms(1-3) live_publish_row
    by (simp add: pg_publish_to_channel_def)
  have parsed: "parse_channel_message_notification (last_sent s') = Inr \<lparr>cn_channel = '''', cn_message = n, cn_target = ''''\<rparr>"
    using assms(4,5) sent
    by (simp add: parse_channel_message_notification_def struct_fields_def text_field_def int64_field_def
        field_names field_names [symmetric])
  have "filter (\<lambda>sub. cs_channel sub = '''' \<and> is_waiting sub) (subscriptions (w_db w)) = []"
    using assms(8) by (auto simp: filter_empty_conv)
  then have "stor False (get_subscribers_waiting '''') w = (Inr [], w)"
    using assms(6,7) by (simp add: get_subscribers_waiting_def)
  then have "wake_for_notify ap '''' '''' w = (Inr (), w)" by (simp add: wake_for_notify_def)
  then show ?thesis
    by (simp add: dispatch_notification_def init_notify_listener_def on_notification_def new_listener_def
        run_handler_def handle_channel_message_notify_def parsed)
qed

section \<open>Instances of the properties\<close>

definition gap_message :: channel_message where
  "gap_message = \<lparr>cm_id = 1, cm_channel = ''c'', cm_message_id = ''x'', cm_data = BJson JNull,
     cm_metadata = BNil, cm_published = 0\<rparr>"

lemma text_id_not_decimal: "''x'' \<noteq> show_int n"
proof
  assume x: "''x'' = show_int n"
  show False
  proof (cases "n < 0")
    case True
    with x show False by (simp add: show_int_def)
  next
    case False
    with x have "CHR ''x'' \<in> set (show_nat (nat n))" by (simp add: show_int_def) (metis list.set_intros(1))
    with show_nat_digits have "is_digit (CHR ''x'')" by blast
    then show False by (simp add: is_digit_def)
  qed
qed

theorem claims_on_three_databases_witness:
  "(\<exists>d'. claim_channel_message 1 ''i'' (empty_db\<lparr>messages := [gap_message]\<rparr>) = (Inr True, d'))
   \<and> (\<exists>e. pg_claim_channel_message (\<lambda>n. Inr (show_int n)) 1 ''i'' (empty_db\<lparr>messages := [gap_message]\<rparr>) =
        (Inl e, empty_db\<lparr>messages := [gap_message]\<rparr>))
   \<and> my_claim_channel_message 1 ''i'' (empty_db\<lparr>messages := [gap_message]\<rparr>) =
        (Inr False, empty_db\<lparr>messages := [gap_message]\<rparr>)"
  using claims_on_three_databases [of "empty_db\<lparr>messages := [gap_message]\<rparr>" "\<lambda>n. Inr (show_int n)" 1 "''i''" "''j''" "''c''"]
    text_id_not_decimal
  by (auto simp: empty_db_def gap_message_def)

theorem unknown_instance_on_three_databases_witness:
  "append_history ''i'' ''a'' HistoryTimerExpired BNil ''json'' empty_db =
     (Inr (), insert_history ''i'' ''a'' HistoryTimerExpired BNil ''json'' empty_db)
   \<and> (\<exists>e. pg_append_history ''i'' ''a'' HistoryTimerExpired BNil ''json'' empty_db = (Inl e, empty_db))
   \<and> my_append_history ''i'' ''a'' HistoryTimerExpired BNil ''json'' empty_db = (Inr (), empty_db)"
  using unknown_instance_on_three_databases [of empty_db "''i''" "''a''" HistoryTimerExpired BNil "''json''" "''t''" 0 True "[]"]
  by (simp add: empty_db_def find_instance_def has_history_def)

definition offset_db :: db where
  "offset_db = waiting_db\<lparr>local_offset := 3600000000000\<rparr>"

theorem deadline_off_by_the_timezone_witness:
  "\<exists>d' s. pg_register_receive_and_release_lock ''i'' ''c'' ''w'' ''a'' (Some 5000000) offset_db = (Inr (), d')
     \<and> find_sub d' ''i'' ''c'' = Some s \<and> cs_timeout s = Some 3600005000"
proof -
  have "faults offset_db = []" "find_sub offset_db ''i'' ''c'' = Some waiting_sub"
    by (simp_all add: offset_db_def waiting_db_def waiting_sub_def empty_db_def find_sub_def)
  from deadline_off_by_the_timezone [OF this, of "''w''" "''a''" 5000000]
  show ?thesis by (auto simp: offset_db_def usecs_def)
qed

definition notify_state :: pg where
  "notify_state = \<lparr>pg_db = empty_db, pg_notify_enabled = True, pg_sent = []\<rparr>"

lemma notify_state_publish:
  "pg_publish_to_channel ''u'' ''c'' (BJson JNull) BNil notify_state = (Inr 1, snd (pg_publish_to_channel ''u'' ''c'' (BJson JNull) BNil notify_state))"
  by (simp add: notify_state_def pg_publish_to_channel_def on_db_def pg_publish_row_def send_notify_def empty_db_def
      try_go_def)

theorem notifications_read_back_witness:
  "\<exists>s. pg_publish_to_channel ''u'' ''c'' (BJson JNull) BNil notify_state = (Inr 1, s)
     \<and> parse_channel_message_notification (last_sent s) = Inr \<lparr>cn_channel = '''', cn_message = 1, cn_target = ''''\<rparr>"
proof -
  have "pg_notify_enabled notify_state" "faults (pg_db notify_state) = []"
    by (simp_all add: notify_state_def empty_db_def)
  from notifications_read_back [OF this] notify_state_publish show ?thesis by fastforce
qed

theorem publish_notification_wakes_nobody_witness:
  "\<exists>s. pg_publish_to_channel ''u'' ''c'' (BJson JNull) BNil notify_state = (Inr 1, s)
     \<and> list_all (\<lambda>(h, ch, doc). run_handler waiting_app h doc waiting_world = (Inr (), waiting_world))
         (dispatch_notification ChannelChannelMessage (last_sent s) (init_notify_listener 0))"
proof -
  have "pg_notify_enabled notify_state" "faults (pg_db notify_state) = []"
    by (simp_all add: notify_state_def empty_db_def)
  moreover have "w_tx waiting_world = None" "faults (w_db waiting_world) = []"
      "\<forall>sub \<in> set (subscriptions (w_db waiting_world)). cs_channel sub \<noteq> ''''"
    by (simp_all add: waiting_world_def demo_world_def waiting_db_def waiting_sub_def empty_db_def)
  ultimately show ?thesis
    using publish_notification_wakes_nobody [OF _ _ notify_state_publish, of waiting_world waiting_app 0] notify_state_publish
    by fastforce
qed


end
