(* ===== verification/Storage_Interface.thy ===== *)
theory Storage_Interface
  imports Storage_Postgres Storage_Mysql
begin

text \<open>
  The Storage interface of internal/storage/storage.go as data: one datatype per manager, one
  constructor per method with the method's arguments, and what each of the three
  implementations does with a call (\<open>sqlite_call\<close>, \<open>pg_call\<close>, \<open>my_call\<close>). An \<open>answer\<close> is the
  value a method returns. The environment holds what a call depends on beside the
  tables: whether it runs in a transaction, the database's evaluation of input filters, the
  rows other transactions have locked, the next random identifier, and the driver's
  encoding of an integer for a text column.
\<close>

section \<open>The methods\<close>

datatype instance_call =
    CreateInstance workflow_instance
  | GetInstance string
  | UpdateInstanceStatus string workflow_status string
  | UpdateInstanceActivity string string
  | UpdateInstanceOutput string bytes
  | CancelInstance string string
  | ListInstances list_options
  | FindResumableWorkflows int

datatype lock_call =
    TryAcquireLock string string int
  | ReleaseLock string string
  | RefreshLock string string int
  | CleanupStaleLocks int

datatype history_call =
    AppendHistory string string history_type bytes string
  | GetHistoryPaginated string int nat
  | GetHistoryCount string

datatype timer_call =
    RegisterTimerSubscription string string time string
  | RegisterTimerSubscriptionAndReleaseLock string string time string string string
  | FindExpiredTimers int
  | RemoveTimerSubscription string string

datatype outbox_call =
    AddOutboxEvent outbox_event
  | GetPendingOutboxEvents nat
  | MarkOutboxEventSent string
  | MarkOutboxEventFailed string
  | IncrementOutboxAttempts string
  | CleanupOldOutboxEvents time

datatype compensation_call =
    AddCompensation string string string bytes
  | GetCompensations string

datatype channel_call =
    PublishToChannel string bytes bytes
  | SubscribeToChannel string string channel_mode
  | UnsubscribeFromChannel string string
  | GetChannelSubscription string string
  | GetChannelMode string
  | RegisterChannelReceiveAndReleaseLock string string string string "time option"
  | GetPendingChannelMessages string int nat
  | GetPendingChannelMessagesForInstance string string
  | ClaimChannelMessage int string
  | DeleteChannelMessage int
  | UpdateDeliveryCursor string string int
  | GetDeliveryCursor string string
  | GetChannelSubscribersWaiting string
  | ClearChannelWaitingState string string
  | DeliverChannelMessage string channel_message
  | DeliverChannelMessageWithLock string string channel_message string int
  | CleanupOldChannelMessages time
  | FindExpiredChannelSubscriptions int

datatype group_call =
    JoinGroup string string
  | LeaveGroup string string
  | GetGroupMembers string
  | LeaveAllGroups string

datatype system_lock_call =
    TryAcquireSystemLock string string int
  | ReleaseSystemLock string string
  | CleanupExpiredSystemLocks

datatype archive_call =
    ArchiveHistory string
  | GetArchivedHistory string
  | CleanupInstanceSubscriptions string

datatype storage_request =
    InstanceManager instance_call
  | LockManager lock_call
  | HistoryManager history_call
  | TimerSubscriptionManager timer_call
  | OutboxManager outbox_call
  | CompensationManager compensation_call
  | ChannelManager channel_call
  | GroupManager group_call
  | SystemLockManager system_lock_call
  | HistoryArchiveManager archive_call

datatype answer =
    Done
  | Granted bool
  | Number int
  | InstanceRow "workflow_instance option"
  | InstancePage "list_row list" page_token bool
  | Workflows "(string \<times> string) list"
  | HistoryPage "history_event list" bool
  | ArchivedRows "archived_event list"
  | TimerRows "timer_subscription list"
  | OutboxRows "outbox_event list"
  | CompensationRows "compensation_entry list"
  | SubscriptionRow "channel_subscription option"
  | SubscriptionRows "channel_subscription list"
  | ModeOf "channel_mode option"
  | MessageRows "channel_message list"
  | Delivered "channel_delivery_result option"
  | Members "string list"

record environment =
  env_in_tx :: bool
  env_holds :: "string \<times> sql_arg list \<Rightarrow> workflow_instance \<Rightarrow> bool"
  env_locked :: "string \<Rightarrow> bool"
  env_uuid :: string
  env_encode :: "int \<Rightarrow> go_error + string"

definition answering :: "('a \<Rightarrow> 'b) \<Rightarrow> ('s, 'e, 'a) go \<Rightarrow> ('s, 'e, 'b) go" where
  "answering f m = try_go m (\<lambda>x. ret (f x))"

abbreviation doing :: "('s, 'e, unit) go \<Rightarrow> ('s, 'e, answer) go" where
  "doing \<equiv> answering (\<lambda>_. Done)"

section \<open>The three implementations\<close>

fun sqlite_instance_call :: "environment \<Rightarrow> instance_call \<Rightarrow> answer dbm" where
  "sqlite_instance_call env (CreateInstance inst) =
     doing (create_instance inst)"
| "sqlite_instance_call env (GetInstance i) =
     answering InstanceRow (get_instance i)"
| "sqlite_instance_call env (UpdateInstanceStatus i st msg) =
     doing (update_instance_status i st msg)"
| "sqlite_instance_call env (UpdateInstanceActivity i act) =
     doing (update_instance_activity i act)"
| "sqlite_instance_call env (UpdateInstanceOutput i output) =
     doing (update_instance_output i output)"
| "sqlite_instance_call env (CancelInstance i reason) =
     doing (cancel_instance i reason)"
| "sqlite_instance_call env (ListInstances opts) =
     answering (\<lambda>(rows, tok, more). InstancePage rows tok more) (list_instances (env_holds env) opts)"
| "sqlite_instance_call env (FindResumableWorkflows limit) =
     answering Workflows (find_resumable_workflows limit)"

fun sqlite_lock_call :: "environment \<Rightarrow> lock_call \<Rightarrow> answer dbm" where
  "sqlite_lock_call env (TryAcquireLock i wk t) =
     answering Granted (try_acquire_lock i wk t)"
| "sqlite_lock_call env (ReleaseLock i wk) =
     doing (release_lock i wk)"
| "sqlite_lock_call env (RefreshLock i wk t) =
     doing (refresh_lock i wk t)"
| "sqlite_lock_call env (CleanupStaleLocks t) =
     answering Workflows (cleanup_stale_locks t)"

fun sqlite_history_call :: "environment \<Rightarrow> history_call \<Rightarrow> answer dbm" where
  "sqlite_history_call env (AppendHistory i act ty data dt) =
     doing (append_history i act ty data dt)"
| "sqlite_history_call env (GetHistoryPaginated i after_id limit) =
     answering (\<lambda>(rows, more). HistoryPage rows more) (get_history_paginated i after_id limit)"
| "sqlite_history_call env (GetHistoryCount i) =
     answering Number (get_history_count i)"

fun sqlite_timer_call :: "environment \<Rightarrow> timer_call \<Rightarrow> answer dbm" where
  "sqlite_timer_call env (RegisterTimerSubscription i timer expires act) =
     doing (register_timer_subscription i timer expires act)"
| "sqlite_timer_call env (RegisterTimerSubscriptionAndReleaseLock sub_i timer expires act i wk) =
     doing (register_timer_and_release_lock (env_in_tx env) sub_i timer expires act i wk)"
| "sqlite_timer_call env (FindExpiredTimers limit) =
     answering TimerRows (find_expired_timers limit)"
| "sqlite_timer_call env (RemoveTimerSubscription i timer) =
     doing (remove_timer_subscription i timer)"

fun sqlite_outbox_call :: "environment \<Rightarrow> outbox_call \<Rightarrow> answer dbm" where
  "sqlite_outbox_call env (AddOutboxEvent ev) =
     doing (add_outbox_event ev)"
| "sqlite_outbox_call env (GetPendingOutboxEvents limit) =
     answering OutboxRows (get_pending_outbox_events limit)"
| "sqlite_outbox_call env (MarkOutboxEventSent ev) =
     doing (mark_outbox_event_sent ev)"
| "sqlite_outbox_call env (MarkOutboxEventFailed ev) =
     doing (mark_outbox_event_failed ev)"
| "sqlite_outbox_call env (IncrementOutboxAttempts ev) =
     doing (increment_outbox_attempts ev)"
| "sqlite_outbox_call env (CleanupOldOutboxEvents age) =
     doing (cleanup_old_outbox_events age)"

fun sqlite_compensation_call :: "environment \<Rightarrow> compensation_call \<Rightarrow> answer dbm" where
  "sqlite_compensation_call env (AddCompensation i act name args) =
     doing (add_compensation i act name args)"
| "sqlite_compensation_call env (GetCompensations i) =
     answering CompensationRows (get_compensations i)"

fun sqlite_channel_call :: "environment \<Rightarrow> channel_call \<Rightarrow> answer dbm" where
  "sqlite_channel_call env (PublishToChannel ch data md) =
     answering Number (publish_to_channel ch data md)"
| "sqlite_channel_call env (SubscribeToChannel i ch mode) =
     doing (subscribe_to_channel i ch mode)"
| "sqlite_channel_call env (UnsubscribeFromChannel i ch) =
     doing (unsubscribe_from_channel i ch)"
| "sqlite_channel_call env (GetChannelSubscription i ch) =
     answering SubscriptionRow (get_channel_subscription i ch)"
| "sqlite_channel_call env (GetChannelMode ch) =
     answering ModeOf (get_channel_mode ch)"
| "sqlite_channel_call env (RegisterChannelReceiveAndReleaseLock i ch wk act deadline) =
     doing (register_receive_and_release_lock i ch wk act deadline)"
| "sqlite_channel_call env (GetPendingChannelMessages ch after_id limit) =
     answering MessageRows (get_pending_channel_messages ch after_id limit)"
| "sqlite_channel_call env (GetPendingChannelMessagesForInstance i ch) =
     answering MessageRows (get_pending_for_instance i ch)"
| "sqlite_channel_call env (ClaimChannelMessage n i) =
     answering Granted (claim_channel_message n i)"
| "sqlite_channel_call env (DeleteChannelMessage n) =
     doing (delete_channel_message n)"
| "sqlite_channel_call env (UpdateDeliveryCursor i ch n) =
     doing (update_delivery_cursor i ch n)"
| "sqlite_channel_call env (GetDeliveryCursor i ch) =
     answering Number (get_delivery_cursor i ch)"
| "sqlite_channel_call env (GetChannelSubscribersWaiting ch) =
     answering SubscriptionRows (get_subscribers_waiting ch)"
| "sqlite_channel_call env (ClearChannelWaitingState i ch) =
     doing (clear_channel_waiting_state i ch)"
| "sqlite_channel_call env (DeliverChannelMessage i m) =
     doing (deliver_channel_message i m)"
| "sqlite_channel_call env (DeliverChannelMessageWithLock i ch m wk t) =
     answering Delivered (deliver_channel_message_with_lock i ch m wk t)"
| "sqlite_channel_call env (CleanupOldChannelMessages age) =
     doing (cleanup_old_channel_messages age)"
| "sqlite_channel_call env (FindExpiredChannelSubscriptions limit) =
     answering SubscriptionRows (find_expired_channel_subscriptions limit)"

fun sqlite_group_call :: "environment \<Rightarrow> group_call \<Rightarrow> answer dbm" where
  "sqlite_group_call env (JoinGroup i g) =
     doing (join_group i g)"
| "sqlite_group_call env (LeaveGroup i g) =
     doing (leave_group i g)"
| "sqlite_group_call env (GetGroupMembers g) =
     answering Members (get_group_members g)"
| "sqlite_group_call env (LeaveAllGroups i) =
     doing (leave_all_groups i)"

fun sqlite_system_lock_call :: "environment \<Rightarrow> system_lock_call \<Rightarrow> answer dbm" where
  "sqlite_system_lock_call env (TryAcquireSystemLock name wk t) =
     answering Granted (try_acquire_system_lock name wk t)"
| "sqlite_system_lock_call env (ReleaseSystemLock name wk) =
     doing (release_system_lock name wk)"
| "sqlite_system_lock_call env CleanupExpiredSystemLocks =
     doing (cleanup_expired_system_locks)"

fun sqlite_archive_call :: "environment \<Rightarrow> archive_call \<Rightarrow> answer dbm" where
  "sqlite_archive_call env (ArchiveHistory i) =
     doing (archive_history i)"
| "sqlite_archive_call env (GetArchivedHistory i) =
     answering ArchivedRows (get_archived_history i)"
| "sqlite_archive_call env (CleanupInstanceSubscriptions i) =
     doing (cleanup_instance_subscriptions i)"

fun sqlite_call :: "environment \<Rightarrow> storage_request \<Rightarrow> answer dbm" where
  "sqlite_call env (InstanceManager c) = sqlite_instance_call env c"
| "sqlite_call env (LockManager c) = sqlite_lock_call env c"
| "sqlite_call env (HistoryManager c) = sqlite_history_call env c"
| "sqlite_call env (TimerSubscriptionManager c) = sqlite_timer_call env c"
| "sqlite_call env (OutboxManager c) = sqlite_outbox_call env c"
| "sqlite_call env (CompensationManager c) = sqlite_compensation_call env c"
| "sqlite_call env (ChannelManager c) = sqlite_channel_call env c"
| "sqlite_call env (GroupManager c) = sqlite_group_call env c"
| "sqlite_call env (SystemLockManager c) = sqlite_system_lock_call env c"
| "sqlite_call env (HistoryArchiveManager c) = sqlite_archive_call env c"

fun pg_instance_call :: "environment \<Rightarrow> instance_call \<Rightarrow> answer pgm" where
  "pg_instance_call env (CreateInstance inst) =
     doing (on_db (pg_create_instance inst))"
| "pg_instance_call env (GetInstance i) =
     answering InstanceRow (on_db (pg_get_instance i))"
| "pg_instance_call env (UpdateInstanceStatus i st msg) =
     doing (on_db (pg_update_instance_status i st msg))"
| "pg_instance_call env (UpdateInstanceActivity i act) =
     doing (on_db (pg_update_instance_activity i act))"
| "pg_instance_call env (UpdateInstanceOutput i output) =
     doing (on_db (pg_update_instance_output i output))"
| "pg_instance_call env (CancelInstance i reason) =
     doing (on_db (pg_cancel_instance i reason))"
| "pg_instance_call env (ListInstances opts) =
     answering (\<lambda>(rows, tok, more). InstancePage rows tok more) (on_db (pg_list_instances (env_holds env) opts))"
| "pg_instance_call env (FindResumableWorkflows limit) =
     answering Workflows (on_db (pg_find_resumable_workflows limit))"

fun pg_lock_call :: "environment \<Rightarrow> lock_call \<Rightarrow> answer pgm" where
  "pg_lock_call env (TryAcquireLock i wk t) =
     answering Granted (on_db (pg_try_acquire_lock (env_locked env) i wk t))"
| "pg_lock_call env (ReleaseLock i wk) =
     doing (on_db (pg_release_lock i wk))"
| "pg_lock_call env (RefreshLock i wk t) =
     doing (on_db (pg_refresh_lock i wk t))"
| "pg_lock_call env (CleanupStaleLocks t) =
     answering Workflows (on_db (pg_cleanup_stale_locks t))"

fun pg_history_call :: "environment \<Rightarrow> history_call \<Rightarrow> answer pgm" where
  "pg_history_call env (AppendHistory i act ty data dt) =
     doing (on_db (pg_append_history i act ty data dt))"
| "pg_history_call env (GetHistoryPaginated i after_id limit) =
     answering (\<lambda>(rows, more). HistoryPage rows more) (on_db (pg_get_history_paginated i after_id limit))"
| "pg_history_call env (GetHistoryCount i) =
     answering Number (on_db (pg_get_history_count i))"

fun pg_timer_call :: "environment \<Rightarrow> timer_call \<Rightarrow> answer pgm" where
  "pg_timer_call env (RegisterTimerSubscription i timer expires act) =
     doing (pg_register_timer_subscription i timer expires act)"
| "pg_timer_call env (RegisterTimerSubscriptionAndReleaseLock sub_i timer expires act i wk) =
     doing (pg_register_timer_and_release_lock (env_in_tx env) sub_i timer expires act i wk)"
| "pg_timer_call env (FindExpiredTimers limit) =
     answering TimerRows (on_db (pg_find_expired_timers limit))"
| "pg_timer_call env (RemoveTimerSubscription i timer) =
     doing (on_db (pg_remove_timer_subscription i timer))"

fun pg_outbox_call :: "environment \<Rightarrow> outbox_call \<Rightarrow> answer pgm" where
  "pg_outbox_call env (AddOutboxEvent ev) =
     doing (pg_add_outbox_event ev)"
| "pg_outbox_call env (GetPendingOutboxEvents limit) =
     answering OutboxRows (on_db (pg_get_pending_outbox_events (env_locked env) limit))"
| "pg_outbox_call env (MarkOutboxEventSent ev) =
     doing (on_db (pg_mark_outbox_event_sent ev))"
| "pg_outbox_call env (MarkOutboxEventFailed ev) =
     doing (on_db (pg_mark_outbox_event_failed ev))"
| "pg_outbox_call env (IncrementOutboxAttempts ev) =
     doing (on_db (pg_increment_outbox_attempts ev))"
| "pg_outbox_call env (CleanupOldOutboxEvents age) =
     doing (on_db (pg_cleanup_old_outbox_events age))"

fun pg_compensation_call :: "environment \<Rightarrow> compensation_call \<Rightarrow> answer pgm" where
  "pg_compensation_call env (AddCompensation i act name args) =
     doing (on_db (pg_add_compensation i act name args))"
| "pg_compensation_call env (GetCompensations i) =
     answering CompensationRows (on_db (pg_get_compensations i))"

fun pg_channel_call :: "environment \<Rightarrow> channel_call \<Rightarrow> answer pgm" where
  "pg_channel_call env (PublishToChannel ch data md) =
     answering Number (pg_publish_to_channel (env_uuid env) ch data md)"
| "pg_channel_call env (SubscribeToChannel i ch mode) =
     doing (on_db (pg_subscribe_to_channel i ch mode))"
| "pg_channel_call env (UnsubscribeFromChannel i ch) =
     doing (on_db (pg_unsubscribe_from_channel i ch))"
| "pg_channel_call env (GetChannelSubscription i ch) =
     answering SubscriptionRow (on_db (pg_get_channel_subscription i ch))"
| "pg_channel_call env (GetChannelMode ch) =
     answering ModeOf (on_db (pg_get_channel_mode ch))"
| "pg_channel_call env (RegisterChannelReceiveAndReleaseLock i ch wk act deadline) =
     doing (on_db (pg_register_receive_and_release_lock i ch wk act deadline))"
| "pg_channel_call env (GetPendingChannelMessages ch after_id limit) =
     answering MessageRows (on_db (pg_get_pending_channel_messages ch after_id limit))"
| "pg_channel_call env (GetPendingChannelMessagesForInstance i ch) =
     answering MessageRows (on_db (pg_get_pending_for_instance i ch))"
| "pg_channel_call env (ClaimChannelMessage n i) =
     answering Granted (on_db (pg_claim_channel_message (env_encode env) n i))"
| "pg_channel_call env (DeleteChannelMessage n) =
     doing (on_db (pg_delete_channel_message n))"
| "pg_channel_call env (UpdateDeliveryCursor i ch n) =
     doing (on_db (pg_update_delivery_cursor i ch n))"
| "pg_channel_call env (GetDeliveryCursor i ch) =
     answering Number (on_db (pg_get_delivery_cursor i ch))"
| "pg_channel_call env (GetChannelSubscribersWaiting ch) =
     answering SubscriptionRows (on_db (pg_get_subscribers_waiting ch))"
| "pg_channel_call env (ClearChannelWaitingState i ch) =
     doing (on_db (pg_clear_channel_waiting_state i ch))"
| "pg_channel_call env (DeliverChannelMessage i m) =
     doing (on_db (pg_deliver_channel_message i m))"
| "pg_channel_call env (DeliverChannelMessageWithLock i ch m wk t) =
     answering Delivered (pg_deliver_channel_message_with_lock (env_locked env) i ch m wk t)"
| "pg_channel_call env (CleanupOldChannelMessages age) =
     doing (on_db (pg_cleanup_old_channel_messages age))"
| "pg_channel_call env (FindExpiredChannelSubscriptions limit) =
     answering SubscriptionRows (on_db (pg_find_expired_channel_subscriptions limit))"

fun pg_group_call :: "environment \<Rightarrow> group_call \<Rightarrow> answer pgm" where
  "pg_group_call env (JoinGroup i g) =
     doing (on_db (pg_join_group i g))"
| "pg_group_call env (LeaveGroup i g) =
     doing (on_db (pg_leave_group i g))"
| "pg_group_call env (GetGroupMembers g) =
     answering Members (on_db (pg_get_group_members g))"
| "pg_group_call env (LeaveAllGroups i) =
     doing (on_db (pg_leave_all_groups i))"

fun pg_system_lock_call :: "environment \<Rightarrow> system_lock_call \<Rightarrow> answer pgm" where
  "pg_system_lock_call env (TryAcquireSystemLock name wk t) =
     answering Granted (on_db (pg_try_acquire_system_lock name wk t))"
| "pg_system_lock_call env (ReleaseSystemLock name wk) =
     doing (on_db (pg_release_system_lock name wk))"
| "pg_system_lock_call env CleanupExpiredSystemLocks =
     doing (on_db (pg_cleanup_expired_system_locks))"

fun pg_archive_call :: "environment \<Rightarrow> archive_call \<Rightarrow> answer pgm" where
  "pg_archive_call env (ArchiveHistory i) =
     doing (on_db (pg_archive_history i))"
| "pg_archive_call env (GetArchivedHistory i) =
     answering ArchivedRows (on_db (pg_get_archived_history i))"
| "pg_archive_call env (CleanupInstanceSubscriptions i) =
     doing (on_db (pg_cleanup_instance_subscriptions i))"

fun pg_call :: "environment \<Rightarrow> storage_request \<Rightarrow> answer pgm" where
  "pg_call env (InstanceManager c) = pg_instance_call env c"
| "pg_call env (LockManager c) = pg_lock_call env c"
| "pg_call env (HistoryManager c) = pg_history_call env c"
| "pg_call env (TimerSubscriptionManager c) = pg_timer_call env c"
| "pg_call env (OutboxManager c) = pg_outbox_call env c"
| "pg_call env (CompensationManager c) = pg_compensation_call env c"
| "pg_call env (ChannelManager c) = pg_channel_call env c"
| "pg_call env (GroupManager c) = pg_group_call env c"
| "pg_call env (SystemLockManager c) = pg_system_lock_call env c"
| "pg_call env (HistoryArchiveManager c) = pg_archive_call env c"

fun my_instance_call :: "environment \<Rightarrow> instance_call \<Rightarrow> answer dbm" where
  "my_instance_call env (CreateInstance inst) =
     doing (my_create_instance inst)"
| "my_instance_call env (GetInstance i) =
     answering InstanceRow (my_get_instance i)"
| "my_instance_call env (UpdateInstanceStatus i st msg) =
     doing (my_update_instance_status i st msg)"
| "my_instance_call env (UpdateInstanceActivity i act) =
     doing (my_update_instance_activity i act)"
| "my_instance_call env (UpdateInstanceOutput i output) =
     doing (my_update_instance_output i output)"
| "my_instance_call env (CancelInstance i reason) =
     doing (my_cancel_instance i reason)"
| "my_instance_call env (ListInstances opts) =
     answering (\<lambda>(rows, tok, more). InstancePage rows tok more) (my_list_instances (env_holds env) opts)"
| "my_instance_call env (FindResumableWorkflows limit) =
     answering Workflows (my_find_resumable_workflows limit)"

fun my_lock_call :: "environment \<Rightarrow> lock_call \<Rightarrow> answer dbm" where
  "my_lock_call env (TryAcquireLock i wk t) =
     answering Granted (my_try_acquire_lock (env_locked env) i wk t)"
| "my_lock_call env (ReleaseLock i wk) =
     doing (my_release_lock i wk)"
| "my_lock_call env (RefreshLock i wk t) =
     doing (my_refresh_lock i wk t)"
| "my_lock_call env (CleanupStaleLocks t) =
     answering Workflows (my_cleanup_stale_locks t)"

fun my_history_call :: "environment \<Rightarrow> history_call \<Rightarrow> answer dbm" where
  "my_history_call env (AppendHistory i act ty data dt) =
     doing (my_append_history i act ty data dt)"
| "my_history_call env (GetHistoryPaginated i after_id limit) =
     answering (\<lambda>(rows, more). HistoryPage rows more) (my_get_history_paginated i after_id limit)"
| "my_history_call env (GetHistoryCount i) =
     answering Number (my_get_history_count i)"

fun my_timer_call :: "environment \<Rightarrow> timer_call \<Rightarrow> answer dbm" where
  "my_timer_call env (RegisterTimerSubscription i timer expires act) =
     doing (my_register_timer_subscription i timer expires act)"
| "my_timer_call env (RegisterTimerSubscriptionAndReleaseLock sub_i timer expires act i wk) =
     doing (my_register_timer_and_release_lock (env_in_tx env) sub_i timer expires act i wk)"
| "my_timer_call env (FindExpiredTimers limit) =
     answering TimerRows (my_find_expired_timers limit)"
| "my_timer_call env (RemoveTimerSubscription i timer) =
     doing (my_remove_timer_subscription i timer)"

fun my_outbox_call :: "environment \<Rightarrow> outbox_call \<Rightarrow> answer dbm" where
  "my_outbox_call env (AddOutboxEvent ev) =
     doing (my_add_outbox_event ev)"
| "my_outbox_call env (GetPendingOutboxEvents limit) =
     answering OutboxRows (my_get_pending_outbox_events (env_locked env) limit)"
| "my_outbox_call env (MarkOutboxEventSent ev) =
     doing (my_mark_outbox_event_sent ev)"
| "my_outbox_call env (MarkOutboxEventFailed ev) =
     doing (my_mark_outbox_event_failed ev)"
| "my_outbox_call env (IncrementOutboxAttempts ev) =
     doing (my_increment_outbox_attempts ev)"
| "my_outbox_call env (CleanupOldOutboxEvents age) =
     doing (my_cleanup_old_outbox_events age)"

fun my_compensation_call :: "environment \<Rightarrow> compensation_call \<Rightarrow> answer dbm" where
  "my_compensation_call env (AddCompensation i act name args) =
     doing (my_add_compensation i act name args)"
| "my_compensation_call env (GetCompensations i) =
     answering CompensationRows (my_get_compensations i)"

fun my_channel_call :: "environment \<Rightarrow> channel_call \<Rightarrow> answer dbm" where
  "my_channel_call env (PublishToChannel ch data md) =
     answering Number (my_publish_to_channel (env_uuid env) ch data md)"
| "my_channel_call env (SubscribeToChannel i ch mode) =
     doing (my_subscribe_to_channel i ch mode)"
| "my_channel_call env (UnsubscribeFromChannel i ch) =
     doing (my_unsubscribe_from_channel i ch)"
| "my_channel_call env (GetChannelSubscription i ch) =
     answering SubscriptionRow (my_get_channel_subscription i ch)"
| "my_channel_call env (GetChannelMode ch) =
     answering ModeOf (my_get_channel_mode ch)"
| "my_channel_call env (RegisterChannelReceiveAndReleaseLock i ch wk act deadline) =
     doing (my_register_receive_and_release_lock i ch wk act deadline)"
| "my_channel_call env (GetPendingChannelMessages ch after_id limit) =
     answering MessageRows (my_get_pending_channel_messages ch after_id limit)"
| "my_channel_call env (GetPendingChannelMessagesForInstance i ch) =
     answering MessageRows (my_get_pending_for_instance i ch)"
| "my_channel_call env (ClaimChannelMessage n i) =
     answering Granted (my_claim_channel_message n i)"
| "my_channel_call env (DeleteChannelMessage n) =
     doing (my_delete_channel_message n)"
| "my_channel_call env (UpdateDeliveryCursor i ch n) =
     doing (my_update_delivery_cursor i ch n)"
| "my_channel_call env (GetDeliveryCursor i ch) =
     answering Number (my_get_delivery_cursor i ch)"
| "my_channel_call env (GetChannelSubscribersWaiting ch) =
     answering SubscriptionRows (my_get_subscribers_waiting ch)"
| "my_channel_call env (ClearChannelWaitingState i ch) =
     doing (my_clear_channel_waiting_state i ch)"
| "my_channel_call env (DeliverChannelMessage i m) =
     doing (my_deliver_channel_message i m)"
| "my_channel_call env (DeliverChannelMessageWithLock i ch m wk t) =
     answering Delivered (my_deliver_channel_message_with_lock (env_locked env) i ch m wk t)"
| "my_channel_call env (CleanupOldChannelMessages age) =
     doing (my_cleanup_old_channel_messages age)"
| "my_channel_call env (FindExpiredChannelSubscriptions limit) =
     answering SubscriptionRows (my_find_expired_channel_subscriptions limit)"

fun my_group_call :: "environment \<Rightarrow> group_call \<Rightarrow> answer dbm" where
  "my_group_call env (JoinGroup i g) =
     doing (my_join_group i g)"
| "my_group_call env (LeaveGroup i g) =
     doing (my_leave_group i g)"
| "my_group_call env (GetGroupMembers g) =
     answering Members (my_get_group_members g)"
| "my_group_call env (LeaveAllGroups i) =
     doing (my_leave_all_groups i)"

fun my_system_lock_call :: "environment \<Rightarrow> system_lock_call \<Rightarrow> answer dbm" where
  "my_system_lock_call env (TryAcquireSystemLock name wk t) =
     answering Granted (my_try_acquire_system_lock name wk t)"
| "my_system_lock_call env (ReleaseSystemLock name wk) =
     doing (my_release_system_lock name wk)"
| "my_system_lock_call env CleanupExpiredSystemLocks =
     doing (my_cleanup_expired_system_locks)"

fun my_archive_call :: "environment \<Rightarrow> archive_call \<Rightarrow> answer dbm" where
  "my_archive_call env (ArchiveHistory i) =
     doing (my_archive_history i)"
| "my_archive_call env (GetArchivedHistory i) =
     answering ArchivedRows (my_get_archived_history i)"
| "my_archive_call env (CleanupInstanceSubscriptions i) =
     doing (my_cleanup_instance_subscriptions i)"

fun my_call :: "environment \<Rightarrow> storage_request \<Rightarrow> answer dbm" where
  "my_call env (InstanceManager c) = my_instance_call env c"
| "my_call env (LockManager c) = my_lock_call env c"
| "my_call env (HistoryManager c) = my_history_call env c"
| "my_call env (TimerSubscriptionManager c) = my_timer_call env c"
| "my_call env (OutboxManager c) = my_outbox_call env c"
| "my_call env (CompensationManager c) = my_compensation_call env c"
| "my_call env (ChannelManager c) = my_channel_call env c"
| "my_call env (GroupManager c) = my_group_call env c"
| "my_call env (SystemLockManager c) = my_system_lock_call env c"
| "my_call env (HistoryArchiveManager c) = my_archive_call env c"

end
