(* ===== verification/Go_Simulation.thy ===== *)
theory Go_Simulation
  imports Models
begin

text \<open>
  Comparing two effectful functions on two states. \<open>sim P E m m' Q\<close>: from states related by
  \<open>P\<close> both functions end in the same way; after an error the states are related by \<open>E\<close>, after
  a result the two results and the states by \<open>Q\<close>. There is one rule per combinator
  (collection \<open>sim\<close>), so that two methods that are built alike are compared statement by
  statement; and rules for SQL tables that are related row by row.
\<close>

named_theorems sim "rules for comparing two effectful functions"

fun same_end ::
    "('s \<Rightarrow> 't \<Rightarrow> bool) \<Rightarrow> ('a \<Rightarrow> 'b \<Rightarrow> 's \<Rightarrow> 't \<Rightarrow> bool) \<Rightarrow> ('e + 'a) \<times> 's \<Rightarrow> ('f + 'b) \<times> 't \<Rightarrow> bool" where
  "same_end E Q (Inl e, s) (Inl f, t) = E s t"
| "same_end E Q (Inr x, s) (Inr y, t) = Q x y s t"
| "same_end E Q (Inl e, s) (Inr y, t) = False"
| "same_end E Q (Inr x, s) (Inl f, t) = False"

definition sim ::
    "('s \<Rightarrow> 't \<Rightarrow> bool) \<Rightarrow> ('s \<Rightarrow> 't \<Rightarrow> bool) \<Rightarrow> ('s, 'e, 'a) go \<Rightarrow> ('t, 'f, 'b) go \<Rightarrow>
     ('a \<Rightarrow> 'b \<Rightarrow> 's \<Rightarrow> 't \<Rightarrow> bool) \<Rightarrow> bool" where
  "sim P E m m' Q \<longleftrightarrow> (\<forall>s t. P s t \<longrightarrow> same_end E Q (m s) (m' t))"

lemma simI: "(\<And>s t. P s t \<Longrightarrow> same_end E Q (m s) (m' t)) \<Longrightarrow> sim P E m m' Q"
  by (simp add: sim_def)

lemma simD: "sim P E m m' Q \<Longrightarrow> P s t \<Longrightarrow> same_end E Q (m s) (m' t)"
  by (simp add: sim_def)

lemma same_endE:
  assumes "same_end E Q a b"
  obtains (err) e f s t where "a = (Inl e, s)" "b = (Inl f, t)" "E s t"
    | (ok) x y s t where "a = (Inr x, s)" "b = (Inr y, t)" "Q x y s t"
  using assms by (cases "(E, Q, a, b)" rule: same_end.cases) auto

lemma sim_weaken:
  assumes "sim P E m m' Q" "\<And>s t. P' s t \<Longrightarrow> P s t" "\<And>x y s t. Q x y s t \<Longrightarrow> Q' x y s t"
  shows "sim P' E m m' Q'"
proof (rule simI)
  fix s t
  assume "P' s t"
  then have "same_end E Q (m s) (m' t)" by (intro simD [OF assms(1)] assms(2))
  then show "same_end E Q' (m s) (m' t)"
    by (cases rule: same_endE) (simp_all add: assms(3))
qed

lemma sim_ret [sim]: "(\<And>s t. P s t \<Longrightarrow> Q x y s t) \<Longrightarrow> sim P E (ret x) (ret y) Q"
  by (simp add: sim_def)

lemma sim_throw [sim]: "(\<And>s t. P s t \<Longrightarrow> E s t) \<Longrightarrow> sim P E (throw e) (throw f) Q"
  by (simp add: sim_def)

lemma sim_get [sim]: "(\<And>s t. P s t \<Longrightarrow> Q (f s) (g t) s t) \<Longrightarrow> sim P E (get_go f) (get_go g) Q"
  by (simp add: sim_def)

lemma sim_try [sim]:
  assumes "sim P E m m' R" "\<And>x y. sim (R x y) E (k x) (k' y) Q"
  shows "sim P E (try_go m k) (try_go m' k') Q"
proof (rule simI)
  fix s t
  assume "P s t"
  from simD [OF assms(1) this] show "same_end E Q (try_go m k s) (try_go m' k' t)"
    by (cases rule: same_endE) (auto dest: simD [OF assms(2)])
qed

lemma sim_map_err [sim]:
  assumes "sim P E m m' Q"
  shows "sim P E (map_err g m) (map_err h m') Q"
proof (rule simI)
  fix s t
  assume "P s t"
  from simD [OF assms this] show "same_end E Q (map_err g m s) (map_err h m' t)"
    by (cases rule: same_endE) auto
qed

lemma sim_on_err [sim]:
  assumes "sim P F m m' Q" "\<And>s t. F s t \<Longrightarrow> E (snd (c s)) (snd (c' t))"
  shows "sim P E (on_err c m) (on_err c' m') Q"
proof (rule simI)
  fix s t
  assume "P s t"
  from simD [OF assms(1) this] show "same_end E Q (on_err c m s) (on_err c' m' t)"
    by (cases rule: same_endE) (auto simp: assms(2))
qed

lemma sim_if [sim]:
  assumes "\<And>s t. P s t \<Longrightarrow> b = b'" "b \<Longrightarrow> b' \<Longrightarrow> sim P E m m' Q" "\<not> b \<Longrightarrow> \<not> b' \<Longrightarrow> sim P E n n' Q"
  shows "sim P E (if b then m else n) (if b' then m' else n') Q"
  using assms unfolding sim_def by (cases b; cases b') auto

lemma sim_same_if:
  assumes "b \<Longrightarrow> sim P E m m' Q" "\<not> b \<Longrightarrow> sim P E n n' Q"
  shows "sim P E (if b then m else n) (if b then m' else n') Q"
  using assms by simp

text \<open>The relation between the values is known as soon as some related states exist.\<close>

lemma sim_assume:
  assumes "\<And>s t. P s t \<Longrightarrow> sim (\<lambda>s' t'. s' = s \<and> t' = t) E m m' Q"
  shows "sim P E m m' Q"
  using assms unfolding sim_def by blast

lemma sim_fact: "(F \<Longrightarrow> sim P E m m' Q) \<Longrightarrow> sim (\<lambda>s t. F \<and> P s t) E m m' Q"
  by (auto simp: sim_def)

section \<open>Statements\<close>

lemma sim_exec [sim]:
  assumes "\<And>d d'. P d d' \<Longrightarrow> faults d = [] \<and> faults d' = []" "\<And>d d'. P d d' \<Longrightarrow> Q () () (f d) (g d')"
  shows "sim P E (exec f) (exec g) Q"
  using assms by (auto simp: sim_def)

lemma sim_query [sim]:
  assumes "\<And>d d'. P d d' \<Longrightarrow> faults d = [] \<and> faults d' = []" "\<And>d d'. P d d' \<Longrightarrow> Q (f d) (g d') d d'"
  shows "sim P E (query f) (query g) Q"
  using assms by (auto simp: sim_def)

lemma sim_stmt [sim]:
  assumes "\<And>d d'. P d d' \<Longrightarrow> faults d = [] \<and> faults d' = []"
    and "\<And>d d'. P d d' \<Longrightarrow> Q (fst (f d)) (fst (g d')) (snd (f d)) (snd (g d'))"
  shows "sim P E (stmt f) (stmt g) Q"
  using assms by (auto simp: sim_def)

lemma sim_exec_try [sim]:
  assumes "\<And>d d'. P d d' \<Longrightarrow> faults d = [] \<and> faults d' = []"
    and "\<And>d d'. P d d' \<Longrightarrow> same_end E Q
      (case f d of Inl e \<Rightarrow> (Inl e, d) | Inr x \<Rightarrow> (Inr (), x))
      (case g d' of Inl e \<Rightarrow> (Inl e, d') | Inr x \<Rightarrow> (Inr (), x))"
  shows "sim P E (exec_try f) (exec_try g) Q"
  using assms by (auto simp: sim_def)

text \<open>A statement that cannot violate a constraint on the one side.\<close>

lemma sim_exec_exec_try:
  assumes "\<And>d d'. P d d' \<Longrightarrow> faults d = [] \<and> faults d' = []"
    and "\<And>d d'. P d d' \<Longrightarrow> \<exists>y. g d' = Inr y \<and> Q () () (f d) y"
  shows "sim P E (exec f) (exec_try g) Q"
proof (rule simI)
  fix d d'
  assume "P d d'"
  from assms(1) [OF this] assms(2) [OF this] show "same_end E Q (exec f d) (exec_try g d')" by auto
qed

section \<open>Tables related row by row\<close>

lemma list_all2_update:
  assumes "list_all2 R xs ys" "\<And>x y. R x y \<Longrightarrow> p x = q y" "\<And>x y. R x y \<Longrightarrow> p x \<Longrightarrow> R (f x) (g y)"
  shows "list_all2 R (update_where p f xs) (update_where q g ys)"
  using assms(1) by (induction rule: list_all2_induct) (auto simp: assms)

lemma list_all2_delete:
  assumes "list_all2 R xs ys" "\<And>x y. R x y \<Longrightarrow> p x = q y"
  shows "list_all2 R (delete_where p xs) (delete_where q ys)"
  using assms(1) by (induction rule: list_all2_induct) (auto simp: assms)

lemma list_all2_filter:
  assumes "list_all2 R xs ys" "\<And>x y. R x y \<Longrightarrow> p x = q y"
  shows "list_all2 R (filter p xs) (filter q ys)"
  using assms(1) by (induction rule: list_all2_induct) (auto simp: assms)

lemma list_all2_count:
  assumes "list_all2 R xs ys" "\<And>x y. R x y \<Longrightarrow> p x = q y"
  shows "count_where p xs = count_where q ys"
  using assms(1) by (induction rule: list_all2_induct) (auto simp: assms)

lemma list_all2_find:
  assumes "list_all2 R xs ys" "\<And>x y. R x y \<Longrightarrow> p x = q y"
  shows "rel_option R (find p xs) (find q ys)"
  using assms(1) by (induction rule: list_all2_induct) (auto simp: assms)

lemma list_all2_ex:
  assumes "list_all2 R xs ys" "\<And>x y. R x y \<Longrightarrow> p x = q y"
  shows "(\<exists>x \<in> set xs. p x) = (\<exists>y \<in> set ys. q y)"
  using assms(1) by (induction rule: list_all2_induct) (auto simp: assms)

lemma list_all2_take: "list_all2 R xs ys \<Longrightarrow> list_all2 R (take n xs) (take n ys)"
  by (induction arbitrary: n rule: list_all2_induct) (auto simp: take_Cons split: nat.split)

lemma list_all2_insort:
  assumes "list_all2 R xs ys" "R x y" "\<And>x y. R x y \<Longrightarrow> k x = l y"
  shows "list_all2 R (insort_key k x xs) (insort_key l y ys)"
  using assms(1) by (induction rule: list_all2_induct) (auto simp: assms(2) assms(3) assms(3) [OF assms(2)])

lemma list_all2_sort:
  assumes "list_all2 R xs ys" "\<And>x y. R x y \<Longrightarrow> k x = l y"
  shows "list_all2 R (sort_key k xs) (sort_key l ys)"
  unfolding sort_key_def
  using assms(1)
proof (induction rule: list_all2_induct)
  case (Cons x xs y ys)
  then show ?case by (simp add: list_all2_insort [OF _ _ assms(2)])
qed simp

lemma list_all2_maps:
  assumes "list_all2 R xs ys" "\<And>x y. R x y \<Longrightarrow> f x = g y"
  shows "map f xs = map g ys"
  using assms(1) by (induction rule: list_all2_induct) (auto simp: assms)

lemma list_all2_snoc: "list_all2 R xs ys \<Longrightarrow> R x y \<Longrightarrow> list_all2 R (xs @ [x]) (ys @ [y])"
  by (simp add: list_all2_appendI)

lemmas table_rules =
  list_all2_update list_all2_delete list_all2_filter list_all2_take list_all2_sort list_all2_snoc

end
