(* ===== verification/Server_Agreement.thy ===== *)
theory Server_Agreement
  imports Storage_Interface Go_Simulation
begin

text \<open>
  The three storages agree. \<open>alike\<close> relates two databases whose tables hold the same rows up
  to the columns that hold a time (and the text ids of the messages and the claims on them,
  which the databases make up or refuse differently). \<open>portable\<close> says of a call, and of the
  database it is made on, that its effect does not depend on those columns: it leaves out
  the methods that look for what has expired or order by time, a lock that somebody else
  holds, and the rows of instances that do not exist. For every portable call, from alike
  databases, the three implementations answer alike and leave alike databases.
\<close>

section \<open>Alike rows and databases\<close>

definition same_inst :: "workflow_instance \<Rightarrow> workflow_instance \<Rightarrow> bool" where
  "same_inst r q \<longleftrightarrow> inst_id r = inst_id q \<and> inst_workflow r = inst_workflow q
     \<and> inst_framework r = inst_framework q \<and> inst_status r = inst_status q \<and> inst_input r = inst_input q
     \<and> inst_output r = inst_output q \<and> inst_activity r = inst_activity q
     \<and> inst_source_hash r = inst_source_hash q \<and> inst_owner r = inst_owner q
     \<and> inst_continued_from r = inst_continued_from q \<and> inst_locked_by r = inst_locked_by q
     \<and> inst_lock_timeout r = inst_lock_timeout q"

definition same_hist :: "history_event \<Rightarrow> history_event \<Rightarrow> bool" where
  "same_hist h k \<longleftrightarrow> he_id h = he_id k \<and> he_instance h = he_instance k \<and> he_activity h = he_activity k
     \<and> he_type h = he_type k \<and> he_data h = he_data k \<and> he_data_type h = he_data_type k"

definition same_arch :: "archived_event \<Rightarrow> archived_event \<Rightarrow> bool" where
  "same_arch a b \<longleftrightarrow> ae_id a = ae_id b \<and> ae_original_id a = ae_original_id b \<and> ae_instance a = ae_instance b
     \<and> ae_activity a = ae_activity b \<and> ae_type a = ae_type b \<and> ae_data a = ae_data b
     \<and> ae_data_type a = ae_data_type b"

definition same_timer :: "timer_subscription \<Rightarrow> timer_subscription \<Rightarrow> bool" where
  "same_timer t u \<longleftrightarrow> ts_id t = ts_id u \<and> ts_instance t = ts_instance u \<and> ts_timer t = ts_timer u
     \<and> ts_activity t = ts_activity u"

definition same_outbox :: "outbox_event \<Rightarrow> outbox_event \<Rightarrow> bool" where
  "same_outbox e f \<longleftrightarrow> ob_id e = ob_id f \<and> ob_type e = ob_type f \<and> ob_source e = ob_source f
     \<and> ob_data e = ob_data f \<and> ob_data_type e = ob_data_type f \<and> ob_content_type e = ob_content_type f
     \<and> ob_status e = ob_status f \<and> ob_retry e = ob_retry f"

definition same_comp :: "compensation_entry \<Rightarrow> compensation_entry \<Rightarrow> bool" where
  "same_comp c k \<longleftrightarrow> ce_id c = ce_id k \<and> ce_instance c = ce_instance k \<and> ce_activity c = ce_activity k
     \<and> ce_name c = ce_name k \<and> ce_args c = ce_args k"

definition same_msg :: "channel_message \<Rightarrow> channel_message \<Rightarrow> bool" where
  "same_msg m n \<longleftrightarrow> cm_id m = cm_id n \<and> cm_channel m = cm_channel n \<and> cm_data m = cm_data n
     \<and> cm_metadata m = cm_metadata n"

text \<open>The code sees a null activity id and cursor as the zero values.\<close>

definition sub_activity :: "channel_subscription \<Rightarrow> string" where
  "sub_activity s = (case cs_activity s of None \<Rightarrow> '''' | Some a \<Rightarrow> a)"

definition same_sub :: "channel_subscription \<Rightarrow> channel_subscription \<Rightarrow> bool" where
  "same_sub s u \<longleftrightarrow> cs_id s = cs_id u \<and> cs_instance s = cs_instance u \<and> cs_channel s = cs_channel u
     \<and> cs_mode s = cs_mode u \<and> cs_activity s = cs_activity u"

definition same_sub_row :: "channel_subscription \<Rightarrow> channel_subscription \<Rightarrow> bool" where
  "same_sub_row s u \<longleftrightarrow> cs_id s = cs_id u \<and> cs_instance s = cs_instance u \<and> cs_channel s = cs_channel u
     \<and> cs_mode s = cs_mode u \<and> sub_activity s = sub_activity u"

definition same_lock :: "system_lock \<Rightarrow> system_lock \<Rightarrow> bool" where
  "same_lock l k \<longleftrightarrow> sl_name l = sl_name k \<and> sl_by l = sl_by k"

lemmas same_rows =
  same_inst_def same_hist_def same_arch_def same_timer_def same_outbox_def same_comp_def same_msg_def
  same_sub_def same_lock_def

definition alike :: "db \<Rightarrow> db \<Rightarrow> bool" where
  "alike d d' \<longleftrightarrow> faults d = [] \<and> faults d' = []
     \<and> definitions d = definitions d' \<and> list_all2 same_inst (instances d) (instances d')
     \<and> list_all2 same_hist (history d) (history d') \<and> history_seq d = history_seq d'
     \<and> list_all2 same_arch (archive d) (archive d') \<and> archive_columns d = archive_columns d'
     \<and> archive_seq d = archive_seq d'
     \<and> list_all2 same_timer (timers d) (timers d') \<and> timer_seq d = timer_seq d'
     \<and> list_all2 same_outbox (outbox d) (outbox d')
     \<and> list_all2 same_comp (compensations d) (compensations d') \<and> comp_seq d = comp_seq d'
     \<and> list_all2 same_msg (messages d) (messages d') \<and> message_seq d = message_seq d'
     \<and> list_all2 same_sub (subscriptions d) (subscriptions d') \<and> sub_seq d = sub_seq d'
     \<and> cursors d = cursors d' \<and> groups d = groups d' \<and> list_all2 same_lock (sys_locks d) (sys_locks d')"

lemma alike_faults: "alike d d' \<Longrightarrow> faults d = [] \<and> faults d' = []"
  by (simp add: alike_def)

section \<open>What alike databases have in common\<close>

lemma alike_find_instance: "alike d d' \<Longrightarrow> rel_option same_inst (find_instance d i) (find_instance d' i)"
  unfolding find_instance_def alike_def by (rule list_all2_find) (auto simp: same_rows)

lemma alike_instance_exists: "alike d d' \<Longrightarrow> (find_instance d i = None) = (find_instance d' i = None)"
  using alike_find_instance [of d d' i] by (cases rule: option.rel_cases) auto

lemma alike_fk: "alike d d' \<Longrightarrow> fk_instance d i = fk_instance d' i"
  using alike_instance_exists [of d d' i] by (auto simp: fk_instance_def)

lemma alike_has_history: "alike d d' \<Longrightarrow> has_history i act d = has_history i act d'"
  unfolding has_history_def alike_def by (auto intro!: list_all2_ex simp: same_rows)

lemma alike_history_of: "alike d d' \<Longrightarrow> list_all2 same_hist (history_of i d) (history_of i d')"
  unfolding history_of_def alike_def by (auto intro!: list_all2_filter simp: same_rows)

lemma alike_find_sub: "alike d d' \<Longrightarrow> rel_option same_sub (find_sub d i ch) (find_sub d' i ch)"
  unfolding find_sub_def alike_def by (rule list_all2_find) (auto simp: same_rows)

lemma alike_find_cursor: "alike d d' \<Longrightarrow> find_cursor d i ch = find_cursor d' i ch"
  by (simp add: find_cursor_def alike_def)

lemma alike_max_message: "alike d d' \<Longrightarrow> max_message_id d ch = max_message_id d' ch"
proof -
  assume "alike d d'"
  then have "list_all2 same_msg (filter (\<lambda>m. cm_channel m = ch) (messages d)) (filter (\<lambda>m. cm_channel m = ch) (messages d'))"
    by (auto simp: alike_def same_rows intro!: list_all2_filter)
  then show ?thesis unfolding max_message_id_def
    by (induction rule: list_all2_induct) (auto simp: same_rows)
qed

lemma alike_timer_exists:
  "alike d d' \<Longrightarrow> (\<exists>t \<in> set (timers d). ts_instance t = i \<and> ts_timer t = timer) =
     (\<exists>t \<in> set (timers d'). ts_instance t = i \<and> ts_timer t = timer)"
  by (auto simp: alike_def same_rows intro!: list_all2_ex)

lemma alike_outbox_ids: "alike d d' \<Longrightarrow> ob_id ` set (outbox d) = ob_id ` set (outbox d')"
  using list_all2_maps [of same_outbox "outbox d" "outbox d'" ob_id ob_id]
  by (metis alike_def list.set_map same_outbox_def)

lemma alike_find_lock: "alike d d' \<Longrightarrow> rel_option same_lock (find_system_lock d n) (find_system_lock d' n)"
  unfolding find_system_lock_def alike_def by (rule list_all2_find) (auto simp: same_rows)

lemmas alike_facts =
  alike_instance_exists alike_fk alike_has_history alike_find_cursor alike_max_message alike_timer_exists
  alike_outbox_ids


section \<open>Rows added and changed\<close>

text \<open>
  \<open>agree P R m m'\<close>: from databases related by \<open>P\<close> both methods end in the same way and leave
  alike databases, with answers related by \<open>R\<close>.
\<close>

abbreviation agree ::
    "(db \<Rightarrow> db \<Rightarrow> bool) \<Rightarrow> ('a \<Rightarrow> 'b \<Rightarrow> bool) \<Rightarrow> 'a dbm \<Rightarrow> 'b dbm \<Rightarrow> bool" where
  "agree P R m m' \<equiv> sim P alike m m' (\<lambda>x y d d'. R x y \<and> alike d d')"

abbreviation of_instance :: "string \<Rightarrow> db \<Rightarrow> db \<Rightarrow> bool" where
  "of_instance i d d' \<equiv> alike d d' \<and> fk_instance d i"

lemma alike_insert_history:
  assumes "alike d d'"
  shows "alike (insert_history i act ty data dt d) (pg_insert_history i act ty data dt d')"
    and "alike (insert_history i act ty data dt d) (my_insert_history i act ty data dt d')"
  using assms
  by (auto simp: insert_history_def pg_insert_history_def my_insert_history_def alike_def same_rows
      intro!: table_rules)

lemma alike_insert_timer:
  assumes "alike d d'" "fk_instance d i"
  shows "\<exists>y. pg_insert_timer i timer expires act d' = Inr y \<and> alike (insert_timer i timer expires act d) y"
    and "\<exists>y. my_insert_timer i timer expires act d' = Inr y \<and> alike (insert_timer i timer expires act d) y"
  using assms alike_timer_exists [OF assms(1), of i timer] alike_fk [OF assms(1), of i]
  unfolding insert_timer_def pg_insert_timer_def my_insert_timer_def
  by (simp_all only: split: if_split) (auto simp: alike_def same_rows intro!: table_rules)

lemma alike_set_cursor:
  assumes "alike d d'" "fk_instance d i"
  shows "\<exists>y. pg_set_cursor i channel n d' = Inr y \<and> alike (set_cursor i channel n d) y"
    and "\<exists>y. my_set_cursor i channel n d' = Inr y \<and> alike (set_cursor i channel n d) y"
  using assms alike_find_cursor [OF assms(1), of i channel] alike_fk [OF assms(1), of i]
  unfolding set_cursor_def pg_set_cursor_def my_set_cursor_def
  by (auto simp: alike_def split: option.split)

lemma alike_init_cursor:
  assumes "alike d d'" "fk_instance d i"
  shows "\<exists>y. pg_init_cursor i channel d' = Inr y \<and> alike (init_cursor i channel d) y"
    and "\<exists>y. my_init_cursor i channel d' = Inr y \<and> alike (init_cursor i channel d) y"
  using assms alike_find_cursor [OF assms(1), of i channel] alike_fk [OF assms(1), of i]
    alike_max_message [OF assms(1), of channel]
  unfolding init_cursor_def pg_init_cursor_def my_init_cursor_def
  by (auto simp: alike_def split: option.split)

lemma alike_upsert_subscription:
  assumes "alike d d'" "fk_instance d i" "mode \<noteq> ChannelModeDirect"
  shows "\<exists>y. pg_upsert_subscription i channel mode d' = Inr y \<and> alike (upsert_subscription i channel mode d) y"
    and "\<exists>y. my_upsert_subscription i channel mode d' = Inr y \<and> alike (upsert_subscription i channel mode d) y"
  using alike_find_sub [OF assms(1), of i channel] alike_fk [OF assms(1), of i] assms
  unfolding upsert_subscription_def pg_upsert_subscription_def my_upsert_subscription_def
  by (simp_all only: split: option.split) (auto, auto simp: alike_def same_rows intro!: table_rules)

section \<open>Methods of one statement\<close>

lemma agree_instance_updates:
  "agree alike (=) (update_instance_status i st msg) (pg_update_instance_status i st msg)"
  "agree alike (=) (update_instance_status i st msg) (my_update_instance_status i st msg)"
  "agree alike (=) (update_instance_activity i act) (pg_update_instance_activity i act)"
  "agree alike (=) (update_instance_activity i act) (my_update_instance_activity i act)"
  "agree alike (=) (update_instance_output i output) (pg_update_instance_output i output)"
  "agree alike (=) (update_instance_output i output) (my_update_instance_output i output)"
  unfolding update_instance_status_def pg_update_instance_status_def my_update_instance_status_def
    update_instance_activity_def pg_update_instance_activity_def my_update_instance_activity_def
    update_instance_output_def pg_update_instance_output_def my_update_instance_output_def update_instances_def
  by (rule sim_exec; auto simp: alike_def same_rows intro!: table_rules)+

lemma agree_locks:
  "agree alike (=) (release_lock i wk) (pg_release_lock i wk)"
  "agree alike (=) (release_lock i wk) (my_release_lock i wk)"
  "agree alike (=) (refresh_lock i wk t) (pg_refresh_lock i wk t)"
  "agree alike (=) (refresh_lock i wk t) (my_refresh_lock i wk t)"
  "agree alike (=) (release_system_lock n wk) (pg_release_system_lock n wk)"
  "agree alike (=) (release_system_lock n wk) (my_release_system_lock n wk)"
  unfolding release_lock_def pg_release_lock_def my_release_lock_def
    refresh_lock_def pg_refresh_lock_def my_refresh_lock_def
    release_system_lock_def pg_release_system_lock_def my_release_system_lock_def update_instances_def
  by (rule sim_exec; auto simp: alike_def same_rows intro!: table_rules)+

lemma agree_outbox_updates:
  "agree alike (=) (mark_outbox_event_sent ev) (pg_mark_outbox_event_sent ev)"
  "agree alike (=) (mark_outbox_event_sent ev) (my_mark_outbox_event_sent ev)"
  "agree alike (=) (mark_outbox_event_failed ev) (pg_mark_outbox_event_failed ev)"
  "agree alike (=) (mark_outbox_event_failed ev) (my_mark_outbox_event_failed ev)"
  "agree alike (=) (increment_outbox_attempts ev) (pg_increment_outbox_attempts ev)"
  "agree alike (=) (increment_outbox_attempts ev) (my_increment_outbox_attempts ev)"
  unfolding mark_outbox_event_sent_def pg_mark_outbox_event_sent_def my_mark_outbox_event_sent_def
    mark_outbox_event_failed_def pg_mark_outbox_event_failed_def my_mark_outbox_event_failed_def
    increment_outbox_attempts_def pg_increment_outbox_attempts_def my_increment_outbox_attempts_def update_outbox_def
  by (rule sim_exec; auto simp: alike_def same_rows intro!: table_rules)+

lemma agree_deletions:
  "agree alike (=) (remove_timer_subscription i timer) (pg_remove_timer_subscription i timer)"
  "agree alike (=) (remove_timer_subscription i timer) (my_remove_timer_subscription i timer)"
  "agree alike (=) (unsubscribe_from_channel i ch) (pg_unsubscribe_from_channel i ch)"
  "agree alike (=) (unsubscribe_from_channel i ch) (my_unsubscribe_from_channel i ch)"
  "agree alike (=) (delete_channel_message n) (pg_delete_channel_message n)"
  "agree alike (=) (delete_channel_message n) (my_delete_channel_message n)"
  "agree alike (=) (leave_group i g) (pg_leave_group i g)"
  "agree alike (=) (leave_group i g) (my_leave_group i g)"
  "agree alike (=) (leave_all_groups i) (pg_leave_all_groups i)"
  "agree alike (=) (leave_all_groups i) (my_leave_all_groups i)"
  unfolding remove_timer_subscription_def pg_remove_timer_subscription_def my_remove_timer_subscription_def
    unsubscribe_from_channel_def pg_unsubscribe_from_channel_def my_unsubscribe_from_channel_def
    delete_channel_message_def pg_delete_channel_message_def my_delete_channel_message_def delete_messages_def
    leave_group_def pg_leave_group_def my_leave_group_def
    leave_all_groups_def pg_leave_all_groups_def my_leave_all_groups_def
  by (rule sim_exec; auto simp: alike_def same_rows intro!: table_rules)+

lemma agree_clear_waiting:
  "agree alike (=) (clear_channel_waiting_state i ch) (pg_clear_channel_waiting_state i ch)"
  "agree alike (=) (clear_channel_waiting_state i ch) (my_clear_channel_waiting_state i ch)"
  unfolding clear_channel_waiting_state_def pg_clear_channel_waiting_state_def my_clear_channel_waiting_state_def
    update_sub_def
  by (rule sim_exec; auto simp: alike_def same_rows intro!: table_rules)+

text \<open>Insertions: the guard is that the instance they refer to exists.\<close>

lemma agree_append_history:
  "agree (of_instance i) (=) (append_history i act ty data dt) (pg_append_history i act ty data dt)"
  "agree (of_instance i) (=) (append_history i act ty data dt) (my_append_history i act ty data dt)"
  unfolding append_history_def pg_append_history_def my_append_history_def
  by (rule sim_exec_exec_try;
      auto simp: alike_faults alike_fk alike_has_history alike_insert_history)+

lemma agree_register_timer:
  "agree (of_instance i) (=) (register_timer_subscription i timer expires act) (exec_try (pg_insert_timer i timer expires act))"
  "agree (of_instance i) (=) (register_timer_subscription i timer expires act) (my_register_timer_subscription i timer expires act)"
  unfolding register_timer_subscription_def my_register_timer_subscription_def
  by (rule sim_exec_exec_try; auto simp: alike_faults alike_insert_timer)+

lemma agree_update_cursor:
  "agree (of_instance i) (=) (update_delivery_cursor i ch n) (pg_update_delivery_cursor i ch n)"
  "agree (of_instance i) (=) (update_delivery_cursor i ch n) (my_update_delivery_cursor i ch n)"
  unfolding update_delivery_cursor_def pg_update_delivery_cursor_def my_update_delivery_cursor_def
  by (rule sim_exec_exec_try; auto simp: alike_faults alike_set_cursor)+

lemma agree_add_compensation:
  "agree (of_instance i) (=) (add_compensation i act name args) (pg_add_compensation i act name args)"
  "agree (of_instance i) (=) (add_compensation i act name args) (my_add_compensation i act name args)"
  unfolding add_compensation_def pg_add_compensation_def my_add_compensation_def
  by (rule sim_exec_exec_try; auto simp: alike_faults alike_fk; auto simp: alike_def same_rows intro!: table_rules)+

lemma agree_join_group:
  "agree (of_instance i) (=) (join_group i g) (pg_join_group i g)"
  "agree (of_instance i) (=) (join_group i g) (my_join_group i g)"
  unfolding join_group_def pg_join_group_def my_join_group_def
  by (rule sim_exec_exec_try; auto simp: alike_faults alike_fk; auto simp: alike_def)+

lemma agree_add_outbox:
  "agree alike (=) (add_outbox_event ev) (pg_add_outbox_row ev)"
  "agree alike (=) (add_outbox_event ev) (my_add_outbox_event ev)"
  unfolding add_outbox_event_def pg_add_outbox_row_def my_add_outbox_event_def
  by (rule sim_exec_try; auto simp: alike_faults alike_outbox_ids; auto simp: alike_def same_rows intro!: table_rules)+


section \<open>Queries\<close>

lemma agree_get_instance:
  "agree alike (rel_option same_inst) (get_instance i) (pg_get_instance i)"
  "agree alike (rel_option same_inst) (get_instance i) (my_get_instance i)"
  unfolding get_instance_def pg_get_instance_def my_get_instance_def
  by (rule sim_query; auto simp: alike_faults option.rel_map same_rows
      dest!: alike_find_instance [of _ _ i] elim!: option.rel_mono_strong)+

lemma agree_history_count:
  "agree alike (=) (get_history_count i) (pg_get_history_count i)"
  "agree alike (=) (get_history_count i) (my_get_history_count i)"
  unfolding get_history_count_def pg_get_history_count_def my_get_history_count_def
  by (rule sim_query; auto simp: alike_faults dest: alike_history_of list_all2_lengthD)+

definition same_page :: "('a \<Rightarrow> 'b \<Rightarrow> bool) \<Rightarrow> 'a list \<times> bool \<Rightarrow> 'b list \<times> bool \<Rightarrow> bool" where
  "same_page R p q \<longleftrightarrow> list_all2 R (fst p) (fst q) \<and> snd p = snd q"

lemma agree_page:
  "sim (\<lambda>d d'. list_all2 R xs ys \<and> alike d d') alike
     (let more = length xs > limit in ret (if more then take limit xs else xs, more))
     (let more = length ys > limit in ret (if more then take limit ys else ys, more))
     (\<lambda>p q d d'. same_page R p q \<and> alike d d')"
  by (rule simI) (auto simp: same_page_def Let_def list_all2_take dest: list_all2_lengthD)

lemma alike_history_after:
  "alike d d' \<Longrightarrow> list_all2 same_hist
     (take n (sort_key he_id (filter (\<lambda>h. he_instance h = i \<and> he_id h > after_id) (history d))))
     (take n (sort_key he_id (filter (\<lambda>h. he_instance h = i \<and> he_id h > after_id) (history d'))))"
  by (auto simp: alike_def same_rows intro!: table_rules)

lemma agree_history_page:
  "agree alike (same_page same_hist) (get_history_paginated i after_id limit) (pg_get_history_paginated i after_id limit)"
  "agree alike (same_page same_hist) (get_history_paginated i after_id limit) (my_get_history_paginated i after_id limit)"
  unfolding get_history_paginated_def pg_get_history_paginated_def my_get_history_paginated_def
  by (rule sim_try [OF sim_query agree_page]; simp add: alike_faults alike_history_after)+

lemma agree_channel_subscription:
  "agree alike (rel_option same_sub_row) (get_channel_subscription i ch) (pg_get_channel_subscription i ch)"
  "agree alike (rel_option same_sub_row) (get_channel_subscription i ch) (my_get_channel_subscription i ch)"
  unfolding get_channel_subscription_def pg_get_channel_subscription_def my_get_channel_subscription_def
    pg_sub_row_def my_sub_row_def
  by (rule sim_query; auto simp: alike_faults option.rel_map same_rows same_sub_row_def sub_activity_def
      dest!: alike_find_sub [of _ _ i ch] elim!: option.rel_mono_strong)+

lemma alike_mode:
  "alike d d' \<Longrightarrow> map_option cs_mode (find (\<lambda>s. cs_channel s = ch) (subscriptions d)) =
     map_option cs_mode (find (\<lambda>s. cs_channel s = ch) (subscriptions d'))"
  using list_all2_find [of same_sub "subscriptions d" "subscriptions d'" "\<lambda>s. cs_channel s = ch" "\<lambda>s. cs_channel s = ch"]
  by (cases rule: option.rel_cases) (auto simp: alike_def same_rows)

lemma agree_channel_mode:
  "agree alike (=) (get_channel_mode ch) (pg_get_channel_mode ch)"
  "agree alike (=) (get_channel_mode ch) (my_get_channel_mode ch)"
  unfolding get_channel_mode_def pg_get_channel_mode_def my_get_channel_mode_def
  by (rule sim_query; simp add: alike_faults alike_mode)+

text \<open>
  The queries for waiting subscribers differ in the empty activity id, which SQLite leaves out.
\<close>

definition no_blank_wait :: "db \<Rightarrow> bool" where
  "no_blank_wait d \<longleftrightarrow> (\<forall>s \<in> set (subscriptions d). cs_activity s \<noteq> Some '''')"

lemma alike_waiting:
  assumes "alike d d'" "no_blank_wait d" "\<And>s. same_sub_row s (row s)"
  shows "list_all2 same_sub_row (filter (\<lambda>s. cs_channel s = ch \<and> is_waiting s) (subscriptions d))
    (map row (filter (\<lambda>s. cs_channel s = ch \<and> cs_activity s \<noteq> None) (subscriptions d')))"
proof -
  have "list_all2 same_sub (subscriptions d) (subscriptions d')" using assms(1) by (simp add: alike_def)
  then show ?thesis
    using assms(2) unfolding no_blank_wait_def
  proof (induction rule: list_all2_induct)
    case (Cons x xs y ys)
    then have "same_sub_row x (row y)"
      using assms(3) [of y] by (auto simp: same_sub_row_def same_rows sub_activity_def)
    with Cons show ?case by (auto simp: is_waiting_def same_rows)
  qed simp
qed

lemma agree_waiting:
  "agree (\<lambda>d d'. alike d d' \<and> no_blank_wait d) (list_all2 same_sub_row)
     (get_subscribers_waiting ch) (pg_get_subscribers_waiting ch)"
  "agree (\<lambda>d d'. alike d d' \<and> no_blank_wait d) (list_all2 same_sub_row)
     (get_subscribers_waiting ch) (my_get_subscribers_waiting ch)"
  unfolding get_subscribers_waiting_def pg_get_subscribers_waiting_def my_get_subscribers_waiting_def
  by (rule sim_query; auto simp: pg_sub_row_def my_sub_row_def same_sub_row_def sub_activity_def
      simp del: not_None_eq intro!: alike_waiting dest: alike_faults)+

lemma agree_pending:
  "agree alike (list_all2 same_msg) (get_pending_channel_messages ch after_id limit)
     (pg_get_pending_channel_messages ch after_id limit)"
  "agree alike (list_all2 same_msg) (get_pending_channel_messages ch after_id limit)
     (my_get_pending_channel_messages ch after_id limit)"
  unfolding get_pending_channel_messages_def pg_get_pending_channel_messages_def my_get_pending_channel_messages_def
  by (rule sim_query; auto simp: alike_def same_rows intro!: table_rules)+

lemma agree_delivery_cursor:
  "agree alike (=) (get_delivery_cursor i ch) (pg_get_delivery_cursor i ch)"
  "agree alike (=) (get_delivery_cursor i ch) (my_get_delivery_cursor i ch)"
  unfolding get_delivery_cursor_def pg_get_delivery_cursor_def my_get_delivery_cursor_def
  by (rule sim_query; simp add: alike_faults alike_find_cursor)+

lemma agree_group_members:
  "agree alike (=) (get_group_members g) (pg_get_group_members g)"
  "agree alike (=) (get_group_members g) (my_get_group_members g)"
  unfolding get_group_members_def pg_get_group_members_def my_get_group_members_def
  by (rule sim_query; simp add: alike_def)+

lemma agree_archived:
  "agree alike (list_all2 same_arch) (get_archived_history i) (pg_get_archived_history i)"
  "agree alike (list_all2 same_arch) (get_archived_history i) (my_get_archived_history i)"
  unfolding get_archived_history_def pg_get_archived_history_def my_get_archived_history_def
  by (rule sim_query; auto simp: alike_def same_rows intro!: table_rules)+

end
