(* ===== verification/Server_Refinement.thy ===== *)
theory Server_Refinement
  imports Server_Agreement
begin

text \<open>
  The methods of several statements agree on the three databases, and with them the calls of
  the Storage interface: \<open>portable\<close> says of a call, and of the databases it is made on, that
  its effect does not depend on what \<open>alike\<close> leaves open.
\<close>

section \<open>Methods of several statements\<close>

lemma agree_create_instance:
  assumes "inst_framework inst \<in> {'''', ''go''}"
  shows "agree alike (=) (create_instance inst) (pg_create_instance inst)"
    and "agree alike (=) (create_instance inst) (my_create_instance inst)"
  unfolding create_instance_def pg_create_instance_def my_create_instance_def Let_def
  by (rule sim_try [where R = "\<lambda>_ _. alike"], (rule sim_map_err, rule sim_exec; auto simp: alike_def),
      rule sim_exec_try; insert assms; auto simp: alike_faults alike_instance_exists;
      auto simp: alike_def same_rows intro!: table_rules)+

lemma agree_cancel_instance:
  "agree alike (=) (cancel_instance i reason) (pg_cancel_instance i reason)"
  "agree alike (=) (cancel_instance i reason) (my_cancel_instance i reason)"
  unfolding cancel_instance_def pg_cancel_instance_def my_cancel_instance_def update_instances_def
  by (rule sim_try [where R = "\<lambda>x y s t. x = y \<and> alike s t"], rule sim_stmt;
      auto simp: alike_def same_rows sim_def intro!: table_rules list_all2_count)+

definition fresh_message :: "string \<Rightarrow> db \<Rightarrow> db \<Rightarrow> bool" where
  "fresh_message uuid d d' \<longleftrightarrow> message_uuid d \<notin> cm_message_id ` set (messages d)
     \<and> uuid \<notin> cm_message_id ` set (messages d')"

lemma agree_publish:
  "agree (\<lambda>d d'. alike d d' \<and> fresh_message uuid d d') (=) (publish_to_channel ch data md) (pg_publish_row uuid ch data md)"
  "agree (\<lambda>d d'. alike d d' \<and> fresh_message uuid d d') (=) (publish_to_channel ch data md) (my_publish_to_channel uuid ch data md)"
  unfolding publish_to_channel_def pg_publish_row_def my_publish_to_channel_def fresh_message_def
  by (rule sim_try [where R = "\<lambda>_ _. alike"], rule sim_exec_try;
      auto simp: alike_def same_rows sim_def intro!: table_rules)+

lemma upsert_keeps_instances:
  "fk_instance (upsert_subscription i ch mode d) j = fk_instance d j"
  by (simp add: upsert_subscription_def fk_instance_def find_instance_def split: option.split)

lemma sim_upsert:
  "sim (of_instance i) alike
     (exec_try (\<lambda>d. if mode = ChannelModeDirect then Inl e else Inr (upsert_subscription i ch mode d)))
     (exec_try (pg_upsert_subscription i ch mode)) (\<lambda>_ _. of_instance i)"
  "sim (of_instance i) alike
     (exec_try (\<lambda>d. if mode = ChannelModeDirect then Inl e else Inr (upsert_subscription i ch mode d)))
     (exec_try (my_upsert_subscription i ch mode)) (\<lambda>_ _. of_instance i)"
  by (rule sim_exec_try; cases "mode = ChannelModeDirect";
      auto simp: alike_faults upsert_keeps_instances pg_upsert_subscription_def [where mode = ChannelModeDirect]
        my_upsert_subscription_def [where mode = ChannelModeDirect]
      dest: alike_upsert_subscription [where channel = ch and mode = mode and i = i])+

lemma agree_subscribe:
  "agree (of_instance i) (=) (subscribe_to_channel i ch mode) (pg_subscribe_to_channel i ch mode)"
  "agree (of_instance i) (=) (subscribe_to_channel i ch mode) (my_subscribe_to_channel i ch mode)"
  unfolding subscribe_to_channel_def pg_subscribe_to_channel_def my_subscribe_to_channel_def
  by (rule sim_try [where R = "\<lambda>_ _. of_instance i"], rule sim_upsert, rule sim_same_if,
      (rule sim_exec_exec_try; auto simp: alike_faults alike_init_cursor), rule sim_ret, simp)+

lemma agree_register_receive:
  "agree alike (=) (register_receive_and_release_lock i ch wk act deadline) (pg_register_receive_and_release_lock i ch wk act deadline)"
  "agree alike (=) (register_receive_and_release_lock i ch wk act deadline) (my_register_receive_and_release_lock i ch wk act deadline)"
  unfolding register_receive_and_release_lock_def pg_register_receive_and_release_lock_def
    my_register_receive_and_release_lock_def update_sub_def update_instances_def
  by (rule sim_try [where R = "\<lambda>_ _. alike"], (rule sim_exec; auto simp: alike_def same_rows intro!: table_rules),
      rule sim_try [where R = "\<lambda>_ _. alike"], (rule sim_exec; auto simp: alike_def same_rows intro!: table_rules),
      rule sim_exec; auto simp: alike_def same_rows intro!: table_rules)+

lemma agree_cleanup_subscriptions:
  "agree alike (=) (cleanup_instance_subscriptions i) (pg_cleanup_instance_subscriptions i)"
  "agree alike (=) (cleanup_instance_subscriptions i) (my_cleanup_instance_subscriptions i)"
  unfolding cleanup_instance_subscriptions_def pg_cleanup_instance_subscriptions_def my_cleanup_instance_subscriptions_def
  by (rule sim_try [where R = "\<lambda>_ _. alike"],
      (rule sim_map_err, rule sim_exec; auto simp: alike_def same_rows intro!: table_rules),
      rule sim_try [where R = "\<lambda>_ _. alike"],
      (rule sim_map_err, rule sim_exec; auto simp: alike_def same_rows intro!: table_rules),
      rule sim_map_err, rule sim_exec; auto simp: alike_def same_rows intro!: table_rules)+

lemma sim_atomically:
  assumes "agree P R m m'" "\<And>d d'. P d d' \<Longrightarrow> alike d d'"
  shows "agree P R (atomically m) (atomically m')"
proof (rule simI)
  fix d d'
  assume P: "P d d'"
  note ok = assms(2) [OF P]
  show "same_end alike (\<lambda>x y d d'. R x y \<and> alike d d') (atomically m d) (atomically m' d')"
    using simD [OF assms(1) P] alike_faults [OF ok]
    by (cases rule: same_endE) (use ok in \<open>auto simp: atomically_def try_go_def alike_faults, auto simp: alike_def\<close>)
qed

lemma agree_timer_body:
  "agree (of_instance i) (=)
     (try_go (exec (insert_timer i timer expires act)) (\<lambda>_.
      try_go (exec (\<lambda>d. update_instances (\<lambda>r. inst_id r = j)
          (\<lambda>r. r\<lparr>inst_status := StatusWaitingForTimer, inst_updated := sql_now d\<rparr>) d)) (\<lambda>_.
      exec (update_instances (\<lambda>r. inst_id r = j \<and> inst_locked_by r = Some wk)
          (\<lambda>r. r\<lparr>inst_locked_by := None, inst_locked_at := None, inst_lock_expires := None\<rparr>)))))
     (try_go (exec_try (g i timer expires act)) (\<lambda>_.
      try_go (exec (\<lambda>d. update_instances (\<lambda>r. inst_id r = j)
          (\<lambda>r. r\<lparr>inst_status := StatusWaitingForTimer, inst_updated := now d\<rparr>) d)) (\<lambda>_.
      exec (update_instances (\<lambda>r. inst_id r = j \<and> inst_locked_by r = Some wk)
          (\<lambda>r. r\<lparr>inst_locked_by := None, inst_locked_at := None, inst_lock_expires := None\<rparr>)))))"
  if "g = pg_insert_timer \<or> g = my_insert_timer"
proof (rule sim_try [where R = "\<lambda>_ _. alike"])
  show "sim (of_instance i) alike (exec (insert_timer i timer expires act)) (exec_try (g i timer expires act)) (\<lambda>_ _. alike)"
    using that by (intro sim_exec_exec_try) (auto simp: alike_faults alike_insert_timer)
qed (rule sim_try [where R = "\<lambda>_ _. alike"]; rule sim_exec;
    auto simp: alike_def same_rows update_instances_def intro!: table_rules)

lemma agree_timer_and_release:
  "agree (of_instance i) (=) (register_timer_and_release_lock in_tx i timer expires act j wk)
     (pg_timer_and_release in_tx i timer expires act j wk)"
  "agree (of_instance i) (=) (register_timer_and_release_lock in_tx i timer expires act j wk)
     (my_register_timer_and_release_lock in_tx i timer expires act j wk)"
  unfolding register_timer_and_release_lock_def pg_timer_and_release_def my_register_timer_and_release_lock_def Let_def
  by (rule sim_same_if, rule agree_timer_body, simp, rule sim_atomically, rule agree_timer_body, simp, simp)+


section \<open>Locks\<close>

text \<open>Nobody else holds the lock of the instance.\<close>

definition lock_uncontested :: "string \<Rightarrow> string \<Rightarrow> db \<Rightarrow> bool" where
  "lock_uncontested i wk d \<longleftrightarrow>
     (\<forall>r \<in> set (instances d). inst_id r = i \<longrightarrow> inst_locked_by r = None \<or> inst_locked_by r = Some wk)"

lemma uncontested_row:
  assumes "lock_uncontested i wk d" "find_instance d i = Some r"
  shows "inst_locked_by r = None \<or> inst_locked_by r = Some wk"
  using assms by (auto simp: lock_uncontested_def find_instance_def find_Some_iff)

lemma update_where_cong: "(\<And>r. r \<in> set rs \<Longrightarrow> p r = q r) \<Longrightarrow> update_where p f rs = update_where q f rs"
  by (induction rs) auto

lemma update_where_fun_cong: "(\<And>r. r \<in> set rs \<Longrightarrow> p r \<Longrightarrow> f r = g r) \<Longrightarrow> update_where p f rs = update_where p g rs"
  by (induction rs) auto

lemma update_where_none: "find p rs = None \<Longrightarrow> update_where p f rs = rs"
  by (induction rs) (auto split: if_splits)

lemma uncontested_acquire:
  assumes "lock_uncontested i wk d" "faults d = []"
  shows "try_acquire_lock i wk t d = (Inr (find_instance d i \<noteq> None), update_instances (\<lambda>r. inst_id r = i)
     (\<lambda>r. r\<lparr>inst_locked_by := Some wk, inst_locked_at := Some (secs (clock d)),
            inst_lock_expires := Some (secs (clock d + t * 1000000000)), inst_updated := secs (clock d)\<rparr>) d)"
proof -
  let ?p = "\<lambda>r. inst_id r = i \<and> lock_free (sql_now d) wk r"
  have "?p r = (inst_id r = i)" if "r \<in> set (instances d)" for r
    using that assms(1) by (auto simp: lock_uncontested_def lock_free_def)
  then have "update_where ?p f (instances d) = update_where (\<lambda>r. inst_id r = i) f (instances d)"
      "0 < count_where ?p (instances d) \<longleftrightarrow> find_instance d i \<noteq> None" for f
    by (auto intro: update_where_cong simp: find_instance_def find_None_iff simp flip: neq0_conv)
  with assms(2) show ?thesis
    by (simp add: try_acquire_lock_def update_instances_def Let_def del: not_None_eq)
qed

lemma agree_try_acquire_lock:
  assumes "\<not> row_locked i"
  shows "agree (\<lambda>d d'. alike d d' \<and> lock_uncontested i wk d) (=)
      (try_acquire_lock i wk t) (pg_try_acquire_lock row_locked i wk t)"
    and "agree (\<lambda>d d'. alike d d' \<and> lock_uncontested i wk d) (=)
      (try_acquire_lock i wk t) (my_try_acquire_lock row_locked i wk t)"
proof -
  have "same_end alike (\<lambda>x y d d'. x = y \<and> alike d d') (try_acquire_lock i wk t d) (pg_try_acquire_lock row_locked i wk t d')
      \<and> same_end alike (\<lambda>x y d d'. x = y \<and> alike d d') (try_acquire_lock i wk t d) (my_try_acquire_lock row_locked i wk t d')"
    if alike: "alike d d'" "lock_uncontested i wk d" for d d'
  proof (cases "find_instance d i")
    case None
    moreover have "find_instance d' i = None" using None alike_instance_exists [OF alike(1)] by simp
    moreover have "update_instances (\<lambda>r. inst_id r = i) f d = d" for f
      using None by (simp add: update_instances_def find_instance_def update_where_none)
    ultimately show ?thesis
      using alike alike_faults [OF alike(1)] assms
      by (simp add: uncontested_acquire pg_try_acquire_lock_def my_try_acquire_lock_def pg_lock_row_def my_lock_row_def)
  next
    case (Some r)
    then obtain q where q: "find_instance d' i = Some q" "same_inst r q"
      using alike_find_instance [OF alike(1), of i] by (auto elim: option.rel_cases)
    have "inst_locked_by q = None \<or> inst_locked_by q = Some wk"
      using uncontested_row [OF alike(2) Some] q(2) by (simp add: same_inst_def)
    then have "pg_can_acquire n wk q" "my_can_acquire n wk q" for n
      by (auto simp: pg_can_acquire_def my_can_acquire_def)
    then show ?thesis
      using alike Some q(1) alike_faults [OF alike(1)] assms
      by (simp add: uncontested_acquire pg_try_acquire_lock_def my_try_acquire_lock_def pg_lock_row_def my_lock_row_def
          pg_take_lock_def my_take_lock_def)
        (auto simp: alike_def same_rows update_instances_def intro!: table_rules)
  qed
  then show "agree (\<lambda>d d'. alike d d' \<and> lock_uncontested i wk d) (=)
      (try_acquire_lock i wk t) (pg_try_acquire_lock row_locked i wk t)"
    and "agree (\<lambda>d d'. alike d d' \<and> lock_uncontested i wk d) (=)
      (try_acquire_lock i wk t) (my_try_acquire_lock row_locked i wk t)"
    by (auto simp: sim_def)
qed

definition system_lock_uncontested :: "string \<Rightarrow> string \<Rightarrow> db \<Rightarrow> bool" where
  "system_lock_uncontested n wk d \<longleftrightarrow> (\<forall>l \<in> set (sys_locks d). sl_name l = n \<longrightarrow> sl_by l = wk)"

lemma my_takeover_own: "sl_by l = wk \<Longrightarrow> my_lock_takeover now wk at e l = l\<lparr>sl_by := wk, sl_at := at, sl_expires := e\<rparr>"
  by (simp add: my_lock_takeover_def Let_def)

lemma agree_try_acquire_system_lock:
  "agree (\<lambda>d d'. alike d d' \<and> system_lock_uncontested n wk d) (=)
     (try_acquire_system_lock n wk t) (pg_try_acquire_system_lock n wk t)"
  "agree (\<lambda>d d'. alike d d' \<and> system_lock_uncontested n wk d) (=)
     (try_acquire_system_lock n wk t) (my_try_acquire_system_lock n wk t)"
proof -
  have "same_end alike (\<lambda>x y d d'. x = y \<and> alike d d') (try_acquire_system_lock n wk t d) (pg_try_acquire_system_lock n wk t d')
      \<and> same_end alike (\<lambda>x y d d'. x = y \<and> alike d d') (try_acquire_system_lock n wk t d) (my_try_acquire_system_lock n wk t d')"
    if alike: "alike d d'" "system_lock_uncontested n wk d" for d d'
  proof (cases "find_system_lock d n")
    case None
    moreover have "find_system_lock d' n = None"
      using None alike_find_lock [OF alike(1), of n] by simp
    ultimately show ?thesis
      using alike alike_faults [OF alike(1)]
      by (auto simp: try_acquire_system_lock_def pg_try_acquire_system_lock_def my_try_acquire_system_lock_def Let_def
          find_system_lock_def find_append)
        (auto simp: alike_def same_rows intro!: table_rules)
  next
    case (Some l)
    then obtain k where k: "find_system_lock d' n = Some k" "same_lock l k"
      using alike_find_lock [OF alike(1), of n] by (auto elim: option.rel_cases)
    have own: "sl_by l = wk" "sl_by k = wk"
      using Some k(2) alike(2) by (auto simp: system_lock_uncontested_def find_system_lock_def find_Some_iff same_lock_def)
    have "sl_by m = wk" if "m \<in> set (sys_locks d')" "sl_name m = n" for m
      using alike that list_all2_ex [of same_lock "sys_locks d" "sys_locks d'" "\<lambda>l. sl_name l = n \<and> sl_by l \<noteq> wk"
          "\<lambda>l. sl_name l = n \<and> sl_by l \<noteq> wk"]
      by (auto simp: alike_def same_lock_def system_lock_uncontested_def)
    then have takeover: "update_where (\<lambda>l. sl_name l = n) (my_lock_takeover now wk at e) (sys_locks d') =
        update_where (\<lambda>l. sl_name l = n) (\<lambda>l. l\<lparr>sl_by := wk, sl_at := at, sl_expires := e\<rparr>) (sys_locks d')" for now at e
      by (intro update_where_fun_cong) (simp add: my_takeover_own)
    have "find_system_lock (d'\<lparr>sys_locks := update_where (\<lambda>l. sl_name l = n)
        (\<lambda>l. l\<lparr>sl_by := wk, sl_at := at, sl_expires := e\<rparr>) (sys_locks d')\<rparr>) n = Some (k\<lparr>sl_by := wk, sl_at := at, sl_expires := e\<rparr>)"
      for at e
      using k(1) find_update_where_same [of sl_name "\<lambda>l. l\<lparr>sl_by := wk, sl_at := at, sl_expires := e\<rparr>" n "\<lambda>_. True" "sys_locks d'"]
      by (simp add: find_system_lock_def)
    then show ?thesis
      using alike Some k own alike_faults [OF alike(1)]
      by (simp add: try_acquire_system_lock_def pg_try_acquire_system_lock_def my_try_acquire_system_lock_def Let_def
          takeover try_go_def)
        (auto simp: alike_def same_rows intro!: table_rules)
  qed
  then show "agree (\<lambda>d d'. alike d d' \<and> system_lock_uncontested n wk d) (=)
     (try_acquire_system_lock n wk t) (pg_try_acquire_system_lock n wk t)"
   and "agree (\<lambda>d d'. alike d d' \<and> system_lock_uncontested n wk d) (=)
     (try_acquire_system_lock n wk t) (my_try_acquire_system_lock n wk t)"
    by (auto simp: sim_def)
qed

section \<open>Archive and pending messages\<close>

lemma alike_archived_rows:
  assumes "list_all2 same_hist hs ks"
  shows "list_all2 same_arch
    (map (\<lambda>(n, h). \<lparr>ae_id = m + n, ae_original_id = Some (he_id h), ae_instance = he_instance h,
        ae_activity = he_activity h, ae_type = he_type h, ae_data = he_data h, ae_data_type = he_data_type h,
        ae_original_created = Some (he_created h), ae_archived = now\<rparr>) (zip ns hs))
    (map (\<lambda>(n, h). \<lparr>ae_id = m + n, ae_original_id = Some (he_id h), ae_instance = he_instance h,
        ae_activity = he_activity h, ae_type = he_type h, ae_data = he_data h, ae_data_type = he_data_type h,
        ae_original_created = Some (he_created h), ae_archived = now'\<rparr>) (zip ns ks))"
  using assms
proof (induction arbitrary: ns rule: list_all2_induct)
  case (Cons x xs y ys)
  then show ?case by (cases ns) (auto simp: same_rows)
qed simp

lemma agree_archive_copy:
  "sim alike alike (exec_try (archive_copy i)) (exec_try (pg_archive_copy i)) (\<lambda>_ _. alike)"
  "sim alike alike (exec_try (archive_copy i)) (exec_try (my_archive_copy i)) (\<lambda>_ _. alike)"
proof -
  have "same_end alike (\<lambda>_ _. alike) (exec_try (archive_copy i) d) (exec_try (pg_archive_copy i) d')
      \<and> same_end alike (\<lambda>_ _. alike) (exec_try (archive_copy i) d) (exec_try (my_archive_copy i) d')"
    if alike: "alike d d'" for d d'
  proof -
    have same: "length (history_of i d) = length (history_of i d')" "history_of i d = [] \<longleftrightarrow> history_of i d' = []"
        "archive_columns d = archive_columns d'" "archive_seq d = archive_seq d'" "faults d = []" "faults d' = []"
      using alike_history_of [OF alike, of i] alike by (auto simp: alike_def dest: list_all2_lengthD)
    have rows: "list_all2 same_arch (archive d @ map (\<lambda>(n, h).
        \<lparr>ae_id = m + n, ae_original_id = Some (he_id h), ae_instance = he_instance h,
         ae_activity = he_activity h, ae_type = he_type h, ae_data = he_data h, ae_data_type = he_data_type h,
         ae_original_created = Some (he_created h), ae_archived = now\<rparr>) (zip ns (history_of i d)))
      (archive d' @ map (\<lambda>(n, h).
        \<lparr>ae_id = m + n, ae_original_id = Some (he_id h), ae_instance = he_instance h,
         ae_activity = he_activity h, ae_type = he_type h, ae_data = he_data h, ae_data_type = he_data_type h,
         ae_original_created = Some (he_created h), ae_archived = now'\<rparr>) (zip ns (history_of i d')))" for m ns now now'
      using alike_archived_rows [OF alike_history_of [OF alike]] alike
      by (intro list_all2_appendI) (simp_all add: alike_def)
    have set_archive: "alike (d\<lparr>archive := xs, archive_seq := n\<rparr>) (d'\<lparr>archive := ys, archive_seq := n\<rparr>)"
      if "list_all2 same_arch xs ys" for xs ys n
      using that alike by (simp add: alike_def)
    show ?thesis
      unfolding exec_try_def archive_copy_def pg_archive_copy_def my_archive_copy_def
      using same rows alike set_archive
      by (cases "find (\<lambda>c. c \<notin> set (archive_columns d')) archive_insert_columns") simp_all
  qed
  then show "sim alike alike (exec_try (archive_copy i)) (exec_try (pg_archive_copy i)) (\<lambda>_ _. alike)"
      "sim alike alike (exec_try (archive_copy i)) (exec_try (my_archive_copy i)) (\<lambda>_ _. alike)"
    by (auto simp: sim_def)
qed

lemma agree_archive_history:
  "agree alike (=) (archive_history i) (pg_archive_history i)"
  "agree alike (=) (archive_history i) (my_archive_history i)"
  unfolding archive_history_def pg_archive_history_def my_archive_history_def
  by (rule sim_try [where R = "\<lambda>_ _. alike"], rule agree_archive_copy,
      rule sim_exec; auto simp: alike_def same_rows intro!: table_rules)+

text \<open>For a competing subscriber the claims decide, on which the databases differ.\<close>

definition not_competing :: "string \<Rightarrow> string \<Rightarrow> db \<Rightarrow> bool" where
  "not_competing i ch d \<longleftrightarrow> (case find_sub d i ch of None \<Rightarrow> True | Some s \<Rightarrow> cs_mode s = ChannelModeBroadcast)"

lemma agree_pending_for_instance:
  "agree (\<lambda>d d'. alike d d' \<and> not_competing i ch d) (list_all2 same_msg)
     (get_pending_for_instance i ch) (pg_get_pending_for_instance i ch)"
  "agree (\<lambda>d d'. alike d d' \<and> not_competing i ch d) (list_all2 same_msg)
     (get_pending_for_instance i ch) (my_get_pending_for_instance i ch)"
proof -
  have "same_end alike (\<lambda>x y d d'. list_all2 same_msg x y \<and> alike d d') (get_pending_for_instance i ch d) (pg_get_pending_for_instance i ch d')
      \<and> same_end alike (\<lambda>x y d d'. list_all2 same_msg x y \<and> alike d d') (get_pending_for_instance i ch d) (my_get_pending_for_instance i ch d')"
    if alike: "alike d d'" "not_competing i ch d" for d d'
  proof (cases "find_sub d i ch")
    case None
    then show ?thesis
      using alike alike_find_sub [OF alike(1), of i ch] alike_faults [OF alike(1)]
      by (simp add: get_pending_for_instance_def pg_get_pending_for_instance_def my_get_pending_for_instance_def)
  next
    case (Some s)
    then obtain q where "find_sub d' i ch = Some q" "cs_mode s = ChannelModeBroadcast" "cs_mode q = ChannelModeBroadcast"
      using alike alike_find_sub [OF alike(1), of i ch]
      by (auto simp: not_competing_def same_sub_def elim: option.rel_cases)
    moreover have "list_all2 same_msg
        (take 10 (sort_key cm_id (filter (\<lambda>m. cm_channel m = ch \<and> cm_id m > c) (messages d))))
        (take 10 (sort_key cm_id (filter (\<lambda>m. cm_channel m = ch \<and> cm_id m > c) (messages d'))))" for c
      using alike by (auto simp: alike_def same_rows intro!: table_rules)
    ultimately show ?thesis
      using alike Some alike_find_cursor [OF alike(1), of i ch] alike_faults [OF alike(1)]
      by (simp add: get_pending_for_instance_def pg_get_pending_for_instance_def my_get_pending_for_instance_def)
  qed
  then show "agree (\<lambda>d d'. alike d d' \<and> not_competing i ch d) (list_all2 same_msg)
     (get_pending_for_instance i ch) (pg_get_pending_for_instance i ch)"
   and "agree (\<lambda>d d'. alike d d' \<and> not_competing i ch d) (list_all2 same_msg)
     (get_pending_for_instance i ch) (my_get_pending_for_instance i ch)"
    by (auto simp: sim_def)
qed


section \<open>Delivery\<close>

lemma sim_inv:
  assumes "sim P E m m' Q" "preserves I m"
  shows "sim (\<lambda>s t. P s t \<and> I s) E m m' (\<lambda>x y s t. Q x y s t \<and> I s)"
proof (rule simI)
  fix s t
  assume P: "P s t \<and> I s"
  then have "same_end E Q (m s) (m' t)" using simD [OF assms(1)] by blast
  then show "same_end E (\<lambda>x y s t. Q x y s t \<and> I s) (m s) (m' t)"
    using preservesD [OF assms(2), of s] P by (cases rule: same_endE) auto
qed

lemma agree_on_err:
  assumes "agree alike R c c'" "sim P alike m m' Q"
  shows "sim P alike (on_err c m) (on_err c' m') Q"
proof (rule sim_on_err [OF assms(2)])
  fix d d'
  assume "alike d d'"
  from simD [OF assms(1) this] show "alike (snd (c d)) (snd (c' d'))"
    by (cases rule: same_endE) auto
qed

lemma agree_insert_history_strict:
  "agree (of_instance i) (=) (insert_history_strict i act ty data) (pg_insert_history_strict i act ty data)"
  "agree (of_instance i) (=) (insert_history_strict i act ty data) (my_insert_history_strict i act ty data)"
  unfolding insert_history_strict_def pg_insert_history_strict_def my_insert_history_strict_def
  by (rule sim_exec_try; auto simp: alike_faults alike_fk alike_has_history alike_insert_history)+

lemma agree_deliver:
  "agree (of_instance i) (=) (deliver_channel_message i m) (pg_deliver_channel_message i m)"
  "agree (of_instance i) (=) (deliver_channel_message i m) (my_deliver_channel_message i m)"
  unfolding deliver_channel_message_def pg_deliver_channel_message_def my_deliver_channel_message_def
  by (rule sim_try, rule agree_insert_history_strict, rule sim_weaken, rule agree_clear_waiting, simp_all)+

lemma fk_kept_by_insert: "preserves (\<lambda>d. fk_instance d i) (insert_history_strict i act ty data)"
  unfolding insert_history_strict_def
  by (rule preservesI)
    (auto simp: exec_try_def stmt_def try_go_def fk_instance_def find_instance_def insert_history_def split: list.split)

lemma agree_deliver_rest:
  assumes "agree alike (=) (release_lock i wk) rel'"
    and "agree (of_instance i) (=) (insert_history_strict i act ty data) ins'"
    and "agree (of_instance i) (=) (exec (set_cursor i ch n)) cur'"
    and "agree alike (=) (clear_channel_waiting_state i ch) clr'"
    and "agree alike (=) (update_instance_status i StatusRunning '''') upd'"
  shows "agree (of_instance i) (=)
     (try_go (on_err (release_lock i wk) (map_err e1 (insert_history_strict i act ty data))) (\<lambda>_.
      try_go (if b then on_err (release_lock i wk) (map_err e2 (exec (set_cursor i ch n))) else ret ()) (\<lambda>_.
      try_go (on_err (release_lock i wk) (map_err e3 (clear_channel_waiting_state i ch))) (\<lambda>_.
      try_go (on_err (release_lock i wk) (map_err e4 (update_instance_status i StatusRunning ''''))) (\<lambda>_.
      try_go (map_err e5 (release_lock i wk)) (\<lambda>_. ret x))))))
     (try_go (on_err rel' (map_err e1 ins')) (\<lambda>_.
      try_go (if b then on_err rel' (map_err e2 cur') else ret ()) (\<lambda>_.
      try_go (on_err rel' (map_err e3 clr')) (\<lambda>_.
      try_go (on_err rel' (map_err e4 upd')) (\<lambda>_.
      try_go (map_err e5 rel') (\<lambda>_. ret x))))))"
proof (rule sim_try [where R = "\<lambda>_ _. of_instance i"])
  have "sim (of_instance i) alike (insert_history_strict i act ty data) ins' (\<lambda>_ _. of_instance i)"
    by (rule sim_weaken [OF sim_inv [OF assms(2) fk_kept_by_insert [of i]]]) simp_all
  then show "sim (of_instance i) alike (on_err (release_lock i wk) (map_err e1 (insert_history_strict i act ty data)))
      (on_err rel' (map_err e1 ins')) (\<lambda>_ _. of_instance i)"
    by (intro agree_on_err [OF assms(1)] sim_map_err)
qed (rule sim_try [where R = "\<lambda>_ _. alike"], rule sim_same_if, rule agree_on_err [OF assms(1)],
     rule sim_map_err, rule sim_weaken [OF assms(3)], simp, simp, rule sim_ret, simp,
     rule sim_try [where R = "\<lambda>_ _. alike"], rule agree_on_err [OF assms(1)],
     rule sim_map_err, rule sim_weaken [OF assms(4)], simp, simp,
     rule sim_try [where R = "\<lambda>_ _. alike"], rule agree_on_err [OF assms(1)],
     rule sim_map_err, rule sim_weaken [OF assms(5)], simp, simp,
     rule sim_try [where R = "\<lambda>_ _. alike"], rule sim_map_err, rule sim_weaken [OF assms(1)], simp, simp,
     rule sim_ret, simp)


text \<open>
  The delivery under the lock: nobody else holds it, and the instance, if it exists, waits on
  the channel (for a missing subscription MySQL goes on where the others return an error).
\<close>

definition deliverable :: "string \<Rightarrow> string \<Rightarrow> string \<Rightarrow> db \<Rightarrow> bool" where
  "deliverable i ch wk d \<longleftrightarrow> lock_uncontested i wk d \<and>
     (fk_instance d i \<longrightarrow> (case find_sub d i ch of None \<Rightarrow> False | Some s \<Rightarrow> is_waiting s))"

lemma deliverable_cases:
  assumes "deliverable i ch wk d" "faults d = []"
  obtains (no_instance) d1 where "try_acquire_lock i wk t d = (Inr False, d1)"
  | (taken) d1 sub act where "try_acquire_lock i wk t d = (Inr True, d1)" "fk_instance d1 i"
      "find_sub d1 i ch = Some sub" "cs_activity sub = Some act" "act \<noteq> ''''"
proof (cases "fk_instance d i")
  case True
  let ?d1 = "snd (try_acquire_lock i wk t d)"
  have "try_acquire_lock i wk t d = (Inr True, ?d1)" "find_sub ?d1 i ch = find_sub d i ch" "fk_instance ?d1 i"
    using assms True by (auto simp: uncontested_acquire deliverable_def fk_instance_def find_sub_def
        find_instance_def update_instances_def find_None_iff)
  with assms True that(2) [of ?d1] show ?thesis
    by (auto simp: deliverable_def is_waiting_def split: option.splits)
next
  case False
  with assms that(1) show ?thesis by (simp add: deliverable_def fk_instance_def uncontested_acquire)
qed

lemma agree_deliver_with_lock_pg:
  assumes "\<not> row_locked i"
  shows "agree (\<lambda>d d'. alike d d' \<and> deliverable i ch wk d) (=)
    (deliver_channel_message_with_lock i ch m wk t) (pg_deliver_locked row_locked i ch m wk t)"
proof (rule simI)
  fix d d'
  assume P: "alike d d' \<and> deliverable i ch wk d"
  then have acq: "same_end alike (\<lambda>x y d d'. x = y \<and> alike d d') (try_acquire_lock i wk t d) (pg_try_acquire_lock row_locked i wk t d')"
    using simD [OF agree_try_acquire_lock(1) [where row_locked = row_locked and i = i, OF assms]] by (simp add: deliverable_def)
  from P have "deliverable i ch wk d" "faults d = []" by (auto dest: alike_faults)
  then show "same_end alike (\<lambda>x y d d'. x = y \<and> alike d d')
      (deliver_channel_message_with_lock i ch m wk t d) (pg_deliver_locked row_locked i ch m wk t d')"
  proof (cases rule: deliverable_cases [where t = t])
    case (no_instance d1)
    with acq show ?thesis
      by (cases rule: same_endE) (auto simp: deliver_channel_message_with_lock_def pg_deliver_locked_def)
  next
    case (taken d1 sub act)
    with acq obtain d1' where d1': "pg_try_acquire_lock row_locked i wk t d' = (Inr True, d1')" "alike d1 d1'"
      by (cases rule: same_endE) auto
    obtain r q where r: "find_instance d1 i = Some r" "find_instance d1' i = Some q" "inst_workflow r = inst_workflow q"
      using taken(2) alike_find_instance [OF d1'(2), of i] by (auto simp: fk_instance_def same_inst_def elim: option.rel_cases)
    obtain s' where s': "find_sub d1' i ch = Some s'" "cs_activity s' = Some act" "cs_mode sub = cs_mode s'"
      using taken(3,4) alike_find_sub [OF d1'(2), of i ch] by (auto simp: same_sub_def elim: option.rel_cases)
    note rest = simD [OF agree_deliver_rest [OF agree_locks(1) agree_insert_history_strict(1)
          agree_update_cursor(1) [unfolded update_delivery_cursor_def pg_update_delivery_cursor_def]
          agree_clear_waiting(1) agree_instance_updates(1) [unfolded pg_update_instance_status_def]]]
    show ?thesis
      using taken d1' r s' alike_faults [OF d1'(2)]
      by (simp add: deliver_channel_message_with_lock_def pg_deliver_locked_def Let_def rest split del: if_split)
  qed
qed

lemma agree_deliver_with_lock_my:
  assumes "\<not> row_locked i"
  shows "agree (\<lambda>d d'. alike d d' \<and> deliverable i ch wk d) (=)
    (deliver_channel_message_with_lock i ch m wk t) (my_deliver_channel_message_with_lock row_locked i ch m wk t)"
proof (rule simI)
  fix d d'
  assume P: "alike d d' \<and> deliverable i ch wk d"
  then have acq: "same_end alike (\<lambda>x y d d'. x = y \<and> alike d d') (try_acquire_lock i wk t d) (my_try_acquire_lock row_locked i wk t d')"
    using simD [OF agree_try_acquire_lock(2) [where row_locked = row_locked and i = i, OF assms]] by (simp add: deliverable_def)
  from P have "deliverable i ch wk d" "faults d = []" by (auto dest: alike_faults)
  then show "same_end alike (\<lambda>x y d d'. x = y \<and> alike d d')
      (deliver_channel_message_with_lock i ch m wk t d) (my_deliver_channel_message_with_lock row_locked i ch m wk t d')"
  proof (cases rule: deliverable_cases [where t = t])
    case (no_instance d1)
    with acq show ?thesis
      by (cases rule: same_endE) (auto simp: deliver_channel_message_with_lock_def my_deliver_channel_message_with_lock_def)
  next
    case (taken d1 sub act)
    with acq obtain d1' where d1': "my_try_acquire_lock row_locked i wk t d' = (Inr True, d1')" "alike d1 d1'"
      by (cases rule: same_endE) auto
    obtain r q where r: "find_instance d1 i = Some r" "find_instance d1' i = Some q" "inst_workflow r = inst_workflow q"
      using taken(2) alike_find_instance [OF d1'(2), of i] by (auto simp: fk_instance_def same_inst_def elim: option.rel_cases)
    obtain s' where s': "find_sub d1' i ch = Some s'" "cs_activity s' = Some act" "cs_mode sub = cs_mode s'"
      using taken(3,4) alike_find_sub [OF d1'(2), of i ch] by (auto simp: same_sub_def elim: option.rel_cases)
    note rest = simD [OF agree_deliver_rest [OF agree_locks(2) agree_insert_history_strict(2)
          agree_update_cursor(2) [unfolded update_delivery_cursor_def my_update_delivery_cursor_def]
          agree_clear_waiting(2) agree_instance_updates(2) [unfolded my_update_instance_status_def]]]
    show ?thesis
      using taken d1' r s' alike_faults [OF d1'(2)]
      by (simp add: deliver_channel_message_with_lock_def my_deliver_channel_message_with_lock_def Let_def rest split del: if_split)
  qed
qed

end
