(* ===== verification/Storages_Agree.thy ===== *)
theory Storages_Agree
  imports Server_Refinement
begin

text \<open>
  The Storage interface as a contract: for every sequence of portable calls, made on alike
  databases, the implementation on PostgreSQL and the one on MySQL give the answers of the one
  on SQLite, call by call, and leave alike databases.
\<close>

section \<open>Answers\<close>

text \<open>Two answers are the same up to the columns that hold times.\<close>

inductive same_answer :: "answer \<Rightarrow> answer \<Rightarrow> bool" where
  same_value: "same_answer x x"
| same_instance: "rel_option same_inst r q \<Longrightarrow> same_answer (InstanceRow r) (InstanceRow q)"
| same_history: "list_all2 same_hist hs ks \<Longrightarrow> same_answer (HistoryPage hs rest) (HistoryPage ks rest)"
| same_archived: "list_all2 same_arch as bs \<Longrightarrow> same_answer (ArchivedRows as) (ArchivedRows bs)"
| same_subscription: "rel_option same_sub_row s u \<Longrightarrow> same_answer (SubscriptionRow s) (SubscriptionRow u)"
| same_subscriptions: "list_all2 same_sub_row ss us \<Longrightarrow> same_answer (SubscriptionRows ss) (SubscriptionRows us)"
| same_messages: "list_all2 same_msg ms ns \<Longrightarrow> same_answer (MessageRows ms) (MessageRows ns)"

lemmas answer_intros = same_answer.intros

inductive_simps same_answer_simps:
  "same_answer Done y"
  "same_answer (Granted b) y"
  "same_answer (Number n) y"

abbreviation same_outcome :: "go_error + answer \<Rightarrow> go_error + answer \<Rightarrow> bool" where
  "same_outcome \<equiv> rel_sum (\<lambda>_ _. True) same_answer"

section \<open>Portable calls\<close>

definition portable_instance_call :: "instance_call \<Rightarrow> bool" where
  "portable_instance_call c \<longleftrightarrow>
     (case c of
        CreateInstance inst \<Rightarrow> inst_framework inst \<in> {'''', ''go''}
      | ListInstances opts \<Rightarrow> False
      | FindResumableWorkflows limit \<Rightarrow> False
      | _ \<Rightarrow> True)"

definition portable_lock_call :: "environment \<Rightarrow> db \<Rightarrow> lock_call \<Rightarrow> bool" where
  "portable_lock_call env d c \<longleftrightarrow>
     (case c of
        TryAcquireLock i wk t \<Rightarrow> \<not> env_locked env i \<and> lock_uncontested i wk d
      | CleanupStaleLocks t \<Rightarrow> False
      | _ \<Rightarrow> True)"

definition portable_history_call :: "db \<Rightarrow> history_call \<Rightarrow> bool" where
  "portable_history_call d c \<longleftrightarrow>
     (case c of AppendHistory i act ty data dt \<Rightarrow> fk_instance d i | _ \<Rightarrow> True)"

definition portable_timer_call :: "db \<Rightarrow> timer_call \<Rightarrow> bool" where
  "portable_timer_call d c \<longleftrightarrow>
     (case c of
        RegisterTimerSubscription i timer expires act \<Rightarrow> fk_instance d i
      | RegisterTimerSubscriptionAndReleaseLock i timer expires act j wk \<Rightarrow> fk_instance d i
      | FindExpiredTimers limit \<Rightarrow> False
      | _ \<Rightarrow> True)"

definition portable_outbox_call :: "outbox_call \<Rightarrow> bool" where
  "portable_outbox_call c \<longleftrightarrow>
     (case c of GetPendingOutboxEvents limit \<Rightarrow> False | CleanupOldOutboxEvents age \<Rightarrow> False | _ \<Rightarrow> True)"

definition portable_compensation_call :: "db \<Rightarrow> compensation_call \<Rightarrow> bool" where
  "portable_compensation_call d c \<longleftrightarrow>
     (case c of AddCompensation i act name args \<Rightarrow> fk_instance d i | GetCompensations i \<Rightarrow> False)"

definition portable_channel_call :: "environment \<Rightarrow> db \<Rightarrow> db \<Rightarrow> channel_call \<Rightarrow> bool" where
  "portable_channel_call env d d' c \<longleftrightarrow>
     (case c of
        PublishToChannel ch data md \<Rightarrow> fresh_message (env_uuid env) d d'
      | SubscribeToChannel i ch mode \<Rightarrow> fk_instance d i
      | GetPendingChannelMessagesForInstance i ch \<Rightarrow> not_competing i ch d
      | ClaimChannelMessage n i \<Rightarrow> False
      | UpdateDeliveryCursor i ch n \<Rightarrow> fk_instance d i
      | GetChannelSubscribersWaiting ch \<Rightarrow> no_blank_wait d
      | DeliverChannelMessage i m \<Rightarrow> fk_instance d i
      | DeliverChannelMessageWithLock i ch m wk t \<Rightarrow> \<not> env_locked env i \<and> deliverable i ch wk d
      | CleanupOldChannelMessages age \<Rightarrow> False
      | FindExpiredChannelSubscriptions limit \<Rightarrow> False
      | _ \<Rightarrow> True)"

definition portable_group_call :: "db \<Rightarrow> group_call \<Rightarrow> bool" where
  "portable_group_call d c \<longleftrightarrow> (case c of JoinGroup i g \<Rightarrow> fk_instance d i | _ \<Rightarrow> True)"

definition portable_system_lock_call :: "db \<Rightarrow> system_lock_call \<Rightarrow> bool" where
  "portable_system_lock_call d c \<longleftrightarrow>
     (case c of
        TryAcquireSystemLock n wk t \<Rightarrow> system_lock_uncontested n wk d
      | ReleaseSystemLock n wk \<Rightarrow> True
      | CleanupExpiredSystemLocks \<Rightarrow> False)"

definition portable :: "environment \<Rightarrow> db \<Rightarrow> db \<Rightarrow> storage_request \<Rightarrow> bool" where
  "portable env d d' req \<longleftrightarrow>
     (case req of
        InstanceManager c \<Rightarrow> portable_instance_call c
      | LockManager c \<Rightarrow> portable_lock_call env d c
      | HistoryManager c \<Rightarrow> portable_history_call d c
      | TimerSubscriptionManager c \<Rightarrow> portable_timer_call d c
      | OutboxManager c \<Rightarrow> portable_outbox_call c
      | CompensationManager c \<Rightarrow> portable_compensation_call d c
      | ChannelManager c \<Rightarrow> portable_channel_call env d d' c
      | GroupManager c \<Rightarrow> portable_group_call d c
      | SystemLockManager c \<Rightarrow> portable_system_lock_call d c
      | HistoryArchiveManager c \<Rightarrow> True)"

lemmas portable_defs =
  portable_instance_call_def portable_lock_call_def portable_history_call_def portable_timer_call_def
  portable_outbox_call_def portable_compensation_call_def portable_channel_call_def portable_group_call_def
  portable_system_lock_call_def

section \<open>Call by call\<close>

lemma agree_answering:
  assumes "agree P R m m'" "\<And>d d'. Q d d' \<Longrightarrow> P d d'" "\<And>x y. R x y \<Longrightarrow> same_answer (f x) (g y)"
  shows "agree Q same_answer (answering f m) (answering g m')"
  unfolding answering_def
proof (rule sim_try [where R = "\<lambda>x y d d'. R x y \<and> alike d d'"])
  show "sim Q alike m m' (\<lambda>x y d d'. R x y \<and> alike d d')"
    by (rule sim_weaken [OF assms(1)]) (auto simp: assms(2))
qed (rule sim_ret, simp add: assms(3))

lemma agree_given: "(b \<Longrightarrow> agree P R m m') \<Longrightarrow> agree (\<lambda>d d'. P d d' \<and> b) R m m'"
  by (auto simp: sim_def)

lemmas agree_updates =
  agree_instance_updates agree_locks agree_outbox_updates agree_deletions agree_clear_waiting agree_cancel_instance
  agree_register_receive agree_cleanup_subscriptions agree_archive_history agree_append_history
  agree_register_timer agree_update_cursor agree_add_compensation agree_join_group agree_add_outbox
  agree_subscribe agree_deliver agree_timer_and_release agree_publish agree_try_acquire_system_lock

lemmas agree_queries =
  agree_get_instance agree_history_count agree_history_page agree_channel_subscription agree_channel_mode
  agree_waiting agree_pending agree_delivery_cursor agree_group_members agree_archived agree_pending_for_instance

lemmas agree_methods = agree_updates agree_queries

lemma agree_my_instance_call:
  "agree (\<lambda>d d'. alike d d' \<and> portable_instance_call c) same_answer (sqlite_instance_call env c) (my_instance_call env c)"
proof (cases c)
  case (CreateInstance inst)
  then show ?thesis
    unfolding portable_instance_call_def
    by (auto intro!: agree_given agree_answering [OF agree_create_instance(2)] answer_intros)
qed ((simp, rule agree_answering, rule agree_methods; simp add: answer_intros; fail) | simp add: portable_instance_call_def sim_def)+

lemma agree_my_lock_call:
  "agree (\<lambda>d d'. alike d d' \<and> portable_lock_call env d c) same_answer (sqlite_lock_call env c) (my_lock_call env c)"
proof (cases c)
  case (TryAcquireLock i wk t)
  show ?thesis
  proof (cases "env_locked env i")
    case False
    show ?thesis
      unfolding TryAcquireLock portable_lock_call_def sqlite_lock_call.simps my_lock_call.simps
      by (rule agree_answering [OF agree_try_acquire_lock(2) [where row_locked = "env_locked env" and i = i, OF False]]) (simp_all add: answer_intros)
  qed (simp add: TryAcquireLock portable_lock_call_def sim_def)
qed ((simp, rule agree_answering, rule agree_methods; simp add: answer_intros; fail) | simp add: portable_lock_call_def sim_def)+

lemma agree_my_history_call:
  "agree (\<lambda>d d'. alike d d' \<and> portable_history_call d c) same_answer (sqlite_history_call env c) (my_history_call env c)"
  by (cases c; simp; rule agree_answering, rule agree_methods;
      auto simp: portable_history_call_def same_page_def intro: answer_intros)

lemma agree_my_timer_call:
  "agree (\<lambda>d d'. alike d d' \<and> portable_timer_call d c) same_answer (sqlite_timer_call env c) (my_timer_call env c)"
  by (cases c; ((simp, rule agree_answering, rule agree_methods; simp add: portable_timer_call_def answer_intros; fail)
      | simp add: portable_timer_call_def sim_def))

lemma agree_my_outbox_call:
  "agree (\<lambda>d d'. alike d d' \<and> portable_outbox_call c) same_answer (sqlite_outbox_call env c) (my_outbox_call env c)"
  by (cases c; ((simp, rule agree_answering, rule agree_methods; simp add: answer_intros; fail)
      | simp add: portable_outbox_call_def sim_def))

lemma agree_my_compensation_call:
  "agree (\<lambda>d d'. alike d d' \<and> portable_compensation_call d c) same_answer
     (sqlite_compensation_call env c) (my_compensation_call env c)"
  by (cases c; ((simp, rule agree_answering, rule agree_methods; simp add: portable_compensation_call_def answer_intros; fail)
      | simp add: portable_compensation_call_def sim_def))

lemma agree_my_channel_call:
  "agree (\<lambda>d d'. alike d d' \<and> portable_channel_call env d d' c) same_answer
     (sqlite_channel_call env c) (my_channel_call env c)"
proof (cases c)
  case (DeliverChannelMessageWithLock i ch m wk t)
  show ?thesis
  proof (cases "env_locked env i")
    case False
    show ?thesis
      unfolding DeliverChannelMessageWithLock portable_channel_call_def sqlite_channel_call.simps my_channel_call.simps
      by (rule agree_answering [OF agree_deliver_with_lock_my [where row_locked = "env_locked env" and i = i, OF False]])
        (simp_all add: answer_intros)
  qed (simp add: DeliverChannelMessageWithLock portable_channel_call_def sim_def)
qed ((simp, rule agree_answering, rule agree_methods; simp add: portable_channel_call_def answer_intros; fail)
     | simp add: portable_channel_call_def sim_def)+

lemma agree_my_group_call:
  "agree (\<lambda>d d'. alike d d' \<and> portable_group_call d c) same_answer (sqlite_group_call env c) (my_group_call env c)"
  by (cases c; simp; rule agree_answering, rule agree_methods; simp add: portable_group_call_def answer_intros)

lemma agree_my_system_lock_call:
  "agree (\<lambda>d d'. alike d d' \<and> portable_system_lock_call d c) same_answer
     (sqlite_system_lock_call env c) (my_system_lock_call env c)"
  by (cases c; ((simp, rule agree_answering, rule agree_methods; simp add: portable_system_lock_call_def answer_intros; fail)
      | simp add: portable_system_lock_call_def sim_def))

lemma agree_my_archive_call:
  "agree alike same_answer (sqlite_archive_call env c) (my_archive_call env c)"
  by (cases c; simp; rule agree_answering, rule agree_methods; simp add: answer_intros)

lemma agree_my_call:
  "agree (\<lambda>d d'. alike d d' \<and> portable env d d' req) same_answer (sqlite_call env req) (my_call env req)"
  unfolding portable_def
  by (cases req; simp add: agree_my_instance_call agree_my_lock_call agree_my_history_call agree_my_timer_call
      agree_my_outbox_call agree_my_compensation_call agree_my_channel_call agree_my_group_call
      agree_my_system_lock_call agree_my_archive_call)


section \<open>PostgreSQL, with its notifications\<close>

abbreviation agree_pg ::
    "(db \<Rightarrow> db \<Rightarrow> bool) \<Rightarrow> ('a \<Rightarrow> 'b \<Rightarrow> bool) \<Rightarrow> 'a dbm \<Rightarrow> 'b pgm \<Rightarrow> bool" where
  "agree_pg P R m m' \<equiv> sim (\<lambda>d s. P d (pg_db s)) (\<lambda>d s. alike d (pg_db s)) m m' (\<lambda>x y d s. R x y \<and> alike d (pg_db s))"

lemma agree_on_db:
  assumes "agree P R m m'"
  shows "agree_pg P R m (on_db m')"
proof (rule simI)
  fix d and s :: pg
  assume "P d (pg_db s)"
  from simD [OF assms this] show "same_end (\<lambda>d s. alike d (pg_db s)) (\<lambda>x y d s. R x y \<and> alike d (pg_db s)) (m d) (on_db m' s)"
    by (cases rule: same_endE) (auto simp: on_db_def)
qed

text \<open>A notification leaves the tables alone.\<close>

lemma agree_then_notify:
  assumes "agree P R m m'" "\<And>y s. faults (pg_db s) = [] \<Longrightarrow> fst (k y s) = Inr (g y) \<and> pg_db (snd (k y s)) = pg_db s"
    and "\<And>x y. R x y \<Longrightarrow> R' x (g y)"
  shows "agree_pg P R' m (try_go (on_db m') k)"
proof (rule simI)
  fix d and s :: pg
  assume "P d (pg_db s)"
  from simD [OF agree_on_db [OF assms(1)] this]
  show "same_end (\<lambda>d s. alike d (pg_db s)) (\<lambda>x y d s. R' x y \<and> alike d (pg_db s)) (m d) (try_go (on_db m') k s)"
  proof (cases rule: same_endE)
    case (ok x y d1 s1)
    with assms(2) [of s1 y] alike_faults obtain s2 where "k y s1 = (Inr (g y), s2)" "pg_db s2 = pg_db s1"
      by (cases "k y s1") auto
    with ok assms(3) show ?thesis by (simp add: try_go_def)
  qed (simp add: try_go_def)
qed

lemma notify_keeps_tables:
  "faults (pg_db s) = [] \<Longrightarrow> fst (send_notify ch doc s) = Inr () \<and> pg_db (snd (send_notify ch doc s)) = pg_db s"
  by (simp add: send_notify_def)

lemma agree_pg_register_timer:
  "agree_pg (of_instance i) (=) (register_timer_subscription i timer expires act)
     (pg_register_timer_subscription i timer expires act)"
  unfolding pg_register_timer_subscription_def
  by (rule agree_then_notify [OF agree_register_timer(1), where g = "\<lambda>_. ()"]) (simp_all add: notify_keeps_tables)

lemma agree_pg_timer_and_release:
  "agree_pg (of_instance i) (=) (register_timer_and_release_lock in_tx i timer expires act j wk)
     (pg_register_timer_and_release_lock in_tx i timer expires act j wk)"
  unfolding pg_register_timer_and_release_lock_def
  by (rule agree_then_notify [OF agree_timer_and_release(1), where g = "\<lambda>_. ()"]) (simp_all add: notify_keeps_tables)

lemma agree_pg_add_outbox: "agree_pg alike (=) (add_outbox_event ev) (pg_add_outbox_event ev)"
  unfolding pg_add_outbox_event_def
  by (rule agree_then_notify [OF agree_add_outbox(1), where g = "\<lambda>_. ()"]) (simp_all add: notify_keeps_tables)

lemma agree_pg_publish:
  "agree_pg (\<lambda>d d'. alike d d' \<and> fresh_message uuid d d') (=) (publish_to_channel ch data md)
     (pg_publish_to_channel uuid ch data md)"
  unfolding pg_publish_to_channel_def
  by (rule agree_then_notify [OF agree_publish(1), where g = "\<lambda>n. n"])
    (simp_all add: try_go_def notify_keeps_tables split: prod.split, auto simp: send_notify_def)

lemma agree_pg_deliver_with_lock:
  assumes "\<not> row_locked i"
  shows "agree_pg (\<lambda>d d'. alike d d' \<and> deliverable i ch wk d) (=) (deliver_channel_message_with_lock i ch m wk t)
    (pg_deliver_channel_message_with_lock row_locked i ch m wk t)"
  unfolding pg_deliver_channel_message_with_lock_def
  by (rule agree_then_notify [OF agree_deliver_with_lock_pg [where row_locked = row_locked and i = i, OF assms], where g = "\<lambda>n. n"])
    (auto simp: try_go_def send_notify_def split: option.split)

lemma agree_pg_answering:
  assumes "agree_pg P R m m'" "\<And>d d'. Q d d' \<Longrightarrow> P d d'" "\<And>x y. R x y \<Longrightarrow> same_answer (f x) (g y)"
  shows "agree_pg Q same_answer (answering f m) (answering g m')"
  unfolding answering_def
proof (rule sim_try [where R = "\<lambda>x y d s. R x y \<and> alike d (pg_db s)"])
  show "sim (\<lambda>d s. Q d (pg_db s)) (\<lambda>d s. alike d (pg_db s)) m m' (\<lambda>x y d s. R x y \<and> alike d (pg_db s))"
    by (rule sim_weaken [OF assms(1)]) (auto simp: assms(2))
qed (rule sim_ret, simp add: assms(3))

lemmas pg_methods =
  agree_methods [THEN agree_on_db] agree_pg_register_timer agree_pg_timer_and_release agree_pg_add_outbox agree_pg_publish

lemma agree_pg_given: "(b \<Longrightarrow> agree_pg P R m m') \<Longrightarrow> agree_pg (\<lambda>d d'. P d d' \<and> b) R m m'"
  by (auto simp: sim_def)

lemma agree_pg_instance_call:
  "agree_pg (\<lambda>d d'. alike d d' \<and> portable_instance_call c) same_answer (sqlite_instance_call env c) (pg_instance_call env c)"
proof (cases c)
  case (CreateInstance inst)
  then show ?thesis
    unfolding portable_instance_call_def
    by (auto intro!: agree_pg_given agree_pg_answering [OF agree_on_db [OF agree_create_instance(1)]] answer_intros)
qed ((simp, rule agree_pg_answering, rule pg_methods; simp add: answer_intros; fail) | simp add: portable_instance_call_def sim_def)+

lemma agree_pg_lock_call:
  "agree_pg (\<lambda>d d'. alike d d' \<and> portable_lock_call env d c) same_answer (sqlite_lock_call env c) (pg_lock_call env c)"
proof (cases c)
  case (TryAcquireLock i wk t)
  show ?thesis
  proof (cases "env_locked env i")
    case False
    show ?thesis
      unfolding TryAcquireLock portable_lock_call_def sqlite_lock_call.simps pg_lock_call.simps
      by (rule agree_pg_answering [OF agree_on_db [OF agree_try_acquire_lock(1) [where row_locked = "env_locked env" and i = i, OF False]]]) (simp_all add: answer_intros)
  qed (simp add: TryAcquireLock portable_lock_call_def sim_def)
qed ((simp, rule agree_pg_answering, rule pg_methods; simp add: answer_intros; fail) | simp add: portable_lock_call_def sim_def)+

lemma agree_pg_history_call:
  "agree_pg (\<lambda>d d'. alike d d' \<and> portable_history_call d c) same_answer (sqlite_history_call env c) (pg_history_call env c)"
  by (cases c; simp; rule agree_pg_answering, rule pg_methods;
      auto simp: portable_history_call_def same_page_def intro: answer_intros)

lemma agree_pg_timer_call:
  "agree_pg (\<lambda>d d'. alike d d' \<and> portable_timer_call d c) same_answer (sqlite_timer_call env c) (pg_timer_call env c)"
  by (cases c; ((simp, rule agree_pg_answering, rule pg_methods; simp add: portable_timer_call_def answer_intros; fail)
      | simp add: portable_timer_call_def sim_def))

lemma agree_pg_outbox_call:
  "agree_pg (\<lambda>d d'. alike d d' \<and> portable_outbox_call c) same_answer (sqlite_outbox_call env c) (pg_outbox_call env c)"
  by (cases c; ((simp, rule agree_pg_answering, rule pg_methods; simp add: answer_intros; fail)
      | simp add: portable_outbox_call_def sim_def))

lemma agree_pg_compensation_call:
  "agree_pg (\<lambda>d d'. alike d d' \<and> portable_compensation_call d c) same_answer
     (sqlite_compensation_call env c) (pg_compensation_call env c)"
  by (cases c; ((simp, rule agree_pg_answering, rule pg_methods; simp add: portable_compensation_call_def answer_intros; fail)
      | simp add: portable_compensation_call_def sim_def))

lemma agree_pg_channel_call:
  "agree_pg (\<lambda>d d'. alike d d' \<and> portable_channel_call env d d' c) same_answer
     (sqlite_channel_call env c) (pg_channel_call env c)"
proof (cases c)
  case (DeliverChannelMessageWithLock i ch m wk t)
  show ?thesis
  proof (cases "env_locked env i")
    case False
    show ?thesis
      unfolding DeliverChannelMessageWithLock portable_channel_call_def sqlite_channel_call.simps pg_channel_call.simps
        channel_call.case
      by (rule agree_pg_answering [OF agree_pg_deliver_with_lock [where row_locked = "env_locked env" and i = i, OF False],
            where Q = "\<lambda>d d'. alike d d' \<and> \<not> env_locked env i \<and> deliverable i ch wk d"])
        (simp_all add: answer_intros)
  qed (simp add: DeliverChannelMessageWithLock portable_channel_call_def sim_def)
qed ((simp, rule agree_pg_answering, rule pg_methods; simp add: portable_channel_call_def answer_intros; fail)
     | simp add: portable_channel_call_def sim_def)+

lemma agree_pg_group_call:
  "agree_pg (\<lambda>d d'. alike d d' \<and> portable_group_call d c) same_answer (sqlite_group_call env c) (pg_group_call env c)"
  by (cases c; simp; rule agree_pg_answering, rule pg_methods; simp add: portable_group_call_def answer_intros)

lemma agree_pg_system_lock_call:
  "agree_pg (\<lambda>d d'. alike d d' \<and> portable_system_lock_call d c) same_answer
     (sqlite_system_lock_call env c) (pg_system_lock_call env c)"
  by (cases c; ((simp, rule agree_pg_answering, rule pg_methods; simp add: portable_system_lock_call_def answer_intros; fail)
      | simp add: portable_system_lock_call_def sim_def))

lemma agree_pg_archive_call:
  "agree_pg alike same_answer (sqlite_archive_call env c) (pg_archive_call env c)"
  by (cases c; simp; rule agree_pg_answering, rule pg_methods; simp add: answer_intros)

lemma agree_pg_storage_call:
  "agree_pg (\<lambda>d d'. alike d d' \<and> portable env d d' req) same_answer (sqlite_call env req) (pg_call env req)"
  unfolding portable_def
  by (cases req; simp add: agree_pg_instance_call agree_pg_lock_call agree_pg_history_call agree_pg_timer_call
      agree_pg_outbox_call agree_pg_compensation_call agree_pg_channel_call agree_pg_group_call
      agree_pg_system_lock_call agree_pg_archive_call)

section \<open>Sequences of calls\<close>

fun perform :: "('r \<Rightarrow> ('s, go_error, answer) go) \<Rightarrow> 'r list \<Rightarrow> 's \<Rightarrow> (go_error + answer) list \<times> 's" where
  "perform call [] s = ([], s)"
| "perform call (r # rs) s =
     (case call r s of (a, s1) \<Rightarrow> case perform call rs s1 of (as, s2) \<Rightarrow> (a # as, s2))"

text \<open>Every call is portable on the databases it is made on.\<close>

fun all_portable :: "(environment \<times> storage_request) list \<Rightarrow> db \<Rightarrow> pg \<Rightarrow> db \<Rightarrow> bool" where
  "all_portable [] d p m = True"
| "all_portable ((env, req) # rs) d p m =
     (portable env d (pg_db p) req \<and> portable env d m req \<and>
      all_portable rs (snd (sqlite_call env req d)) (snd (pg_call env req p)) (snd (my_call env req m)))"

lemma perform_agree:
  assumes "\<And>env req s t. Q env req s t \<Longrightarrow> P s t \<Longrightarrow>
      same_end P (\<lambda>x y s t. same_answer x y \<and> P s t) (f env req s) (g env req t)"
    and "\<And>rs s t. ok rs s t \<Longrightarrow>
      (case rs of [] \<Rightarrow> True | (env, req) # rs' \<Rightarrow> Q env req s t \<and> ok rs' (snd (f env req s)) (snd (g env req t)))"
    and "ok rs s t" "P s t"
  shows "list_all2 same_outcome (fst (perform (case_prod f) rs s)) (fst (perform (case_prod g) rs t))
    \<and> P (snd (perform (case_prod f) rs s)) (snd (perform (case_prod g) rs t))"
  using assms(3,4)
proof (induction rs arbitrary: s t)
  case (Cons r rs)
  obtain env req where r: "r = (env, req)" by fastforce
  have ok: "Q env req s t" "ok rs (snd (f env req s)) (snd (g env req t))"
    using assms(2) [OF Cons.prems(1)] r by auto
  from assms(1) [OF ok(1) Cons.prems(2)] show ?case
  proof (cases rule: same_endE)
    case (err e e' s1 t1)
    with Cons.IH [of s1 t1] ok(2) r show ?thesis by (simp split: prod.split) fastforce
  next
    case (ok x y s1 t1)
    with Cons.IH [of s1 t1] \<open>ok rs (snd (f env req s)) (snd (g env req t))\<close> r show ?thesis
      by (simp split: prod.split) fastforce
  qed
qed simp



section \<open>A sequence on the three databases\<close>

definition one_env :: environment where
  "one_env = \<lparr>env_in_tx = False, env_holds = (\<lambda>_ _. False), env_locked = (\<lambda>_. False), env_uuid = ''u'',
     env_encode = (\<lambda>n. Inr (show_int n))\<rparr>"

definition one_instance :: workflow_instance where
  "one_instance = \<lparr>inst_id = ''i'', inst_workflow = ''w'', inst_framework = '''', inst_status = StatusRunning,
     inst_input = BNil, inst_output = None, inst_activity = None, inst_source_hash = '''', inst_owner = '''',
     inst_continued_from = None, inst_locked_by = None, inst_locked_at = None, inst_lock_timeout = None,
     inst_lock_expires = None, inst_started = 0, inst_updated = 0\<rparr>"

definition one_calls :: "(environment \<times> storage_request) list" where
  "one_calls = map (Pair one_env)
     [InstanceManager (CreateInstance one_instance), LockManager (TryAcquireLock ''i'' ''w1'' 300),
      HistoryManager (AppendHistory ''i'' ''a:1'' HistoryActivityCompleted (BJson JNull) ''json''),
      ChannelManager (PublishToChannel ''c'' (BJson JNull) BNil), LockManager (ReleaseLock ''i'' ''w1''),
      InstanceManager (CreateInstance one_instance), HistoryManager (GetHistoryCount ''i'')]"

definition one_pg :: pg where
  "one_pg = \<lparr>pg_db = empty_db, pg_notify_enabled = True, pg_sent = []\<rparr>"

lemma alike_refl_empty: "alike empty_db empty_db" "alike empty_db (pg_db one_pg)"
  by (simp_all add: alike_def empty_db_def one_pg_def)

lemma one_portable: "all_portable one_calls empty_db one_pg empty_db"
  by code_simp

lemma one_answers:
  "fst (perform (case_prod sqlite_call) one_calls empty_db) =
     [Inr Done, Inr (Granted True), Inr Done, Inr (Number 1), Inr Done,
      Inl (SqlConstraint ''UNIQUE constraint failed: workflow_instances.instance_id''), Inr (Number 1)]"
  by code_simp


lemma outcome_simps:
  "same_outcome (Inl e) b \<longleftrightarrow> (\<exists>f. b = Inl f)"
  "same_outcome (Inr x) b \<longleftrightarrow> (\<exists>y. b = Inr y \<and> same_answer x y)"
  by (cases b; simp)+


end
