(* ===== verification/Migrations.thy ===== *)
theory Migrations
  imports App_Notify
begin

text \<open>
  internal/migrations/migrations.go: recognising the kind of database, the format of a
  migration file, splitting it into statements, and applying the files that have not been
  applied yet.

  A \<open>migdb\<close> is a database before the application uses it: the versions in
  schema_migrations (\<open>None\<close>: there is no such table), the objects the migration statements
  create, of any type, and the driver's failures (the error text of the next statements, or
  no error). What a statement of a migration file does is the database's business: \<open>run\<close> maps
  its text and the objects to an error text, if any, and the objects afterwards. White space
  is ASCII white space.
\<close>

section \<open>The kind of database\<close>

datatype db_type = Sqlite | Postgresql | Mysql

definition starts_with :: "string \<Rightarrow> string \<Rightarrow> bool" where
  "starts_with p s \<longleftrightarrow> take (length p) s = p"

definition ends_with :: "string \<Rightarrow> string \<Rightarrow> bool" where
  "ends_with p s \<longleftrightarrow> starts_with (rev p) (rev s)"

definition detect_db_type :: "string \<Rightarrow> go_error + db_type" where
  "detect_db_type original =
     (let url = lower original
      in if contains url ''sqlite'' \<or> starts_with ''file:'' url \<or> ends_with ''.db'' url then Inr Sqlite
         else if starts_with ''postgres'' url then Inr Postgresql
         else if starts_with ''mysql'' url then Inr Mysql
         else Inl (ErrText (''cannot detect database type from URL: '' @ url)))"

section \<open>Texts\<close>

definition is_space :: "char \<Rightarrow> bool" where
  "is_space c \<longleftrightarrow> c = CHR '' '' \<or> (CHR 0x09 \<le> c \<and> c \<le> CHR 0x0D)"

definition trim :: "string \<Rightarrow> string" where
  "trim s = rev (dropWhile is_space (rev (dropWhile is_space s)))"

text \<open>The text before and after the first occurrence of a marker.\<close>

primrec after_first :: "string \<Rightarrow> string \<Rightarrow> string option" where
  "after_first p [] = None"
| "after_first p (c # cs) = (if starts_with p (c # cs) then Some (drop (length p) (c # cs)) else after_first p cs)"

primrec before_first :: "string \<Rightarrow> string \<Rightarrow> string" where
  "before_first p [] = []"
| "before_first p (c # cs) = (if starts_with p (c # cs) then [] else c # before_first p cs)"

primrec split_on :: "char \<Rightarrow> string \<Rightarrow> string list" where
  "split_on x [] = [[]]"
| "split_on x (c # cs) =
     (if c = x then [] # split_on x cs
      else case split_on x cs of [] \<Rightarrow> [[c]] | s # ss \<Rightarrow> (c # s) # ss)"

fun join_lines :: "string list \<Rightarrow> string" where
  "join_lines [] = []"
| "join_lines [s] = s"
| "join_lines (s # t # ts) = s @ CHR 0x0A # join_lines (t # ts)"

section \<open>Migration files\<close>

definition extract_version_from_filename :: "string \<Rightarrow> string" where
  "extract_version_from_filename filename =
     (let digits = takeWhile is_digit filename
      in if digits \<noteq> [] \<and> starts_with ''_'' (drop (length digits) filename) then digits
         else if ends_with ''.sql'' filename then take (length filename - 4) filename
         else filename)"

definition up_marker :: string where "up_marker = ''-- migrate:up''"
definition down_marker :: string where "down_marker = ''-- migrate:down''"

definition parse_migration_file :: "string \<Rightarrow> string \<times> string" where
  "parse_migration_file content =
     (case after_first up_marker content of None \<Rightarrow> '''' | Some t \<Rightarrow> trim (before_first down_marker t),
      case after_first down_marker content of None \<Rightarrow> '''' | Some t \<Rightarrow> trim t)"

definition split_sql_statements :: "string \<Rightarrow> string list" where
  "split_sql_statements sql = filter (\<lambda>s. s \<noteq> []) (map trim (split_on (CHR '';'') sql))"

text \<open>A statement without its empty lines and comment lines.\<close>

definition clean_statement :: "string \<Rightarrow> string" where
  "clean_statement sql =
     trim (join_lines (filter (\<lambda>l. trim l \<noteq> [] \<and> \<not> starts_with ''--'' (trim l)) (split_on (CHR 0x0A) (trim sql))))"

section \<open>The database\<close>

record 's migdb =
  md_versions :: "string list option"
  md_objects :: 's
  md_faults :: "string option list"

type_synonym ('s, 'a) mig = "('s migdb, go_error, 'a) go"

definition md_stmt :: "('s, 'a) mig \<Rightarrow> ('s, 'a) mig" where
  "md_stmt m d =
     (case md_faults d of
        [] \<Rightarrow> m d
      | None # fs \<Rightarrow> m (d\<lparr>md_faults := fs\<rparr>)
      | Some text # fs \<Rightarrow> (Inl (ErrText text), d\<lparr>md_faults := fs\<rparr>))"

definition tolerated :: "go_error \<Rightarrow> string list \<Rightarrow> bool" where
  "tolerated e texts \<longleftrightarrow> list_ex (contains (lower (err_text e))) texts"

definition ensure_schema_migrations_table :: "('s, unit) mig" where
  "ensure_schema_migrations_table =
     then_go (md_stmt (\<lambda>d. (Inr (), case md_versions d of
        None \<Rightarrow> d\<lparr>md_versions := Some []\<rparr> | Some vs \<Rightarrow> d)))
       (\<lambda>r. case r of
          Inr u \<Rightarrow> ret ()
        | Inl e \<Rightarrow> if tolerated e [''already exists'', ''duplicate'', ''42p07''] then ret () else throw e)"

text \<open>A SELECT that fails counts as an empty table; reading its rows may fail later.\<close>

definition get_applied_migrations :: "('s, string set) mig" where
  "get_applied_migrations =
     then_go (md_stmt (\<lambda>d. case md_versions d of
          None \<Rightarrow> (Inl (ErrText ''no such table: schema_migrations''), d)
        | Some vs \<Rightarrow> (Inr vs, d)))
       (\<lambda>r. case r of Inl e \<Rightarrow> ret {} | Inr vs \<Rightarrow> md_stmt (ret (set vs)))"

definition record_migration :: "string \<Rightarrow> ('s, bool) mig" where
  "record_migration version =
     then_go (md_stmt (\<lambda>d. case md_versions d of
          None \<Rightarrow> (Inl (ErrText ''no such table: schema_migrations''), d)
        | Some vs \<Rightarrow>
            if version \<in> set vs
            then (Inl (ErrText ''UNIQUE constraint failed: schema_migrations.version''), d)
            else (Inr (), d\<lparr>md_versions := Some (vs @ [version])\<rparr>)))
       (\<lambda>r. case r of
          Inr u \<Rightarrow> ret True
        | Inl e \<Rightarrow> if tolerated e [''unique'', ''duplicate'', ''constraint''] then ret False else throw e)"

definition exec_statement :: "(string \<Rightarrow> 's \<Rightarrow> string option \<times> 's) \<Rightarrow> string \<Rightarrow> ('s, unit) mig" where
  "exec_statement run text =
     (let sql = clean_statement text
      in if sql = [] then ret ()
         else then_go (md_stmt (\<lambda>d. case run sql (md_objects d) of
                (None, ob) \<Rightarrow> (Inr (), d\<lparr>md_objects := ob\<rparr>)
              | (Some text, ob) \<Rightarrow> (Inl (ErrText text), d\<lparr>md_objects := ob\<rparr>)))
           (\<lambda>r. case r of
              Inr u \<Rightarrow> ret ()
            | Inl e \<Rightarrow> if tolerated e [''already exists'', ''duplicate''] then ret ()
                      else throw (wrapf ''failed to execute SQL'' e)))"

definition execute_sql_statements :: "(string \<Rightarrow> 's \<Rightarrow> string option \<times> 's) \<Rightarrow> string \<Rightarrow> ('s, unit) mig" where
  "execute_sql_statements run sql =
     (if sql = [] then ret () else for_each (exec_statement run) (split_sql_statements sql))"

section \<open>Applying\<close>

record dir_entry =
  de_name :: string
  de_dir :: bool
  de_content :: "string option"

definition read_file :: "dir_entry list \<Rightarrow> string \<Rightarrow> go_error + string" where
  "read_file entries filename =
     (case find (\<lambda>e. de_name e = filename) entries of
        None \<Rightarrow> Inl (ErrText ''file does not exist'')
      | Some e \<Rightarrow> (case de_content e of None \<Rightarrow> Inl (ErrText ''read error'') | Some text \<Rightarrow> Inr text))"

definition migration_files :: "dir_entry list \<Rightarrow> string list" where
  "migration_files entries =
     sort (map de_name (filter (\<lambda>e. \<not> de_dir e \<and> ends_with ''.sql'' (de_name e)) entries))"

text \<open>The versions applied so far and the error that ended the loop, if any.\<close>

fun migrate_files ::
    "(string \<Rightarrow> 's \<Rightarrow> string option \<times> 's) \<Rightarrow> dir_entry list \<Rightarrow> string set \<Rightarrow> string list \<Rightarrow> string list \<Rightarrow>
     ('s, string list \<times> go_error option) mig" where
  "migrate_files run entries applied so_far [] = ret (so_far, None)"
| "migrate_files run entries applied so_far (f # fs) =
     (let version = extract_version_from_filename f
      in if version \<in> applied then migrate_files run entries applied so_far fs
      else case read_file entries f of
        Inl e \<Rightarrow> ret (so_far, Some (wrapf (''failed to read migration file '' @ f) e))
      | Inr content \<Rightarrow>
          (let up_sql = fst (parse_migration_file content)
           in if up_sql = [] then migrate_files run entries applied so_far fs
           else then_go (execute_sql_statements run up_sql) (\<lambda>r. case r of
             Inl e \<Rightarrow> ret (so_far, Some (wrapf (''failed to apply migration '' @ version) e))
           | Inr u \<Rightarrow> then_go (record_migration version) (\<lambda>r. case r of
                 Inl e \<Rightarrow> ret (so_far, Some (wrapf (''failed to record migration '' @ version) e))
               | Inr new_one \<Rightarrow>
                   migrate_files run entries applied (if new_one then so_far @ [version] else so_far) fs))))"

text \<open>The directory of the database's dialect; \<open>None\<close> when it cannot be read.\<close>

definition apply_migrations ::
    "(string \<Rightarrow> 's \<Rightarrow> string option \<times> 's) \<Rightarrow> (db_type \<Rightarrow> dir_entry list option) option \<Rightarrow> db_type \<Rightarrow>
     ('s, string list \<times> go_error option) mig" where
  "apply_migrations run migrations_fs db_type =
     (case migrations_fs of
        None \<Rightarrow> ret ([], None)
      | Some dirs \<Rightarrow>
          (case dirs db_type of
             None \<Rightarrow> ret ([], None)
           | Some entries \<Rightarrow>
               then_go ensure_schema_migrations_table (\<lambda>r. case r of
                 Inl e \<Rightarrow> ret ([], Some (wrapf ''failed to create schema_migrations table'' e))
               | Inr u \<Rightarrow> then_go get_applied_migrations (\<lambda>r. case r of
                   Inl e \<Rightarrow> ret ([], Some (wrapf ''failed to get applied migrations'' e))
                 | Inr applied \<Rightarrow> migrate_files run entries applied [] (migration_files entries)))))"

text \<open>
  What initStorage (app.go) makes of it: no migration when the kind of database is not
  recognised, an error when one fails.
\<close>

definition auto_migrate ::
    "(string \<Rightarrow> 's \<Rightarrow> string option \<times> 's) \<Rightarrow> (db_type \<Rightarrow> dir_entry list option) \<Rightarrow>
     (db_type \<Rightarrow> dir_entry list option) option \<Rightarrow> bool \<Rightarrow> string \<Rightarrow> ('s, unit) mig" where
  "auto_migrate run embedded custom enabled configured =
     (let url = (if configured = '''' then ''romancy.db'' else configured)
      in if \<not> enabled then ret ()
         else case detect_db_type url of
           Inl e \<Rightarrow> ret ()
         | Inr db_type \<Rightarrow>
             try_go (apply_migrations run (Some (case custom of None \<Rightarrow> embedded | Some fs \<Rightarrow> fs)) db_type)
               (\<lambda>(versions, err). case err of
                  None \<Rightarrow> ret ()
                | Some e \<Rightarrow> throw (wrapf ''failed to apply migrations'' e)))"


section \<open>Properties\<close>

definition version_of :: "string \<Rightarrow> string" where
  "version_of = extract_version_from_filename"

text \<open>The statements of a migration, and the effect of those of a file.\<close>

definition up_sql :: "dir_entry list \<Rightarrow> string \<Rightarrow> string" where
  "up_sql entries f = (case read_file entries f of Inl e \<Rightarrow> [] | Inr content \<Rightarrow> fst (parse_migration_file content))"

definition run_statement :: "(string \<Rightarrow> 's \<Rightarrow> string option \<times> 's) \<Rightarrow> string \<Rightarrow> 's \<Rightarrow> 's" where
  "run_statement run s ob = (if clean_statement s = [] then ob else snd (run (clean_statement s) ob))"

definition run_file :: "(string \<Rightarrow> 's \<Rightarrow> string option \<times> 's) \<Rightarrow> dir_entry list \<Rightarrow> string \<Rightarrow> 's \<Rightarrow> 's" where
  "run_file run entries f = fold (run_statement run) (split_sql_statements (up_sql entries f))"

definition recorded_versions :: "'s migdb \<Rightarrow> string list" where
  "recorded_versions d = (case md_versions d of None \<Rightarrow> [] | Some vs \<Rightarrow> vs)"

definition pending_files :: "dir_entry list \<Rightarrow> string set \<Rightarrow> string list" where
  "pending_files entries applied =
     filter (\<lambda>f. version_of f \<notin> applied \<and> up_sql entries f \<noteq> []) (migration_files entries)"

text \<open>A statement fails only because what it creates is there already.\<close>

definition only_duplicates :: "(string \<Rightarrow> 's \<Rightarrow> string option \<times> 's) \<Rightarrow> bool" where
  "only_duplicates run \<longleftrightarrow>
     (\<forall>sql ob text. fst (run sql ob) = Some text \<longrightarrow> tolerated (ErrText text) [''already exists'', ''duplicate''])"

lemma exec_statement_run:
  assumes "only_duplicates run" "md_faults d = []"
  shows "exec_statement run s d = (Inr (), d\<lparr>md_objects := run_statement run s (md_objects d)\<rparr>)"
proof (cases "run (clean_statement s) (md_objects d)")
  case (Pair msg ob)
  have "tolerated (ErrText x) [''already exists'', ''duplicate'']" if "msg = Some x" for x
    using assms(1) Pair that by (metis only_duplicates_def fst_conv)
  with Pair assms(2) show ?thesis
    by (cases msg) (simp_all add: exec_statement_def run_statement_def md_stmt_def then_go_def Let_def)
qed

lemma execute_run:
  assumes "only_duplicates run" "md_faults d = []"
  shows "execute_sql_statements run sql d =
    (Inr (), d\<lparr>md_objects := fold (run_statement run) (split_sql_statements sql) (md_objects d)\<rparr>)"
proof -
  have "for_each (exec_statement run) ss e = (Inr (), e\<lparr>md_objects := fold (run_statement run) ss (md_objects e)\<rparr>)"
    if "md_faults e = []" for ss e
    using that by (induction ss arbitrary: e) (simp_all add: exec_statement_run [OF assms(1)])
  with assms(2) show ?thesis
    by (auto simp: execute_sql_statements_def split_sql_statements_def trim_def)
qed

lemma migrate_files_run:
  assumes "only_duplicates run" "md_faults d = []" "md_versions d = Some vs"
    and "\<forall>f \<in> set fs. \<exists>content. read_file entries f = Inr content"
    and "distinct (map version_of fs)" "set vs \<inter> version_of ` set fs \<subseteq> applied"
  shows "migrate_files run entries applied so_far fs d =
    (let new = filter (\<lambda>f. version_of f \<notin> applied \<and> up_sql entries f \<noteq> []) fs
     in (Inr (so_far @ map version_of new, None),
         d\<lparr>md_versions := Some (vs @ map version_of new), md_objects := fold (run_file run entries) new (md_objects d)\<rparr>))"
  using assms(2-)
proof (induction fs arbitrary: so_far d vs)
  case (Cons f fs)
  obtain content where content: "read_file entries f = Inr content" using Cons.prems(3) by auto
  then have up: "up_sql entries f = fst (parse_migration_file content)" by (simp add: up_sql_def)
  show ?case
  proof (cases "version_of f \<in> applied \<or> up_sql entries f = []")
    case True
    have "set vs \<inter> version_of ` set fs \<subseteq> applied" using Cons.prems(5) by auto
    with True show ?thesis
      using content up Cons.IH [of d vs so_far] Cons.prems by (auto simp: Let_def version_of_def)
  next
    case False
    let ?d = "d\<lparr>md_objects := run_file run entries f (md_objects d)\<rparr>"
    let ?e = "?d\<lparr>md_versions := Some (vs @ [version_of f])\<rparr>"
    have "execute_sql_statements run (up_sql entries f) d = (Inr (), ?d)"
      using execute_run [OF assms(1) Cons.prems(1)] by (simp add: run_file_def)
    moreover have "version_of f \<notin> set vs" using False Cons.prems(5) by auto
    then have "record_migration (version_of f) ?d = (Inr True, ?e)"
      using Cons.prems(1,2) by (simp add: record_migration_def md_stmt_def then_go_def)
    moreover have "migrate_files run entries applied (so_far @ [version_of f]) fs ?e =
        (let new = filter (\<lambda>f. version_of f \<notin> applied \<and> up_sql entries f \<noteq> []) fs
         in (Inr ((so_far @ [version_of f]) @ map version_of new, None),
             ?e\<lparr>md_versions := Some ((vs @ [version_of f]) @ map version_of new),
                md_objects := fold (run_file run entries) new (md_objects ?e)\<rparr>))"
      by (rule Cons.IH) (use Cons.prems False in auto)
    ultimately show ?thesis
      using False content up by (simp add: Let_def version_of_def then_go_def)
  qed
qed simp

text \<open>
  C39: migrations are applied once and in order. On a database on which the driver does not
  fail and a statement fails only because its object exists, ApplyMigrations runs the statements
  of exactly the files whose version is not recorded yet, in the order of their names, records
  their versions and returns them; a second call returns no version and changes nothing.
\<close>

theorem migrations_applied_once:
  assumes "dirs t = Some entries" "md_faults d = []" "only_duplicates run"
    and "\<forall>f \<in> set (migration_files entries). \<exists>content. read_file entries f = Inr content"
    and "distinct (map version_of (migration_files entries))"
    and "new = pending_files entries (set (recorded_versions d))"
    and "d' = d\<lparr>md_versions := Some (recorded_versions d @ map version_of new),
               md_objects := fold (run_file run entries) new (md_objects d)\<rparr>"
  shows "apply_migrations run (Some dirs) t d = (Inr (map version_of new, None), d')
    \<and> apply_migrations run (Some dirs) t d' = (Inr ([], None), d')"
proof -
  have run: "apply_migrations run (Some dirs) t e =
      (Inr (map version_of (pending_files entries (set (recorded_versions e))), None),
       e\<lparr>md_versions := Some (recorded_versions e @ map version_of (pending_files entries (set (recorded_versions e)))),
         md_objects := fold (run_file run entries) (pending_files entries (set (recorded_versions e))) (md_objects e)\<rparr>)"
    if "md_faults e = []" for e
  proof -
    have "ensure_schema_migrations_table e = (Inr (), e\<lparr>md_versions := Some (recorded_versions e)\<rparr>)"
      using that by (auto simp: ensure_schema_migrations_table_def md_stmt_def then_go_def recorded_versions_def
          split: option.split)
    moreover have "get_applied_migrations (e\<lparr>md_versions := Some (recorded_versions e)\<rparr>) =
        (Inr (set (recorded_versions e)), e\<lparr>md_versions := Some (recorded_versions e)\<rparr>)"
      using that by (simp add: get_applied_migrations_def md_stmt_def then_go_def)
    ultimately show ?thesis
      using that assms(1,3-5)
      by (simp add: apply_migrations_def then_go_def migrate_files_run [where vs = "recorded_versions e"]
          pending_files_def Let_def)
  qed
  have "pending_files entries (set (recorded_versions d')) = []"
    unfolding assms(6,7) pending_files_def by (auto simp: recorded_versions_def filter_empty_conv)
  moreover have "md_faults d' = []" "md_versions d' = Some (recorded_versions d')"
    using assms(2,7) by (simp_all add: recorded_versions_def)
  ultimately show ?thesis
    using run [of d] run [of d'] assms(2,6,7) by simp
qed


section \<open>What is reported is what is recorded\<close>

lemma stmt_versions:
  assumes "\<And>e. md_versions (snd (m e)) = md_versions e"
  shows "md_versions (snd (md_stmt m d)) = md_versions d"
  using assms by (auto simp: md_stmt_def split: list.split option.split)

lemma exec_statement_versions:
  "preserves (\<lambda>d. recorded_versions d = vs) (exec_statement run s)"
proof (rule preservesI)
  fix d :: "'a migdb"
  assume vs: "recorded_versions d = vs"
  have "md_versions (snd (md_stmt (\<lambda>d. case run (clean_statement s) (md_objects d) of
      (None, ob) \<Rightarrow> (Inr (), d\<lparr>md_objects := ob\<rparr>)
    | (Some text, ob) \<Rightarrow> (Inl (ErrText text), d\<lparr>md_objects := ob\<rparr>)) d)) = md_versions d"
    by (rule stmt_versions) (simp split: prod.split option.split)
  with vs show "recorded_versions (snd (exec_statement run s d)) = vs"
    by (auto simp: exec_statement_def then_go_def Let_def recorded_versions_def split: prod.splits sum.splits)
qed

lemma execute_versions:
  "recorded_versions (snd (execute_sql_statements run sql d)) = recorded_versions d"
proof -
  have "preserves (\<lambda>e. recorded_versions e = recorded_versions d) (execute_sql_statements run sql)"
    unfolding execute_sql_statements_def by (intro keeps exec_statement_versions)
  from preservesD [OF this] show ?thesis by simp
qed

lemma record_migration_cases:
  assumes "record_migration v d = (r, d')"
  shows "(r = Inr True \<and> recorded_versions d' = recorded_versions d @ [v] \<and> v \<notin> set (recorded_versions d))
    \<or> (r \<noteq> Inr True \<and> recorded_versions d' = recorded_versions d)"
  using assms
  by (auto simp: record_migration_def md_stmt_def then_go_def recorded_versions_def
      split: list.splits option.splits sum.splits prod.splits if_splits)

lemma migrate_files_records:
  assumes "migrate_files run entries applied so_far fs d = (r, d')"
  shows "\<exists>new err. r = Inr (so_far @ new, err) \<and> recorded_versions d' = recorded_versions d @ new
    \<and> distinct new \<and> set new \<inter> set (recorded_versions d) = {}
    \<and> set new \<subseteq> version_of ` {f \<in> set fs. up_sql entries f \<noteq> []} - applied"
  using assms
proof (induction fs arbitrary: so_far d)
  case (Cons f fs)
  have skip: "?case" if "migrate_files run entries applied so_far fs d = (r, d')"
    using Cons.IH [OF that] by fastforce
  have stop: "?case" if "r = Inr (so_far, err)" "recorded_versions d' = recorded_versions d" for err
    using that by auto
  show ?case
  proof (cases "version_of f \<in> applied \<or> (\<exists>e. read_file entries f = Inl e) \<or> up_sql entries f = []")
    case True
    then have "migrate_files run entries applied so_far fs d = (r, d') \<or> (\<exists>err. r = Inr (so_far, err) \<and> d' = d)"
      using Cons.prems by (auto simp: version_of_def up_sql_def Let_def split: sum.splits if_splits)
    then show ?thesis using skip stop by blast
  next
    case False
    then obtain content where content: "read_file entries f = Inr content"
        "fst (parse_migration_file content) \<noteq> []" "version_of f \<notin> applied"
      by (cases "read_file entries f") (auto simp: up_sql_def)
    obtain r1 d1 where d1: "execute_sql_statements run (fst (parse_migration_file content)) d = (r1, d1)"
      by fastforce
    then have same: "recorded_versions d1 = recorded_versions d" using execute_versions by (metis snd_conv)
    obtain r2 d2 where d2: "record_migration (version_of f) d1 = (r2, d2)" by fastforce
    show ?thesis
    proof (cases "(\<exists>e. r1 = Inl e) \<or> (\<exists>e. r2 = Inl e)")
      case True
      then have "(\<exists>err. r = Inr (so_far, err)) \<and> recorded_versions d' = recorded_versions d"
        using content d1 d2 same record_migration_cases [OF d2] Cons.prems
        by (auto simp: version_of_def then_go_def Let_def split: sum.splits)
      then show ?thesis using stop by blast
    next
      case False
      then obtain u b where ok: "r1 = Inr u" "r2 = Inr b" by (cases r1; cases r2) auto
      then have rest: "migrate_files run entries applied (if b then so_far @ [version_of f] else so_far) fs d2 = (r, d')"
        using content d1 d2 Cons.prems by (cases b) (simp_all add: version_of_def then_go_def Let_def)
      from Cons.IH [OF this] obtain new err where new: "r = Inr ((if b then so_far @ [version_of f] else so_far) @ new, err)"
          "recorded_versions d' = recorded_versions d2 @ new" "distinct new"
          "set new \<inter> set (recorded_versions d2) = {}"
          "set new \<subseteq> version_of ` {f \<in> set fs. up_sql entries f \<noteq> []} - applied"
        by blast
      have up: "up_sql entries f \<noteq> []" using content by (simp add: up_sql_def)
      show ?thesis
      proof (cases b)
        case True
        with record_migration_cases [OF d2] ok same
        have "recorded_versions d2 = recorded_versions d @ [version_of f]" "version_of f \<notin> set (recorded_versions d)"
          by auto
        with True new up content(3) show ?thesis
          by (intro exI [of _ "version_of f # new"] exI [of _ err]) auto
      next
        case False
        with record_migration_cases [OF d2] ok same have "recorded_versions d2 = recorded_versions d" by auto
        with False new show ?thesis by (intro exI [of _ new] exI [of _ err]) auto
      qed
    qed
  qed
qed auto

text \<open>
  What ApplyMigrations reports is what it recorded. Whatever the statements of the files do
  and whichever statements the driver fails, the call returns, and the versions it returns are
  exactly the ones it has added to schema_migrations, each once, none of them there before, and
  each the version of a file of the directory that has an up section.
\<close>

theorem migrations_reported:
  assumes "dirs t = Some entries"
  shows "\<exists>vs err. fst (apply_migrations run (Some dirs) t d) = Inr (vs, err)
    \<and> recorded_versions (snd (apply_migrations run (Some dirs) t d)) = recorded_versions d @ vs
    \<and> distinct vs \<and> set vs \<inter> set (recorded_versions d) = {}
    \<and> set vs \<subseteq> version_of ` {f \<in> set (migration_files entries). up_sql entries f \<noteq> []}"
proof -
  obtain r1 d1 where d1: "ensure_schema_migrations_table d = (r1, d1)" by fastforce
  then have same: "recorded_versions d1 = recorded_versions d"
    by (auto simp: ensure_schema_migrations_table_def md_stmt_def then_go_def recorded_versions_def
        split: list.splits option.splits sum.splits prod.splits if_splits)
  obtain r2 d2 where d2: "get_applied_migrations d1 = (r2, d2)" by fastforce
  then have same2: "recorded_versions d2 = recorded_versions d1"
    by (auto simp: get_applied_migrations_def md_stmt_def then_go_def recorded_versions_def
        split: list.splits option.splits sum.splits prod.splits)
  show ?thesis
  proof (cases "(\<exists>e. r1 = Inl e) \<or> (\<exists>e. r2 = Inl e)")
    case True
    with assms d1 d2 same same2 show ?thesis
      by (cases r1) (auto simp: apply_migrations_def then_go_def)
  next
    case False
    then obtain u applied where "r1 = Inr u" "r2 = Inr applied" by (cases r1; cases r2) auto
    then have run: "apply_migrations run (Some dirs) t d = migrate_files run entries applied [] (migration_files entries) d2"
      using assms d1 d2 by (simp add: apply_migrations_def then_go_def)
    obtain r d' where "migrate_files run entries applied [] (migration_files entries) d2 = (r, d')" by fastforce
    from this migrate_files_records [OF this] run same same2 show ?thesis by auto
  qed
qed

section \<open>Instances of the properties\<close>

text \<open>The objects are the statements run so far.\<close>

definition log_statement :: "string \<Rightarrow> string list \<Rightarrow> string option \<times> string list" where
  "log_statement sql ob = (None, ob @ [sql])"

definition two_files :: "db_type \<Rightarrow> dir_entry list option" where
  "two_files t = (if t = Sqlite then Some
     [\<lparr>de_name = ''2_b.sql'', de_dir = False,
       de_content = Some (''-- migrate:up'' @ [CHR 0x0A] @ ''c; '' @ [CHR 0x0A] @ ''-- note'' @ [CHR 0x0A] @ ''d;''
         @ [CHR 0x0A] @ ''-- migrate:down'' @ [CHR 0x0A] @ ''drop'')\<rparr>,
      \<lparr>de_name = ''1_a.sql'', de_dir = False, de_content = Some ''-- migrate:up a;''\<rparr>,
      \<lparr>de_name = ''readme.md'', de_dir = False, de_content = None\<rparr>] else None)"

definition new_migdb :: "string list migdb" where
  "new_migdb = \<lparr>md_versions = None, md_objects = [], md_faults = []\<rparr>"

lemma two_files_facts:
  "migration_files (the (two_files Sqlite)) = [''1_a.sql'', ''2_b.sql'']"
  "list_all (\<lambda>f. \<not> Option.is_none (case read_file (the (two_files Sqlite)) f of Inl e \<Rightarrow> None | Inr c \<Rightarrow> Some c))
     (migration_files (the (two_files Sqlite)))"
  "map version_of [''1_a.sql'', ''2_b.sql''] = [''1'', ''2'']"
  "pending_files (the (two_files Sqlite)) {} = [''1_a.sql'', ''2_b.sql'']"
  "fold (run_file log_statement (the (two_files Sqlite))) [''1_a.sql'', ''2_b.sql''] [] = [''a'', ''c'', ''d'']"
  by code_simp+

theorem migrations_applied_once_witness:
  "\<exists>d'. apply_migrations log_statement (Some two_files) Sqlite new_migdb = (Inr ([''1'', ''2''], None), d')
    \<and> md_objects d' = [''a'', ''c'', ''d''] \<and> md_versions d' = Some [''1'', ''2'']
    \<and> apply_migrations log_statement (Some two_files) Sqlite d' = (Inr ([], None), d')"
proof -
  have "two_files Sqlite = Some (the (two_files Sqlite))" by (simp add: two_files_def)
  moreover have "only_duplicates log_statement" by (simp add: only_duplicates_def log_statement_def)
  moreover have "\<forall>f \<in> set (migration_files (the (two_files Sqlite))). \<exists>content. read_file (the (two_files Sqlite)) f = Inr content"
  proof
    fix f assume "f \<in> set (migration_files (the (two_files Sqlite)))"
    with two_files_facts(2) have "\<not> Option.is_none
      (case read_file (the (two_files Sqlite)) f of Inl e \<Rightarrow> None | Inr c \<Rightarrow> Some c)"
      unfolding list_all_iff by (rule bspec)
    then show "\<exists>content. read_file (the (two_files Sqlite)) f = Inr content"
      by (cases "read_file (the (two_files Sqlite)) f") simp_all
  qed
  moreover have "distinct (map version_of (migration_files (the (two_files Sqlite))))"
    unfolding two_files_facts(1) two_files_facts(3) by simp
  moreover have state: "md_faults new_migdb = []" "recorded_versions new_migdb = []" "md_objects new_migdb = []"
    by (simp_all add: new_migdb_def recorded_versions_def)
  ultimately have both: "apply_migrations log_statement (Some two_files) Sqlite new_migdb
        = (Inr (map version_of [''1_a.sql'', ''2_b.sql''], None), d')
      \<and> apply_migrations log_statement (Some two_files) Sqlite d' = (Inr ([], None), d')"
    if "d' = new_migdb\<lparr>md_versions := Some ([] @ map version_of [''1_a.sql'', ''2_b.sql'']),
      md_objects := fold (run_file log_statement (the (two_files Sqlite))) [''1_a.sql'', ''2_b.sql''] []\<rparr>" for d'
    using migrations_applied_once [of two_files Sqlite "the (two_files Sqlite)" new_migdb log_statement
        "[''1_a.sql'', ''2_b.sql'']" d']
      two_files_facts(4) that by (simp only: state set_simps)
  show ?thesis
    using both [OF refl] unfolding two_files_facts(3) two_files_facts(5) by (intro exI conjI) auto
qed

theorem migrations_reported_witness:
  "\<exists>vs err. fst (apply_migrations log_statement (Some two_files) Sqlite (new_migdb\<lparr>md_faults := [None, None, Some ''disk'']\<rparr>)) = Inr (vs, err)
    \<and> set vs \<subseteq> version_of ` {f \<in> set (migration_files (the (two_files Sqlite))). up_sql (the (two_files Sqlite)) f \<noteq> []}"
proof -
  have "two_files Sqlite = Some (the (two_files Sqlite))" by (simp add: two_files_def)
  from migrations_reported [where dirs = two_files and t = Sqlite, OF this, of log_statement "new_migdb\<lparr>md_faults := [None, None, Some ''disk'']\<rparr>"]
  show ?thesis by blast
qed

section \<open>Which migrations a database gets\<close>

text \<open>
  initStorage and DetectDBType read the URL differently: initStorage looks at its beginning only,
  DetectDBType looks for a SQLite name first and ignores case.
\<close>

lemma lower_append: "lower (s @ t) = lower s @ lower t"
  by (simp add: lower_def)

text \<open>
  A PostgreSQL or MySQL database whose URL ends with .db gets the migrations of SQLite.
\<close>

lemma dialect_by_suffix:
  assumes "select_backend (s @ ''.db'') \<noteq> SQLiteBackend"
  shows "detect_db_type (s @ ''.db'') = Inr Sqlite"
  by (simp add: detect_db_type_def lower_append ends_with_def starts_with_def Let_def)
    (simp add: lower_def lower_char_def Let_def)

end
