(* ===== verification/Configuration.thy ===== *)
theory Configuration
  imports Migrations
begin

text \<open>
  options.go and NewApp: the configuration of an App as a record with the source's fields, one
  function per option, and what NewApp makes of the options it is given. The hooks and the
  type \<open>'h\<close> they have are the caller's; \<open>no_op\<close> stands for hooks.NoOpHooks. Durations are
  nanoseconds. An option is a function on the unexported type appConfig, so every option there
  is has been made by one of the functions of this file (\<open>is_option\<close>).
\<close>

section \<open>The record\<close>

definition second :: time where
  "second = 1000000000"

record 'h app_config =
  databaseURL :: string
  serviceName :: string
  workerID :: string
  outboxEnabled :: bool
  outboxInterval :: time
  outboxBatchSize :: int
  brokerURL :: string
  useListenNotify :: "bool option"
  notifyReconnectDelay :: time
  staleLockInterval :: time
  staleLockTimeout :: time
  timerCheckInterval :: time
  eventTimeoutInterval :: time
  messageCheckInterval :: time
  recurCheckInterval :: time
  channelCleanupInterval :: time
  channelMessageRetention :: time
  workflowResumptionInterval :: time
  maxConcurrentResumptions :: int
  maxConcurrentTimers :: int
  maxConcurrentMessages :: int
  maxWorkflowsPerBatch :: int
  maxTimersPerBatch :: int
  maxMessagesPerBatch :: int
  leaderHeartbeatInterval :: time
  leaderLeaseDuration :: time
  hooks :: 'h
  shutdownTimeout :: time
  autoMigrate :: bool
  migrationsFS :: "(db_type \<Rightarrow> dir_entry list option) option"

definition default_config :: "'h \<Rightarrow> 'h app_config" where
  "default_config no_op = \<lparr>
     databaseURL = ''file:romancy.db'',
     serviceName = ''romancy-service'',
     workerID = '''',
     outboxEnabled = False,
     outboxInterval = 1 * second,
     outboxBatchSize = 100,
     brokerURL = '''',
     useListenNotify = None,
     notifyReconnectDelay = 60 * second,
     staleLockInterval = 60 * second,
     staleLockTimeout = 300 * second,
     timerCheckInterval = 10 * second,
     eventTimeoutInterval = 30 * second,
     messageCheckInterval = 5 * second,
     recurCheckInterval = 5 * second,
     channelCleanupInterval = 300 * second,
     channelMessageRetention = 24 * 3600 * second,
     workflowResumptionInterval = 1 * second,
     maxConcurrentResumptions = 10,
     maxConcurrentTimers = 10,
     maxConcurrentMessages = 10,
     maxWorkflowsPerBatch = 100,
     maxTimersPerBatch = 100,
     maxMessagesPerBatch = 100,
     leaderHeartbeatInterval = 15 * second,
     leaderLeaseDuration = 45 * second,
     hooks = no_op,
     shutdownTimeout = 30 * second,
     autoMigrate = True,
     migrationsFS = None\<rparr>"

section \<open>The options\<close>

definition WithDatabase :: "string \<Rightarrow> 'h app_config \<Rightarrow> 'h app_config" where
  "WithDatabase v c = c\<lparr>databaseURL := v\<rparr>"

definition WithAutoMigrate :: "bool \<Rightarrow> 'h app_config \<Rightarrow> 'h app_config" where
  "WithAutoMigrate b c = c\<lparr>autoMigrate := b\<rparr>"

definition WithMigrationsFS :: "((db_type \<Rightarrow> dir_entry list option) option) \<Rightarrow> 'h app_config \<Rightarrow> 'h app_config" where
  "WithMigrationsFS v c = c\<lparr>migrationsFS := v\<rparr>"

definition WithServiceName :: "string \<Rightarrow> 'h app_config \<Rightarrow> 'h app_config" where
  "WithServiceName v c = c\<lparr>serviceName := v\<rparr>"

definition WithWorkerID :: "string \<Rightarrow> 'h app_config \<Rightarrow> 'h app_config" where
  "WithWorkerID v c = c\<lparr>workerID := v\<rparr>"

definition WithOutbox :: "bool \<Rightarrow> 'h app_config \<Rightarrow> 'h app_config" where
  "WithOutbox b c = c\<lparr>outboxEnabled := b\<rparr>"

definition WithOutboxInterval :: "time \<Rightarrow> 'h app_config \<Rightarrow> 'h app_config" where
  "WithOutboxInterval d c = c\<lparr>outboxInterval := d\<rparr>"

definition WithOutboxBatchSize :: "int \<Rightarrow> 'h app_config \<Rightarrow> 'h app_config" where
  "WithOutboxBatchSize n c = c\<lparr>outboxBatchSize := n\<rparr>"

definition WithBrokerURL :: "string \<Rightarrow> 'h app_config \<Rightarrow> 'h app_config" where
  "WithBrokerURL v c = c\<lparr>brokerURL := v\<rparr>"

definition WithStaleLockInterval :: "time \<Rightarrow> 'h app_config \<Rightarrow> 'h app_config" where
  "WithStaleLockInterval d c = c\<lparr>staleLockInterval := d\<rparr>"

definition WithStaleLockTimeout :: "time \<Rightarrow> 'h app_config \<Rightarrow> 'h app_config" where
  "WithStaleLockTimeout d c = c\<lparr>staleLockTimeout := d\<rparr>"

definition WithTimerCheckInterval :: "time \<Rightarrow> 'h app_config \<Rightarrow> 'h app_config" where
  "WithTimerCheckInterval d c = c\<lparr>timerCheckInterval := d\<rparr>"

definition WithEventTimeoutInterval :: "time \<Rightarrow> 'h app_config \<Rightarrow> 'h app_config" where
  "WithEventTimeoutInterval d c = c\<lparr>eventTimeoutInterval := d\<rparr>"

definition WithHooks :: "'h \<Rightarrow> 'h app_config \<Rightarrow> 'h app_config" where
  "WithHooks v c = c\<lparr>hooks := v\<rparr>"

definition WithShutdownTimeout :: "time \<Rightarrow> 'h app_config \<Rightarrow> 'h app_config" where
  "WithShutdownTimeout d c = c\<lparr>shutdownTimeout := d\<rparr>"

definition WithMessageCheckInterval :: "time \<Rightarrow> 'h app_config \<Rightarrow> 'h app_config" where
  "WithMessageCheckInterval d c = c\<lparr>messageCheckInterval := d\<rparr>"

definition WithRecurCheckInterval :: "time \<Rightarrow> 'h app_config \<Rightarrow> 'h app_config" where
  "WithRecurCheckInterval d c = c\<lparr>recurCheckInterval := d\<rparr>"

definition WithChannelCleanupInterval :: "time \<Rightarrow> 'h app_config \<Rightarrow> 'h app_config" where
  "WithChannelCleanupInterval d c = c\<lparr>channelCleanupInterval := d\<rparr>"

definition WithChannelMessageRetention :: "time \<Rightarrow> 'h app_config \<Rightarrow> 'h app_config" where
  "WithChannelMessageRetention d c = c\<lparr>channelMessageRetention := d\<rparr>"

definition WithWorkflowResumptionInterval :: "time \<Rightarrow> 'h app_config \<Rightarrow> 'h app_config" where
  "WithWorkflowResumptionInterval d c = c\<lparr>workflowResumptionInterval := d\<rparr>"

definition WithMaxConcurrentResumptions :: "int \<Rightarrow> 'h app_config \<Rightarrow> 'h app_config" where
  "WithMaxConcurrentResumptions n c = (if n > 0 then c\<lparr>maxConcurrentResumptions := n\<rparr> else c)"

definition WithMaxConcurrentTimers :: "int \<Rightarrow> 'h app_config \<Rightarrow> 'h app_config" where
  "WithMaxConcurrentTimers n c = (if n > 0 then c\<lparr>maxConcurrentTimers := n\<rparr> else c)"

definition WithMaxConcurrentMessages :: "int \<Rightarrow> 'h app_config \<Rightarrow> 'h app_config" where
  "WithMaxConcurrentMessages n c = (if n > 0 then c\<lparr>maxConcurrentMessages := n\<rparr> else c)"

definition WithLeaderHeartbeatInterval :: "time \<Rightarrow> 'h app_config \<Rightarrow> 'h app_config" where
  "WithLeaderHeartbeatInterval d c = (if d > 0 then c\<lparr>leaderHeartbeatInterval := d\<rparr> else c)"

definition WithLeaderLeaseDuration :: "time \<Rightarrow> 'h app_config \<Rightarrow> 'h app_config" where
  "WithLeaderLeaseDuration d c = (if d > 0 then c\<lparr>leaderLeaseDuration := d\<rparr> else c)"

definition WithListenNotify :: "(bool option) \<Rightarrow> 'h app_config \<Rightarrow> 'h app_config" where
  "WithListenNotify v c = c\<lparr>useListenNotify := v\<rparr>"

definition WithNotifyReconnectDelay :: "time \<Rightarrow> 'h app_config \<Rightarrow> 'h app_config" where
  "WithNotifyReconnectDelay d c = c\<lparr>notifyReconnectDelay := d\<rparr>"

definition WithMaxWorkflowsPerBatch :: "int \<Rightarrow> 'h app_config \<Rightarrow> 'h app_config" where
  "WithMaxWorkflowsPerBatch n c = (if n > 0 then c\<lparr>maxWorkflowsPerBatch := n\<rparr> else c)"

definition WithMaxTimersPerBatch :: "int \<Rightarrow> 'h app_config \<Rightarrow> 'h app_config" where
  "WithMaxTimersPerBatch n c = (if n > 0 then c\<lparr>maxTimersPerBatch := n\<rparr> else c)"

definition WithMaxMessagesPerBatch :: "int \<Rightarrow> 'h app_config \<Rightarrow> 'h app_config" where
  "WithMaxMessagesPerBatch n c = (if n > 0 then c\<lparr>maxMessagesPerBatch := n\<rparr> else c)"

text \<open>The options there are.\<close>

inductive is_option :: "('h app_config \<Rightarrow> 'h app_config) \<Rightarrow> bool" where
  optDatabase: "is_option (WithDatabase v)"
| optAutoMigrate: "is_option (WithAutoMigrate v)"
| optMigrationsFS: "is_option (WithMigrationsFS v)"
| optServiceName: "is_option (WithServiceName v)"
| optWorkerID: "is_option (WithWorkerID v)"
| optOutbox: "is_option (WithOutbox v)"
| optOutboxInterval: "is_option (WithOutboxInterval v)"
| optOutboxBatchSize: "is_option (WithOutboxBatchSize v)"
| optBrokerURL: "is_option (WithBrokerURL v)"
| optStaleLockInterval: "is_option (WithStaleLockInterval v)"
| optStaleLockTimeout: "is_option (WithStaleLockTimeout v)"
| optTimerCheckInterval: "is_option (WithTimerCheckInterval v)"
| optEventTimeoutInterval: "is_option (WithEventTimeoutInterval v)"
| optHooks: "is_option (WithHooks v)"
| optShutdownTimeout: "is_option (WithShutdownTimeout v)"
| optMessageCheckInterval: "is_option (WithMessageCheckInterval v)"
| optRecurCheckInterval: "is_option (WithRecurCheckInterval v)"
| optChannelCleanupInterval: "is_option (WithChannelCleanupInterval v)"
| optChannelMessageRetention: "is_option (WithChannelMessageRetention v)"
| optWorkflowResumptionInterval: "is_option (WithWorkflowResumptionInterval v)"
| optMaxConcurrentResumptions: "is_option (WithMaxConcurrentResumptions v)"
| optMaxConcurrentTimers: "is_option (WithMaxConcurrentTimers v)"
| optMaxConcurrentMessages: "is_option (WithMaxConcurrentMessages v)"
| optLeaderHeartbeatInterval: "is_option (WithLeaderHeartbeatInterval v)"
| optLeaderLeaseDuration: "is_option (WithLeaderLeaseDuration v)"
| optListenNotify: "is_option (WithListenNotify v)"
| optNotifyReconnectDelay: "is_option (WithNotifyReconnectDelay v)"
| optMaxWorkflowsPerBatch: "is_option (WithMaxWorkflowsPerBatch v)"
| optMaxTimersPerBatch: "is_option (WithMaxTimersPerBatch v)"
| optMaxMessagesPerBatch: "is_option (WithMaxMessagesPerBatch v)"

lemmas option_defs =
  WithDatabase_def WithAutoMigrate_def WithMigrationsFS_def WithServiceName_def WithWorkerID_def WithOutbox_def WithOutboxInterval_def WithOutboxBatchSize_def WithBrokerURL_def WithStaleLockInterval_def WithStaleLockTimeout_def WithTimerCheckInterval_def WithEventTimeoutInterval_def WithHooks_def WithShutdownTimeout_def WithMessageCheckInterval_def WithRecurCheckInterval_def WithChannelCleanupInterval_def WithChannelMessageRetention_def WithWorkflowResumptionInterval_def WithMaxConcurrentResumptions_def WithMaxConcurrentTimers_def WithMaxConcurrentMessages_def WithLeaderHeartbeatInterval_def WithLeaderLeaseDuration_def WithListenNotify_def WithNotifyReconnectDelay_def WithMaxWorkflowsPerBatch_def WithMaxTimersPerBatch_def WithMaxMessagesPerBatch_def

section \<open>NewApp\<close>

text \<open>\<open>uuid\<close> is the identifier the uuid package makes up.\<close>

definition new_config :: "'h \<Rightarrow> string \<Rightarrow> ('h app_config \<Rightarrow> 'h app_config) list \<Rightarrow> 'h app_config" where
  "new_config no_op uuid opts =
     (let config = foldl (\<lambda>config opt. opt config) (default_config no_op) opts
      in if workerID config = '''' then config\<lparr>workerID := uuid\<rparr> else config)"

text \<open>\<open>int(d.Seconds())\<close>\<close>

definition whole_seconds :: "time \<Rightarrow> int" where
  "whole_seconds d = go_trunc (of_int d / of_int second)"

text \<open>The application's state before it starts, as its handlers read it.\<close>

definition new_app :: "'h app_config \<Rightarrow> 'x registry \<Rightarrow> 'x app" where
  "new_app config reg =
     \<lparr>ap_worker = workerID config, ap_engine = init_engine (workerID config) reg, ap_registry = reg,
      ap_runners = Map.empty, ap_handlers = Map.empty,
      ap_stale_sec = whole_seconds (staleLockTimeout config),
      ap_lease_sec = whole_seconds (leaderLeaseDuration config),
      ap_max_timers = maxTimersPerBatch config, ap_max_messages = maxMessagesPerBatch config,
      ap_max_workflows = maxWorkflowsPerBatch config, ap_retention = channelMessageRetention config\<rparr>"

section \<open>The guarded fields\<close>

text \<open>
  What the semaphores, the LIMIT clauses and the leader's ticker are given. The other durations
  and the batch size of the relayer have no guard.
\<close>

definition config_ok :: "'h app_config \<Rightarrow> bool" where
  "config_ok c \<longleftrightarrow>
     0 < maxConcurrentResumptions c \<and> 0 < maxConcurrentTimers c \<and> 0 < maxConcurrentMessages c
     \<and> 0 < maxWorkflowsPerBatch c \<and> 0 < maxTimersPerBatch c \<and> 0 < maxMessagesPerBatch c
     \<and> 0 < leaderHeartbeatInterval c \<and> 0 < leaderLeaseDuration c"

lemma default_config_ok: "config_ok (default_config no_op)"
  by (simp add: config_ok_def default_config_def second_def)

lemma option_config_ok: "is_option opt \<Longrightarrow> config_ok c \<Longrightarrow> config_ok (opt c)"
  by (induction rule: is_option.induct) (simp_all add: config_ok_def option_defs)

lemma options_config_ok:
  "\<forall>opt \<in> set opts. is_option opt \<Longrightarrow> config_ok c \<Longrightarrow> config_ok (foldl (\<lambda>config opt. opt config) c opts)"
  by (induction opts arbitrary: c) (simp_all add: option_config_ok)

lemma config_ok_worker [simp]: "config_ok (c\<lparr>workerID := v\<rparr>) = config_ok c"
  by (simp add: config_ok_def)

lemma whole_seconds_div: "0 \<le> d \<Longrightarrow> whole_seconds d = d div second"
proof -
  assume "0 \<le> d"
  then have "(0::rat) \<le> of_int d / of_int second" by (simp add: second_def)
  then show ?thesis by (simp add: whole_seconds_def go_trunc_nonneg floor_divide_of_int_eq)
qed

text \<open>
  C27: the options keep the configuration well typed. Whatever options NewApp is given, in
  whatever order and however often, the limits of the semaphores and of the batches and the two
  durations of the leader election are positive in the configuration it makes and in the
  application's state, the worker has a name, and the lease of the leader in whole seconds is
  not negative and is positive exactly for a duration of at least a second.
\<close>

theorem options_well_typed:
  assumes "\<forall>opt \<in> set opts. is_option opt" "uuid \<noteq> ''''"
    and "config = new_config no_op uuid opts" "ap = new_app config reg"
  shows "config_ok config \<and> workerID config \<noteq> '''' \<and> ap_worker ap = workerID config
    \<and> en_worker (ap_engine ap) = workerID config
    \<and> 0 < ap_max_timers ap \<and> 0 < ap_max_messages ap \<and> 0 < ap_max_workflows ap
    \<and> 0 \<le> ap_lease_sec ap \<and> (0 < ap_lease_sec ap \<longleftrightarrow> second \<le> leaderLeaseDuration config)"
proof -
  have ok: "config_ok config"
    using options_config_ok [OF assms(1) default_config_ok] assms(3) by (simp add: new_config_def Let_def)
  moreover have "workerID config \<noteq> ''''"
    using assms(2,3) by (simp add: new_config_def Let_def)
  moreover have "ap_lease_sec ap = leaderLeaseDuration config div second"
    using ok assms(4) by (simp add: new_app_def whole_seconds_div config_ok_def)
  ultimately show ?thesis
    using assms(4) by (auto simp: config_ok_def new_app_def init_engine_def new_engine_def
        set_compensation_runner_def second_def pos_imp_zdiv_pos_iff pos_imp_zdiv_nonneg_iff)
qed

theorem options_well_typed_witness:
  "config_ok (new_config () ''w'' [WithMaxTimersPerBatch (- 5), WithLeaderLeaseDuration (second div 2),
      WithOutbox True])
    \<and> ap_lease_sec (new_app (new_config () ''w'' [WithMaxTimersPerBatch (- 5), WithLeaderLeaseDuration (second div 2),
      WithOutbox True]) (Map.empty :: unit registry)) = 0"
proof -
  let ?opts = "[WithMaxTimersPerBatch (- 5), WithLeaderLeaseDuration (second div 2), WithOutbox True]
      :: (unit app_config \<Rightarrow> unit app_config) list"
  have "\<forall>opt \<in> set ?opts. is_option opt" by (auto intro: is_option.intros)
  from options_well_typed [OF this _ refl refl, of "''w''" "()" "Map.empty :: unit registry"]
  have "config_ok (new_config () ''w'' ?opts)" "0 \<le> ap_lease_sec (new_app (new_config () ''w'' ?opts) (Map.empty :: unit registry))"
    "0 < ap_lease_sec (new_app (new_config () ''w'' ?opts) (Map.empty :: unit registry)) \<longleftrightarrow> second \<le> leaderLeaseDuration (new_config () ''w'' ?opts)"
    by blast+
  moreover have "leaderLeaseDuration (new_config () ''w'' ?opts) = second div 2"
    by (simp add: new_config_def default_config_def option_defs second_def)
  ultimately show ?thesis by (simp add: second_def)
qed

text \<open>An interval without a guard: the timer check would get a ticker of no duration, which panics.\<close>

lemma timer_interval_unguarded:
  "add_jitter u (timerCheckInterval (new_config no_op uuid [WithTimerCheckInterval 0])) = 0"
  by (simp add: new_config_def default_config_def option_defs add_jitter_def go_trunc_def)

end
