(* ===== verification/App_Lifecycle.thy ===== *)
theory App_Lifecycle
  imports Configuration
begin

text \<open>
  app.go: the life of an App. Start opens the storage, migrates it and starts the background
  loops; Shutdown stops them, gives the leader's lock back and closes the storage. Then the
  loops themselves: the leader election, the six tasks of the leader, the resumption of
  workflows, and the loop of the relayer (outbox/relayer.go).

  A \<open>service\<close> is an App with its configuration, the process it runs in and the databases it
  has opened and not closed. Opening a database is the driver's business (\<open>dial\<close>). What other
  goroutines and workers do to the world while a loop waits is an argument of its events.
\<close>

section \<open>Durations as text\<close>

primrec fraction_digits :: "nat \<Rightarrow> nat \<Rightarrow> string" where
  "fraction_digits 0 v = ''''"
| "fraction_digits (Suc p) v =
     (if v mod 10 ^ Suc p = 0 then ''''
      else show_int (int (v div 10 ^ p mod 10)) @ fraction_digits p v)"

definition fraction :: "nat \<Rightarrow> nat \<Rightarrow> string" where
  "fraction p v = (case fraction_digits p v of [] \<Rightarrow> '''' | ds \<Rightarrow> ''.'' @ ds)"

definition duration_text :: "time \<Rightarrow> string" where
  "duration_text d =
     (let u = nat \<bar>d\<bar>; s = u div 1000000000; sign = (if d < 0 then ''-'' else '''')
      in if u = 0 then ''0s''
         else sign @
           (if u < 1000 then show_int (int u) @ ''ns''
            else if u < 1000000 then show_int (int (u div 1000)) @ fraction 3 u @ [CHR 0xC2, CHR 0xB5] @ ''s''
            else if u < 1000000000 then show_int (int (u div 1000000)) @ fraction 6 u @ ''ms''
            else (if 3600 \<le> s then show_int (int (s div 3600)) @ ''h'' else '''')
              @ (if 60 \<le> s then show_int (int (s div 60 mod 60)) @ ''m'' else '''')
              @ show_int (int (s mod 60)) @ fraction 9 u @ ''s''))"

section \<open>The service\<close>

datatype leader_task = TimerCheck | EventTimeoutCheck | ChannelTimeoutCheck | RecurCheck
  | StaleLockCleanup | ChannelCleanup

datatype routine = ListenLoop | ElectionLoop | ResumptionLoop | RelayLoop

record relayer_config =
  rc_target :: string
  rc_interval :: time
  rc_batch :: int

record ('x, 's, 'h) service =
  sv_config :: "'h app_config"
  sv_app :: "'x app"
  sv_proc :: "'x proc"
  sv_storage :: "backend option"
  sv_open :: "backend list"
  sv_migrations :: "'s migdb"
  sv_listener :: "notify_handler listener option"
  sv_relayer :: "relayer_config option"
  sv_routines :: "routine list"

definition new_service ::
    "'h \<Rightarrow> string \<Rightarrow> ('h app_config \<Rightarrow> 'h app_config) list \<Rightarrow> 'x registry \<Rightarrow> 'x world \<Rightarrow> 's migdb \<Rightarrow>
     ('x, 's, 'h) service" where
  "new_service no_op uuid opts reg w m =
     (let config = new_config no_op uuid opts
      in \<lparr>sv_config = config, sv_app = new_app config reg,
          sv_proc = \<lparr>pr_world = w, pr_leader = False, pr_tasks = False, pr_running = False,
                     pr_initialized = False\<rparr>,
          sv_storage = None, sv_open = [], sv_migrations = m, sv_listener = None, sv_relayer = None,
          sv_routines = []\<rparr>)"

section \<open>Starting\<close>

definition storage_url :: "string \<Rightarrow> string" where
  "storage_url configured = (if configured = '''' then ''romancy.db'' else configured)"

fun backend_name :: "backend \<Rightarrow> string" where
  "backend_name PostgresBackend = ''PostgreSQL''"
| "backend_name MySQLBackend = ''MySQL''"
| "backend_name SQLiteBackend = ''SQLite''"

definition init_storage ::
    "(backend \<Rightarrow> string \<Rightarrow> go_error option) \<Rightarrow> (string \<Rightarrow> 's \<Rightarrow> string option \<times> 's) \<Rightarrow>
     (db_type \<Rightarrow> dir_entry list option) \<Rightarrow> ('x, 's, 'h) service \<Rightarrow>
     (go_error + unit) \<times> ('x, 's, 'h) service" where
  "init_storage dial run embedded sv =
     (let url = storage_url (databaseURL (sv_config sv));
          sv = sv\<lparr>sv_config := (sv_config sv)\<lparr>databaseURL := url\<rparr>\<rparr>;
          c = sv_config sv; kind = select_backend url
      in case dial kind url of
           Some e \<Rightarrow> (Inl (wrapf (''failed to create '' @ backend_name kind @ '' storage'') e), sv)
         | None \<Rightarrow>
             let sv = sv\<lparr>sv_storage := Some kind, sv_open := kind # sv_open sv\<rparr>;
                 sv = (if kind = PostgresBackend \<and> should_enable_listen_notify (useListenNotify c) True
                       then sv\<lparr>sv_listener := Some (init_notify_listener (notifyReconnectDelay c))\<rparr> else sv)
             in case auto_migrate run embedded (migrationsFS c) (autoMigrate c) url (sv_migrations sv) of
                  (Inl e, m) \<Rightarrow> (Inl e, sv\<lparr>sv_migrations := m\<rparr>)
                | (Inr u, m) \<Rightarrow>
                    (Inr (), sv\<lparr>sv_migrations := m,
                       sv_app := (sv_app sv)\<lparr>ap_engine := init_engine (workerID c) (ap_registry (sv_app sv))\<rparr>\<rparr>))"

definition start_background_tasks :: "('x, 's, 'h) service \<Rightarrow> ('x, 's, 'h) service" where
  "start_background_tasks sv =
     (let c = sv_config sv;
          sv = (if sv_listener sv = None then sv else sv\<lparr>sv_routines := sv_routines sv @ [ListenLoop]\<rparr>);
          sv = sv\<lparr>sv_routines := sv_routines sv @ [ElectionLoop, ResumptionLoop]\<rparr>
      in if outboxEnabled c
         then sv\<lparr>sv_relayer := Some \<lparr>rc_target = brokerURL c, rc_interval = outboxInterval c,
                                     rc_batch = outboxBatchSize c\<rparr>,
                 sv_routines := sv_routines sv @ [RelayLoop]\<rparr>
         else sv)"

definition app_start ::
    "(backend \<Rightarrow> string \<Rightarrow> go_error option) \<Rightarrow> (string \<Rightarrow> 's \<Rightarrow> string option \<times> 's) \<Rightarrow>
     (db_type \<Rightarrow> dir_entry list option) \<Rightarrow> ('x, 's, 'h) service \<Rightarrow>
     (go_error + unit) \<times> ('x, 's, 'h) service" where
  "app_start dial run embedded sv =
     (if pr_running (sv_proc sv) then (Inl (ErrText ''app already running''), sv)
      else case init_storage dial run embedded sv of
        (Inl e, sv) \<Rightarrow> (Inl (wrapf ''failed to initialize storage'' e), sv)
      | (Inr u, sv) \<Rightarrow>
          let sv = start_background_tasks sv
          in (Inr (), sv\<lparr>sv_proc := (sv_proc sv)\<lparr>pr_running := True, pr_initialized := True\<rparr>\<rparr>))"

section \<open>Shutting down\<close>

text \<open>How the wait for the background tasks ends.\<close>

datatype wait_end = AllStopped | CallerDone | TimedOut

text \<open>
  Stop of the relayer waits for its loop, without a limit. Stop of the listener cancels its
  loop. The election loop stops the leader's tasks when the context is cancelled. When the wait
  ends early the loops that have not returned yet are left behind.
\<close>

definition app_shutdown ::
    "wait_end \<Rightarrow> go_error option \<Rightarrow> ('x, 's, 'h) service \<Rightarrow> (go_error + unit) \<times> ('x, 's, 'h) service" where
  "app_shutdown ended close_error sv =
     (if \<not> pr_running (sv_proc sv) then (Inr (), sv)
      else
        let sv = sv\<lparr>sv_routines := filter (\<lambda>r. r \<noteq> RelayLoop \<and> r \<noteq> ListenLoop) (sv_routines sv)\<rparr>;
            stopped = sv\<lparr>sv_proc := stop_leader_tasks ((sv_proc sv)\<lparr>pr_running := False\<rparr>)\<rparr>
        in case ended of
             CallerDone \<Rightarrow> (Inl (ErrText ''shutdown timed out''), stopped)
           | TimedOut \<Rightarrow>
               (Inl (ErrText (''shutdown timed out after '' @ duration_text (shutdownTimeout (sv_config sv)))), stopped)
           | AllStopped \<Rightarrow>
               let sv = sv\<lparr>sv_routines := [], sv_proc := shutdown (sv_app sv) (sv_proc sv)\<rparr>
               in case sv_storage sv of
                    None \<Rightarrow> (Inr (), sv)
                  | Some kind \<Rightarrow>
                      let sv = sv\<lparr>sv_open := remove1 kind (sv_open sv)\<rparr>
                      in (case close_error of
                            Some e \<Rightarrow> (Inl (wrapf ''failed to close storage'' e), sv)
                          | None \<Rightarrow> (Inr (), sv)))"

section \<open>The leader's loops\<close>

datatype tick = TickerFired | ContextDone

definition task_interval :: "'h app_config \<Rightarrow> leader_task \<Rightarrow> time" where
  "task_interval c t =
     (case t of
        TimerCheck \<Rightarrow> timerCheckInterval c
      | EventTimeoutCheck \<Rightarrow> eventTimeoutInterval c
      | ChannelTimeoutCheck \<Rightarrow> messageCheckInterval c
      | RecurCheck \<Rightarrow> recurCheckInterval c
      | StaleLockCleanup \<Rightarrow> staleLockInterval c
      | ChannelCleanup \<Rightarrow> channelCleanupInterval c)"

definition task_body :: "'x app \<Rightarrow> leader_task \<Rightarrow> ('x, unit) wm" where
  "task_body ap t =
     (case t of
        TimerCheck \<Rightarrow> check_expired_timers ap
      | EventTimeoutCheck \<Rightarrow> check_event_timeouts ap
      | ChannelTimeoutCheck \<Rightarrow> check_channel_timeouts ap
      | RecurCheck \<Rightarrow> check_recurred_workflows ap
      | StaleLockCleanup \<Rightarrow> app_cleanup_stale_locks ap
      | ChannelCleanup \<Rightarrow> cleanup_channel_messages ap)"

text \<open>\<open>time.NewTicker\<close> panics for a duration that is not positive; a panic is \<open>None\<close> here.\<close>

definition new_ticker :: "time \<Rightarrow> time option" where
  "new_ticker d = (if d \<le> 0 then None else Some d)"

definition task_ticker :: "rat \<Rightarrow> 'h app_config \<Rightarrow> leader_task \<Rightarrow> time option" where
  "task_ticker u c t = new_ticker (add_jitter u (task_interval c t))"

fun task_loop :: "'x app \<Rightarrow> leader_task \<Rightarrow> (('x world \<Rightarrow> 'x world) \<times> tick) list \<Rightarrow> 'x world \<Rightarrow> 'x world" where
  "task_loop ap t [] w = w"
| "task_loop ap t ((others, ContextDone) # evs) w = others w"
| "task_loop ap t ((others, TickerFired) # evs) w = task_loop ap t evs (snd (task_body ap t (others w)))"

definition run_task ::
    "'h app_config \<Rightarrow> 'x app \<Rightarrow> leader_task \<Rightarrow> rat \<Rightarrow> (('x world \<Rightarrow> 'x world) \<times> tick) list \<Rightarrow> 'x world \<Rightarrow>
     'x world option" where
  "run_task c ap t u evs w =
     (case task_ticker u c t of None \<Rightarrow> None | Some d \<Rightarrow> Some (task_loop ap t evs w))"

definition run_stale_lock_cleanup ::
    "'h app_config \<Rightarrow> 'x app \<Rightarrow> rat \<Rightarrow> (('x world \<Rightarrow> 'x world) \<times> tick) list \<Rightarrow> 'x world \<Rightarrow> 'x world option" where
  "run_stale_lock_cleanup c ap = run_task c ap StaleLockCleanup"

definition run_timer_check ::
    "'h app_config \<Rightarrow> 'x app \<Rightarrow> rat \<Rightarrow> (('x world \<Rightarrow> 'x world) \<times> tick) list \<Rightarrow> 'x world \<Rightarrow> 'x world option" where
  "run_timer_check c ap = run_task c ap TimerCheck"

definition run_event_timeout_check ::
    "'h app_config \<Rightarrow> 'x app \<Rightarrow> rat \<Rightarrow> (('x world \<Rightarrow> 'x world) \<times> tick) list \<Rightarrow> 'x world \<Rightarrow> 'x world option" where
  "run_event_timeout_check c ap = run_task c ap EventTimeoutCheck"

definition run_channel_timeout_check ::
    "'h app_config \<Rightarrow> 'x app \<Rightarrow> rat \<Rightarrow> (('x world \<Rightarrow> 'x world) \<times> tick) list \<Rightarrow> 'x world \<Rightarrow> 'x world option" where
  "run_channel_timeout_check c ap = run_task c ap ChannelTimeoutCheck"

definition run_recur_check ::
    "'h app_config \<Rightarrow> 'x app \<Rightarrow> rat \<Rightarrow> (('x world \<Rightarrow> 'x world) \<times> tick) list \<Rightarrow> 'x world \<Rightarrow> 'x world option" where
  "run_recur_check c ap = run_task c ap RecurCheck"

definition run_channel_cleanup ::
    "'h app_config \<Rightarrow> 'x app \<Rightarrow> rat \<Rightarrow> (('x world \<Rightarrow> 'x world) \<times> tick) list \<Rightarrow> 'x world \<Rightarrow> 'x world option" where
  "run_channel_cleanup c ap = run_task c ap ChannelCleanup"

fun election_ticks :: "'x app \<Rightarrow> (('x world \<Rightarrow> 'x world) \<times> tick) list \<Rightarrow> 'x proc \<Rightarrow> 'x proc" where
  "election_ticks ap [] p = p"
| "election_ticks ap ((others, ContextDone) # evs) p = stop_leader_tasks (p\<lparr>pr_world := others (pr_world p)\<rparr>)"
| "election_ticks ap ((others, TickerFired) # evs) p =
     election_ticks ap evs (try_acquire_leadership ap (p\<lparr>pr_world := others (pr_world p)\<rparr>))"

definition run_leader_election :: "'x app \<Rightarrow> (('x world \<Rightarrow> 'x world) \<times> tick) list \<Rightarrow> 'x proc \<Rightarrow> 'x proc" where
  "run_leader_election ap evs p = election_ticks ap evs (try_acquire_leadership ap p)"

section \<open>The polling loops\<close>

datatype wake_up = Woken | Elapsed | Halted

text \<open>
  The loop of the resumption and of the relayer: poll, count the empty polls in a row, wait. An
  event has the random number of the round, what happens to the world during the wait, and how
  the wait ends. The result has the waits of the rounds and the last count.
\<close>

fun poll_loop ::
    "('x, nat) wm \<Rightarrow> (nat \<Rightarrow> time) \<Rightarrow> (rat \<times> ('x world \<Rightarrow> 'x world) \<times> wake_up) list \<Rightarrow> nat \<Rightarrow>
     'x world \<Rightarrow> time list \<times> nat \<times> 'x world" where
  "poll_loop poll backoff [] consecutive_empty w = ([], consecutive_empty, w)"
| "poll_loop poll backoff ((u, others, how) # evs) consecutive_empty w =
     (case poll w of (outcome, w) \<Rightarrow>
        let consecutive_empty = next_empty outcome consecutive_empty;
            wait = add_jitter_fraction u (backoff consecutive_empty) (3 / 10)
        in case how of
             Halted \<Rightarrow> ([wait], consecutive_empty, others w)
           | Woken \<Rightarrow> apfst ((#) wait) (poll_loop poll backoff evs 0 (others w))
           | Elapsed \<Rightarrow> apfst ((#) wait) (poll_loop poll backoff evs consecutive_empty (others w)))"

definition resumption_backoff :: "'h app_config \<Rightarrow> nat \<Rightarrow> time" where
  "resumption_backoff c consecutive_empty =
     calculate_backoff (workflowResumptionInterval c) consecutive_empty (60 * second)"

definition run_workflow_resumption ::
    "'h app_config \<Rightarrow> 'x app \<Rightarrow> (rat \<times> ('x world \<Rightarrow> 'x world) \<times> wake_up) list \<Rightarrow> 'x world \<Rightarrow>
     time list \<times> nat \<times> 'x world" where
  "run_workflow_resumption c ap evs = poll_loop (resume_resumable_workflows ap) (resumption_backoff c) evs 0"

definition run_relayer ::
    "'x relayer \<Rightarrow> (nat \<Rightarrow> bool) \<Rightarrow> (rat \<times> ('x world \<Rightarrow> 'x world) \<times> wake_up) list \<Rightarrow> 'x world \<Rightarrow>
     time list \<times> nat \<times> 'x world" where
  "run_relayer r stopped evs = poll_loop (process_pending_events r stopped) (relayer_backoff r) evs 0"

section \<open>The HTTP handler\<close>

definition find_instances ::
    "(string \<times> sql_arg list \<Rightarrow> workflow_instance \<Rightarrow> bool) \<Rightarrow> (string \<times> filter_value) list \<Rightarrow>
     ('x, list_row list) wm" where
  "find_instances holds input_filters =
     find_instances_with_options holds
       \<lparr>lo_limit = 0, lo_token = NoToken, lo_status = None, lo_name = '''', lo_id = '''',
        lo_after = None, lo_before = None, lo_inputs = input_filters, lo_old_status = None, lo_old_name = ''''\<rparr>"

datatype route = CloudEventRoute | LivenessRoute | ReadinessRoute | CancelRoute string | RedirectRoute string

text \<open>The route of a clean path; ServeMux redirects \<open>/cancel\<close> to its subtree.\<close>

definition route_of :: "string \<Rightarrow> route" where
  "route_of path =
     (if path = ''/health/live'' then LivenessRoute
      else if path = ''/health/ready'' then ReadinessRoute
      else if starts_with ''/cancel/'' path then CancelRoute (drop (length ''/cancel/'') path)
      else if path = ''/cancel'' then RedirectRoute ''/cancel/''
      else CloudEventRoute)"

definition handle_liveness_probe :: "nat" where
  "handle_liveness_probe = 200"

section \<open>What starting and stopping do\<close>

definition the_backend :: "'h app_config \<Rightarrow> backend" where
  "the_backend c = select_backend (storage_url (databaseURL c))"

lemma storage_url_idem [simp]: "storage_url (storage_url u) = storage_url u"
  by (simp add: storage_url_def)

lemma init_storage_cases:
  assumes "init_storage dial run embedded sv = (outcome, sv')"
  obtains (no_database) e e' c where "dial (the_backend (sv_config sv)) (storage_url (databaseURL (sv_config sv))) = Some e"
      "outcome = Inl e'" "sv' = sv\<lparr>sv_config := c\<rparr>"
      "the_backend c = the_backend (sv_config sv)" "outboxEnabled c = outboxEnabled (sv_config sv)"
      "useListenNotify c = useListenNotify (sv_config sv)"
  | (opened) "dial (the_backend (sv_config sv)) (storage_url (databaseURL (sv_config sv))) = None"
      "sv_storage sv' = Some (the_backend (sv_config sv))"
      "sv_open sv' = the_backend (sv_config sv) # sv_open sv"
      "sv_proc sv' = sv_proc sv" "sv_routines sv' = sv_routines sv"
      "the_backend (sv_config sv') = the_backend (sv_config sv)"
      "outboxEnabled (sv_config sv') = outboxEnabled (sv_config sv)"
      "useListenNotify (sv_config sv') = useListenNotify (sv_config sv)"
      "sv_listener sv' \<noteq> None \<longrightarrow> sv_listener sv \<noteq> None \<or>
         the_backend (sv_config sv) = PostgresBackend \<and> useListenNotify (sv_config sv) \<noteq> Some False"
proof (cases "dial (the_backend (sv_config sv)) (storage_url (databaseURL (sv_config sv)))")
  case None
  with assms show thesis
    by (intro opened) (auto simp: init_storage_def Let_def the_backend_def should_enable_listen_notify_def
        split: prod.splits sum.splits option.splits if_splits)
next
  case (Some e)
  with assms show thesis
    by (intro no_database [where c = "(sv_config sv)\<lparr>databaseURL := storage_url (databaseURL (sv_config sv))\<rparr>"])
      (auto simp: init_storage_def Let_def the_backend_def split: prod.splits sum.splits)
qed

lemma start_background_tasks_simps [simp]:
  "sv_open (start_background_tasks sv) = sv_open sv"
  "sv_storage (start_background_tasks sv) = sv_storage sv"
  "sv_proc (start_background_tasks sv) = sv_proc sv"
  "sv_config (start_background_tasks sv) = sv_config sv"
  "sv_listener (start_background_tasks sv) = sv_listener sv"
  "sv_routines (start_background_tasks sv) = sv_routines sv @
     (if sv_listener sv = None then [] else [ListenLoop]) @ [ElectionLoop, ResumptionLoop]
     @ (if outboxEnabled (sv_config sv) then [RelayLoop] else [])"
  by (simp_all add: start_background_tasks_def Let_def)

lemma leader_tasks_simps [simp]:
  "pr_running (stop_leader_tasks p) = pr_running p" "pr_leader (stop_leader_tasks p) = pr_leader p"
  "\<not> pr_tasks (stop_leader_tasks p)" "pr_initialized (stop_leader_tasks p) = pr_initialized p"
  "pr_running (start_leader_only_tasks p) = pr_running p" "pr_leader (start_leader_only_tasks p) = pr_leader p"
  "pr_tasks (start_leader_only_tasks p)" "pr_initialized (start_leader_only_tasks p) = pr_initialized p"
  by (simp_all add: stop_leader_tasks_def start_leader_only_tasks_def)

lemma try_acquire_leadership_simps [simp]:
  "pr_running (try_acquire_leadership ap p) = pr_running p"
  "pr_initialized (try_acquire_leadership ap p) = pr_initialized p"
  by (auto simp: try_acquire_leadership_def Let_def split: prod.split sum.split)

lemma leadership_tasks: "pr_tasks p \<longrightarrow> pr_leader p \<Longrightarrow>
    pr_tasks (try_acquire_leadership ap p) \<longrightarrow> pr_leader (try_acquire_leadership ap p)"
  by (auto simp: try_acquire_leadership_def Let_def split: prod.split sum.split)

lemma shutdown_simps:
  "pr_running p \<Longrightarrow> \<not> pr_running (shutdown ap p) \<and> \<not> pr_leader (shutdown ap p) \<and> \<not> pr_tasks (shutdown ap p)"
  by (auto simp: shutdown_def Let_def)

text \<open>
  The states of an App, and the number of its databases that were opened and then left behind:
  by a Start that failed after the database was opened, or by a Shutdown whose wait ended early.
\<close>

inductive service_history ::
    "(string \<Rightarrow> 's \<Rightarrow> string option \<times> 's) \<Rightarrow> (db_type \<Rightarrow> dir_entry list option) \<Rightarrow> 'h app_config \<Rightarrow>
     ('x, 's, 'h) service \<Rightarrow> nat \<Rightarrow> bool"
  for run :: "string \<Rightarrow> 's \<Rightarrow> string option \<times> 's" and embedded :: "db_type \<Rightarrow> dir_entry list option"
    and config :: "'h app_config" where
  created: "config = sv_config (new_service no_op uuid opts reg w m) \<Longrightarrow>
    service_history run embedded config (new_service no_op uuid opts reg w m) 0"
| started: "service_history run embedded config sv n \<Longrightarrow> app_start dial run embedded sv = (Inr (), sv') \<Longrightarrow>
    service_history run embedded config sv' n"
| start_failed: "service_history run embedded config sv n \<Longrightarrow> app_start dial run embedded sv = (Inl e, sv') \<Longrightarrow>
    n' = (if pr_running (sv_proc sv) \<or> dial (the_backend config) (storage_url (databaseURL (sv_config sv))) \<noteq> None
          then n else n + 1) \<Longrightarrow>
    service_history run embedded config sv' n'"
| stopped: "service_history run embedded config sv n \<Longrightarrow> app_shutdown ended close_error sv = (outcome, sv') \<Longrightarrow>
    n' = (if pr_running (sv_proc sv) \<and> ended \<noteq> AllStopped then n + 1 else n) \<Longrightarrow>
    service_history run embedded config sv' n'"
| elected: "service_history run embedded config sv n \<Longrightarrow> pr_running (sv_proc sv) \<Longrightarrow>
    service_history run embedded config
      (sv\<lparr>sv_proc := try_acquire_leadership (sv_app sv) (sv_proc sv)\<rparr>) n"
| changed: "service_history run embedded config sv n \<Longrightarrow>
    service_history run embedded config (sv\<lparr>sv_proc := (sv_proc sv)\<lparr>pr_world := w\<rparr>\<rparr>) n"

definition service_ok :: "'h app_config \<Rightarrow> ('x, 's, 'h) service \<Rightarrow> nat \<Rightarrow> bool" where
  "service_ok config sv n \<longleftrightarrow>
     sv_open sv = replicate (n + (if pr_running (sv_proc sv) then 1 else 0)) (the_backend config)
     \<and> the_backend (sv_config sv) = the_backend config
     \<and> outboxEnabled (sv_config sv) = outboxEnabled config
     \<and> useListenNotify (sv_config sv) = useListenNotify config
     \<and> (sv_listener sv \<noteq> None \<longrightarrow> the_backend config = PostgresBackend \<and> useListenNotify config \<noteq> Some False)
     \<and> (pr_tasks (sv_proc sv) \<longrightarrow> pr_leader (sv_proc sv))
     \<and> (RelayLoop \<in> set (sv_routines sv) \<longrightarrow> pr_running (sv_proc sv) \<and> outboxEnabled config)
     \<and> (ListenLoop \<in> set (sv_routines sv) \<longrightarrow> pr_running (sv_proc sv) \<and> sv_listener sv \<noteq> None)
     \<and> (pr_running (sv_proc sv) \<longrightarrow> sv_storage sv = Some (the_backend config) \<and> pr_initialized (sv_proc sv)
          \<and> {ElectionLoop, ResumptionLoop} \<subseteq> set (sv_routines sv)
          \<and> (outboxEnabled config \<longrightarrow> RelayLoop \<in> set (sv_routines sv))
          \<and> (sv_listener sv \<noteq> None \<longrightarrow> ListenLoop \<in> set (sv_routines sv)))
     \<and> (n = 0 \<longrightarrow> distinct (sv_routines sv)
          \<and> (\<not> pr_running (sv_proc sv) \<longrightarrow> sv_routines sv = [] \<and> \<not> pr_leader (sv_proc sv)))"

lemma service_ok_open:
  "service_ok config sv n \<Longrightarrow> length (sv_open sv) = n + (if pr_running (sv_proc sv) then 1 else 0)"
proof -
  assume "service_ok config sv n"
  then have "sv_open sv = replicate (n + (if pr_running (sv_proc sv) then 1 else 0)) (the_backend config)"
    unfolding service_ok_def by (rule conjunct1)
  then show ?thesis by (simp only: length_replicate)
qed

lemma app_start_ok:
  assumes "service_ok config sv n" "app_start dial run embedded sv = (Inr (), sv')"
  shows "service_ok config sv' n"
proof -
  from assms(2) obtain sv1 where idle: "\<not> pr_running (sv_proc sv)"
    and init: "init_storage dial run embedded sv = (Inr (), sv1)"
    and sv': "sv' = start_background_tasks sv1\<lparr>sv_proc := (sv_proc sv1)\<lparr>pr_running := True, pr_initialized := True\<rparr>\<rparr>"
    by (auto simp: app_start_def Let_def split: if_splits prod.splits sum.splits)
  from init show ?thesis
  proof (cases rule: init_storage_cases)
    case (no_database e e' c)
    then show ?thesis by simp
  next
    case opened
    have "sv_listener sv1 \<noteq> None \<longrightarrow> the_backend config = PostgresBackend \<and> useListenNotify config \<noteq> Some False"
      using opened(9) assms(1) unfolding service_ok_def by metis
    with opened(1-8) assms(1) idle sv' show ?thesis by (simp add: service_ok_def)
  qed
qed

lemma app_start_failed_ok:
  assumes "service_ok config sv n" "app_start dial run embedded sv = (Inl e, sv')"
  shows "service_ok config sv'
    (if pr_running (sv_proc sv) \<or> dial (the_backend config) (storage_url (databaseURL (sv_config sv))) \<noteq> None
     then n else n + 1)"
proof (cases "pr_running (sv_proc sv)")
  case True
  with assms show ?thesis by (simp add: app_start_def)
next
  case False
  with assms(2) obtain e' where init: "init_storage dial run embedded sv = (Inl e', sv')"
    by (auto simp: app_start_def Let_def split: prod.splits sum.splits)
  from init show ?thesis
  proof (cases rule: init_storage_cases)
    case (no_database e1 e2 c)
    have backend: "the_backend (sv_config sv) = the_backend config"
      using assms(1) False by (simp add: service_ok_def)
    have "service_ok config sv' n"
      unfolding no_database(3) using assms(1) False no_database(4-6) by (simp add: service_ok_def)
    then show ?thesis using no_database(1) by (simp add: backend)
  next
    case opened
    have "sv_listener sv' \<noteq> None \<longrightarrow> the_backend config = PostgresBackend \<and> useListenNotify config \<noteq> Some False"
      using opened(9) assms(1) unfolding service_ok_def by metis
    with opened(1-8) assms(1) False show ?thesis by (simp add: service_ok_def)
  qed
qed

lemma app_shutdown_ok:
  assumes "service_ok config sv n" "app_shutdown ended close_error sv = (outcome, sv')"
  shows "service_ok config sv' (if pr_running (sv_proc sv) \<and> ended \<noteq> AllStopped then n + 1 else n)"
proof (cases "pr_running (sv_proc sv)")
  case True
  let ?routines = "filter (\<lambda>r. r \<noteq> RelayLoop \<and> r \<noteq> ListenLoop) (sv_routines sv)"
  from True assms(2) have "sv' = (if ended = AllStopped
      then sv\<lparr>sv_routines := [], sv_proc := shutdown (sv_app sv) (sv_proc sv),
             sv_open := (case sv_storage sv of None \<Rightarrow> sv_open sv | Some kind \<Rightarrow> remove1 kind (sv_open sv))\<rparr>
      else sv\<lparr>sv_routines := ?routines, sv_proc := stop_leader_tasks ((sv_proc sv)\<lparr>pr_running := False\<rparr>)\<rparr>)"
    by (auto simp: app_shutdown_def Let_def split: wait_end.splits option.splits)
  with True assms(1) show ?thesis
    by (simp add: service_ok_def shutdown_simps)
next
  case False
  with assms show ?thesis by (simp add: app_shutdown_def)
qed

text \<open>
  C28: the life of an App is accounted for. In every state that any sequence of Start, Shutdown,
  election and changes of the world leads to, whether the calls fail or not, the databases that
  are open are exactly that of the running App and one for each Start that failed after it had
  opened the database and for each Shutdown whose wait ended early. A running App has its
  storage, the election and the resumption loop, the relayer's loop exactly if the outbox is
  enabled and the listener's loop exactly if there is a listener, which only PostgreSQL can have.
  Its leader's tasks run only while it takes itself for the leader. When no call has left
  anything behind, no loop runs twice, and an App that does not run has no loop left and is not
  the leader.
\<close>

theorem service_accounted:
  assumes "service_history run embedded config sv n"
  shows "service_ok config sv n"
  using assms
proof induction
  case (created no_op uuid opts reg w m)
  then show ?case by (simp add: service_ok_def new_service_def Let_def)
next
  case (elected sv n)
  then show ?case using leadership_tasks [of "sv_proc sv" "sv_app sv"] by (simp add: service_ok_def)
next
  case (changed sv n w)
  then show ?case by (cases "pr_running (sv_proc sv)") (simp_all add: service_ok_def)
next
  case (started sv n dial sv')
  from app_start_ok [OF started(3,2)] show ?case .
next
  case (start_failed sv n dial e sv' n')
  then show ?case using app_start_failed_ok [OF start_failed(4,2)] by simp
next
  case (stopped sv n ended close_error outcome sv' n')
  then show ?case using app_shutdown_ok [OF stopped(4,2)] by simp
qed
text \<open>A Start whose migration fails: the App does not run and its database stays open.\<close>

definition full_disk :: "string list migdb" where
  "full_disk = \<lparr>md_versions = None, md_objects = [], md_faults = [Some ''disk full'']\<rparr>"

definition lifecycle_service :: "(unit, string list, unit) service" where
  "lifecycle_service = new_service () ''w'' [] Map.empty relay_world full_disk"

definition failed_start :: "(go_error + unit) \<times> (unit, string list, unit) service" where
  "failed_start = app_start (\<lambda>_ _. None) (\<lambda>s ob. (None, ob @ [s])) (\<lambda>_. Some []) lifecycle_service"

lemma full_disk_fails:
  "case auto_migrate (\<lambda>s ob. (None, ob @ [s])) (\<lambda>_. Some []) None True ''file:romancy.db'' full_disk of
     (Inl e, m) \<Rightarrow> True | _ \<Rightarrow> False"
  by code_simp

lemma lifecycle_config:
  "databaseURL (sv_config lifecycle_service) = ''file:romancy.db''"
  "autoMigrate (sv_config lifecycle_service)" "migrationsFS (sv_config lifecycle_service) = None"
  "useListenNotify (sv_config lifecycle_service) = None"
  "sv_migrations lifecycle_service = full_disk" "\<not> pr_running (sv_proc lifecycle_service)"
  by (simp_all add: lifecycle_service_def new_service_def new_config_def default_config_def Let_def)

lemma lifecycle_url:
  "storage_url ''file:romancy.db'' = ''file:romancy.db''" "select_backend ''file:romancy.db'' = SQLiteBackend"
  by (simp_all add: storage_url_def select_backend_def)

lemma failed_start_outcome:
  "\<exists>e. fst failed_start = Inl e" "\<not> pr_running (sv_proc (snd failed_start))"
  "\<not> pr_running (sv_proc lifecycle_service)"
proof -
  obtain e m where "auto_migrate (\<lambda>s ob. (None, ob @ [s])) (\<lambda>_. Some []) None True ''file:romancy.db'' full_disk = (Inl e, m)"
    using full_disk_fails by (auto split: prod.splits sum.splits)
  then have "\<exists>e sv. init_storage (\<lambda>_ _. None) (\<lambda>s ob. (None, ob @ [s])) (\<lambda>_. Some []) lifecycle_service = (Inl e, sv)
      \<and> sv_proc sv = sv_proc lifecycle_service"
    by (simp add: init_storage_def Let_def lifecycle_config lifecycle_url)
  then obtain e' sv where "init_storage (\<lambda>_ _. None) (\<lambda>s ob. (None, ob @ [s])) (\<lambda>_. Some []) lifecycle_service = (Inl e', sv)"
    "sv_proc sv = sv_proc lifecycle_service" by blast
  then show "\<exists>e. fst failed_start = Inl e" "\<not> pr_running (sv_proc (snd failed_start))"
    "\<not> pr_running (sv_proc lifecycle_service)"
    by (simp_all add: failed_start_def app_start_def lifecycle_config)
qed

theorem service_accounted_witness:
  "length (sv_open (snd failed_start)) = 1
   \<and> \<not> pr_running (sv_proc (snd failed_start))"
proof -
  let ?config = "sv_config lifecycle_service"
  have made: "service_history (\<lambda>s ob. (None, ob @ [s])) (\<lambda>_. Some []) ?config lifecycle_service 0"
    unfolding lifecycle_service_def by (rule service_history.created) simp
  obtain e where failed: "app_start (\<lambda>_ _. None) (\<lambda>s ob. (None, ob @ [s])) (\<lambda>_. Some []) lifecycle_service
      = (Inl e, snd failed_start)"
    using failed_start_outcome(1) unfolding failed_start_def by (metis prod.collapse)
  have "service_history (\<lambda>s ob. (None, ob @ [s])) (\<lambda>_. Some []) ?config (snd failed_start) 1"
    using service_history.start_failed [OF made failed refl] failed_start_outcome(3) by simp
  from service_ok_open [OF service_accounted [OF this]] failed_start_outcome(2) show ?thesis by simp
qed

section \<open>A leader that is started again\<close>

lemma idle_leader:
  "pr_leader p \<Longrightarrow> \<not> pr_tasks p \<Longrightarrow> pr_leader (try_acquire_leadership ap p) \<Longrightarrow>
   \<not> pr_tasks (try_acquire_leadership ap p)"
  by (auto simp: try_acquire_leadership_def Let_def split: prod.splits sum.splits if_splits)

lemma not_leader_ticks:
  "pr_tasks p \<longrightarrow> pr_leader p \<Longrightarrow> pr_leader (election_ticks ap evs p) \<or> \<not> pr_tasks (election_ticks ap evs p)"
proof (induction ap evs p rule: election_ticks.induct)
  case (3 ap others evs p)
  then show ?case using leadership_tasks [of "p\<lparr>pr_world := others (pr_world p)\<rparr>" ap] by simp
qed auto

lemma idle_leader_ticks:
  assumes "pr_leader p" "\<not> pr_tasks p" "\<forall>k \<le> length evs. pr_leader (election_ticks ap (take k evs) p)"
  shows "\<not> pr_tasks (election_ticks ap evs p)"
  using assms
proof (induction ap evs p rule: election_ticks.induct)
  case (3 ap others evs p)
  let ?p = "p\<lparr>pr_world := others (pr_world p)\<rparr>"
  have all: "pr_leader (election_ticks ap (take k evs) (try_acquire_leadership ap ?p))" if "k \<le> length evs" for k
    using 3(4) [rule_format, of "Suc k"] that by simp
  from all [of 0] have "pr_leader (try_acquire_leadership ap ?p)" by simp
  moreover from this have "\<not> pr_tasks (try_acquire_leadership ap ?p)"
    using idle_leader [of ?p ap] 3(2,3) by simp
  ultimately show ?case using 3(1) all by simp
qed auto

text \<open>
  C29: a leader that is started again does not work. When the wait of a Shutdown of the leader
  ends early the App still takes itself for the leader. If it is then started again, its
  election loop starts none of the leader's tasks, however often it renews the lock, for as long
  as it does not lose it: expired timers, timeouts and recurred workflows are left alone.
\<close>

theorem restarted_leader_idle:
  assumes "pr_running (sv_proc sv)" "pr_leader (sv_proc sv)" "ended \<noteq> AllStopped"
    and "app_shutdown ended close_error sv = (outcome, sv1)"
    and "app_start dial run embedded sv1 = (Inr (), sv2)"
    and "p = try_acquire_leadership (sv_app sv2) (sv_proc sv2)"
    and "\<forall>k \<le> length evs. pr_leader (election_ticks (sv_app sv2) (take k evs) p)"
  shows "pr_running (sv_proc sv2) \<and> \<not> pr_tasks (run_leader_election (sv_app sv2) evs (sv_proc sv2))"
proof -
  have sv1: "pr_leader (sv_proc sv1) \<and> \<not> pr_tasks (sv_proc sv1)"
    using assms(1-4) by (cases ended) (auto simp: app_shutdown_def Let_def)
  from assms(5) obtain sv' where init: "init_storage dial run embedded sv1 = (Inr (), sv')"
    and sv2: "sv2 = start_background_tasks sv'\<lparr>sv_proc := (sv_proc sv')\<lparr>pr_running := True, pr_initialized := True\<rparr>\<rparr>"
    by (auto simp: app_start_def Let_def split: if_splits prod.splits sum.splits)
  from init have "sv_proc sv' = sv_proc sv1" by (cases rule: init_storage_cases) simp_all
  with sv1 sv2 have leader: "pr_leader (sv_proc sv2)" "\<not> pr_tasks (sv_proc sv2)" "pr_running (sv_proc sv2)"
    by simp_all
  have "pr_leader p" using assms(7) [rule_format, of 0] by simp
  with idle_leader [OF leader(1,2)] have "\<not> pr_tasks p" by (simp add: assms(6))
  with \<open>pr_leader p\<close> assms(6,7) have "\<not> pr_tasks (election_ticks (sv_app sv2) evs p)"
    by (intro idle_leader_ticks) simp_all
  then show ?thesis using leader(3) assms(6) by (simp add: run_leader_election_def)
qed
definition leading_service :: "(unit, string list, unit) service" where
  "leading_service = lifecycle_service
     \<lparr>sv_proc := \<lparr>pr_world = relay_world, pr_leader = True, pr_tasks = True, pr_running = True, pr_initialized = True\<rparr>\<rparr>"

definition started_again :: "(go_error + unit) \<times> (unit, string list, unit) service" where
  "started_again = app_start (\<lambda>_ _. None) (\<lambda>s ob. (None, ob @ [s])) (\<lambda>_. None)
     (snd (app_shutdown TimedOut None leading_service))"

lemma started_again_outcome:
  "fst started_again = Inr ()" "pr_leader (sv_proc (snd started_again))"
  "pr_world (sv_proc (snd started_again)) = relay_world"
  "ap_worker (sv_app (snd started_again)) = ''w''" "ap_lease_sec (sv_app (snd started_again)) = 45"
proof -
  have kind: "detect_db_type ''file:romancy.db'' = Inr Sqlite" by code_simp
  have lease: "whole_seconds (leaderLeaseDuration (sv_config lifecycle_service)) = 45"
    by (simp add: lifecycle_service_def new_service_def new_config_def default_config_def Let_def second_def
        whole_seconds_div)
  have app: "ap_worker (sv_app lifecycle_service) = ''w''" "ap_lease_sec (sv_app lifecycle_service) = 45"
    using lease by (simp_all add: lifecycle_service_def new_service_def new_config_def default_config_def Let_def new_app_def)
  show "fst started_again = Inr ()" "pr_leader (sv_proc (snd started_again))"
    "pr_world (sv_proc (snd started_again)) = relay_world"
    "ap_worker (sv_app (snd started_again)) = ''w''" "ap_lease_sec (sv_app (snd started_again)) = 45"
    by (simp_all add: started_again_def leading_service_def app_shutdown_def app_start_def init_storage_def Let_def
        lifecycle_config lifecycle_url auto_migrate_def kind apply_migrations_def try_go_def stop_leader_tasks_def
        start_background_tasks_def app)
qed

theorem restarted_leader_idle_witness:
  "pr_running (sv_proc (snd started_again))
   \<and> \<not> pr_tasks (try_acquire_leadership (sv_app (snd started_again)) (sv_proc (snd started_again)))"
proof -
  have "pr_leader (try_acquire_leadership (sv_app (snd started_again)) (sv_proc (snd started_again)))"
    using started_again_outcome(2-5)
    by (simp add: try_acquire_leadership_def relay_world_def try_acquire_system_lock_def find_system_lock_def
        empty_db_def secs_def sql_now_def Let_def)
  then have leads: "\<forall>k \<le> length []. pr_leader (election_ticks (sv_app (snd started_again)) (take k [])
      (try_acquire_leadership (sv_app (snd started_again)) (sv_proc (snd started_again))))" by simp
  have running: "pr_running (sv_proc leading_service)" "pr_leader (sv_proc leading_service)"
    by (simp_all add: leading_service_def)
  have stop: "app_shutdown TimedOut None leading_service
      = (fst (app_shutdown TimedOut None leading_service), snd (app_shutdown TimedOut None leading_service))"
    by simp
  have start: "app_start (\<lambda>_ _. None) (\<lambda>s ob. (None, ob @ [s])) (\<lambda>_. None) (snd (app_shutdown TimedOut None leading_service))
      = (Inr (), snd started_again)"
    using started_again_outcome(1) by (simp add: started_again_def prod_eq_iff)
  from restarted_leader_idle [OF running _ stop start refl leads] show ?thesis
    by (simp add: run_leader_election_def)
qed

section \<open>The waits of the loops\<close>

lemma add_jitter_fraction_bounds:
  assumes "0 \<le> u" "u \<le> 1" "0 \<le> d" "d \<le> high"
  shows "d \<le> add_jitter_fraction u d (3 / 10) \<and> add_jitter_fraction u d (3 / 10) \<le> high + 3 * high div 10"
proof -
  have le: "u * of_int d * (3 / 10) \<le> 1 * of_int high * (3 / 10)"
    using assms by (intro mult_right_mono mult_mono) simp_all
  moreover have "0 \<le> u * of_int d * (3 / 10)" using assms by simp
  moreover have "\<lfloor>(1::rat) * of_int high * (3 / 10)\<rfloor> = 3 * high div 10"
    using floor_divide_of_int_eq [of "3 * high" 10, where 'a = rat] by (simp add: mult.commute)
  ultimately show ?thesis
    using floor_mono [OF le] assms by (simp add: add_jitter_fraction_def go_trunc_nonneg)
qed

text \<open>
  The resumption loop and the relayer's loop never wait less than their shortest backoff and
  never more than 1.3 times their longest.
\<close>

lemma poll_loop_waits:
  assumes "\<And>n. low \<le> backoff n \<and> backoff n \<le> high" "0 \<le> low"
  shows "\<forall>(u, others, how) \<in> set evs. 0 \<le> u \<and> u \<le> 1 \<Longrightarrow>
    \<forall>wait \<in> set (fst (poll_loop poll backoff evs n w)). low \<le> wait \<and> wait \<le> high + 3 * high div 10"
proof (induction evs arbitrary: n w)
  case (Cons ev evs)
  obtain u others how where ev: "ev = (u, others, how)" by (cases ev)
  have "low \<le> add_jitter_fraction u (backoff k) (3 / 10)
      \<and> add_jitter_fraction u (backoff k) (3 / 10) \<le> high + 3 * high div 10" for k
    using add_jitter_fraction_bounds [of u "backoff k" high] assms(1) [of k] assms(2) Cons.prems
    by (auto simp: ev)
  moreover have "\<forall>wait \<in> set (fst (poll_loop poll backoff evs n w)). low \<le> wait \<and> wait \<le> high + 3 * high div 10" for n w
    using Cons.prems by (intro Cons.IH) simp
  ultimately show ?case by (auto simp: ev Let_def split: prod.split wake_up.split)
qed simp

lemma calculate_backoff_bounds:
  assumes "0 \<le> base" "base \<le> most"
  shows "base \<le> calculate_backoff base n most \<and> calculate_backoff base n most \<le> most"
proof -
  have "base * 1 \<le> base * 2 ^ k" for k :: nat
    using assms(1) by (intro mult_left_mono) auto
  with assms show ?thesis by (auto simp: calculate_backoff_def Let_def)
qed

lemma resumption_waits:
  assumes "0 \<le> workflowResumptionInterval c" "workflowResumptionInterval c \<le> 60 * second"
    and "\<forall>(u, others, how) \<in> set evs. 0 \<le> u \<and> u \<le> 1"
  shows "\<forall>wait \<in> set (fst (run_workflow_resumption c ap evs w)).
    workflowResumptionInterval c \<le> wait \<and> wait \<le> 78 * second"
proof -
  have "workflowResumptionInterval c \<le> resumption_backoff c n \<and> resumption_backoff c n \<le> 60 * second" for n
    using calculate_backoff_bounds assms(1,2) by (simp add: resumption_backoff_def)
  from poll_loop_waits [OF this assms(1,3)] show ?thesis
    by (simp add: run_workflow_resumption_def second_def)
qed

lemma relayer_waits:
  assumes "0 \<le> rl_interval r" "rl_interval r \<le> rl_max_backoff r"
    and "\<forall>(u, others, how) \<in> set evs. 0 \<le> u \<and> u \<le> 1"
  shows "\<forall>wait \<in> set (fst (run_relayer r stopped evs w)).
    rl_interval r \<le> wait \<and> wait \<le> rl_max_backoff r + 3 * rl_max_backoff r div 10"
  using poll_loop_waits [OF relayer_backoff_range [OF assms(1,2)] assms(1,3)]
  by (simp add: run_relayer_def)

text \<open>
  An interval longer than a minute is cut to a minute as soon as a poll finds nothing: such an
  App polls more often when there is nothing to do.
\<close>

lemma long_interval_shortened:
  "workflowResumptionInterval c = 300 * second \<Longrightarrow>
   resumption_backoff c 0 = 300 * second \<and> resumption_backoff c (Suc n) = 60 * second"
proof -
  assume c: "workflowResumptionInterval c = 300 * second"
  have "(1::int) \<le> 2 ^ min (Suc n) 5" by (rule one_le_power) simp
  then have "60 * second < (300::int) * second * 2 ^ min (Suc n) 5"
    unfolding second_def by linarith
  with c show ?thesis by (simp add: resumption_backoff_def calculate_backoff_def Let_def)
qed

text \<open>The tickers of the leader's tasks: positive from an interval of two nanoseconds on.\<close>

lemma add_jitter_bounds:
  assumes "0 \<le> u" "u \<le> 1" "0 \<le> d"
  shows "3 * d div 4 \<le> add_jitter u d \<and> add_jitter u d \<le> 5 * d div 4"
proof -
  let ?f = "1 + 1 / 4 * (2 * u - 1)"
  have f: "3 / 4 \<le> ?f" "?f \<le> 5 / 4" using assms by (simp_all add: field_simps)
  have lo: "of_int d * (3 / 4) \<le> of_int d * ?f" and hi: "of_int d * ?f \<le> of_int d * (5 / 4)"
    using mult_left_mono [OF f(1), of "of_int d"] mult_left_mono [OF f(2), of "of_int d"] assms(3) by simp_all
  have "\<lfloor>of_int d * (3 / 4 :: rat)\<rfloor> = 3 * d div 4" "\<lfloor>of_int d * (5 / 4 :: rat)\<rfloor> = 5 * d div 4"
    using floor_divide_of_int_eq [of "3 * d" 4, where 'a = rat] floor_divide_of_int_eq [of "5 * d" 4, where 'a = rat]
    by (simp_all add: mult.commute)
  moreover have "0 \<le> of_int d * ?f" using order_trans [OF _ f(1), of 0] assms(3) by (intro mult_nonneg_nonneg) simp_all
  ultimately show ?thesis
    using floor_mono [OF lo] floor_mono [OF hi] by (simp add: add_jitter_def go_trunc_nonneg)
qed

lemma task_ticker_starts:
  "0 \<le> u \<Longrightarrow> u \<le> 1 \<Longrightarrow> 2 \<le> task_interval c t \<Longrightarrow> task_ticker u c t \<noteq> None"
  using add_jitter_bounds [of u "task_interval c t"] by (auto simp: task_ticker_def new_ticker_def)

lemma run_task_starts:
  "0 \<le> u \<Longrightarrow> u \<le> 1 \<Longrightarrow> 2 \<le> task_interval c t \<Longrightarrow> run_task c ap t u evs w = Some (task_loop ap t evs w)"
  using task_ticker_starts [of u c t] by (auto simp: run_task_def)

section \<open>A mounted handler\<close>

text \<open>
  The handler does not strip a prefix: below another path, as in the example of its comment,
  every request is taken for a CloudEvent, and the probes and the cancellation are not reached.
\<close>

lemma mounted_below_prefix: "route_of (''/api/workflows'' @ path) = CloudEventRoute"
  by (simp add: route_of_def starts_with_def)

lemma fraction_digits_numeral:
  "fraction_digits (numeral k) v =
     (if v mod 10 ^ numeral k = 0 then ''''
      else show_int (int (v div 10 ^ pred_numeral k mod 10)) @ fraction_digits (pred_numeral k) v)"
  by (simp add: numeral_eq_Suc)

lemma duration_texts:
  "duration_text (30 * second) = ''30s''" "duration_text 3661500000000 = ''1h1m1.5s''"
  "duration_text (- 1500000) = ''-1.5ms''"
  by ((simp add: duration_text_def second_def fraction_def show_int_def show_nat.simps digit_char_def
      fraction_digits_numeral; code_simp)+)

end
