(* ===== verification/Mcp_Server.thy ===== *)
theory Mcp_Server
  imports App_Lifecycle
begin

text \<open>
  mcp/options.go, mcp/server.go and mcp/tools.go: the workflows of an App as tools of an MCP
  server. The MCP SDK keeps the tools and speaks the protocol; here \<open>ms_tools\<close> are the tools
  handed to it, in the order of the calls of AddTool, and \<open>call_tool\<close> is the body of a handler.
  The text of a point in time is the point in time.
\<close>

section \<open>Options\<close>

definition TransportStdio :: string where
  "TransportStdio = ''stdio''"

definition TransportHTTP :: string where
  "TransportHTTP = ''http''"

record server_config =
  sc_name :: string
  sc_version :: string
  sc_mode :: string

definition default_server_config :: server_config where
  "default_server_config =
     \<lparr>sc_name = ''romancy-mcp-server'', sc_version = ''1.0.0'', sc_mode = TransportStdio\<rparr>"

definition WithServerName :: "string \<Rightarrow> server_config \<Rightarrow> server_config" where
  "WithServerName name c = c\<lparr>sc_name := name\<rparr>"

definition WithServerVersion :: "string \<Rightarrow> server_config \<Rightarrow> server_config" where
  "WithServerVersion version c = c\<lparr>sc_version := version\<rparr>"

definition WithTransportMode :: "string \<Rightarrow> server_config \<Rightarrow> server_config" where
  "WithTransportMode mode c = c\<lparr>sc_mode := mode\<rparr>"

record tool_config =
  tc_description :: string
  tc_start :: string
  tc_status :: string
  tc_result :: string
  tc_cancel :: string
  tc_prefix :: string

definition default_tool_config :: tool_config where
  "default_tool_config =
     \<lparr>tc_description = '''',
      tc_start = ''Start a new workflow instance'',
      tc_status = ''Get the current status of a workflow instance'',
      tc_result = ''Get the result of a completed workflow instance'',
      tc_cancel = ''Cancel a running workflow instance'',
      tc_prefix = ''''\<rparr>"

definition WithDescription :: "string \<Rightarrow> tool_config \<Rightarrow> tool_config" where
  "WithDescription desc c = c\<lparr>tc_description := desc\<rparr>"

definition WithStartDescription :: "string \<Rightarrow> tool_config \<Rightarrow> tool_config" where
  "WithStartDescription desc c = c\<lparr>tc_start := desc\<rparr>"

definition WithStatusDescription :: "string \<Rightarrow> tool_config \<Rightarrow> tool_config" where
  "WithStatusDescription desc c = c\<lparr>tc_status := desc\<rparr>"

definition WithResultDescription :: "string \<Rightarrow> tool_config \<Rightarrow> tool_config" where
  "WithResultDescription desc c = c\<lparr>tc_result := desc\<rparr>"

definition WithCancelDescription :: "string \<Rightarrow> tool_config \<Rightarrow> tool_config" where
  "WithCancelDescription desc c = c\<lparr>tc_cancel := desc\<rparr>"

definition WithNamePrefix :: "string \<Rightarrow> tool_config \<Rightarrow> tool_config" where
  "WithNamePrefix prefix c = c\<lparr>tc_prefix := prefix\<rparr>"

section \<open>The server\<close>

text \<open>\<open>ResultTool\<close> has the decoder of the workflow's result type.\<close>

datatype tool_kind = StartTool string | StatusTool | ResultTool "bytes \<Rightarrow> go_error + gov" | CancelTool

record mcp_tool =
  mt_name :: string
  mt_description :: string
  mt_handler :: tool_kind

record ('x, 's, 'h) mcp_server =
  ms_service :: "('x, 's, 'h) service"
  ms_config :: server_config
  ms_workflows :: "string \<Rightarrow> tool_config option"
  ms_tools :: "mcp_tool list"
  ms_initialized :: bool

definition new_mcp_server ::
    "('x, 's, 'h) service \<Rightarrow> (server_config \<Rightarrow> server_config) list \<Rightarrow> ('x, 's, 'h) mcp_server" where
  "new_mcp_server service opts =
     \<lparr>ms_service = service, ms_config = foldl (\<lambda>config opt. opt config) default_server_config opts,
      ms_workflows = Map.empty, ms_tools = [], ms_initialized = False\<rparr>"

definition mcp_initialize ::
    "(backend \<Rightarrow> string \<Rightarrow> go_error option) \<Rightarrow> (string \<Rightarrow> 's \<Rightarrow> string option \<times> 's) \<Rightarrow>
     (db_type \<Rightarrow> dir_entry list option) \<Rightarrow> ('x, 's, 'h) mcp_server \<Rightarrow>
     (go_error + unit) \<times> ('x, 's, 'h) mcp_server" where
  "mcp_initialize dial run embedded srv =
     (if ms_initialized srv then (Inr (), srv)
      else case app_start dial run embedded (ms_service srv) of
        (Inl e, sv) \<Rightarrow> (Inl (wrapf ''failed to start romancy app'' e), srv\<lparr>ms_service := sv\<rparr>)
      | (Inr u, sv) \<Rightarrow> (Inr (), srv\<lparr>ms_service := sv, ms_initialized := True\<rparr>))"

definition mcp_shutdown ::
    "wait_end \<Rightarrow> go_error option \<Rightarrow> ('x, 's, 'h) mcp_server \<Rightarrow> (go_error + unit) \<times> ('x, 's, 'h) mcp_server" where
  "mcp_shutdown ended close_error srv =
     (if \<not> ms_initialized srv then (Inr (), srv)
      else case app_shutdown ended close_error (ms_service srv) of
        (outcome, sv) \<Rightarrow> (outcome, srv\<lparr>ms_service := sv, ms_initialized := False\<rparr>))"

definition serve_http :: "string \<Rightarrow> ('x, 's, 'h) mcp_server \<Rightarrow> nat \<times> string" where
  "serve_http http_method srv =
     (if http_method = ''GET''
      then (200, ''{\"name\":'' @ go_quote (sc_name (ms_config srv)) @ '',\"version\":''
                 @ go_quote (sc_version (ms_config srv)) @ '',\"status\":\"running\"}'')
      else (405, ''''))"

section \<open>Registering a workflow\<close>

definition tool_description :: "tool_config \<Rightarrow> string \<Rightarrow> string" where
  "tool_description c desc = (if tc_description c \<noteq> '''' then tc_description c @ '' - '' @ desc else desc)"

definition register_start_tool :: "string \<Rightarrow> string \<Rightarrow> tool_config \<Rightarrow> mcp_tool" where
  "register_start_tool workflow prefix c =
     \<lparr>mt_name = prefix @ ''_start'', mt_description = tool_description c (tc_start c),
      mt_handler = StartTool workflow\<rparr>"

definition register_status_tool :: "string \<Rightarrow> tool_config \<Rightarrow> mcp_tool" where
  "register_status_tool prefix c =
     \<lparr>mt_name = prefix @ ''_status'', mt_description = tool_description c (tc_status c),
      mt_handler = StatusTool\<rparr>"

definition register_result_tool :: "(bytes \<Rightarrow> go_error + gov) \<Rightarrow> string \<Rightarrow> tool_config \<Rightarrow> mcp_tool" where
  "register_result_tool decode prefix c =
     \<lparr>mt_name = prefix @ ''_result'', mt_description = tool_description c (tc_result c),
      mt_handler = ResultTool decode\<rparr>"

definition register_cancel_tool :: "string \<Rightarrow> tool_config \<Rightarrow> mcp_tool" where
  "register_cancel_tool prefix c =
     \<lparr>mt_name = prefix @ ''_cancel'', mt_description = tool_description c (tc_cancel c),
      mt_handler = CancelTool\<rparr>"

definition mcp_register_workflow ::
    "choices \<Rightarrow> 'x workflow_def \<Rightarrow> (bytes \<Rightarrow> go_error + gov) \<Rightarrow> (tool_config \<Rightarrow> tool_config) list \<Rightarrow>
     ('x, 's, 'h) mcp_server \<Rightarrow> ('x, 's, 'h) mcp_server" where
  "mcp_register_workflow ch wd decode opts srv =
     (let c = foldl (\<lambda>config opt. opt config) default_tool_config opts;
          prefix = (if tc_prefix c = '''' then wd_name wd else tc_prefix c);
          sv = ms_service srv
      in srv\<lparr>ms_workflows := (ms_workflows srv)(wd_name wd \<mapsto> c),
            ms_service := sv\<lparr>sv_app := register_workflow ch wd False (sv_app sv)\<rparr>,
            ms_tools := ms_tools srv @ [register_start_tool (wd_name wd) prefix c, register_status_tool prefix c,
              register_result_tool decode prefix c, register_cancel_tool prefix c]\<rparr>)"

section \<open>The handlers\<close>

datatype tool_input = InputValue gov | InputInstance string | InputCancel string string

datatype tool_output =
    StartOutput string
  | StatusOutput string string string time time
  | ResultOutput string string "gov option" string
  | CancelOutput bool string

definition start_handler :: "string \<Rightarrow> string \<Rightarrow> gov \<Rightarrow> ('x, tool_output \<times> job option) wm" where
  "start_handler uuid workflow input =
     try_go (map_err (wrapf ''failed to start workflow'') (start_workflow uuid workflow input ''''))
       (\<lambda>(i, j). ret (StartOutput i, Some j))"

definition status_handler :: "string \<Rightarrow> ('x, tool_output \<times> job option) wm" where
  "status_handler i =
     try_go (map_err (wrapf ''failed to get instance'') (app_get_instance i))
       (\<lambda>r. ret (StatusOutput (inst_id r) (status_string (inst_status r)) (inst_workflow r)
                  (inst_started r) (inst_updated r), None))"

definition result_handler :: "(bytes \<Rightarrow> go_error + gov) \<Rightarrow> string \<Rightarrow> ('x, tool_output \<times> job option) wm" where
  "result_handler decode i =
     try_go (map_err (wrapf ''failed to get result'') (get_workflow_result decode i))
       (\<lambda>r. ret (ResultOutput (wr_instance r) (wr_status r) (wr_output r)
                  (case wr_error r of None \<Rightarrow> '''' | Some msg \<Rightarrow> msg), None))"

definition cancel_handler :: "'x app \<Rightarrow> string \<Rightarrow> string \<Rightarrow> ('x, tool_output \<times> job option) wm" where
  "cancel_handler ap i reason =
     then_go (cancel_workflow ap i reason) (\<lambda>r. case r of
        Inl e \<Rightarrow> ret (CancelOutput False (err_text e), None)
      | Inr u \<Rightarrow> ret (CancelOutput True ''Workflow cancelled successfully'', None))"

text \<open>The SDK decodes the arguments to the input type of the tool before it calls the handler.\<close>

fun call_tool :: "'x app \<Rightarrow> string \<Rightarrow> tool_kind \<Rightarrow> tool_input \<Rightarrow> ('x, tool_output \<times> job option) wm" where
  "call_tool ap uuid (StartTool workflow) (InputValue input) = start_handler uuid workflow input"
| "call_tool ap uuid StatusTool (InputInstance i) = status_handler i"
| "call_tool ap uuid (ResultTool decode) (InputInstance i) = result_handler decode i"
| "call_tool ap uuid CancelTool (InputCancel i reason) = cancel_handler ap i reason"
| "call_tool ap uuid kind input = throw json_error"

section \<open>Properties\<close>

text \<open>The names of the tools tell the prefix and the kind: two prefixes never share a name.\<close>

lemma tool_names:
  assumes "srv' = mcp_register_workflow ch wd decode opts srv" "prefix = (let c = foldl (\<lambda>config opt. opt config) default_tool_config opts
    in if tc_prefix c = '''' then wd_name wd else tc_prefix c)"
  shows "map mt_name (ms_tools srv') = map mt_name (ms_tools srv) @
    [prefix @ ''_start'', prefix @ ''_status'', prefix @ ''_result'', prefix @ ''_cancel'']"
  using assms by (simp add: mcp_register_workflow_def register_start_tool_def register_status_tool_def
      register_result_tool_def register_cancel_tool_def Let_def)

lemma tool_name_inject:
  "{p @ ''_start'', p @ ''_status'', p @ ''_result'', p @ ''_cancel''}
     \<inter> {q @ ''_start'', q @ ''_status'', q @ ''_result'', q @ ''_cancel''} \<noteq> {} \<Longrightarrow> p = q"
  by (auto dest!: arg_cong [of _ _ rev])

text \<open>The server starts and stops its App once.\<close>

lemma initialize_once:
  "mcp_initialize dial run embedded srv = (Inr (), srv') \<Longrightarrow>
   ms_initialized srv' \<and> mcp_initialize dial' run' embedded' srv' = (Inr (), srv')"
  by (auto simp: mcp_initialize_def split: if_splits prod.splits sum.splits)

lemma shutdown_once:
  "mcp_shutdown ended close_error srv = (outcome, srv') \<Longrightarrow>
   \<not> ms_initialized srv' \<and> mcp_shutdown ended' close_error' srv' = (Inr (), srv')"
  by (auto simp: mcp_shutdown_def split: if_splits prod.splits)

text \<open>The cancel tool never fails: an error of the cancellation is a text of its answer.\<close>

lemma cancel_tool_answers:
  "\<exists>success msg. fst (call_tool ap uuid CancelTool (InputCancel i reason) w) = Inr (CancelOutput success msg, None)
     \<and> (success \<longleftrightarrow> fst (cancel_workflow ap i reason w) = Inr ())"
  by (auto simp: cancel_handler_def then_go_def split: prod.split sum.split)

lemma created_instance:
  assumes "faults d = []" "create_instance inst d = (Inr (), d')" "inst_framework inst = ''''"
  shows "find_instance d (inst_id inst) = None \<and> faults d' = [] \<and> clock d' = clock d
    \<and> (\<exists>r. find_instance d' (inst_id inst) = Some r \<and> inst_id r = inst_id inst \<and> inst_status r = inst_status inst
          \<and> inst_workflow r = inst_workflow inst
          \<and> inst_started r = secs (inst_started inst) \<and> inst_updated r = secs (inst_updated inst))"
  using assms
  by (auto simp: create_instance_def try_go_def Let_def find_instance_def find_append
      split: if_splits)

text \<open>
  An instance that the start tool returns is the one that the status tool finds: a new row,
  running, of the workflow of the tool, started at the time of the call.
\<close>

lemma started_by_tool:
  assumes "w_tx w = None" "faults (w_db w) = []"
    and "call_tool ap uuid (StartTool workflow) (InputValue input) w = (Inr (out, j), w')"
  shows "out = StartOutput uuid \<and> j = Some (RunWorkflow uuid workflow)
    \<and> find_instance (w_db w) uuid = None
    \<and> fst (call_tool ap uuid' StatusTool (InputInstance uuid) w') =
        Inr (StatusOutput uuid ''running'' workflow (secs (clock (w_db w))) (secs (clock (w_db w))), None)"
proof -
  obtain jv where jv: "marshal input = Some jv"
    using assms(3) by (cases "marshal input") (auto simp: start_handler_def start_workflow_def try_go_def Let_def)
  let ?inst = "\<lparr>inst_id = uuid, inst_workflow = workflow, inst_framework = '''', inst_status = StatusRunning,
     inst_input = BJson jv, inst_output = None, inst_activity = None, inst_source_hash = '''',
     inst_owner = '''', inst_continued_from = None, inst_locked_by = None, inst_locked_at = None,
     inst_lock_timeout = None, inst_lock_expires = None, inst_started = clock (w_db w), inst_updated = clock (w_db w)\<rparr>"
  obtain r d' where create: "create_instance ?inst (w_db w) = (r, d')" by (cases "create_instance ?inst (w_db w)")
  with assms(1,3) have r: "r = Inr ()" "out = StartOutput uuid" "j = Some (RunWorkflow uuid workflow)"
    and w': "w_db w' = d'" "w_tx w' = None"
    by (cases r; auto simp: start_handler_def start_workflow_def try_go_def map_err_def jv Let_def get_go_def)+
  from created_instance [OF assms(2) create [unfolded r(1)]] r w' show ?thesis
    by (auto simp: status_handler_def app_get_instance_def try_go_def get_instance_def)
qed

end
