(* ===== verification/Otel_Hooks.thy ===== *)
theory Otel_Hooks
  imports Deterministic_Replay
begin

text \<open>
  hooks/hooks.go and hooks/otel/otel.go: what the application tells its hooks, and the hooks
  that make OpenTelemetry spans of it. A span is what has been called on it: \<open>ot_spans\<close> are the
  spans in the order of their start, and the six maps of OTelHooks hold their positions. The
  application calls the hooks of different instances from different goroutines and the maps
  have no lock; here one call follows the other. The text of a point in time is its number.
\<close>

section \<open>The information of a call\<close>

record workflow_start_info =
  wsi_instance :: string
  wsi_workflow :: string
  wsi_input :: gov
  wsi_start :: time

record workflow_complete_info =
  wci_instance :: string
  wci_workflow :: string
  wci_output :: gov
  wci_duration :: time

record workflow_failed_info =
  wfi_instance :: string
  wfi_workflow :: string
  wfi_error :: go_error
  wfi_duration :: time

record workflow_cancelled_info =
  wxi_instance :: string
  wxi_workflow :: string
  wxi_reason :: string
  wxi_duration :: time

record activity_start_info =
  asi_instance :: string
  asi_workflow :: string
  asi_activity :: string
  asi_name :: string
  asi_input :: gov
  asi_replay :: bool

record activity_complete_info =
  aci_instance :: string
  aci_workflow :: string
  aci_activity :: string
  aci_name :: string
  aci_output :: gov
  aci_duration :: time
  aci_replay :: bool

record activity_failed_info =
  afi_instance :: string
  afi_workflow :: string
  afi_activity :: string
  afi_name :: string
  afi_error :: go_error
  afi_duration :: time
  afi_attempt :: int

record activity_retry_info =
  ari_instance :: string
  ari_workflow :: string
  ari_activity :: string
  ari_name :: string
  ari_attempt :: int
  ari_max :: int
  ari_delay :: time
  ari_error :: go_error

record cache_hit_info =
  chi_instance :: string
  chi_workflow :: string
  chi_activity :: string
  chi_name :: string
  chi_result :: "go_error + gov"

record event_received_info =
  eri_type :: string
  eri_id :: string
  eri_source :: string
  eri_instance :: string

record event_wait_start_info =
  ewi_instance :: string
  ewi_workflow :: string
  ewi_type :: string
  ewi_timeout :: "time option"

record event_wait_complete_info =
  ewc_instance :: string
  ewc_workflow :: string
  ewc_type :: string
  ewc_duration :: time

record event_timeout_info =
  eti_instance :: string
  eti_workflow :: string
  eti_type :: string

record timer_start_info =
  tsi_instance :: string
  tsi_workflow :: string
  tsi_timer :: string
  tsi_expires :: time

record timer_fired_info =
  tfi_instance :: string
  tfi_workflow :: string
  tfi_timer :: string
  tfi_fired :: time

record replay_start_info =
  rsi_instance :: string
  rsi_workflow :: string
  rsi_events :: int
  rsi_resume :: string

record replay_complete_info =
  rci_instance :: string
  rci_workflow :: string
  rci_hits :: int
  rci_new :: int
  rci_duration :: time

text \<open>The methods of the interface WorkflowHooks.\<close>

datatype hook_event =
    WorkflowStart workflow_start_info
  | WorkflowComplete workflow_complete_info
  | WorkflowFailed workflow_failed_info
  | WorkflowCancelled workflow_cancelled_info
  | ActivityStart activity_start_info
  | ActivityComplete activity_complete_info
  | ActivityFailed activity_failed_info
  | ActivityRetry activity_retry_info
  | EventReceived event_received_info
  | EventWaitStart event_wait_start_info
  | EventWaitComplete event_wait_complete_info
  | EventTimeout event_timeout_info
  | TimerStart timer_start_info
  | TimerFired timer_fired_info
  | ReplayStart replay_start_info
  | ReplayComplete replay_complete_info
  | ActivityCacheHit cache_hit_info

definition no_op_hook :: "hook_event \<Rightarrow> 's \<Rightarrow> 's" where
  "no_op_hook e s = s"

section \<open>Spans\<close>

datatype attribute = AString string | AInt int | ABool bool

datatype span_kind = Internal | Consumer

text \<open>The span a new span is a child of: that of the caller's context, or one of these.\<close>

datatype span_parent = CallersSpan | WorkflowSpan nat

datatype span_status = Unset | StatusOk string | StatusError string

record span =
  sp_name :: string
  sp_kind :: span_kind
  sp_parent :: span_parent
  sp_attrs :: "(string \<times> attribute) list"
  sp_events :: "(string \<times> (string \<times> attribute) list) list"
  sp_errors :: "go_error list"
  sp_status :: span_status
  sp_ends :: nat

record otel =
  ot_spans :: "span list"
  ot_workflow :: "string \<Rightarrow> nat option"
  ot_context :: "string \<Rightarrow> nat option"
  ot_activity :: "string \<Rightarrow> nat option"
  ot_wait :: "string \<Rightarrow> nat option"
  ot_timer :: "string \<Rightarrow> nat option"
  ot_replay :: "string \<Rightarrow> nat option"

definition new_otel :: otel where
  "new_otel = \<lparr>ot_spans = [], ot_workflow = Map.empty, ot_context = Map.empty, ot_activity = Map.empty,
     ot_wait = Map.empty, ot_timer = Map.empty, ot_replay = Map.empty\<rparr>"

text \<open>\<open>tracer.Start\<close>, and the calls on a span.\<close>

definition start_span ::
    "string \<Rightarrow> span_kind \<Rightarrow> span_parent \<Rightarrow> (string \<times> attribute) list \<Rightarrow> otel \<Rightarrow> otel" where
  "start_span name kind parent attrs h =
     h\<lparr>ot_spans := ot_spans h @ [\<lparr>sp_name = name, sp_kind = kind, sp_parent = parent, sp_attrs = attrs,
        sp_events = [], sp_errors = [], sp_status = Unset, sp_ends = 0\<rparr>]\<rparr>"

definition on_span :: "nat \<Rightarrow> (span \<Rightarrow> span) \<Rightarrow> otel \<Rightarrow> otel" where
  "on_span n f h = h\<lparr>ot_spans := (ot_spans h)[n := f (ot_spans h ! n)]\<rparr>"

definition set_attributes :: "(string \<times> attribute) list \<Rightarrow> span \<Rightarrow> span" where
  "set_attributes attrs s = s\<lparr>sp_attrs := sp_attrs s @ attrs\<rparr>"

definition record_error :: "go_error \<Rightarrow> span \<Rightarrow> span" where
  "record_error e s = s\<lparr>sp_errors := sp_errors s @ [e]\<rparr>"

definition set_status :: "span_status \<Rightarrow> span \<Rightarrow> span" where
  "set_status st s = s\<lparr>sp_status := st\<rparr>"

definition end_span :: "span \<Rightarrow> span" where
  "end_span s = s\<lparr>sp_ends := sp_ends s + 1\<rparr>"

definition add_event :: "string \<Rightarrow> (string \<times> attribute) list \<Rightarrow> span \<Rightarrow> span" where
  "add_event name attrs s = s\<lparr>sp_events := sp_events s @ [(name, attrs)]\<rparr>"

text \<open>\<open>Duration.Milliseconds\<close>\<close>

definition milliseconds :: "time \<Rightarrow> attribute" where
  "milliseconds d = AInt (go_trunc (of_int d / 1000000))"

text \<open>The position of the span that was started last.\<close>

definition last_span :: "otel \<Rightarrow> nat" where
  "last_span h = length (ot_spans h) - 1"

section \<open>The hooks\<close>

definition otel_workflow_start :: "workflow_start_info \<Rightarrow> otel \<Rightarrow> otel" where
  "otel_workflow_start info h =
     (let h = start_span (''workflow/'' @ wsi_workflow info) Internal CallersSpan
            [(''romancy.instance_id'', AString (wsi_instance info)),
             (''romancy.workflow_name'', AString (wsi_workflow info)),
             (''romancy.start_time'', AString (show_int (wsi_start info)))] h
      in h\<lparr>ot_workflow := (ot_workflow h)(wsi_instance info \<mapsto> last_span h),
           ot_context := (ot_context h)(wsi_instance info \<mapsto> last_span h)\<rparr>)"

definition end_workflow :: "string \<Rightarrow> (span \<Rightarrow> span) \<Rightarrow> otel \<Rightarrow> otel" where
  "end_workflow i f h =
     (case ot_workflow h i of
        None \<Rightarrow> h
      | Some n \<Rightarrow>
          let h = on_span n (\<lambda>s. end_span (f s)) h
          in h\<lparr>ot_workflow := (ot_workflow h)(i := None), ot_context := (ot_context h)(i := None)\<rparr>)"

definition otel_workflow_complete :: "workflow_complete_info \<Rightarrow> otel \<Rightarrow> otel" where
  "otel_workflow_complete info =
     end_workflow (wci_instance info) (\<lambda>s. set_status (StatusOk ''workflow completed'')
       (set_attributes [(''romancy.duration_ms'', milliseconds (wci_duration info))] s))"

definition otel_workflow_failed :: "workflow_failed_info \<Rightarrow> otel \<Rightarrow> otel" where
  "otel_workflow_failed info =
     end_workflow (wfi_instance info) (\<lambda>s. set_status (StatusError (err_text (wfi_error info)))
       (record_error (wfi_error info)
       (set_attributes [(''romancy.duration_ms'', milliseconds (wfi_duration info))] s)))"

definition otel_workflow_cancelled :: "workflow_cancelled_info \<Rightarrow> otel \<Rightarrow> otel" where
  "otel_workflow_cancelled info =
     end_workflow (wxi_instance info) (\<lambda>s. set_status (StatusError (''workflow canceled: '' @ wxi_reason info))
       (set_attributes [(''romancy.duration_ms'', milliseconds (wxi_duration info)),
                        (''romancy.cancel_reason'', AString (wxi_reason info))] s))"

text \<open>The keys of the activities, the waits and the timers.\<close>

definition span_key :: "string \<Rightarrow> string \<Rightarrow> string" where
  "span_key i k = i @ '':'' @ k"

definition otel_activity_start :: "activity_start_info \<Rightarrow> otel \<Rightarrow> otel" where
  "otel_activity_start info h =
     (let parent = (case ot_context h (asi_instance info) of None \<Rightarrow> CallersSpan | Some n \<Rightarrow> WorkflowSpan n);
          h = start_span (''activity/'' @ asi_name info) Internal parent
            [(''romancy.instance_id'', AString (asi_instance info)),
             (''romancy.workflow_name'', AString (asi_workflow info)),
             (''romancy.activity_id'', AString (asi_activity info)),
             (''romancy.activity_name'', AString (asi_name info)),
             (''romancy.is_replay'', ABool (asi_replay info))] h
      in h\<lparr>ot_activity := (ot_activity h)(span_key (asi_instance info) (asi_activity info) \<mapsto> last_span h)\<rparr>)"

definition end_activity :: "string \<Rightarrow> (span \<Rightarrow> span) \<Rightarrow> otel \<Rightarrow> otel" where
  "end_activity key f h =
     (case ot_activity h key of
        None \<Rightarrow> h
      | Some n \<Rightarrow>
          let h = on_span n (\<lambda>s. end_span (f s)) h
          in h\<lparr>ot_activity := (ot_activity h)(key := None)\<rparr>)"

definition otel_activity_complete :: "activity_complete_info \<Rightarrow> otel \<Rightarrow> otel" where
  "otel_activity_complete info =
     end_activity (span_key (aci_instance info) (aci_activity info))
       (\<lambda>s. set_status (StatusOk ''activity completed'')
         (set_attributes [(''romancy.duration_ms'', milliseconds (aci_duration info)),
                          (''romancy.is_replay'', ABool (aci_replay info))] s))"

definition otel_activity_failed :: "activity_failed_info \<Rightarrow> otel \<Rightarrow> otel" where
  "otel_activity_failed info =
     end_activity (span_key (afi_instance info) (afi_activity info))
       (\<lambda>s. set_status (StatusError (err_text (afi_error info))) (record_error (afi_error info)
         (set_attributes [(''romancy.duration_ms'', milliseconds (afi_duration info)),
                          (''romancy.attempt'', AInt (afi_attempt info))] s)))"

definition otel_activity_retry :: "activity_retry_info \<Rightarrow> otel \<Rightarrow> otel" where
  "otel_activity_retry info h =
     (case ot_activity h (span_key (ari_instance info) (ari_activity info)) of
        None \<Rightarrow> h
      | Some n \<Rightarrow> on_span n (add_event ''activity_retry''
          [(''romancy.attempt'', AInt (ari_attempt info)),
           (''romancy.max_attempts'', AInt (ari_max info)),
           (''romancy.next_delay_ms'', milliseconds (ari_delay info)),
           (''romancy.error'', AString (err_text (ari_error info)))]) h)"

definition otel_cache_hit :: "cache_hit_info \<Rightarrow> otel \<Rightarrow> otel" where
  "otel_cache_hit info h =
     (let h = start_span (''activity_cache_hit/'' @ chi_name info) Internal CallersSpan
            [(''romancy.instance_id'', AString (chi_instance info)),
             (''romancy.workflow_name'', AString (chi_workflow info)),
             (''romancy.activity_id'', AString (chi_activity info)),
             (''romancy.activity_name'', AString (chi_name info))] h
      in on_span (last_span h) (\<lambda>s. end_span (set_status (StatusOk ''cache hit'') s)) h)"

definition otel_event_received :: "event_received_info \<Rightarrow> otel \<Rightarrow> otel" where
  "otel_event_received info h =
     (let h = start_span (''event_received/'' @ eri_type info) Consumer CallersSpan
            [(''romancy.event_type'', AString (eri_type info)),
             (''romancy.event_id'', AString (eri_id info)),
             (''romancy.event_source'', AString (eri_source info)),
             (''romancy.instance_id'', AString (eri_instance info))] h
      in on_span (last_span h) (\<lambda>s. end_span (set_status (StatusOk ''event received'') s)) h)"

definition otel_event_wait_start :: "event_wait_start_info \<Rightarrow> otel \<Rightarrow> otel" where
  "otel_event_wait_start info h =
     (let attrs = [(''romancy.instance_id'', AString (ewi_instance info)),
             (''romancy.workflow_name'', AString (ewi_workflow info)),
             (''romancy.event_type'', AString (ewi_type info))]
            @ (case ewi_timeout info of None \<Rightarrow> [] | Some d \<Rightarrow> [(''romancy.timeout_ms'', milliseconds d)]);
          h = start_span (''event_wait/'' @ ewi_type info) Internal CallersSpan attrs h
      in h\<lparr>ot_wait := (ot_wait h)(span_key (ewi_instance info) (ewi_type info) \<mapsto> last_span h)\<rparr>)"

definition end_wait :: "string \<Rightarrow> (span \<Rightarrow> span) \<Rightarrow> otel \<Rightarrow> otel" where
  "end_wait key f h =
     (case ot_wait h key of
        None \<Rightarrow> h
      | Some n \<Rightarrow>
          let h = on_span n (\<lambda>s. end_span (f s)) h
          in h\<lparr>ot_wait := (ot_wait h)(key := None)\<rparr>)"

definition otel_event_wait_complete :: "event_wait_complete_info \<Rightarrow> otel \<Rightarrow> otel" where
  "otel_event_wait_complete info =
     end_wait (span_key (ewc_instance info) (ewc_type info))
       (\<lambda>s. set_status (StatusOk ''event received'')
         (set_attributes [(''romancy.duration_ms'', milliseconds (ewc_duration info))] s))"

definition otel_event_timeout :: "event_timeout_info \<Rightarrow> otel \<Rightarrow> otel" where
  "otel_event_timeout info =
     end_wait (span_key (eti_instance info) (eti_type info)) (set_status (StatusError ''event timeout''))"

definition otel_timer_start :: "timer_start_info \<Rightarrow> otel \<Rightarrow> otel" where
  "otel_timer_start info h =
     (let h = start_span (''timer/'' @ tsi_timer info) Internal CallersSpan
            [(''romancy.instance_id'', AString (tsi_instance info)),
             (''romancy.workflow_name'', AString (tsi_workflow info)),
             (''romancy.timer_id'', AString (tsi_timer info)),
             (''romancy.expires_at'', AString (show_int (tsi_expires info)))] h
      in h\<lparr>ot_timer := (ot_timer h)(span_key (tsi_instance info) (tsi_timer info) \<mapsto> last_span h)\<rparr>)"

definition otel_timer_fired :: "timer_fired_info \<Rightarrow> otel \<Rightarrow> otel" where
  "otel_timer_fired info h =
     (let key = span_key (tfi_instance info) (tfi_timer info)
      in case ot_timer h key of
           None \<Rightarrow> h
         | Some n \<Rightarrow>
             let h = on_span n (\<lambda>s. end_span (set_status (StatusOk ''timer fired'')
                       (set_attributes [(''romancy.fired_at'', AString (show_int (tfi_fired info)))] s))) h
             in h\<lparr>ot_timer := (ot_timer h)(key := None)\<rparr>)"

definition otel_replay_start :: "replay_start_info \<Rightarrow> otel \<Rightarrow> otel" where
  "otel_replay_start info h =
     (let h = start_span (''replay/'' @ rsi_workflow info) Internal CallersSpan
            [(''romancy.instance_id'', AString (rsi_instance info)),
             (''romancy.workflow_name'', AString (rsi_workflow info)),
             (''romancy.history_events'', AInt (rsi_events info)),
             (''romancy.resume_activity'', AString (rsi_resume info))] h
      in h\<lparr>ot_replay := (ot_replay h)(rsi_instance info \<mapsto> last_span h)\<rparr>)"

definition otel_replay_complete :: "replay_complete_info \<Rightarrow> otel \<Rightarrow> otel" where
  "otel_replay_complete info h =
     (case ot_replay h (rci_instance info) of
        None \<Rightarrow> h
      | Some n \<Rightarrow>
          let h = on_span n (\<lambda>s. end_span (set_status (StatusOk ''replay completed'')
                    (set_attributes [(''romancy.cache_hits'', AInt (rci_hits info)),
                                     (''romancy.new_activities'', AInt (rci_new info)),
                                     (''romancy.duration_ms'', milliseconds (rci_duration info))] s))) h
          in h\<lparr>ot_replay := (ot_replay h)(rci_instance info := None)\<rparr>)"

fun otel_hook :: "hook_event \<Rightarrow> otel \<Rightarrow> otel" where
  "otel_hook (WorkflowStart info) = otel_workflow_start info"
| "otel_hook (WorkflowComplete info) = otel_workflow_complete info"
| "otel_hook (WorkflowFailed info) = otel_workflow_failed info"
| "otel_hook (WorkflowCancelled info) = otel_workflow_cancelled info"
| "otel_hook (ActivityStart info) = otel_activity_start info"
| "otel_hook (ActivityComplete info) = otel_activity_complete info"
| "otel_hook (ActivityFailed info) = otel_activity_failed info"
| "otel_hook (ActivityRetry info) = otel_activity_retry info"
| "otel_hook (EventReceived info) = otel_event_received info"
| "otel_hook (EventWaitStart info) = otel_event_wait_start info"
| "otel_hook (EventWaitComplete info) = otel_event_wait_complete info"
| "otel_hook (EventTimeout info) = otel_event_timeout info"
| "otel_hook (TimerStart info) = otel_timer_start info"
| "otel_hook (TimerFired info) = otel_timer_fired info"
| "otel_hook (ReplayStart info) = otel_replay_start info"
| "otel_hook (ReplayComplete info) = otel_replay_complete info"
| "otel_hook (ActivityCacheHit info) = otel_cache_hit info"

section \<open>Which spans are ended\<close>

text \<open>The places where OTelHooks keeps a span until it is ended.\<close>

datatype slot = WorkflowSlot string | ActivitySlot string | WaitSlot string | TimerSlot string | ReplaySlot string

fun held :: "otel \<Rightarrow> slot \<Rightarrow> nat option" where
  "held h (WorkflowSlot k) = ot_workflow h k"
| "held h (ActivitySlot k) = ot_activity h k"
| "held h (WaitSlot k) = ot_wait h k"
| "held h (TimerSlot k) = ot_timer h k"
| "held h (ReplaySlot k) = ot_replay h k"

definition ends_of :: "otel \<Rightarrow> nat list" where
  "ends_of h = map sp_ends (ot_spans h)"

text \<open>What a call does: the span it starts in a slot, ends in a slot, or starts and ends.\<close>

datatype span_effect = Starts slot | Ends slot | Instant | Marks

fun effect_of :: "hook_event \<Rightarrow> span_effect" where
  "effect_of (WorkflowStart info) = Starts (WorkflowSlot (wsi_instance info))"
| "effect_of (WorkflowComplete info) = Ends (WorkflowSlot (wci_instance info))"
| "effect_of (WorkflowFailed info) = Ends (WorkflowSlot (wfi_instance info))"
| "effect_of (WorkflowCancelled info) = Ends (WorkflowSlot (wxi_instance info))"
| "effect_of (ActivityStart info) = Starts (ActivitySlot (span_key (asi_instance info) (asi_activity info)))"
| "effect_of (ActivityComplete info) = Ends (ActivitySlot (span_key (aci_instance info) (aci_activity info)))"
| "effect_of (ActivityFailed info) = Ends (ActivitySlot (span_key (afi_instance info) (afi_activity info)))"
| "effect_of (ActivityRetry info) = Marks"
| "effect_of (EventReceived info) = Instant"
| "effect_of (EventWaitStart info) = Starts (WaitSlot (span_key (ewi_instance info) (ewi_type info)))"
| "effect_of (EventWaitComplete info) = Ends (WaitSlot (span_key (ewc_instance info) (ewc_type info)))"
| "effect_of (EventTimeout info) = Ends (WaitSlot (span_key (eti_instance info) (eti_type info)))"
| "effect_of (TimerStart info) = Starts (TimerSlot (span_key (tsi_instance info) (tsi_timer info)))"
| "effect_of (TimerFired info) = Ends (TimerSlot (span_key (tfi_instance info) (tfi_timer info)))"
| "effect_of (ReplayStart info) = Starts (ReplaySlot (rsi_instance info))"
| "effect_of (ReplayComplete info) = Ends (ReplaySlot (rci_instance info))"
| "effect_of (ActivityCacheHit info) = Instant"

definition effect_on :: "span_effect \<Rightarrow> (slot \<Rightarrow> nat option) \<times> nat list \<Rightarrow> (slot \<Rightarrow> nat option) \<times> nat list" where
  "effect_on e = (\<lambda>(m, ns). case e of
     Starts s \<Rightarrow> (m(s \<mapsto> length ns), ns @ [0])
   | Ends s \<Rightarrow> (case m s of None \<Rightarrow> (m, ns) | Some n \<Rightarrow> (m(s := None), ns[n := ns ! n + 1]))
   | Instant \<Rightarrow> (m, ns @ [1])
   | Marks \<Rightarrow> (m, ns))"

definition bounded :: "(slot \<Rightarrow> nat option) \<times> nat list \<Rightarrow> bool" where
  "bounded = (\<lambda>(m, ns). \<forall>s n. m s = Some n \<longrightarrow> n < length ns)"

lemma ends_of_start_span [simp]: "ends_of (start_span name kind parent attrs h) = ends_of h @ [0]"
  by (simp add: ends_of_def start_span_def)

lemma ends_of_on_span:
  "n < length (ot_spans h) \<Longrightarrow> ends_of (on_span n f h) = (ends_of h)[n := sp_ends (f (ot_spans h ! n))]"
  by (simp add: ends_of_def on_span_def map_update)

lemma ends_of_maps [simp]:
  "ends_of (h\<lparr>ot_workflow := m\<rparr>) = ends_of h" "ends_of (h\<lparr>ot_context := m\<rparr>) = ends_of h"
  "ends_of (h\<lparr>ot_activity := m\<rparr>) = ends_of h" "ends_of (h\<lparr>ot_wait := m\<rparr>) = ends_of h"
  "ends_of (h\<lparr>ot_timer := m\<rparr>) = ends_of h" "ends_of (h\<lparr>ot_replay := m\<rparr>) = ends_of h"
  by (simp_all add: ends_of_def)

lemma span_maps [simp]:
  "ot_workflow (start_span name kind parent attrs h) = ot_workflow h"
  "ot_context (start_span name kind parent attrs h) = ot_context h"
  "ot_activity (start_span name kind parent attrs h) = ot_activity h"
  "ot_wait (start_span name kind parent attrs h) = ot_wait h"
  "ot_timer (start_span name kind parent attrs h) = ot_timer h"
  "ot_replay (start_span name kind parent attrs h) = ot_replay h"
  "ot_workflow (on_span n f h) = ot_workflow h" "ot_context (on_span n f h) = ot_context h"
  "ot_activity (on_span n f h) = ot_activity h" "ot_wait (on_span n f h) = ot_wait h"
  "ot_timer (on_span n f h) = ot_timer h" "ot_replay (on_span n f h) = ot_replay h"
  "length (ot_spans (start_span name kind parent attrs h)) = Suc (length (ot_spans h))"
  "length (ot_spans (on_span n f h)) = length (ot_spans h)"
  by (simp_all add: start_span_def on_span_def)

lemma length_ends [simp]: "length (ends_of h) = length (ot_spans h)"
  by (simp add: ends_of_def)

lemma ends_of_instant [simp]:
  "ends_of (on_span (length (ot_spans h)) (\<lambda>s. end_span (set_status st s)) (start_span name kind parent attrs h))
     = ends_of h @ [1]"
  by (simp add: ends_of_on_span) (simp add: ends_of_def start_span_def list_update_append end_span_def set_status_def)

lemma last_span_start [simp]: "last_span (start_span name kind parent attrs h) = length (ot_spans h)"
  by (simp add: last_span_def)

lemma span_calls [simp]:
  "sp_ends (set_attributes attrs s) = sp_ends s" "sp_ends (record_error e s) = sp_ends s"
  "sp_ends (set_status st s) = sp_ends s" "sp_ends (end_span s) = Suc (sp_ends s)"
  "sp_ends (add_event name attrs s) = sp_ends s"
  by (simp_all add: set_attributes_def record_error_def set_status_def end_span_def add_event_def)

lemma held_spans [simp]:
  "held (start_span name kind parent attrs h) = held h" "held (on_span n f h) = held h"
  "held (h\<lparr>ot_context := m\<rparr>) = held h"
  by (rule ext, case_tac x, simp_all)+

lemma held_updates [simp]:
  "ot_workflow h = m \<Longrightarrow> held (h\<lparr>ot_workflow := m(k := v)\<rparr>) = (held h)(WorkflowSlot k := v)"
  "ot_workflow h = m \<Longrightarrow> held (h\<lparr>ot_workflow := m(k := v), ot_context := c\<rparr>) = (held h)(WorkflowSlot k := v)"
  "ot_activity h = m \<Longrightarrow> held (h\<lparr>ot_activity := m(k := v)\<rparr>) = (held h)(ActivitySlot k := v)"
  "ot_wait h = m \<Longrightarrow> held (h\<lparr>ot_wait := m(k := v)\<rparr>) = (held h)(WaitSlot k := v)"
  "ot_timer h = m \<Longrightarrow> held (h\<lparr>ot_timer := m(k := v)\<rparr>) = (held h)(TimerSlot k := v)"
  "ot_replay h = m \<Longrightarrow> held (h\<lparr>ot_replay := m(k := v)\<rparr>) = (held h)(ReplaySlot k := v)"
  by (rule ext, case_tac x, simp_all)+

lemmas otel_defs =
  otel_workflow_start_def otel_workflow_complete_def otel_workflow_failed_def otel_workflow_cancelled_def
  otel_activity_start_def otel_activity_complete_def otel_activity_failed_def otel_activity_retry_def
  otel_cache_hit_def otel_event_received_def otel_event_wait_start_def otel_event_wait_complete_def
  otel_event_timeout_def otel_timer_start_def otel_timer_fired_def otel_replay_start_def
  otel_replay_complete_def end_workflow_def end_activity_def end_wait_def

lemma otel_hook_effect:
  assumes "bounded (held h, ends_of h)"
  shows "(held (otel_hook e h), ends_of (otel_hook e h)) = effect_on (effect_of e) (held h, ends_of h)"
proof -
  have inside: "n < length (ot_spans h)" if "held h s = Some n" for s n
    using assms that by (auto simp: bounded_def ends_of_def)
  have ended: "ends_of (on_span n (\<lambda>s. end_span (f s)) h) = (ends_of h)[n := Suc (ends_of h ! n)]"
    if "held h slot = Some n" "\<And>s. sp_ends (f s) = sp_ends s" for slot n f
    using inside [OF that(1)] that(2) by (simp add: ends_of_on_span) (simp add: ends_of_def)
  have kept: "ends_of (on_span n f h) = ends_of h"
    if "ot_activity h k = Some n" "\<And>s. sp_ends (f s) = sp_ends s" for k n f
    using inside [of "ActivitySlot k" n] that
    by (simp add: ends_of_on_span) (metis ends_of_def list_update_id nth_map)
  note ended_in = ended [of "WorkflowSlot k" for k, simplified] ended [of "ActivitySlot k" for k, simplified]
        ended [of "WaitSlot k" for k, simplified] ended [of "TimerSlot k" for k, simplified]
        ended [of "ReplaySlot k" for k, simplified]
  show ?thesis
    by (cases e; simp add: otel_defs effect_on_def Let_def kept ended_in split: option.split)
qed

text \<open>
  The invariant: the maps hold different spans, which have been started and not ended, and no
  span is ended twice.
\<close>

definition spans_ok :: "(slot \<Rightarrow> nat option) \<times> nat list \<Rightarrow> bool" where
  "spans_ok = (\<lambda>(m, ns). (\<forall>s n. m s = Some n \<longrightarrow> n < length ns \<and> ns ! n = 0)
     \<and> (\<forall>s t n. m s = Some n \<longrightarrow> m t = Some n \<longrightarrow> s = t) \<and> (\<forall>k \<in> set ns. k \<le> 1))"

lemma spans_ok_bounded: "spans_ok x \<Longrightarrow> bounded x"
  by (auto simp: spans_ok_def bounded_def)

lemma spans_okI:
  assumes "\<And>s n. m s = Some n \<Longrightarrow> n < length ns \<and> ns ! n = 0"
    and "\<And>s t n. m s = Some n \<Longrightarrow> m t = Some n \<Longrightarrow> s = t" "\<And>k. k < length ns \<Longrightarrow> ns ! k \<le> 1"
  shows "spans_ok (m, ns)"
  using assms by (auto simp: spans_ok_def in_set_conv_nth)

lemma spans_okD:
  assumes "spans_ok (m, ns)"
  shows "m s = Some n \<Longrightarrow> n < length ns" "m s = Some n \<Longrightarrow> ns ! n = 0"
    "m s = Some n \<Longrightarrow> m t = Some n \<Longrightarrow> s = t" "k < length ns \<Longrightarrow> ns ! k \<le> 1"
  using assms by (auto simp: spans_ok_def)

lemma effect_ok:
  assumes "spans_ok (m, ns)"
  shows "spans_ok (effect_on e (m, ns))"
proof (cases e)
  case (Starts s)
  have "spans_ok (m(s \<mapsto> length ns), ns @ [0])"
  proof (rule spans_okI)
    fix t n assume "(m(s \<mapsto> length ns)) t = Some n"
    then show "n < length (ns @ [0]) \<and> (ns @ [0]) ! n = 0"
      using spans_okD(1,2) [OF assms, of t n] by (cases "t = s") (auto simp: nth_append)
  next
    fix t u n assume "(m(s \<mapsto> length ns)) t = Some n" "(m(s \<mapsto> length ns)) u = Some n"
    then show "t = u"
      using spans_okD(3) [OF assms, of t n u] spans_okD(1) [OF assms, of t n] spans_okD(1) [OF assms, of u n]
      by (auto split: if_splits)
  next
    fix k assume "k < length (ns @ [0])"
    then show "(ns @ [0]) ! k \<le> 1" using spans_okD(4) [OF assms, of k] by (auto simp: nth_append less_Suc_eq)
  qed
  with Starts show ?thesis by (simp add: effect_on_def)
next
  case (Ends s)
  show ?thesis
  proof (cases "m s")
    case None
    with assms Ends show ?thesis by (simp add: effect_on_def)
  next
    case (Some n)
    note n = spans_okD(1,2) [OF assms Some]
    have "spans_ok (m(s := None), ns[n := ns ! n + 1])"
    proof (rule spans_okI)
      fix t k assume t: "(m(s := None)) t = Some k"
      then have "m t = Some k" "t \<noteq> s" by (auto split: if_splits)
      moreover from this have "k \<noteq> n" using spans_okD(3) [OF assms Some, of t] by auto
      ultimately show "k < length (ns[n := ns ! n + 1]) \<and> ns[n := ns ! n + 1] ! k = 0"
        using spans_okD(1,2) [OF assms, of t k] by simp
    next
      fix t u k assume "(m(s := None)) t = Some k" "(m(s := None)) u = Some k"
      then show "t = u" using spans_okD(3) [OF assms, of t k u] by (auto split: if_splits)
    next
      fix k assume "k < length (ns[n := ns ! n + 1])"
      then show "ns[n := ns ! n + 1] ! k \<le> 1" using spans_okD(4) [OF assms, of k] n by (cases "k = n") simp_all
    qed
    with Ends Some show ?thesis by (simp add: effect_on_def)
  qed
next
  case Instant
  have "spans_ok (m, ns @ [1])"
  proof (rule spans_okI)
    fix t n assume "m t = Some n"
    then show "n < length (ns @ [1]) \<and> (ns @ [1]) ! n = 0"
      using spans_okD(1,2) [OF assms, of t n] by (auto simp: nth_append)
  next
    fix t u n assume "m t = Some n" "m u = Some n"
    then show "t = u" by (rule spans_okD(3) [OF assms])
  next
    fix k assume "k < length (ns @ [1])"
    then show "(ns @ [1]) ! k \<le> 1" using spans_okD(4) [OF assms, of k] by (auto simp: nth_append less_Suc_eq)
  qed
  with Instant show ?thesis by (simp add: effect_on_def)
next
  case Marks
  with assms show ?thesis by (simp add: effect_on_def)
qed

lemma otel_hook_ok:
  assumes "spans_ok (held h, ends_of h)"
  shows "spans_ok (held (otel_hook e h), ends_of (otel_hook e h))"
  using effect_ok [OF assms, of "effect_of e"] otel_hook_effect [OF spans_ok_bounded [OF assms], of e] by simp

definition otel_run :: "hook_event list \<Rightarrow> otel \<Rightarrow> otel" where
  "otel_run es h = fold otel_hook es h"

lemma otel_run_simps [simp]:
  "otel_run [] h = h" "otel_run (e # es) h = otel_run es (otel_hook e h)"
  "otel_run (es @ es') h = otel_run es' (otel_run es h)"
  by (simp_all add: otel_run_def)

lemma otel_run_ok: "spans_ok (held h, ends_of h) \<Longrightarrow> spans_ok (held (otel_run es h), ends_of (otel_run es h))"
  by (induction es arbitrary: h) (simp_all add: otel_hook_ok)

lemma new_otel_ok: "spans_ok (held new_otel, ends_of new_otel)"
proof -
  have "held new_otel s = None" for s by (cases s) (simp_all add: new_otel_def)
  then show ?thesis by (simp add: spans_ok_def ends_of_def new_otel_def)
qed

text \<open>Whatever the application calls, no span is ended twice and the maps hold open spans only.\<close>

lemma spans_end_once: "spans_ok (held (otel_run es new_otel), ends_of (otel_run es new_otel))"
  by (rule otel_run_ok [OF new_otel_ok])

section \<open>Spans that are never ended\<close>

text \<open>
  A span that is open stays open as long as no call ends the slot that holds it, if any; and
  for good when no slot holds it, because its slot was given to another span.
\<close>

lemma effect_leaves_open:
  assumes "spans_ok (m, ns)" "n < length ns" "ns ! n = 0" "{t. m t = Some n} \<subseteq> S" "e \<notin> Ends ` S"
    and "effect_on e (m, ns) = (m', ns')"
  shows "n < length ns' \<and> ns' ! n = 0 \<and> {t. m' t = Some n} \<subseteq> S"
proof (cases e)
  case (Ends t)
  show ?thesis
  proof (cases "m t")
    case None
    with assms Ends show ?thesis by (auto simp: effect_on_def)
  next
    case (Some k)
    with assms(4,5) Ends have "k \<noteq> n" by auto
    moreover from assms(6) Ends Some have "m' = m(t := None)" "ns' = ns[k := ns ! k + 1]"
      by (simp_all add: effect_on_def)
    ultimately show ?thesis using assms(2-4) by auto
  qed
next
  case (Starts t)
  with assms(6) have "m' = m(t \<mapsto> length ns)" "ns' = ns @ [0]" by (simp_all add: effect_on_def)
  with assms(2-4) show ?thesis by (auto simp: nth_append)
next
  case Instant
  with assms(6) have "m' = m" "ns' = ns @ [1]" by (simp_all add: effect_on_def)
  with assms(2-4) show ?thesis by (simp add: nth_append)
next
  case Marks
  with assms show ?thesis by (simp add: effect_on_def)
qed

lemma span_stays_open:
  assumes "spans_ok (held h, ends_of h)" "n < length (ot_spans h)" "ends_of h ! n = 0"
    and "{t. held h t = Some n} \<subseteq> S" "\<forall>e \<in> set es. effect_of e \<notin> Ends ` S"
  shows "n < length (ot_spans (otel_run es h)) \<and> ends_of (otel_run es h) ! n = 0"
  using assms
proof (induction es arbitrary: h)
  case (Cons e es)
  obtain m' ns' where eff: "effect_on (effect_of e) (held h, ends_of h) = (m', ns')"
    by (cases "effect_on (effect_of e) (held h, ends_of h)")
  from Cons.prems have "n < length ns' \<and> ns' ! n = 0 \<and> {t. m' t = Some n} \<subseteq> S"
    by (intro effect_leaves_open [OF _ _ _ _ _ eff]) simp_all
  moreover have "m' = held (otel_hook e h)" "ns' = ends_of (otel_hook e h)"
    using otel_hook_effect [OF spans_ok_bounded [OF Cons.prems(1)], of e] eff by simp_all
  ultimately show ?case
    using Cons.IH [of "otel_hook e h"] otel_hook_ok [OF Cons.prems(1)] Cons.prems(5) by simp
qed simp

lemma started_span:
  assumes "spans_ok (held h, ends_of h)" "effect_of e = Starts s"
  shows "held (otel_hook e h) = (held h)(s \<mapsto> length (ot_spans h))" "ends_of (otel_hook e h) = ends_of h @ [0]"
    "length (ot_spans (otel_hook e h)) = Suc (length (ot_spans h))"
proof -
  have "(held (otel_hook e h), ends_of (otel_hook e h)) = ((held h)(s \<mapsto> length (ends_of h)), ends_of h @ [0])"
    using otel_hook_effect [OF spans_ok_bounded [OF assms(1)], of e] assms(2) by (simp add: effect_on_def)
  then show "held (otel_hook e h) = (held h)(s \<mapsto> length (ot_spans h))" "ends_of (otel_hook e h) = ends_of h @ [0]"
    by simp_all
  then have "length (ends_of (otel_hook e h)) = Suc (length (ends_of h))" by simp
  then show "length (ot_spans (otel_hook e h)) = Suc (length (ot_spans h))" by simp
qed

text \<open>
  A slot that is given to a second span leaves the first open for ever: a workflow whose start
  is announced twice, as App.StartWorkflow and the engine do, or a wait that starts again.
\<close>

lemma second_start_orphans:
  assumes "spans_ok (held h, ends_of h)" "held h s = Some n" "effect_of e = Starts s"
  shows "ends_of (otel_run (e # es) h) ! n = 0"
proof -
  note start = started_span [OF assms(1,3)]
  note n = spans_okD(1,2) [OF assms(1,2)]
  have "{t. held (otel_hook e h) t = Some n} \<subseteq> {}"
    using n spans_okD(3) [OF assms(1,2)] by (auto simp: start)
  with n show ?thesis
    using span_stays_open [OF otel_hook_ok [OF assms(1), of e], of n "{}" es] by (simp add: start nth_append)
qed

section \<open>The span of a replayed activity\<close>

text \<open>Which call of an interface method a call of the model stands for: it agrees on the fields it has.\<close>

definition reports :: "hook_call \<Rightarrow> hook_event \<Rightarrow> bool" where
  "reports c e =
     (case c of
        OnWorkflowStart i \<Rightarrow> (case e of WorkflowStart info \<Rightarrow> wsi_instance info = i | _ \<Rightarrow> False)
      | OnWorkflowComplete i v \<Rightarrow>
          (case e of WorkflowComplete info \<Rightarrow> wci_instance info = i \<and> wci_output info = v | _ \<Rightarrow> False)
      | OnWorkflowFailed i err \<Rightarrow>
          (case e of WorkflowFailed info \<Rightarrow> wfi_instance info = i \<and> wfi_error info = err | _ \<Rightarrow> False)
      | OnWorkflowCancelled i workflow reason \<Rightarrow>
          (case e of WorkflowCancelled info \<Rightarrow>
             wxi_instance info = i \<and> wxi_workflow info = workflow \<and> wxi_reason info = reason | _ \<Rightarrow> False)
      | OnActivityStart i act name input rp \<Rightarrow>
          (case e of ActivityStart info \<Rightarrow> asi_instance info = i \<and> asi_activity info = act
             \<and> asi_name info = name \<and> asi_input info = input \<and> asi_replay info = rp | _ \<Rightarrow> False)
      | OnActivityComplete i act name v \<Rightarrow>
          (case e of ActivityComplete info \<Rightarrow> aci_instance info = i \<and> aci_activity info = act
             \<and> aci_name info = name \<and> aci_output info = v | _ \<Rightarrow> False)
      | OnActivityFailed i act name err attempt \<Rightarrow>
          (case e of ActivityFailed info \<Rightarrow> afi_instance info = i \<and> afi_activity info = act
             \<and> afi_name info = name \<and> afi_error info = err \<and> afi_attempt info = int attempt | _ \<Rightarrow> False)
      | OnActivityRetry i act name attempt most delay err \<Rightarrow>
          (case e of ActivityRetry info \<Rightarrow> ari_instance info = i \<and> ari_activity info = act
             \<and> ari_name info = name \<and> ari_attempt info = int attempt \<and> ari_max info = most
             \<and> ari_delay info = delay \<and> ari_error info = err | _ \<Rightarrow> False)
      | OnActivityCacheHit i act name r \<Rightarrow>
          (case e of ActivityCacheHit info \<Rightarrow> chi_instance info = i \<and> chi_activity info = act
             \<and> chi_name info = name \<and> chi_result info = r | _ \<Rightarrow> False)
      | OnEventReceived ty ev source \<Rightarrow>
          (case e of EventReceived info \<Rightarrow> eri_type info = ty \<and> eri_id info = ev \<and> eri_source info = source | _ \<Rightarrow> False)
      | OnEventWaitStart i ty timeout \<Rightarrow>
          (case e of EventWaitStart info \<Rightarrow> ewi_instance info = i \<and> ewi_type info = ty \<and> ewi_timeout info = timeout
            | _ \<Rightarrow> False)
      | OnEventWaitComplete i ty \<Rightarrow>
          (case e of EventWaitComplete info \<Rightarrow> ewc_instance info = i \<and> ewc_type info = ty | _ \<Rightarrow> False)
      | OnEventTimeout i workflow ty \<Rightarrow>
          (case e of EventTimeout info \<Rightarrow> eti_instance info = i \<and> eti_workflow info = workflow \<and> eti_type info = ty | _ \<Rightarrow> False)
      | OnTimerStart i timer expires \<Rightarrow>
          (case e of TimerStart info \<Rightarrow> tsi_instance info = i \<and> tsi_timer info = timer \<and> tsi_expires info = expires
            | _ \<Rightarrow> False)
      | OnTimerFired i workflow timer \<Rightarrow>
          (case e of TimerFired info \<Rightarrow> tfi_instance info = i \<and> tfi_workflow info = workflow \<and> tfi_timer info = timer
            | _ \<Rightarrow> False)
      | OnReplayStart i n \<Rightarrow>
          (case e of ReplayStart info \<Rightarrow> rsi_instance info = i \<and> rsi_events info = int n | _ \<Rightarrow> False)
      | OnReplayComplete i hits fresh \<Rightarrow>
          (case e of ReplayComplete info \<Rightarrow> rci_instance info = i \<and> rci_hits info = int hits \<and> rci_new info = int fresh
            | _ \<Rightarrow> False))"

lemma reports_activity_start:
  "reports (OnActivityStart i act name input rp) e \<Longrightarrow>
   \<exists>info. e = ActivityStart info \<and> asi_instance info = i \<and> asi_activity info = act"
  by (cases e) (simp_all add: reports_def)

lemma reports_cache_hit: "reports (OnActivityCacheHit i act name r) e \<Longrightarrow> \<exists>info. e = ActivityCacheHit info"
  by (cases e) (simp_all add: reports_def)

lemma run_hook_calls:
  "w_hooks (ex_world (run_hook h s)) = w_hooks (ex_world s) @ [h (ex_instance s) (ex_workflow s)]"
  by (simp add: run_hook_def ctx_hook_def on_world_def)

lemma cached_activity_calls:
  assumes "cached_in s (call_id (ac_name a) given s) = Some r"
  shows "w_hooks (ex_world (snd (activity_execute ch a input given s))) = w_hooks (ex_world s) @
    [OnActivityStart (ex_instance s) (call_id (ac_name a) given s) (ac_name a) input (ex_replaying s),
     OnActivityCacheHit (ex_instance s) (call_id (ac_name a) given s) (ac_name a) r]"
proof -
  have "ex_world (after_id n g s) = ex_world s" "ex_instance (after_id n g s) = ex_instance s" for n g
    by (simp_all add: after_id_def)
  moreover have "ex_instance (hit act t) = ex_instance t" for act and t :: "'a exec" by (simp add: hit_def)
  ultimately show ?thesis
    using assms by (simp add: activity_execute_eq Let_def run_hook_calls)
qed

text \<open>
  C30: the span of a replayed activity is never ended. When an activity finds its result in the
  history it calls the hooks exactly twice, for its start and for the cache hit, and OTelHooks
  starts a span for the activity with the first call that the second does not end: whatever
  calls came before, whatever fields the two calls have and whatever calls follow, the span is
  open until an activity of that instance and that id completes or fails, which an activity
  with a recorded result does not do again.
\<close>

theorem replayed_activity_span_open:
  assumes "cached_in s act = Some r" "act = call_id (ac_name a) given s"
    and "w_hooks (ex_world (snd (activity_execute ch a input given s))) = w_hooks (ex_world s) @ calls"
    and "list_all2 reports calls es"
    and "\<forall>e \<in> set later. effect_of e \<noteq> Ends (ActivitySlot (span_key (ex_instance s) act))"
  shows "length calls = 2
    \<and> sp_ends (ot_spans (otel_run (before @ es @ later) new_otel) ! length (ot_spans (otel_run before new_otel))) = 0"
proof -
  have calls: "calls = [OnActivityStart (ex_instance s) act (ac_name a) input (ex_replaying s),
      OnActivityCacheHit (ex_instance s) act (ac_name a) r]"
    using cached_activity_calls [of s a given r ch input] assms(1-3) by simp
  obtain info hit_info where es: "es = [ActivityStart info, ActivityCacheHit hit_info]"
    and info: "asi_instance info = ex_instance s" "asi_activity info = act"
    using assms(4) unfolding calls by (auto simp: list_all2_Cons1 dest!: reports_activity_start reports_cache_hit)
  let ?h = "otel_run before new_otel" and ?s = "ActivitySlot (span_key (ex_instance s) act)"
  let ?n = "length (ot_spans ?h)" and ?h' = "otel_hook (ActivityStart info) ?h"
  note ok = spans_end_once [of before]
  have eff: "effect_of (ActivityStart info) = Starts ?s" by (simp add: info)
  note start = started_span [OF ok eff]
  have sub: "{t. held ?h' t = Some ?n} \<subseteq> {?s}"
    unfolding start(1) by (auto split: if_splits dest!: spans_okD(1) [OF ok])
  have all: "\<forall>e \<in> set (ActivityCacheHit hit_info # later). effect_of e \<notin> Ends ` {?s}"
    using assms(5) by auto
  have n: "?n < length (ot_spans ?h')" unfolding start(3) by simp
  have unended: "ends_of ?h' ! ?n = 0" unfolding start(2) by (simp add: nth_append)
  note span_stays_open [OF otel_hook_ok [OF ok] n unended sub all]
  then show ?thesis
    using calls es by (auto simp: ends_of_def)
qed

definition replaying_exec :: "unit exec" where
  "replaying_exec = \<lparr>ex_world = \<lparr>w_db = empty_db, w_tx = None, w_callbacks = [], w_hooks = [], w_ext = ()\<rparr>,
     ex_instance = ''i'', ex_worker = ''w'', ex_workflow = ''order'', ex_replaying = True, ex_counts = (\<lambda>_. 0),
     ex_results = [''pay:1'' \<mapsto> (BJson (JNum 1), VJson (JNum 1))], ex_errors = Map.empty, ex_hits = 0, ex_new = 0,
     ex_in_tx = False, ex_cancelled = False, ex_direct = None\<rparr>"

definition pay_activity :: "unit activity" where
  "pay_activity = \<lparr>ac_name = ''pay'', ac_fn = (\<lambda>_ v s. (Inr v, s)), ac_out = TAny, ac_policy = None,
     ac_timeout = 0, ac_comp = None, ac_decode = (\<lambda>b. Inl json_error), ac_transactional = False\<rparr>"

definition pay_start :: activity_start_info where
  "pay_start = \<lparr>asi_instance = ''i'', asi_workflow = ''order'', asi_activity = ''pay:1'', asi_name = ''pay'',
     asi_input = VJson JNull, asi_replay = True\<rparr>"

definition pay_hit :: cache_hit_info where
  "pay_hit = \<lparr>chi_instance = ''i'', chi_workflow = ''order'', chi_activity = ''pay:1'', chi_name = ''pay'',
     chi_result = Inr (VJson (JNum 1))\<rparr>"

theorem replayed_activity_span_open_witness:
  "sp_ends (ot_spans (otel_run [ActivityStart pay_start, ActivityCacheHit pay_hit] new_otel) ! 0) = 0"
proof -
  have act: "''pay:1'' = call_id (ac_name pay_activity) '''' replaying_exec"
    by (simp add: call_id_def pay_activity_def replaying_exec_def show_nat.simps digit_char_def) code_simp
  have hit: "cached_in replaying_exec ''pay:1'' = Some (Inr (VJson (JNum 1)))"
    by (simp add: cached_in_def lookup_def replaying_exec_def)
  have calls: "w_hooks (ex_world (snd (activity_execute \<lparr>ch_rand = (\<lambda>_. 0), ch_fuel = 0\<rparr> pay_activity (VJson JNull) '''' replaying_exec)))
      = w_hooks (ex_world replaying_exec) @ [OnActivityStart ''i'' ''pay:1'' ''pay'' (VJson JNull) True,
          OnActivityCacheHit ''i'' ''pay:1'' ''pay'' (Inr (VJson (JNum 1)))]"
    using cached_activity_calls [of replaying_exec pay_activity "''''", folded act, OF hit]
    by (simp add: replaying_exec_def pay_activity_def)
  from replayed_activity_span_open [OF hit act calls, of "[ActivityStart pay_start, ActivityCacheHit pay_hit]" "[]" "[]"]
  show ?thesis by (simp add: reports_def pay_start_def pay_hit_def new_otel_def)
qed

end
