(* ===== verification/Cli.thy ===== *)
theory Cli
  imports App_Lifecycle Channel_Delivery
begin

text \<open>
  cmd/romancy/main.go: the command line program. The arguments are parsed as the flag package
  of Go does; a command reads the database the flag names, or talks to a running server, and
  prints. \<open>open_db\<close> is the driver (the world of the database behind a URL), \<open>http\<close> the network:
  method, URL and body are answered by an error or by a status and a text. A printed line is
  its bytes; a JSON document is printed as \<open>Document\<close> (indented, or raw when it is not one).
  The text of a point in time is its number. The storage is SQLite's, as for the application.
\<close>

section \<open>Flags\<close>

text \<open>
  \<open>FlagSet.Parse\<close> for text flags: the values so far, the arguments. It ends at the first argument
  that is no flag, or after \<open>--\<close>. \<open>Inl\<close> is the exit status of the program: 0 after the help text,
  2 for flags that are wrong.
\<close>

definition split_flag :: "string \<Rightarrow> string \<times> string option" where
  "split_flag s =
     (case s of
        [] \<Rightarrow> ('''', None)
      | c # cs \<Rightarrow> (case dropWhile (\<lambda>c. c \<noteq> CHR ''='') cs of
           [] \<Rightarrow> (s, None)
         | e # v \<Rightarrow> (c # takeWhile (\<lambda>c. c \<noteq> CHR ''='') cs, Some v)))"

fun parse_flags :: "(string \<Rightarrow> string option) \<Rightarrow> string list \<Rightarrow> nat + (string \<Rightarrow> string option) \<times> string list" where
  "parse_flags flags [] = Inr (flags, [])"
| "parse_flags flags (s # args) =
     (if length s < 2 \<or> hd s \<noteq> CHR ''-'' then Inr (flags, s # args)
      else if s = ''--'' then Inr (flags, args)
      else
        let name = drop (if s ! 1 = CHR ''-'' then 2 else 1) s
        in if name = '''' \<or> hd name = CHR ''-'' \<or> hd name = CHR ''='' then Inl 2
           else case split_flag name of (name, given) \<Rightarrow>
             (case flags name of
                None \<Rightarrow> if name = ''help'' \<or> name = ''h'' then Inl 0 else Inl 2
              | Some old \<Rightarrow>
                  (case given of
                     Some v \<Rightarrow> parse_flags (flags(name \<mapsto> v)) args
                   | None \<Rightarrow> (case args of
                         [] \<Rightarrow> Inl 2
                       | v # rest \<Rightarrow> parse_flags (flags(name \<mapsto> v)) rest))))"

section \<open>Helpers\<close>

definition cli_backend :: "string \<Rightarrow> backend" where
  "cli_backend url =
     (if length url \<ge> 8 \<and> take 8 url = ''postgres'' then PostgresBackend
      else if length url \<ge> 5 \<and> take 5 url = ''mysql'' then MySQLBackend
      else SQLiteBackend)"

fun status_emoji :: "workflow_status \<Rightarrow> string" where
  "status_emoji StatusRunning = [CHR 0xF0, CHR 0x9F, CHR 0x8F, CHR 0x83] @ '' running''"
| "status_emoji StatusWaitingForEvent =
     [CHR 0xE2, CHR 0x8F, CHR 0xB8, CHR 0xEF, CHR 0xB8, CHR 0x8F] @ ''  waiting_event''"
| "status_emoji StatusWaitingForTimer = [CHR 0xE2, CHR 0x8F, CHR 0xB0] @ '' waiting_timer''"
| "status_emoji StatusWaitingForMessage = [CHR 0xF0, CHR 0x9F, CHR 0x93, CHR 0xA8] @ '' waiting_message''"
| "status_emoji StatusCompleted = [CHR 0xE2, CHR 0x9C, CHR 0x85] @ '' completed''"
| "status_emoji StatusFailed = [CHR 0xE2, CHR 0x9D, CHR 0x8C] @ '' failed''"
| "status_emoji StatusCancelled = [CHR 0xF0, CHR 0x9F, CHR 0x9A, CHR 0xAB] @ '' canceled''"
| "status_emoji StatusRecurred = [CHR 0xF0, CHR 0x9F, CHR 0x94, CHR 0x84] @ '' recurred''"
| "status_emoji StatusCompensating = [CHR 0xE2, CHR 0x8F, CHR 0xAA] @ '' compensating''"

text \<open>
  The status a text names. The default of the code passes the text on as a status; \<open>None\<close> is a
  text that is no status, which no row has.
\<close>

definition all_statuses :: "workflow_status list" where
  "all_statuses = [StatusRunning, StatusCompleted, StatusFailed, StatusCancelled, StatusWaitingForEvent,
     StatusWaitingForTimer, StatusWaitingForMessage, StatusRecurred, StatusCompensating]"

definition parse_status :: "string \<Rightarrow> workflow_status option" where
  "parse_status text_given =
     (let s = lower text_given
      in if s = ''running'' then Some StatusRunning
         else if s \<in> {''waiting'', ''waiting_event'', ''waiting_for_event''} then Some StatusWaitingForEvent
         else if s \<in> {''waiting_timer'', ''waiting_for_timer''} then Some StatusWaitingForTimer
         else if s \<in> {''waiting_message'', ''waiting_for_message''} then Some StatusWaitingForMessage
         else if s = ''completed'' then Some StatusCompleted
         else if s = ''failed'' then Some StatusFailed
         else if s = ''canceled'' then Some StatusCancelled
         else if s = ''recurred'' then Some StatusRecurred
         else if s = ''compensating'' then Some StatusCompensating
         else find (\<lambda>st. status_string st = s) all_statuses)"

definition truncate_text :: "string \<Rightarrow> nat \<Rightarrow> string" where
  "truncate_text s max_len = (if length s \<le> max_len then s else take (max_len - 3) s @ ''...'')"

text \<open>
  \<open>%-Ns\<close> pads to a number of runes. In a text of whole runes these are the bytes that do not
  continue a rune; a rune that \<open>truncate\<close> has cut counts once here.
\<close>

definition rune_count :: "string \<Rightarrow> nat" where
  "rune_count s = length (filter (\<lambda>c. \<not> (CHR 0x80 \<le> c \<and> c < CHR 0xC0)) s)"

definition pad_right :: "nat \<Rightarrow> string \<Rightarrow> string" where
  "pad_right width s = s @ replicate (width - rune_count s) (CHR '' '')"

definition check_mark :: string where
  "check_mark = [CHR 0xE2, CHR 0x9C, CHR 0x93]"

section \<open>The commands\<close>

datatype printed = Line string | Document bytes

fun history_type_string :: "history_type \<Rightarrow> string" where
  "history_type_string HistoryActivityCompleted = ''ActivityCompleted''"
| "history_type_string HistoryActivityFailed = ''ActivityFailed''"
| "history_type_string HistoryEventReceived = ''EventReceived''"
| "history_type_string HistoryTimerExpired = ''TimerExpired''"
| "history_type_string HistoryChannelMessageReceived = ''ChannelMessageReceived''"
| "history_type_string HistoryMessageTimeout = ''MessageTimeout''"
| "history_type_string HistoryCompensationExecuted = ''CompensationExecuted''"
| "history_type_string HistoryCompensationFailed = ''CompensationFailed''"
| "history_type_string HistoryWorkflowFailed = ''WorkflowFailed''"
| "history_type_string HistoryWorkflowCancelled = ''WorkflowCancelled''"
| "history_type_string (HistoryOther s) = s"

definition heading :: "string \<Rightarrow> string \<Rightarrow> printed" where
  "heading label v = Line (label @ v)"

text \<open>The document printed under its title, when there is one.\<close>

definition print_data :: "string \<Rightarrow> bytes option \<Rightarrow> printed list" where
  "print_data title data =
     (case data of
        None \<Rightarrow> []
      | Some b \<Rightarrow> if bytes_nonempty b then [Line '''', Line (''--- '' @ title @ '' ---''), Document b] else [])"

fun print_events :: "nat \<Rightarrow> history_event list \<Rightarrow> printed list" where
  "print_events i [] = []"
| "print_events i (h # hs) =
     Line (show_nat (Suc i) @ ''. ['' @ show_int (he_created h) @ ''] '' @ history_type_string (he_type h)
           @ '' - '' @ he_activity h)
     # print_events (Suc i) hs"


definition print_usage :: "printed list" where
  "print_usage = map Line
     [''Romancy CLI - Interact with Romancy workflows'',
      '''',
      ''Usage:'',
      ''  romancy <command> [arguments] [flags]'',
      '''',
      ''Commands:'',
      ''  get <instance_id>                     Get workflow instance details'',
      ''  event <instance_id> <type> <json>     Send an event to a workflow'',
      ''  list                                  List workflow instances'',
      ''  cancel <instance_id>                  Cancel a workflow'',
      '''',
      ''Flags:'',
      ''  --db <url>          Database path or URL (default: romancy.db)'',
      ''  --url <base_url>    Romancy server URL (default: http://localhost:8080)'',
      ''  --status <status>   Filter by workflow status (for list command)'',
      ''  --page-token <tok>  Pagination token for next page (for list command)'',
      '''',
      ''Status Values:'',
      ''  running, completed, failed, canceled,'',
      ''  waiting_event, waiting_timer, waiting_message, recurred, compensating'',
      '''',
      ''Database Migrations:'',
      ''  Use dbmate for database migrations:'',
      ''  dbmate -d schema/db/migrations/sqlite up'',
      ''  dbmate -d schema/db/migrations/postgresql up'',
      ''  dbmate -d schema/db/migrations/mysql up'',
      '''',
      ''Examples:'',
      ''  romancy get wf-123abc'',
      ''  romancy event wf-123abc payment.completed '' @ [CHR 0x27] @ ''{\"transaction_id\":\"TX-001\"}'' @ [CHR 0x27],
      ''  romancy list --status running'',
      ''  romancy list --page-token '' @ [CHR 0x27] @ ''eyJ...'' @ [CHR 0x27],
      ''  romancy cancel wf-123abc'']"

definition cmd_get ::
    "(backend \<Rightarrow> string \<Rightarrow> go_error + 'x world) \<Rightarrow> nat \<Rightarrow> string \<Rightarrow> string \<Rightarrow> ((go_error + unit) \<times> printed list) option" where
  "cmd_get open_db fuel db_path i =
     (case open_db (cli_backend db_path) db_path of
        Inl e \<Rightarrow> Some (Inl e, [])
      | Inr w \<Rightarrow>
          (case map_err (wrapf ''failed to get instance'') (stor False (get_instance i)) w of
             (Inl e, w) \<Rightarrow> Some (Inl e, [])
           | (Inr None, w) \<Rightarrow> Some (Inl (ErrText (''instance not found: '' @ i)), [])
           | (Inr (Some r), w) \<Rightarrow>
               (case fst (iter_loop (\<lambda>k n. stor False (get_history_paginated i k n)) he_id fuel
                       (new_history_iterator None) [] w) of
                  None \<Rightarrow> None
                | Some (events, it) \<Rightarrow>
                    Some (Inr (),
                      [Line ''=== Workflow Instance ==='',
                       heading ''Instance ID:  '' (inst_id r),
                       heading ''Workflow:     '' (inst_workflow r),
                       heading ''Status:       '' (status_emoji (inst_status r)),
                       heading ''Activity ID:  '' (case inst_activity r of None \<Rightarrow> '''' | Some a \<Rightarrow> a),
                       heading ''Started:      '' (show_int (inst_started r)),
                       heading ''Updated:      '' (show_int (inst_updated r))]
                      @ (case inst_locked_by r of
                           None \<Rightarrow> []
                         | Some holder \<Rightarrow>
                             if holder = '''' then []
                             else heading ''Locked By:    '' holder
                               # (case inst_locked_at r of None \<Rightarrow> [] | Some t \<Rightarrow> [heading ''Locked At:    '' (show_int t)]))
                      @ print_data ''Input'' (Some (inst_input r)) @ print_data ''Output'' (inst_output r)
                      @ [Line '''', Line ''--- History ---''] @ print_events 0 events
                      @ (case it_err it of
                           None \<Rightarrow> []
                         | Some e \<Rightarrow> [Line '''', Line (''Warning: failed to get history: '' @ err_text e)])
                      @ (if events = [] then [Line ''(no history)''] else [])))))"

definition cli_cloud_event :: "time \<Rightarrow> string \<Rightarrow> string \<Rightarrow> json \<Rightarrow> json" where
  "cli_cloud_event now i event_type data =
     JObj [(''data'', data), (''datacontenttype'', JStr ''application/json''),
           (''id'', JStr (''cli-'' @ show_int now)), (''romancyinstanceid'', JStr i),
           (''source'', JStr ''romancy-cli''), (''specversion'', JStr ''1.0''),
           (''time'', time_json now), (''type'', JStr event_type)]"

definition server_error :: "nat \<Rightarrow> string \<Rightarrow> go_error" where
  "server_error code body = ErrText (''server returned error '' @ show_nat code @ '': '' @ body)"

definition cmd_event ::
    "(string \<Rightarrow> string \<Rightarrow> bytes \<Rightarrow> go_error + nat \<times> string) \<Rightarrow> time \<Rightarrow> string \<Rightarrow> string \<Rightarrow> string \<Rightarrow> bytes \<Rightarrow>
     (go_error + unit) \<times> printed list" where
  "cmd_event http now base_url i event_type json_data =
     (case json_data of
        BJson j \<Rightarrow>
          (case http ''POST'' (base_url @ ''/'') (BJson (cli_cloud_event now i event_type (f64_json j))) of
             Inl e \<Rightarrow> (Inl (wrapf ''failed to send event'' e), [])
           | Inr (code, body) \<Rightarrow>
               if code \<ge> 400 then (Inl (server_error code body), [])
               else (Inr (), [Line (check_mark @ '' Event sent successfully''),
                              heading ''  Instance:   '' i, heading ''  Event Type: '' event_type,
                              heading ''  Response:   '' body]))
      | _ \<Rightarrow> (Inl (wrapf ''invalid JSON data'' json_error), []))"

text \<open>\<open>read_token\<close> and \<open>show_token\<close> are the texts of page tokens.\<close>

definition print_row :: "list_row \<Rightarrow> printed" where
  "print_row r =
     Line (pad_right 40 (truncate_text (lr_id r) 38) @ '' '' @ pad_right 20 (truncate_text (lr_workflow r) 18)
           @ '' '' @ pad_right 15 (status_emoji (lr_status r)) @ '' '' @ pad_right 20 (show_int (lr_updated r)))"

definition cmd_list ::
    "(backend \<Rightarrow> string \<Rightarrow> go_error + 'x world) \<Rightarrow> (string \<Rightarrow> page_token) \<Rightarrow> (page_token \<Rightarrow> string) \<Rightarrow>
     string \<Rightarrow> string \<Rightarrow> string \<Rightarrow> (go_error + unit) \<times> printed list" where
  "cmd_list open_db read_token show_token db_path status_filter token =
     (case open_db (cli_backend db_path) db_path of
        Inl e \<Rightarrow> (Inl e, [])
      | Inr w \<Rightarrow>
          let unknown = (status_filter \<noteq> '''' \<and> parse_status status_filter = None);
              opts = \<lparr>lo_limit = 50, lo_token = read_token token,
                 lo_status = (if status_filter \<noteq> '''' then parse_status status_filter else None),
                 lo_name = '''', lo_id = '''', lo_after = None, lo_before = None, lo_inputs = [],
                 lo_old_status = None, lo_old_name = ''''\<rparr>;
              request = (if unknown then query (\<lambda>d. ([], NoToken, False)) else list_instances (\<lambda>c r. True) opts)
          in (case fst (map_err (wrapf ''failed to list instances'') (stor False request) w) of
                Inl e \<Rightarrow> (Inl e, [])
              | Inr (page, tok, has_more) \<Rightarrow>
                  if page = [] then (Inr (), [Line ''No workflow instances found.''])
                  else (Inr (),
                    [Line (pad_right 40 ''INSTANCE ID'' @ '' '' @ pad_right 20 ''WORKFLOW'' @ '' ''
                           @ pad_right 15 ''STATUS'' @ '' '' @ pad_right 20 ''UPDATED''),
                     Line (replicate 100 (CHR ''-''))]
                    @ map print_row page
                    @ [Line '''', Line (''Total: '' @ show_nat (length page) @ '' instances'')]
                    @ (if has_more
                       then [Line (''(More results available, use --page-token '' @ [CHR 0x27] @ show_token tok
                                   @ [CHR 0x27] @ '' for next page)'')]
                       else []))))"

text \<open>\<open>bad_url\<close> is the error of \<open>http.NewRequest\<close> for a text that is no URL.\<close>

definition cmd_cancel ::
    "(string \<Rightarrow> go_error option) \<Rightarrow> (string \<Rightarrow> string \<Rightarrow> bytes \<Rightarrow> go_error + nat \<times> string) \<Rightarrow> string \<Rightarrow> string \<Rightarrow>
     (go_error + unit) \<times> printed list" where
  "cmd_cancel bad_url http base_url i =
     (case bad_url (base_url @ ''/cancel/'' @ i) of
        Some e \<Rightarrow> (Inl (wrapf ''failed to create request'' e), [])
      | None \<Rightarrow>
      case http ''POST'' (base_url @ ''/cancel/'' @ i) BNil of
        Inl e \<Rightarrow> (Inl (wrapf ''failed to send cancel request'' e), [])
      | Inr (code, body) \<Rightarrow>
          if code \<ge> 400 then (Inl (server_error code body), [])
          else (Inr (), [Line (check_mark @ '' Workflow canceled: '' @ i)]))"

section \<open>The program\<close>

text \<open>What is printed and the exit status, from the outcome of a command.\<close>

definition finish_command :: "(go_error + unit) \<times> printed list \<Rightarrow> printed list \<times> nat" where
  "finish_command = (\<lambda>(outcome, out). case outcome of
     Inl e \<Rightarrow> (out @ [Line (''Error: '' @ err_text e)], 1)
   | Inr u \<Rightarrow> (out, 0))"

definition wrong_arguments :: "string \<Rightarrow> string \<Rightarrow> printed list \<times> nat" where
  "wrong_arguments what usage = ([Line (''Error: '' @ what), Line (''Usage: '' @ usage)], 1)"

definition db_flag :: "string \<Rightarrow> string option" where
  "db_flag = [''db'' \<mapsto> ''romancy.db'']"

definition url_flag :: "string \<Rightarrow> string option" where
  "url_flag = db_flag(''url'' \<mapsto> ''http://localhost:8080'')"

definition list_flags :: "string \<Rightarrow> string option" where
  "list_flags = db_flag(''status'' \<mapsto> '''', ''page-token'' \<mapsto> '''')"

text \<open>\<open>read_json\<close> is the document an argument is the text of; \<open>None\<close> means that the fuel is used up.\<close>

definition cli_main ::
    "(backend \<Rightarrow> string \<Rightarrow> go_error + 'x world) \<Rightarrow> (string \<Rightarrow> go_error option) \<Rightarrow>
     (string \<Rightarrow> string \<Rightarrow> bytes \<Rightarrow> go_error + nat \<times> string) \<Rightarrow> (string \<Rightarrow> page_token) \<Rightarrow> (page_token \<Rightarrow> string) \<Rightarrow> (string \<Rightarrow> bytes) \<Rightarrow> time \<Rightarrow> nat \<Rightarrow> string list \<Rightarrow>
     (printed list \<times> nat) option" where
  "cli_main open_db bad_url http read_token show_token read_json now fuel argv =
     (case argv of
        [] \<Rightarrow> Some (print_usage, 1)
      | cmd # cmd_args \<Rightarrow>
          if cmd = ''get'' then
            (case parse_flags db_flag cmd_args of
               Inl code \<Rightarrow> Some ([], code)
             | Inr (flags, []) \<Rightarrow> Some (wrong_arguments ''instance_id is required'' ''romancy get <instance_id> [--db <path>]'')
             | Inr (flags, i # rest) \<Rightarrow> map_option finish_command (cmd_get open_db fuel (the (flags ''db'')) i))
          else if cmd = ''event'' then
            (case parse_flags url_flag cmd_args of
               Inl code \<Rightarrow> Some ([], code)
             | Inr (flags, i # event_type # data # rest) \<Rightarrow>
                 Some (finish_command (cmd_event http now (the (flags ''url'')) i event_type (read_json data)))
             | Inr (flags, args) \<Rightarrow> Some (wrong_arguments ''instance_id, event_type, and json_data are required''
                 ''romancy event <instance_id> <event_type> <json_data> [--db <path>] [--url <base_url>]''))
          else if cmd = ''list'' then
            (case parse_flags list_flags cmd_args of
               Inl code \<Rightarrow> Some ([], code)
             | Inr (flags, args) \<Rightarrow>
                 Some (finish_command (cmd_list open_db read_token show_token (the (flags ''db''))
                   (the (flags ''status'')) (the (flags ''page-token'')))))
          else if cmd = ''cancel'' then
            (case parse_flags url_flag cmd_args of
               Inl code \<Rightarrow> Some ([], code)
             | Inr (flags, []) \<Rightarrow> Some (wrong_arguments ''instance_id is required'' ''romancy cancel <instance_id> [--db <path>]'')
             | Inr (flags, i # rest) \<Rightarrow> Some (finish_command (cmd_cancel bad_url http (the (flags ''url'')) i)))
          else if cmd = ''migrate'' then
            Some (map Line [''The '' @ [CHR 0x27] @ ''migrate'' @ [CHR 0x27] @ '' command has been removed.'',
              ''Please use dbmate for migrations:'',
              ''  dbmate -d schema/db/migrations/sqlite up'',
              ''  dbmate -d schema/db/migrations/postgresql up'',
              ''  dbmate -d schema/db/migrations/mysql up''], 1)
          else Some (Line (''Unknown command: '' @ cmd) # print_usage, 1))"

section \<open>Properties\<close>

text \<open>Parsing ends at the first argument that is no flag: what comes after it is not parsed.\<close>

lemma parse_flags_stops:
  "length s < 2 \<or> hd s \<noteq> CHR ''-'' \<Longrightarrow> parse_flags flags (s # args) = Inr (flags, s # args)"
  by auto

text \<open>
  Flags after the arguments have no effect. With the order the usage texts show, as in
  \<open>romancy get <instance_id> --db <path>\<close>, the command does what it does without the flags: it
  opens the default database and talks to the default server.
\<close>

lemma flags_after_arguments_ignored:
  assumes "hd i \<noteq> CHR ''-''"
  shows "cli_main open_db bad_url http rt st rj now fuel (''get'' # i # rest) =
      cli_main open_db bad_url http rt st rj now fuel [''get'', i]"
    and "cli_main open_db bad_url http rt st rj now fuel (''cancel'' # i # rest) =
      cli_main open_db bad_url http rt st rj now fuel [''cancel'', i]"
    and "cli_main open_db bad_url http rt st rj now fuel (''event'' # i # ty # data # rest) =
      cli_main open_db bad_url http rt st rj now fuel [''event'', i, ty, data]"
  using assms by (simp_all add: cli_main_def parse_flags_stops del: parse_flags.simps)

lemma get_reads_default_database:
  assumes "hd i \<noteq> CHR ''-''"
  shows "cli_main open_db bad_url http rt st rj now fuel (''get'' # i # rest) =
    map_option finish_command (cmd_get open_db fuel ''romancy.db'' i)"
  using assms by (simp add: cli_main_def parse_flags_stops db_flag_def del: parse_flags.simps)

text \<open>The names of the statuses are read back, as stored and as \<open>list\<close> prints them.\<close>

lemma parse_status_string: "parse_status (status_string st) = Some st"
  by (induction st) code_simp+

text \<open>The history that \<open>get\<close> prints is the whole history, when no statement fails.\<close>

interpretation world_history: paged_source "\<lambda>w. w_tx w = None \<and> history_live (w_db w)"
    "\<lambda>w. history_of i (w_db w)" he_id "\<lambda>k n. stor False (get_history_paginated i k n)"
  for i
  using history_pages.rows_ascending history_pages.keys_positive
  by unfold_locales (auto simp: stor_def history_pages.fetch_page)

lemma get_prints_history:
  assumes "w_tx w = None" "history_live (w_db w)" "length (history_of i (w_db w)) < fuel"
  shows "\<exists>it. iter_loop (\<lambda>k n. stor False (get_history_paginated i k n)) he_id fuel (new_history_iterator None) [] w =
    (Some (history_of i (w_db w), it), w) \<and> it_err it = None"
proof -
  let ?it = "new_history_iterator None :: history_event history_iter"
  have ok: "world_history.iter_ok i ?it w" and last: "it_last ?it = 0"
    by (simp_all add: world_history.iter_ok_def new_history_iterator_def)
  have "world_history.above i (it_last ?it) w = history_of i (w_db w)"
    unfolding last by (rule world_history.above_0) (simp add: assms)
  with world_history.iter_loop_all [OF _ ok, of fuel "[]"] assms show ?thesis by simp
qed

lemma cli_event_extensions:
  "sorted_entries (filter (\<lambda>(k, v). k \<notin> set standard_fields)
     [(''data'', d), (''datacontenttype'', JStr ''application/json''), (''id'', n), (''romancyinstanceid'', JStr i),
      (''source'', s), (''specversion'', v), (''time'', t), (''type'', ty)]) = [(''romancyinstanceid'', JStr i)]"
  by (simp add: standard_fields_def sorted_entries_def)

text \<open>What the server reads from the document of the command.\<close>

lemma unmarshal_cli_event:
  "unmarshal_cloud_event (cli_cloud_event now i ty d) =
     Some \<lparr>ev_id = ''cli-'' @ show_int now, ev_type = ty, ev_source = ''romancy-cli'', ev_specversion = ''1.0'',
           ev_time = Some now, ev_data = Some d, ev_extensions = [(''romancyinstanceid'', JStr i)]\<rparr>"
proof -
  have extra: "map (\<lambda>(k, v). (k, f64_json v)) (sorted_entries (filter (\<lambda>(k, v). k \<notin> set standard_fields)
      [(''data'', d), (''datacontenttype'', JStr ''application/json''), (''id'', JStr (''cli-'' @ show_int now)),
       (''romancyinstanceid'', JStr i), (''source'', JStr ''romancy-cli''), (''specversion'', JStr ''1.0''),
       (''time'', JStr (show_int now)), (''type'', JStr ty)])) = [(''romancyinstanceid'', JStr i)]"
    unfolding cli_event_extensions by simp
  show ?thesis
    unfolding unmarshal_cloud_event_def cli_cloud_event_def raw_fields_def time_json_def json.case option.case
      Let_def extra
    by (simp add: data_string_def)
qed


definition yes_text :: "string \<Rightarrow> bytes" where
  "yes_text s = (if s = ''true'' then BJson (JBool True) else BBad)"


end
