(* ===== verification/Connections.thy ===== *)
theory Connections
  imports Runtime_World "HOL-Library.AList"
begin

text \<open>
  How the three storages reach their databases: the SQL fragments of internal/storage/driver.go
  that the paths do not use, the connection strings of the constructors, and the transaction
  managers of sqlite.go, postgres.go and mysql.go over a pool of connections. A context carries
  the transaction it runs in. What the statements of a transaction see is the server's business;
  here a transaction is its end and its callbacks.
\<close>

section \<open>SQL fragments\<close>

fun driver_name :: "driver \<Rightarrow> string" where
  "driver_name SQLiteDriver = ''sqlite''"
| "driver_name PostgresDriver = ''postgres''"
| "driver_name MySQLDriver = ''mysql''"

fun get_current_time_expr :: "driver \<Rightarrow> string" where
  "get_current_time_expr SQLiteDriver = ''datetime('' @ [CHR 0x27] @ ''now'' @ [CHR 0x27] @ '')''"
| "get_current_time_expr PostgresDriver = ''NOW()''"
| "get_current_time_expr MySQLDriver = ''NOW()''"

fun make_datetime_comparable :: "driver \<Rightarrow> string \<Rightarrow> string" where
  "make_datetime_comparable SQLiteDriver column = ''datetime('' @ column @ '')''"
| "make_datetime_comparable PostgresDriver column = column"
| "make_datetime_comparable MySQLDriver column = column"

fun select_for_update_skip_locked :: "driver \<Rightarrow> string" where
  "select_for_update_skip_locked SQLiteDriver = ''''"
| "select_for_update_skip_locked PostgresDriver = ''FOR UPDATE SKIP LOCKED''"
| "select_for_update_skip_locked MySQLDriver = ''FOR UPDATE SKIP LOCKED''"

fun placeholder :: "driver \<Rightarrow> nat \<Rightarrow> string" where
  "placeholder SQLiteDriver n = ''?''"
| "placeholder PostgresDriver n = CHR ''$'' # show_nat n"
| "placeholder MySQLDriver n = ''?''"

definition postgres_on_conflict :: "string list \<Rightarrow> string" where
  "postgres_on_conflict cols =
     (if cols = [] then ''ON CONFLICT DO NOTHING''
      else ''ON CONFLICT ('' @ join_comma cols @ '') DO NOTHING'')"

definition postgres_returning :: "string list \<Rightarrow> string" where
  "postgres_returning cols = (if cols = [] then '''' else ''RETURNING '' @ join_comma cols)"

fun on_conflict_do_nothing :: "driver \<Rightarrow> string list \<Rightarrow> string" where
  "on_conflict_do_nothing SQLiteDriver cols = sqlite_on_conflict cols"
| "on_conflict_do_nothing PostgresDriver cols = postgres_on_conflict cols"
| "on_conflict_do_nothing MySQLDriver cols = ''''"

fun returning_clause :: "driver \<Rightarrow> string list \<Rightarrow> string" where
  "returning_clause SQLiteDriver cols = sqlite_returning cols"
| "returning_clause PostgresDriver cols = postgres_returning cols"
| "returning_clause MySQLDriver cols = ''''"

section \<open>Connection strings\<close>

definition sqlite_pragmas :: string where
  "sqlite_pragmas = ''_pragma=journal_mode(WAL)&_pragma=busy_timeout(5000)''"

definition sqlite_conn_str :: "string \<Rightarrow> string" where
  "sqlite_conn_str path =
     (let conn_str = (if path = '':memory:'' then ''file::memory:?cache=shared'' else path);
          conn_str = conn_str @ ''?'' @ sqlite_pragmas
      in if path = '':memory:'' then ''file::memory:?cache=shared&'' @ sqlite_pragmas else conn_str)"

text \<open>\<open>net/url\<close>: what the code reads of a URL. A query is the list of its keys and values.\<close>

record parsed_url =
  pu_host :: string
  pu_user :: "(string \<times> string option) option"
  pu_path :: string
  pu_query :: "(string \<times> string list) list"

definition query_get :: "string \<Rightarrow> (string \<times> string list) list \<Rightarrow> string" where
  "query_get k q = (case map_of q k of Some (v # vs) \<Rightarrow> v | _ \<Rightarrow> '''')"

definition query_set :: "string \<Rightarrow> string \<Rightarrow> (string \<times> string list) list \<Rightarrow> (string \<times> string list) list" where
  "query_set k v q = AList.update k [v] q"

definition upper_hex :: "nat \<Rightarrow> char" where
  "upper_hex n = char_of (if n < 10 then n + 48 else n + 55)"

definition unreserved :: "char \<Rightarrow> bool" where
  "unreserved c \<longleftrightarrow> ident_char c \<or> c \<in> {CHR ''-'', CHR ''.'', CHR ''~''}"

definition query_escape :: "string \<Rightarrow> string" where
  "query_escape s = concat (map (\<lambda>c.
     if unreserved c then [c]
     else if c = CHR '' '' then ''+''
     else let n = of_char c :: nat in [CHR ''%'', upper_hex (n div 16), upper_hex (n mod 16)]) s)"

fun join_amp :: "string list \<Rightarrow> string" where
  "join_amp [] = []"
| "join_amp [s] = s"
| "join_amp (s # t # ts) = s @ CHR ''&'' # join_amp (t # ts)"

definition query_encode :: "(string \<times> string list) list \<Rightarrow> string" where
  "query_encode q = join_amp (concat (map (\<lambda>k.
     map (\<lambda>v. query_escape k @ CHR ''='' # query_escape v) (the (map_of q k))) (sort (map fst q))))"

definition has_prefix :: "string \<Rightarrow> string \<Rightarrow> bool" where
  "has_prefix p s \<longleftrightarrow> take (length p) s = p"

definition default_param :: "string \<Rightarrow> string \<Rightarrow> (string \<times> string list) list \<Rightarrow> (string \<times> string list) list" where
  "default_param k v q = (if query_get k q = '''' then query_set k v q else q)"

text \<open>\<open>url_parse\<close> is \<open>url.Parse\<close>.\<close>

definition convert_to_mysql_dsn :: "(string \<Rightarrow> go_error + parsed_url) \<Rightarrow> string \<Rightarrow> go_error + string" where
  "convert_to_mysql_dsn url_parse s =
     (if \<not> has_prefix ''mysql://'' s then
        let s = (if \<not> contains s ''parseTime=''
                 then (if contains s ''?'' then s @ ''&parseTime=true'' else s @ ''?parseTime=true'') else s);
            s = (if \<not> contains s ''loc='' then s @ ''&loc=UTC'' else s);
            s = (if \<not> contains s ''multiStatements='' then s @ ''&multiStatements=true'' else s)
        in Inr s
      else case url_parse s of
        Inl e \<Rightarrow> Inl e
      | Inr u \<Rightarrow>
          let host = (if \<not> contains (pu_host u) '':'' then pu_host u @ '':3306'' else pu_host u);
              user = (case pu_user u of None \<Rightarrow> ''''
                | Some (name, password) \<Rightarrow> name @ '':'' @ (case password of None \<Rightarrow> '''' | Some p \<Rightarrow> p) @ ''@'');
              name = (case pu_path u of c # cs \<Rightarrow> if c = CHR ''/'' then cs else c # cs | [] \<Rightarrow> []);
              q = default_param ''multiStatements'' ''true'' (default_param ''loc'' ''UTC''
                    (default_param ''parseTime'' ''true'' (pu_query u)))
          in Inr (user @ ''tcp('' @ host @ '')/'' @ name @ (if length q > 0 then ''?'' @ query_encode q else '''')))"

text \<open>The constructors. \<open>sql_open\<close> is \<open>sql.Open\<close> of the driver of that name.\<close>

record sql_pool_limits =
  max_open_conns :: nat
  max_idle_conns :: nat
  conn_max_lifetime :: time

definition server_limits :: sql_pool_limits where
  "server_limits = \<lparr>max_open_conns = 25, max_idle_conns = 5, conn_max_lifetime = 5 * 60 * 1000000000\<rparr>"

record 'c storage_handle =
  sh_db :: 'c
  sh_driver :: driver
  sh_limits :: "sql_pool_limits option"

definition open_database ::
    "(string \<Rightarrow> string \<Rightarrow> go_error + 'c) \<Rightarrow> string \<Rightarrow> driver \<Rightarrow> sql_pool_limits option \<Rightarrow> string \<Rightarrow>
     go_error + 'c storage_handle" where
  "open_database sql_open name drv limits conn_str =
     (case sql_open name conn_str of
        Inl e \<Rightarrow> Inl (wrapf ''failed to open database'' e)
      | Inr c \<Rightarrow> Inr \<lparr>sh_db = c, sh_driver = drv, sh_limits = limits\<rparr>)"

definition new_sqlite_storage :: "(string \<Rightarrow> string \<Rightarrow> go_error + 'c) \<Rightarrow> string \<Rightarrow> go_error + 'c storage_handle" where
  "new_sqlite_storage sql_open path = open_database sql_open ''sqlite'' SQLiteDriver None (sqlite_conn_str path)"

definition new_postgres_storage :: "(string \<Rightarrow> string \<Rightarrow> go_error + 'c) \<Rightarrow> string \<Rightarrow> go_error + 'c storage_handle" where
  "new_postgres_storage sql_open conn_str = open_database sql_open ''pgx'' PostgresDriver (Some server_limits) conn_str"

definition new_mysql_storage ::
    "(string \<Rightarrow> go_error + parsed_url) \<Rightarrow> (string \<Rightarrow> string \<Rightarrow> go_error + 'c) \<Rightarrow> string \<Rightarrow> go_error + 'c storage_handle" where
  "new_mysql_storage url_parse sql_open conn_str =
     (case convert_to_mysql_dsn url_parse conn_str of
        Inl e \<Rightarrow> Inl (wrapf ''failed to parse connection string'' e)
      | Inr dsn \<Rightarrow> open_database sql_open ''mysql'' MySQLDriver (Some server_limits) dsn)"

section \<open>The transaction managers\<close>

text \<open>
  A pool holds the transactions that were begun, in order; a transaction is named by its place.
  \<open>TxEnded\<close> covers a commit that failed as well. \<open>pl_faults\<close> are the errors the server answers with, one
  entry per statement, and \<open>pl_ext\<close> is what the callbacks act on. A context is the transaction it
  carries, if any.
\<close>

datatype tx_stage = TxOpen | TxCommitted | TxEnded

record ('x, 'cb) tx_record =
  tx_stage :: tx_stage
  tx_callbacks :: "'cb list"

record ('x, 'cb) sql_pool =
  pl_txs :: "('x, 'cb) tx_record list"
  pl_faults :: "go_error option list"
  pl_ext :: 'x

type_synonym tx_ctx = "nat option"

type_synonym ('x, 'cb, 'a) pm = "(('x, 'cb) sql_pool, go_error, 'a) go"

datatype sql_executor = OnPool | OnTx nat

definition server_answers :: "('x, 'cb, unit) pm" where
  "server_answers p =
     (case pl_faults p of
        [] \<Rightarrow> (Inr (), p)
      | f # fs \<Rightarrow> (case f of None \<Rightarrow> Inr () | Some e \<Rightarrow> Inl e, p\<lparr>pl_faults := fs\<rparr>))"

definition set_stage :: "nat \<Rightarrow> tx_stage \<Rightarrow> ('x, 'cb) sql_pool \<Rightarrow> ('x, 'cb) sql_pool" where
  "set_stage n st p = p\<lparr>pl_txs := (pl_txs p)[n := (pl_txs p ! n)\<lparr>tx_stage := st\<rparr>]\<rparr>"

definition begin_tx :: "('x, 'cb, nat) pm" where
  "begin_tx = try_go server_answers (\<lambda>_. \<lambda>p.
     (Inr (length (pl_txs p)), p\<lparr>pl_txs := pl_txs p @ [\<lparr>tx_stage = TxOpen, tx_callbacks = []\<rparr>]\<rparr>))"

text \<open>\<open>sql.Tx\<close>: the transaction is over after the first Commit or Rollback, whatever the server says.\<close>

definition commit_tx :: "nat \<Rightarrow> ('x, 'cb, unit) pm" where
  "commit_tx n p =
     (if tx_stage (pl_txs p ! n) \<noteq> TxOpen then (Inl tx_done, p)
      else case server_answers p of
        (Inl e, p) \<Rightarrow> (Inl e, set_stage n TxEnded p)
      | (Inr u, p) \<Rightarrow> (Inr (), set_stage n TxCommitted p))"

definition rollback_tx :: "nat \<Rightarrow> ('x, 'cb, unit) pm" where
  "rollback_tx n p =
     (if tx_stage (pl_txs p ! n) \<noteq> TxOpen then (Inl tx_done, p)
      else case server_answers p of (r, p) \<Rightarrow> (r, set_stage n TxEnded p))"

section \<open>PostgreSQL\<close>

definition pg_get_conn :: "tx_ctx \<Rightarrow> sql_executor" where
  "pg_get_conn ctx = (case ctx of Some n \<Rightarrow> OnTx n | None \<Rightarrow> OnPool)"

definition pg_begin_transaction :: "tx_ctx \<Rightarrow> ('x, 'cb, tx_ctx) pm" where
  "pg_begin_transaction ctx = try_go begin_tx (\<lambda>n. ret (Some n))"

text \<open>The callbacks that are run are those registered when the loop starts.\<close>

definition pg_commit_transaction :: "('cb \<Rightarrow> ('x, 'cb, unit) pm) \<Rightarrow> tx_ctx \<Rightarrow> ('x, 'cb, unit) pm" where
  "pg_commit_transaction run_callback ctx =
     (case ctx of
        None \<Rightarrow> throw (ErrText ''no transaction in context'')
      | Some n \<Rightarrow>
          try_go (commit_tx n) (\<lambda>_. \<lambda>p.
            for_each (\<lambda>cb. ignore_err (run_callback cb)) (tx_callbacks (pl_txs p ! n)) p))"

definition pg_rollback_transaction :: "tx_ctx \<Rightarrow> ('x, 'cb, unit) pm" where
  "pg_rollback_transaction ctx = (case ctx of None \<Rightarrow> ret () | Some n \<Rightarrow> rollback_tx n)"

definition pg_in_transaction :: "tx_ctx \<Rightarrow> bool" where
  "pg_in_transaction ctx \<longleftrightarrow> ctx \<noteq> None"

definition pg_conn :: "tx_ctx \<Rightarrow> sql_executor" where
  "pg_conn ctx = pg_get_conn ctx"

definition pg_register_post_commit_callback :: "tx_ctx \<Rightarrow> 'cb \<Rightarrow> ('x, 'cb, unit) pm" where
  "pg_register_post_commit_callback ctx cb =
     (case ctx of
        None \<Rightarrow> throw (ErrText ''not in a transaction'')
      | Some n \<Rightarrow> \<lambda>p. (Inr (), p\<lparr>pl_txs := (pl_txs p)[n := (pl_txs p ! n)\<lparr>tx_callbacks := tx_callbacks (pl_txs p ! n) @ [cb]\<rparr>]\<rparr>))"

section \<open>MySQL and SQLite\<close>

text \<open>The methods of mysql.go and sqlite.go are those of postgres.go, line for line.\<close>

definition my_get_conn :: "tx_ctx \<Rightarrow> sql_executor" where
  "my_get_conn = pg_get_conn"

definition my_begin_transaction :: "tx_ctx \<Rightarrow> ('x, 'cb, tx_ctx) pm" where
  "my_begin_transaction = pg_begin_transaction"

definition my_commit_transaction :: "('cb \<Rightarrow> ('x, 'cb, unit) pm) \<Rightarrow> tx_ctx \<Rightarrow> ('x, 'cb, unit) pm" where
  "my_commit_transaction = pg_commit_transaction"

definition my_rollback_transaction :: "tx_ctx \<Rightarrow> ('x, 'cb, unit) pm" where
  "my_rollback_transaction = pg_rollback_transaction"

definition my_in_transaction :: "tx_ctx \<Rightarrow> bool" where
  "my_in_transaction = pg_in_transaction"

definition my_conn :: "tx_ctx \<Rightarrow> sql_executor" where
  "my_conn = my_get_conn"

definition my_register_post_commit_callback :: "tx_ctx \<Rightarrow> 'cb \<Rightarrow> ('x, 'cb, unit) pm" where
  "my_register_post_commit_callback = pg_register_post_commit_callback"

definition sqlite_get_conn :: "tx_ctx \<Rightarrow> sql_executor" where
  "sqlite_get_conn = pg_get_conn"

definition sqlite_in_transaction :: "tx_ctx \<Rightarrow> bool" where
  "sqlite_in_transaction = pg_in_transaction"

definition sqlite_conn :: "tx_ctx \<Rightarrow> sql_executor" where
  "sqlite_conn = sqlite_get_conn"

section \<open>What a transaction manager promises\<close>

text \<open>A transaction that is over stays over, and what is over is not committed again.\<close>

definition tx_over :: "nat \<Rightarrow> ('x, 'cb) sql_pool \<Rightarrow> bool" where
  "tx_over n p \<longleftrightarrow> n < length (pl_txs p) \<and> tx_stage (pl_txs p ! n) \<noteq> TxOpen"

datatype 'cb tm_call = TmBegin tx_ctx | TmCommit tx_ctx | TmRollback tx_ctx | TmRegister tx_ctx 'cb

locale transaction_manager =
  fixes begin_t :: "tx_ctx \<Rightarrow> ('x, 'cb, tx_ctx) pm"
    and commit_t :: "('cb \<Rightarrow> ('x, 'cb, unit) pm) \<Rightarrow> tx_ctx \<Rightarrow> ('x, 'cb, unit) pm"
    and rollback_t :: "tx_ctx \<Rightarrow> ('x, 'cb, unit) pm"
    and register_t :: "tx_ctx \<Rightarrow> 'cb \<Rightarrow> ('x, 'cb, unit) pm"
  assumes begin_keeps: "preserves (tx_over n) (begin_t ctx)"
    and commit_keeps: "(\<And>cb. preserves (tx_over n) (run cb)) \<Longrightarrow> preserves (tx_over n) (commit_t run ctx)"
    and rollback_keeps: "preserves (tx_over n) (rollback_t ctx)"
    and register_keeps: "preserves (tx_over n) (register_t ctx cb)"
    and commit_over: "tx_over n p \<Longrightarrow> commit_t run (Some n) p = (Inl tx_done, p)"
    and commit_ends: "commit_t run (Some n) p = (Inr (), p') \<Longrightarrow> n < length (pl_txs p) \<Longrightarrow>
      (\<And>cb. preserves (tx_over n) (run cb)) \<Longrightarrow> tx_over n p'"
    and register_accepts: "fst (register_t (Some n) cb p) = Inr ()"
begin

fun tm_step :: "('cb \<Rightarrow> ('x, 'cb, unit) pm) \<Rightarrow> 'cb tm_call \<Rightarrow> ('x, 'cb) sql_pool \<Rightarrow> ('x, 'cb) sql_pool" where
  "tm_step run (TmBegin ctx) p = snd (begin_t ctx p)"
| "tm_step run (TmCommit ctx) p = snd (commit_t run ctx p)"
| "tm_step run (TmRollback ctx) p = snd (rollback_t ctx p)"
| "tm_step run (TmRegister ctx cb) p = snd (register_t ctx cb p)"

definition tm_run :: "('cb \<Rightarrow> ('x, 'cb, unit) pm) \<Rightarrow> 'cb tm_call list \<Rightarrow> ('x, 'cb) sql_pool \<Rightarrow> ('x, 'cb) sql_pool" where
  "tm_run run = fold (tm_step run)"

lemma step_over:
  assumes "\<And>cb. preserves (tx_over n) (run cb)" "tx_over n p"
  shows "tx_over n (tm_step run c p)"
  using assms begin_keeps commit_keeps rollback_keeps register_keeps
  by (cases c) (auto intro: preservesD)

lemma run_over:
  assumes "\<And>cb. preserves (tx_over n) (run cb)" "tx_over n p"
  shows "tx_over n (tm_run run cs p)"
  using assms(2) step_over [of n run, OF assms(1)]
  by (induction cs arbitrary: p) (simp_all add: tm_run_def)

text \<open>
  After a commit that succeeded a callback is still accepted, and nothing ever runs it: whatever
  calls follow, the next commit in that context fails and leaves the pool as it is. So no
  callback runs twice either.
\<close>

lemma late_callback_never_runs:
  assumes "\<And>cb. preserves (tx_over n) (run cb)" "n < length (pl_txs p)"
    and "commit_t run (Some n) p = (Inr (), p')"
  shows "fst (register_t (Some n) late p') = Inr ()"
    and "commit_t run (Some n) (tm_run run (TmRegister (Some n) late # cs) p') =
      (Inl tx_done, tm_run run (TmRegister (Some n) late # cs) p')"
  using register_accepts commit_over [OF run_over [OF assms(1) commit_ends [OF assms(3,2,1)]]] by auto

end

lemma over_set_stage [simp]:
  "tx_over n (set_stage m st p) \<longleftrightarrow> (if m = n \<and> n < length (pl_txs p) then st \<noteq> TxOpen else tx_over n p)"
  by (auto simp: tx_over_def set_stage_def nth_list_update)

lemma over_answers [simp]: "tx_over n (snd (server_answers p)) = tx_over n p"
  by (simp add: server_answers_def tx_over_def split: list.split)

lemma answers_txs [simp]: "pl_txs (snd (server_answers p)) = pl_txs p"
  by (simp add: server_answers_def split: list.split)

lemma commit_tx_over: "tx_over n p \<Longrightarrow> commit_tx n p = (Inl tx_done, p)"
  by (simp add: commit_tx_def tx_over_def)

lemma over_commit_tx: "tx_over n p \<Longrightarrow> tx_over n (snd (commit_tx m p))"
  by (cases "server_answers p") (auto simp: commit_tx_def split: sum.splits dest!: arg_cong [of _ _ snd])

lemma over_callbacks:
  "(\<And>cb. preserves (tx_over n) (run cb)) \<Longrightarrow>
   preserves (tx_over n) (\<lambda>p. for_each (\<lambda>cb. ignore_err (run cb)) (cbs p) p)"
  by (rule preservesI)
    (metis preservesD preserves_for_each preserves_ignore)

lemma keeps_over_begin: "preserves (tx_over n) begin_tx"
  unfolding begin_tx_def
  by (intro preserves_try preservesI) (auto simp: tx_over_def nth_append)

lemma keeps_over_commit:
  assumes "\<And>cb. preserves (tx_over n) (run cb)"
  shows "preserves (tx_over n) (pg_commit_transaction run ctx)"
  unfolding pg_commit_transaction_def
  by (intro keeps over_callbacks assms preservesI [of "tx_over n" "commit_tx x" for x] over_commit_tx)

lemma keeps_over_rollback: "preserves (tx_over n) (pg_rollback_transaction ctx)"
proof -
  have "tx_over n (snd (rollback_tx m p))" if "tx_over n p" for m p
    using that over_answers [of n p]
    by (cases "server_answers p") (simp add: rollback_tx_def)
  then show ?thesis
    unfolding pg_rollback_transaction_def by (auto split: option.split simp: preserves_def)
qed

lemma keeps_over_register: "preserves (tx_over n) (pg_register_post_commit_callback ctx cb)"
proof (cases ctx)
  case (Some m)
  show ?thesis
    unfolding pg_register_post_commit_callback_def Some option.case
    by (rule preservesI) (cases "m = n"; simp add: tx_over_def)
qed (auto simp: pg_register_post_commit_callback_def intro: keeps)

lemma commit_tx_ends: "commit_tx n p = (Inr (), p') \<Longrightarrow> n < length (pl_txs p) \<Longrightarrow> tx_over n p'"
  using answers_txs [of p]
  by (cases "server_answers p") (auto simp: commit_tx_def split: if_splits sum.splits)

lemma pg_commit_ends:
  assumes "pg_commit_transaction run (Some n) p = (Inr (), p')" "n < length (pl_txs p)"
    and "\<And>cb. preserves (tx_over n) (run cb)"
  shows "tx_over n p'"
proof (cases "commit_tx n p")
  case (Pair r q)
  with assms(1) have r: "r = Inr ()"
    by (cases r) (simp_all add: pg_commit_transaction_def)
  with Pair assms(1) have "p' = snd (for_each (\<lambda>cb. ignore_err (run cb)) (tx_callbacks (pl_txs q ! n)) q)"
    by (simp add: pg_commit_transaction_def)
  moreover have "tx_over n q" using commit_tx_ends Pair r assms(2) by blast
  ultimately show ?thesis
    using over_callbacks [where run = run and n = n and cbs = "\<lambda>_. tx_callbacks (pl_txs q ! n)", OF assms(3)] by (auto dest: preservesD)
qed

interpretation pg_transactions: transaction_manager pg_begin_transaction pg_commit_transaction
  pg_rollback_transaction pg_register_post_commit_callback
proof (unfold_locales, goal_cases)
  case (1 n ctx)
  show ?case unfolding pg_begin_transaction_def by (intro keeps keeps_over_begin)
next
  case 2
  then show ?case by (rule keeps_over_commit)
next
  case 3
  show ?case by (rule keeps_over_rollback)
next
  case 4
  show ?case by (rule keeps_over_register)
next
  case (5 n p run)
  then show ?case by (simp add: pg_commit_transaction_def commit_tx_over)
next
  case 6
  then show ?case by (rule pg_commit_ends)
next
  case 7
  show ?case by (simp add: pg_register_post_commit_callback_def)
qed

interpretation my_transactions: transaction_manager my_begin_transaction my_commit_transaction
  my_rollback_transaction my_register_post_commit_callback
  unfolding my_begin_transaction_def my_commit_transaction_def my_rollback_transaction_def
    my_register_post_commit_callback_def
  by (rule pg_transactions.transaction_manager_axioms)

section \<open>What the connection strings say\<close>

lemma contains_split: "contains s p \<Longrightarrow> \<exists>a b. s = a @ p @ b"
proof (induction s p rule: contains.induct)
  case (3 c cs d ds)
  then show ?case
    by (metis append_Cons append_Nil append_take_drop_id contains.simps(3))
qed (auto intro: exI [of _ "[]"])

lemma contains_snoc: "contains s p \<Longrightarrow> contains (s @ t) p"
  using contains_split [of s p] contains_infix by fastforce

text \<open>A data source name always sets the three parameters the storage relies on.\<close>

lemma dsn_parameters:
  assumes "\<not> has_prefix ''mysql://'' s" "convert_to_mysql_dsn url_parse s = Inr dsn"
  shows "contains dsn ''parseTime='' \<and> contains dsn ''loc='' \<and> contains dsn ''multiStatements=''"
proof -
  have set: "contains (if \<not> contains t k then t @ u else t) k" if "contains u k" for t k u
    using that by (simp add: contains_append)
  have keep: "contains (if b then t @ u else t) k" if "contains t k" for b t u k
    using that by (simp add: contains_snoc)
  have given: "contains (''&'' @ k @ v) k" "contains (''?'' @ k @ v) k" for k v
    by (rule contains_infix)+
  let ?s1 = "if \<not> contains s ''parseTime='' then (if contains s ''?'' then s @ ''&parseTime=true'' else s @ ''?parseTime=true'') else s"
  let ?s2 = "if \<not> contains ?s1 ''loc='' then ?s1 @ ''&loc=UTC'' else ?s1"
  let ?s3 = "if \<not> contains ?s2 ''multiStatements='' then ?s2 @ ''&multiStatements=true'' else ?s2"
  have time: "contains ?s1 ''parseTime=''"
    using set [of "''&parseTime=true''" "''parseTime=''" s] set [of "''?parseTime=true''" "''parseTime=''" s]
      given [of "''parseTime=''" "''true''"] by (simp add: contains_append del: contains.simps)
  have loc: "contains ?s2 ''loc=''"
    by (rule set) (use given(1) [of "''loc=''" "''UTC''"] in simp)
  have multi: "contains ?s3 ''multiStatements=''"
    by (rule set) (use given(1) [of "''multiStatements=''" "''true''"] in simp)
  have "contains ?s3 ''parseTime=''" by (rule keep, rule keep, rule time)
  moreover have "contains ?s3 ''loc=''" by (rule keep, rule loc)
  moreover have "dsn = ?s3"
    using assms(2) unfolding convert_to_mysql_dsn_def Let_def if_P [OF assms(1)] sum.inject by (rule sym)
  ultimately show ?thesis using multi by (simp only:)
qed

text \<open>
  The SQLite driver takes what follows the first question mark for the parameters. A path that
  has one already, as in \<open>file:a.db?mode=ro\<close>, gets a second one, which does not start the
  parameters: the first pragma becomes part of the value before it.
\<close>

definition conn_query :: "string \<Rightarrow> string" where
  "conn_query s = drop 1 (dropWhile (\<lambda>c. c \<noteq> CHR ''?'') s)"

lemma conn_query_split: "CHR ''?'' \<notin> set a \<Longrightarrow> conn_query (a @ CHR ''?'' # q) = q"
  by (induction a) (auto simp: conn_query_def)

lemma sqlite_parameters:
  "CHR ''?'' \<notin> set path \<Longrightarrow> path \<noteq> '':memory:'' \<Longrightarrow> conn_query (sqlite_conn_str path) = sqlite_pragmas"
  "conn_query (sqlite_conn_str '':memory:'') = ''cache=shared&'' @ sqlite_pragmas"
  using conn_query_split [of path sqlite_pragmas]
    conn_query_split [of "''file::memory:''" "''cache=shared&'' @ sqlite_pragmas"]
  by (simp_all add: sqlite_conn_str_def)

lemma second_question_mark:
  assumes "CHR ''?'' \<notin> set a"
  shows "conn_query (sqlite_conn_str (a @ CHR ''?'' # q)) = q @ ''?'' @ sqlite_pragmas"
proof -
  have "a @ CHR ''?'' # q \<noteq> '':memory:''"
  proof
    assume eq: "a @ CHR ''?'' # q = '':memory:''"
    have "CHR ''?'' \<in> set (a @ CHR ''?'' # q)" by simp
    then show False unfolding eq by simp
  qed
  then have "sqlite_conn_str (a @ CHR ''?'' # q) = a @ CHR ''?'' # q @ ''?'' @ sqlite_pragmas"
    by (simp add: sqlite_conn_str_def)
  then show ?thesis by (simp only: conn_query_split [OF assms])
qed

end
