(* ===== verification/Workflow_Context.thy ===== *)
theory Workflow_Context
  imports Connections Replay_Engine
begin

text \<open>
  context.go: the WorkflowContext as an object. A run of the engine has one context, whose state
  Replay_Engine puts into \<open>exec\<close>; here contexts are many, made by the two constructors and by
  WithContext, and what they share is visible. Contexts, Go maps, cancellations and execution
  contexts are objects of a heap, named by their place in it; a nil pointer or map is \<open>None\<close>. A
  \<open>context.Context\<close> is the chain of its values: the transaction, the workflow's context, a
  cancellation; deadlines are left out.
\<close>

section \<open>Contexts and the heap\<close>

datatype go_context = Background | WithTx nat go_context | WithWorkflow nat go_context | WithCancel nat go_context

text \<open>\<open>Value\<close> finds the innermost value of a key.\<close>

fun value_tx :: "go_context \<Rightarrow> tx_ctx" where
  "value_tx Background = None"
| "value_tx (WithTx n c) = Some n"
| "value_tx (WithWorkflow a c) = value_tx c"
| "value_tx (WithCancel k c) = value_tx c"

fun value_workflow :: "go_context \<Rightarrow> nat option" where
  "value_workflow Background = None"
| "value_workflow (WithTx n c) = value_workflow c"
| "value_workflow (WithWorkflow a c) = Some a"
| "value_workflow (WithCancel k c) = value_workflow c"

fun cancel_scopes :: "go_context \<Rightarrow> nat list" where
  "cancel_scopes Background = []"
| "cancel_scopes (WithTx n c) = cancel_scopes c"
| "cancel_scopes (WithWorkflow a c) = cancel_scopes c"
| "cancel_scopes (WithCancel k c) = k # cancel_scopes c"

record workflow_context =
  wc_ctx :: go_context
  wc_cancel :: nat
  wc_instance :: string
  wc_worker :: string
  wc_workflow :: string
  wc_replaying :: bool
  wc_cache :: "nat option"
  wc_counts :: nat
  wc_exec :: "nat option"
  wc_app :: "nat option"
  wc_direct :: "nat option"

record 'x ctx_heap =
  hp_contexts :: "workflow_context list"
  hp_caches :: "(string \<Rightarrow> (go_error + gov) option) list"
  hp_counts :: "(string \<Rightarrow> nat) list"
  hp_direct :: "string list list"
  hp_cancelled :: "bool list"
  hp_execs :: "'x exec list"

type_synonym ('x, 'a) cm = "('x ctx_heap, go_error, 'a) go"

definition the_ctx :: "nat \<Rightarrow> 'x ctx_heap \<Rightarrow> workflow_context" where
  "the_ctx a h = hp_contexts h ! a"

definition set_ctx :: "nat \<Rightarrow> workflow_context \<Rightarrow> 'x ctx_heap \<Rightarrow> 'x ctx_heap" where
  "set_ctx a c h = h\<lparr>hp_contexts := (hp_contexts h)[a := c]\<rparr>"

definition new_ctx :: "workflow_context \<Rightarrow> 'x ctx_heap \<Rightarrow> nat \<times> 'x ctx_heap" where
  "new_ctx c h = (length (hp_contexts h), h\<lparr>hp_contexts := hp_contexts h @ [c]\<rparr>)"

definition with_cancel :: "go_context \<Rightarrow> 'x ctx_heap \<Rightarrow> (go_context \<times> nat) \<times> 'x ctx_heap" where
  "with_cancel c h =
     (let k = length (hp_cancelled h) in ((WithCancel k c, k), h\<lparr>hp_cancelled := hp_cancelled h @ [False]\<rparr>))"

definition new_counts :: "'x ctx_heap \<Rightarrow> nat \<times> 'x ctx_heap" where
  "new_counts h = (length (hp_counts h), h\<lparr>hp_counts := hp_counts h @ [\<lambda>_. 0]\<rparr>)"

text \<open>A method of the execution context, on the execution it stands for.\<close>

definition on_exec :: "nat \<Rightarrow> ('x, 'a) em \<Rightarrow> ('x, 'a) cm" where
  "on_exec e m h = (case m (hp_execs h ! e) of (r, s) \<Rightarrow> (r, h\<lparr>hp_execs := (hp_execs h)[e := s]\<rparr>))"

section \<open>Constructors\<close>

definition context_with_workflow_context :: "go_context \<Rightarrow> nat \<Rightarrow> go_context" where
  "context_with_workflow_context c a = WithWorkflow a c"

definition get_workflow_context :: "go_context \<Rightarrow> nat option" where
  "get_workflow_context c = value_workflow c"

definition new_workflow_context ::
    "go_context \<Rightarrow> string \<Rightarrow> string \<Rightarrow> string \<Rightarrow> nat option \<Rightarrow> bool \<Rightarrow> 'x ctx_heap \<Rightarrow> nat \<times> 'x ctx_heap" where
  "new_workflow_context ctx i worker name cache replaying h =
     (case with_cancel ctx h of ((ctx, k), h) \<Rightarrow> case new_counts h of (n, h) \<Rightarrow>
        new_ctx \<lparr>wc_ctx = ctx, wc_cancel = k, wc_instance = i, wc_worker = worker, wc_workflow = name,
          wc_replaying = replaying, wc_cache = cache, wc_counts = n, wc_exec = None, wc_app = None,
          wc_direct = None\<rparr> h)"

text \<open>\<open>exec_ctx\<close> is the context the execution was made with.\<close>

definition new_context_from_execution :: "go_context \<Rightarrow> nat \<Rightarrow> 'x ctx_heap \<Rightarrow> nat \<times> 'x ctx_heap" where
  "new_context_from_execution exec_ctx e h =
     (case with_cancel exec_ctx h of ((ctx, k), h) \<Rightarrow> case new_counts h of (n, h) \<Rightarrow>
        new_ctx \<lparr>wc_ctx = ctx, wc_cancel = k, wc_instance = ex_instance (hp_execs h ! e), wc_worker = '''',
          wc_workflow = '''', wc_replaying = ex_replaying (hp_execs h ! e), wc_cache = None, wc_counts = n,
          wc_exec = Some e, wc_app = None, wc_direct = None\<rparr> h)"

definition with_context :: "go_context \<Rightarrow> nat \<Rightarrow> 'x ctx_heap \<Rightarrow> nat \<times> 'x ctx_heap" where
  "with_context ctx a h =
     new_ctx \<lparr>wc_ctx = ctx, wc_cancel = wc_cancel (the_ctx a h), wc_instance = wc_instance (the_ctx a h),
       wc_worker = wc_worker (the_ctx a h), wc_workflow = wc_workflow (the_ctx a h),
       wc_replaying = wc_replaying (the_ctx a h), wc_cache = wc_cache (the_ctx a h),
       wc_counts = wc_counts (the_ctx a h), wc_exec = wc_exec (the_ctx a h), wc_app = None,
       wc_direct = wc_direct (the_ctx a h)\<rparr> h"

section \<open>Methods\<close>

definition wc_generate_activity_id :: "nat \<Rightarrow> string \<Rightarrow> ('x, string) cm" where
  "wc_generate_activity_id a name h =
     (let m = wc_counts (the_ctx a h); counts = hp_counts h ! m; n = Suc (counts name)
      in (Inr (name @ CHR '':'' # show_nat n), h\<lparr>hp_counts := (hp_counts h)[m := counts(name := n)]\<rparr>))"

definition wc_get_cached_result :: "nat \<Rightarrow> string \<Rightarrow> ('x, (go_error + gov) option) cm" where
  "wc_get_cached_result a act h =
     (case wc_exec (the_ctx a h) of
        Some e \<Rightarrow> on_exec e (get_cached_result act) h
      | None \<Rightarrow>
          (case wc_cache (the_ctx a h) of
             None \<Rightarrow> (Inr None, h)
           | Some m \<Rightarrow> (Inr ((hp_caches h ! m) act), h)))"

definition wc_get_cached_result_raw :: "nat \<Rightarrow> string \<Rightarrow> ('x, bytes option) cm" where
  "wc_get_cached_result_raw a act h =
     (case wc_exec (the_ctx a h) of
        Some e \<Rightarrow> on_exec e (get_cached_result_raw act) h
      | None \<Rightarrow> (Inr None, h))"

definition wc_set_cached_result :: "nat \<Rightarrow> string \<Rightarrow> go_error + gov \<Rightarrow> ('x, unit) cm" where
  "wc_set_cached_result a act r h =
     (case wc_exec (the_ctx a h) of
        Some e \<Rightarrow> on_exec e (set_cached_result act r) h
      | None \<Rightarrow>
          let h = (if wc_cache (the_ctx a h) = None
                   then set_ctx a ((the_ctx a h)\<lparr>wc_cache := Some (length (hp_caches h))\<rparr>)
                     (h\<lparr>hp_caches := hp_caches h @ [\<lambda>_. None]\<rparr>)
                   else h);
              m = the (wc_cache (the_ctx a h))
          in (Inr (), h\<lparr>hp_caches := (hp_caches h)[m := (hp_caches h ! m)(act \<mapsto> r)]\<rparr>))"

text \<open>The result is recorded in the transaction that the context carries, if it carries one.\<close>

definition record_in :: "bool \<Rightarrow> string \<Rightarrow> go_error + gov \<Rightarrow> ('x, unit) em" where
  "record_in in_tx act r s =
     on_world (record_activity_result in_tx (ex_instance s) act r) (s\<lparr>ex_new := Suc (ex_new s)\<rparr>)"

definition wc_record_activity_result :: "nat \<Rightarrow> string \<Rightarrow> go_error + gov \<Rightarrow> ('x, unit) cm" where
  "wc_record_activity_result a act r h =
     (case wc_exec (the_ctx a h) of
        None \<Rightarrow> wc_set_cached_result a act r h
      | Some e \<Rightarrow>
          try_go (on_exec e (record_in (value_tx (wc_ctx (the_ctx a h)) \<noteq> None) act r))
            (\<lambda>_. wc_set_cached_result a act r) h)"

text \<open>\<open>RecordActivityID\<close> reaches a method of the execution context whose body is empty.\<close>

definition wc_record_activity_id :: "nat \<Rightarrow> string \<Rightarrow> ('x, unit) cm" where
  "wc_record_activity_id a act = ret ()"

definition wc_do_cancel :: "nat \<Rightarrow> ('x, unit) cm" where
  "wc_do_cancel a h = (Inr (), h\<lparr>hp_cancelled := (hp_cancelled h)[wc_cancel (the_ctx a h) := True]\<rparr>)"

definition wc_err :: "nat \<Rightarrow> 'x ctx_heap \<Rightarrow> go_error option" where
  "wc_err a h =
     (if \<exists>k \<in> set (cancel_scopes (wc_ctx (the_ctx a h))). hp_cancelled h ! k
      then Some (ErrText ''context canceled'') else None)"

text \<open>\<open>None\<close> is the nil interface: a context without an engine has no storage, session or hooks.\<close>

definition wc_storage :: "nat \<Rightarrow> 'x ctx_heap \<Rightarrow> nat option" where
  "wc_storage a h = wc_exec (the_ctx a h)"

definition wc_session :: "nat \<Rightarrow> 'x ctx_heap \<Rightarrow> sql_executor option" where
  "wc_session a h = (case wc_storage a h of None \<Rightarrow> None | Some s \<Rightarrow> Some (sqlite_conn (value_tx (wc_ctx (the_ctx a h)))))"

definition wc_hooks :: "nat \<Rightarrow> 'x ctx_heap \<Rightarrow> nat option" where
  "wc_hooks a h = wc_exec (the_ctx a h)"

definition wc_set_app :: "nat \<Rightarrow> nat option \<Rightarrow> ('x, unit) cm" where
  "wc_set_app a ap h = (Inr (), set_ctx a ((the_ctx a h)\<lparr>wc_app := ap\<rparr>) h)"

definition wc_record_direct_subscription :: "nat \<Rightarrow> string \<Rightarrow> ('x, unit) cm" where
  "wc_record_direct_subscription a ch h =
     (let h = (if wc_direct (the_ctx a h) = None
               then set_ctx a ((the_ctx a h)\<lparr>wc_direct := Some (length (hp_direct h))\<rparr>)
                 (h\<lparr>hp_direct := hp_direct h @ [[]]\<rparr>)
               else h);
          m = the (wc_direct (the_ctx a h))
      in (Inr (), h\<lparr>hp_direct := (hp_direct h)[m := ch # (hp_direct h ! m)]\<rparr>))"

definition wc_is_direct_subscription :: "nat \<Rightarrow> string \<Rightarrow> 'x ctx_heap \<Rightarrow> bool" where
  "wc_is_direct_subscription a ch h =
     (case wc_direct (the_ctx a h) of None \<Rightarrow> False | Some m \<Rightarrow> ch \<in> set (hp_direct h ! m))"

section \<open>What copies share\<close>

lemma with_context_effect:
  assumes "with_context c a h = (b, h')"
  shows "the_ctx b h' = (the_ctx a h)\<lparr>wc_ctx := c, wc_app := None\<rparr>" "b = length (hp_contexts h)"
    "length (hp_contexts h') = Suc b" "a < length (hp_contexts h) \<Longrightarrow> the_ctx a h' = the_ctx a h"
  using assms by (auto simp: with_context_def new_ctx_def the_ctx_def nth_append)

lemma set_ctx_simps [simp]:
  "a < length (hp_contexts h) \<Longrightarrow> the_ctx a (set_ctx a c h) = c"
  "a \<noteq> b \<Longrightarrow> the_ctx a (set_ctx b c h) = the_ctx a h"
  "hp_direct (set_ctx b c h) = hp_direct h"
  "hp_caches (set_ctx b c h) = hp_caches h"
  by (simp_all add: set_ctx_def the_ctx_def)

text \<open>An activity that runs in a transaction finds it in its context: its session is the transaction.\<close>

lemma session_in_transaction:
  assumes "with_context (WithTx n c) a h = (b, h')" "wc_exec (the_ctx a h) \<noteq> None"
  shows "get_workflow_context (context_with_workflow_context (wc_ctx (the_ctx b h')) b) = Some b"
    and "wc_session b h' = Some (OnTx n)"
  using assms(2) with_context_effect(1) [OF assms(1)]
  by (auto simp: get_workflow_context_def context_with_workflow_context_def wc_session_def
      wc_storage_def sqlite_conn_def sqlite_get_conn_def pg_get_conn_def)

text \<open>A copy counts calls together with its original, so that the ids of the two never collide.\<close>

lemma copy_counts_together:
  assumes "with_context c a h = (b, h')" "a < length (hp_contexts h)"
  shows "wc_generate_activity_id b name h' = wc_generate_activity_id a name h'"
  using with_context_effect(1,4) [OF assms(1)] assms(2) by (simp add: wc_generate_activity_id_def)

text \<open>
  A map that is nil when the copy is made is not shared: a direct subscription that an activity
  in a transaction makes, or the first one of the context, is not seen by the workflow.
\<close>

lemma copy_forgets_direct_subscription:
  assumes "with_context c a h = (b, h1)" "a < length (hp_contexts h)" "wc_direct (the_ctx a h) = None"
    and "wc_record_direct_subscription b ch h1 = (r, h2)"
  shows "wc_is_direct_subscription b ch h2" "\<not> wc_is_direct_subscription a ch h2"
proof -
  let ?c = "(the_ctx b h1)\<lparr>wc_direct := Some (length (hp_direct h1))\<rparr>"
  have b: "b \<noteq> a" "b < length (hp_contexts h1)" "the_ctx a h1 = the_ctx a h" "wc_direct (the_ctx b h1) = None"
    using with_context_effect [OF assms(1)] assms(2,3) by auto
  have same: "the_ctx x (h\<lparr>hp_direct := d\<rparr>) = the_ctx x h" for x d and h :: "'a ctx_heap"
    by (simp add: the_ctx_def)
  have h2: "h2 = (let h = set_ctx b ?c (h1\<lparr>hp_direct := hp_direct h1 @ [[]]\<rparr>)
      in h\<lparr>hp_direct := (hp_direct h)[length (hp_direct h1) := [ch]]\<rparr>)"
    using assms(4) b by (auto simp: wc_record_direct_subscription_def Let_def same set_ctx_def the_ctx_def)
  have "the_ctx b h2 = ?c" "the_ctx a h2 = the_ctx a h"
    using b by (simp_all add: h2 Let_def same set_ctx_def) (simp_all add: the_ctx_def)
  then show "wc_is_direct_subscription b ch h2" "\<not> wc_is_direct_subscription a ch h2"
    using assms(3) by (simp_all add: wc_is_direct_subscription_def) (simp add: h2 Let_def set_ctx_def)
qed

text \<open>Without an engine, a cached result is read back from the local map.\<close>

lemma local_cache_reads_back:
  assumes "wc_exec (the_ctx a h) = None" "a < length (hp_contexts h)"
    and "\<And>m. wc_cache (the_ctx a h) = Some m \<Longrightarrow> m < length (hp_caches h)"
  shows "fst (wc_get_cached_result a act (snd (wc_set_cached_result a act r h))) = Inr (Some r)"
  using assms
  by (cases "wc_cache (the_ctx a h)")
    (auto simp: wc_get_cached_result_def wc_set_cached_result_def Let_def the_ctx_def set_ctx_def)

section \<open>The identity of a workflow's worker\<close>

text \<open>
  The engine's contexts carry no worker id, so a workflow that publishes locks a subscriber's
  instance as the worker with the empty name. Two processes that publish at the same time
  both get the lock, the second while the first still holds it.
\<close>

lemma engine_context_has_no_worker:
  "new_context_from_execution c e h = (a, h') \<Longrightarrow> wc_worker (the_ctx a h') = ''''"
  by (auto simp: new_context_from_execution_def new_ctx_def the_ctx_def split: prod.splits)

lemma publishers_share_the_lock:
  assumes "instance_lock_live i d" "instance_holder i d = None"
  shows "\<exists>d'. try_acquire_lock i (ex_worker (new_exec w j events)) timeout d = (Inr True, d')
    \<and> fst (try_acquire_lock i (ex_worker (new_exec w' j' events')) timeout' d') = Inr True"
proof -
  have nobody: "ex_worker (new_exec w j events) = ''''" for w :: "'x world" and j events
    by (simp add: new_exec_def)
  obtain d' where first: "try_acquire_lock i '''' timeout d = (Inr True, d')"
    and held: "\<exists>e. instance_holder i d' = Some ('''', e)" and live: "instance_lock_live i d'"
    using instance_lock.acquire_granted [OF assms(1), of "''''" timeout] assms(2) by auto
  have "fst (try_acquire_lock i '''' timeout' d') = Inr True"
    using instance_lock.acquire_granted [OF live, of "''''" timeout'] held by auto
  with first show ?thesis by (simp add: nobody)
qed

end
