(* ===== verification/Relay_Service.thy ===== *)
theory Relay_Service
  imports Outbox_Relay Notifications
begin

text \<open>
  The goroutines of outbox/relayer.go and internal/notify/listener.go: starting and stopping
  them, and the relayer's default sender, for which the CloudEvents client is an argument. Then
  the context that outbox/transactional.go makes of a workflow's, and the error type of
  compensation/executor.go.
\<close>

section \<open>The relayer's goroutine\<close>

text \<open>
  \<open>rs_closed\<close>: the stop channel that the relayer holds now is closed. The loops read that field
  when they begin to wait or look at it. \<open>rs_loops\<close> counts the goroutines that have not returned,
  \<open>rs_old\<close> those of them that were started before the last Start, and \<open>rs_waiting\<close> the calls of Stop
  that wait for them.
\<close>

record relay_state =
  rs_running :: bool
  rs_closed :: bool
  rs_loops :: nat
  rs_old :: nat
  rs_waiting :: nat

definition relay_idle :: relay_state where
  "relay_idle = \<lparr>rs_running = False, rs_closed = False, rs_loops = 0, rs_old = 0, rs_waiting = 0\<rparr>"

definition relayer_start :: "relay_state \<Rightarrow> relay_state" where
  "relayer_start s =
     (if rs_running s then s
      else s\<lparr>rs_running := True, rs_closed := False, rs_loops := Suc (rs_loops s), rs_old := rs_loops s\<rparr>)"

text \<open>Stop up to the wait, and whether it has to wait.\<close>

definition relayer_stop :: "relay_state \<Rightarrow> bool \<times> relay_state" where
  "relayer_stop s =
     (if \<not> rs_running s then (False, s)
      else (True, s\<lparr>rs_running := False, rs_closed := True, rs_waiting := Suc (rs_waiting s)\<rparr>))"

text \<open>
  What can happen: the calls, a loop that finds the stop channel closed or its context at an
  end, an old loop that still waits at the channel that was closed before, and a Stop whose wait
  is over.
\<close>

inductive relay_step :: "relay_state \<Rightarrow> relay_state \<Rightarrow> bool" where
  start: "relay_step s (relayer_start s)"
| stop: "relay_step s (snd (relayer_stop s))"
| loop_stops: "rs_closed s \<Longrightarrow> rs_loops s = Suc n \<Longrightarrow> relay_step s (s\<lparr>rs_loops := n, rs_old := min n (rs_old s)\<rparr>)"
| old_loop_stops: "rs_old s = Suc n \<Longrightarrow> rs_loops s = Suc m \<Longrightarrow> relay_step s (s\<lparr>rs_loops := m, rs_old := n\<rparr>)"
| context_ends: "rs_loops s = Suc n \<Longrightarrow> relay_step s (s\<lparr>rs_loops := n, rs_old := min n (rs_old s)\<rparr>)"
| waited: "rs_loops s = 0 \<Longrightarrow> rs_waiting s = Suc n \<Longrightarrow> relay_step s (s\<lparr>rs_waiting := n\<rparr>)"

text \<open>A relayer whose calls come one after the other runs one loop at most.\<close>

definition relay_ok :: "relay_state \<Rightarrow> bool" where
  "relay_ok s \<longleftrightarrow> rs_loops s \<le> 1 \<and> (rs_running s \<longrightarrow> \<not> rs_closed s) \<and>
     (\<not> rs_running s \<and> rs_waiting s = 0 \<longrightarrow> rs_loops s = 0)"

lemma one_loop_step:
  assumes "relay_step s t" "relay_ok s" "rs_waiting s = 0 \<or> t \<noteq> relayer_start s"
  shows "relay_ok t"
  using assms
  by (induction rule: relay_step.induct)
    (auto simp: relay_ok_def relayer_start_def relayer_stop_def)

inductive calls_in_turn :: "relay_state \<Rightarrow> bool" where
  idle: "calls_in_turn relay_idle"
| step: "calls_in_turn s \<Longrightarrow> relay_step s t \<Longrightarrow> rs_waiting s = 0 \<or> t \<noteq> relayer_start s \<Longrightarrow> calls_in_turn t"

lemma one_loop: "calls_in_turn s \<Longrightarrow> relay_ok s"
proof (induction rule: calls_in_turn.induct)
  case idle
  show ?case by (simp add: relay_idle_def relay_ok_def)
next
  case (step s t)
  show ?case by (rule one_loop_step [OF step(2,4,3)])
qed

text \<open>
  Stop gives up its lock before it waits. A Start in between makes a new stop channel; the old
  loop, if it was at work and not waiting, sees that one, and two loops poll the outbox.
\<close>

lemma restart_while_stopping:
  "relay_step\<^sup>*\<^sup>* relay_idle \<lparr>rs_running = True, rs_closed = False, rs_loops = 2, rs_old = 1, rs_waiting = 1\<rparr>"
proof -
  let ?s1 = "relayer_start relay_idle"
  let ?s2 = "snd (relayer_stop ?s1)"
  have "relay_step\<^sup>*\<^sup>* relay_idle (relayer_start ?s2)"
    by (meson relay_step.start relay_step.stop rtranclp.rtrancl_into_rtrancl rtranclp.rtrancl_refl)
  moreover have "relayer_start ?s2 = \<lparr>rs_running = True, rs_closed = False, rs_loops = 2, rs_old = 1, rs_waiting = 1\<rparr>"
    by (simp add: relay_idle_def relayer_start_def relayer_stop_def numeral_2_eq_2)
  ultimately show ?thesis by simp
qed

text \<open>A loop that its context has ended leaves \<open>running\<close> set, and Start does nothing then.\<close>

lemma start_after_context_ended:
  assumes "rs_running s" "rs_loops s = Suc 0"
  shows "\<exists>t. relay_step s t \<and> rs_loops t = 0 \<and> relayer_start t = t"
  using assms relay_step.context_ends [of s 0] by (intro exI [of _ "s\<lparr>rs_loops := 0, rs_old := 0\<rparr>"]) (simp add: relayer_start_def)

definition relay_once :: "'x relayer \<Rightarrow> (nat \<Rightarrow> bool) \<Rightarrow> ('x, nat) wm" where
  "relay_once r stopped = process_pending_events r stopped"

section \<open>The default sender\<close>

record outgoing_event =
  oe_id :: string
  oe_type :: string
  oe_source :: string
  oe_time :: int
  oe_content_type :: string
  oe_data :: json

datatype send_result = Acknowledged | NotAcknowledged go_error | Undelivered go_error

text \<open>
  \<open>set_data\<close> and \<open>new_client\<close> are the errors of the SDK's calls; \<open>deliver\<close> is \<open>client.Send\<close> to the target.
\<close>

definition default_sender ::
    "(string \<Rightarrow> json \<Rightarrow> go_error option) \<Rightarrow> (string \<Rightarrow> go_error option) \<Rightarrow>
     (string \<Rightarrow> outgoing_event \<Rightarrow> 'x world \<Rightarrow> send_result \<times> 'x world) \<Rightarrow> string \<Rightarrow> outbox_event \<Rightarrow> ('x, unit) wm" where
  "default_sender set_data new_client deliver target ev w =
     (if target = '''' then (Inl (ErrText ''target URL not configured''), w)
      else case ob_data ev of
        BJson j \<Rightarrow>
          (case set_data (ob_content_type ev) (f64_json j) of
             Some e \<Rightarrow> (Inl (wrapf ''failed to set event data'' e), w)
           | None \<Rightarrow>
               (case new_client target of
                  Some e \<Rightarrow> (Inl (wrapf ''failed to create CloudEvents client'' e), w)
                | None \<Rightarrow>
                    (case deliver target \<lparr>oe_id = ob_id ev, oe_type = ob_type ev, oe_source = ob_source ev,
                          oe_time = ob_created ev, oe_content_type = ob_content_type ev, oe_data = f64_json j\<rparr> w of
                       (Undelivered e, w) \<Rightarrow> (Inl (wrapf ''failed to send event'' e), w)
                     | (NotAcknowledged e, w) \<Rightarrow> (Inl (wrapf ''event not acknowledged'' e), w)
                     | (Acknowledged, w) \<Rightarrow> (Inr (), w))))
      | _ \<Rightarrow> (Inl (wrapf ''failed to parse event data'' (ErrText ''invalid JSON'')), w))"

text \<open>
  Without a target nothing is sent and every event of a poll uses up an attempt; with an SDK
  that acknowledges, what is sent is the stored document, for numbers that a float64 holds.
\<close>

lemma no_target_fails: "fst (default_sender sd nc deliver '''' ev w) = Inl (ErrText ''target URL not configured'')"
  by (simp add: default_sender_def)

lemma sent_as_stored:
  assumes "target \<noteq> ''''" "ob_data ev = BJson j" "json_exact j"
    and "set_data (ob_content_type ev) j = None" "new_client target = None"
    and "deliver target \<lparr>oe_id = ob_id ev, oe_type = ob_type ev, oe_source = ob_source ev,
        oe_time = ob_created ev, oe_content_type = ob_content_type ev, oe_data = j\<rparr> w = (Acknowledged, w')"
  shows "default_sender set_data new_client deliver target ev w = (Inr (), w')"
  using assms by (simp add: default_sender_def f64_json_exact)

lemma big_numbers_change:
  assumes "target \<noteq> ''''" "ob_data ev = BJson (JNum (2 ^ 53 + 1))"
    and "set_data (ob_content_type ev) (JNum (2 ^ 53)) = None" "new_client target = None"
  shows "default_sender set_data new_client deliver target ev w =
    default_sender set_data new_client deliver target (ev\<lparr>ob_data := BJson (JNum (2 ^ 53))\<rparr>) w"
proof -
  have "f64_json (JNum (2 ^ 53 + 1)) = JNum (2 ^ 53)" "f64_json (JNum (2 ^ 53)) = JNum (2 ^ 53)"
    using f64_of_int_collision f64_of_int_exact [of "2 ^ 53"] by simp_all
  with assms show ?thesis by (simp only: default_sender_def bytes.case) simp
qed

section \<open>The listener's goroutine\<close>

record 'h listener_run =
  lr_listener :: "'h listener"
  lr_cancel :: "bool option"
  lr_loops :: nat

definition with_reconnect_delay :: "time \<Rightarrow> 'h listener \<Rightarrow> 'h listener" where
  "with_reconnect_delay d l = l\<lparr>ln_delay := d\<rparr>"

text \<open>\<open>lr_cancel\<close> is the cancellation of the last Start, \<open>None\<close> before the first.\<close>

definition listener_start :: "'h listener_run \<Rightarrow> 'h listener_run" where
  "listener_start s = s\<lparr>lr_cancel := Some False, lr_loops := Suc (lr_loops s)\<rparr>"

text \<open>\<open>ended\<close>: the loops that return before the context of Stop ends; that context's error is \<open>late\<close>.\<close>

definition listener_stop :: "nat \<Rightarrow> go_error \<Rightarrow> 'h listener_run \<Rightarrow> go_error option \<times> 'h listener_run" where
  "listener_stop ended late s =
     (let s = (if lr_cancel s \<noteq> None then s\<lparr>lr_cancel := Some True\<rparr> else s);
          s = s\<lparr>lr_loops := lr_loops s - ended\<rparr>
      in (if lr_loops s = 0 then None else Some late, s))"

definition is_active :: "'h listener \<Rightarrow> bool" where
  "is_active l = ln_active l"

definition last_error :: "'h listener \<Rightarrow> go_error option" where
  "last_error l = ln_last_error l"

section \<open>The context of the outbox\<close>

text \<open>A context as its methods answer: Done closed, Deadline, Err, Value of a key.\<close>

record 'v context_methods =
  cx_done :: bool
  cx_deadline :: "time option"
  cx_err :: "go_error option"
  cx_value :: "string \<Rightarrow> 'v option"

definition context_adapter :: "'v context_methods \<Rightarrow> 'v context_methods" where
  "context_adapter c = \<lparr>cx_done = cx_done c, cx_deadline = None, cx_err = None, cx_value = (\<lambda>_. None)\<rparr>"

text \<open>
  What the package context says of every Context: Err is nil exactly as long as Done is open. The
  adapter of a workflow that was cancelled breaks it, and drops every value, the transaction too.
\<close>

definition context_law :: "'v context_methods \<Rightarrow> bool" where
  "context_law c \<longleftrightarrow> (cx_err c = None) = (\<not> cx_done c)"

lemma adapter_breaks_context_law: "context_law (context_adapter c) \<longleftrightarrow> \<not> cx_done c"
  by (simp add: context_law_def context_adapter_def)

section \<open>The error of a compensation\<close>

record compensation_error =
  cer_activity :: string
  cer_func :: string
  cer_err :: go_error

definition compensation_error_text :: "compensation_error \<Rightarrow> string" where
  "compensation_error_text e =
     ''compensation failed for activity '' @ cer_activity e @ '' ('' @ cer_func e @ ''): '' @ err_text (cer_err e)"

definition compensation_error_unwrap :: "compensation_error \<Rightarrow> go_error" where
  "compensation_error_unwrap e = cer_err e"

end
