(* ===== verification/Api_Options.thy ===== *)
theory Api_Options
  imports App_Tasks
begin

text \<open>
  The public faces of activity.go, workflow.go, channels.go, events.go and outbox/transactional.go:
  the functional options of each call with their defaults, DefineActivity with the compensation
  it registers, the registry of workflows, and the calls that only put their options together and
  pass them on. A list of options is applied from left to right.
\<close>

definition with_options :: "('o \<Rightarrow> 'o) list \<Rightarrow> 'o \<Rightarrow> 'o" where
  "with_options opts o0 = fold (\<lambda>opt. opt) opts o0"

lemma with_options_simps [simp]:
  "with_options [] o0 = o0"
  "with_options (opt # opts) o0 = with_options opts (opt o0)"
  "with_options (opts @ opts') o0 = with_options opts' (with_options opts o0)"
  by (simp_all add: with_options_def)

section \<open>Activities\<close>

type_synonym 'x activity_option = "'x activity \<Rightarrow> 'x activity"

definition with_retry_policy :: "policy option \<Rightarrow> 'x activity_option" where
  "with_retry_policy p a = a\<lparr>ac_policy := p\<rparr>"

definition with_timeout :: "time \<Rightarrow> 'x activity_option" where
  "with_timeout d a = a\<lparr>ac_timeout := d\<rparr>"

definition with_compensation :: "(gov \<Rightarrow> ('x, unit) wm) option \<Rightarrow> 'x activity_option" where
  "with_compensation fn a = a\<lparr>ac_comp := fn\<rparr>"

definition with_transactional :: "bool \<Rightarrow> 'x activity_option" where
  "with_transactional b a = a\<lparr>ac_transactional := b\<rparr>"

text \<open>\<open>T\<close> and \<open>decode\<close> stand for the type parameters: the output type, and decoding into the input type.\<close>

definition define_activity ::
    "string \<Rightarrow> (time option \<Rightarrow> gov \<Rightarrow> ('x, gov) em) \<Rightarrow> gotype \<Rightarrow> (bytes \<Rightarrow> go_error + gov) \<Rightarrow>
     'x activity_option list \<Rightarrow> 'x registry \<Rightarrow> 'x activity \<times> 'x registry" where
  "define_activity name fn T decode opts reg =
     (let a = with_options opts
            \<lparr>ac_name = name, ac_fn = fn, ac_out = T, ac_policy = None, ac_timeout = 0, ac_comp = None,
             ac_decode = decode, ac_transactional = True\<rparr>
      in (a, if ac_comp a \<noteq> None then register_activity a reg else reg))"

definition has_compensation :: "'x activity \<Rightarrow> bool" where
  "has_compensation a \<longleftrightarrow> ac_comp a \<noteq> None"

record execute_options =
  xo_activity_id :: string

definition with_activity_id :: "string \<Rightarrow> execute_options \<Rightarrow> execute_options" where
  "with_activity_id i o0 = o0\<lparr>xo_activity_id := i\<rparr>"

definition execute_with_options ::
    "choices \<Rightarrow> 'x activity \<Rightarrow> gov \<Rightarrow> (execute_options \<Rightarrow> execute_options) list \<Rightarrow> ('x, gov) em" where
  "execute_with_options ch a input opts =
     activity_execute ch a input (xo_activity_id (with_options opts \<lparr>xo_activity_id = ''''\<rparr>))"

section \<open>Workflows\<close>

text \<open>
  The registry keeps the workflow with its types; \<open>GetWorkflow\<close> asserts that it is a workflow of
  the types asked for. A type is its name here.
\<close>

record 'x workflow_entry =
  we_name :: string
  we_workflow :: "'x workflow_def"
  we_input :: string
  we_output :: string
  we_event_handler :: bool

type_synonym 'x workflow_registry = "string \<Rightarrow> 'x workflow_entry option"

record workflow_options =
  wo_event_handler :: bool

definition with_event_handler :: "bool \<Rightarrow> workflow_options \<Rightarrow> workflow_options" where
  "with_event_handler enabled o0 = o0\<lparr>wo_event_handler := enabled\<rparr>"

definition register_typed_workflow ::
    "choices \<Rightarrow> string \<Rightarrow> string \<Rightarrow> 'x workflow_def \<Rightarrow> (workflow_options \<Rightarrow> workflow_options) list \<Rightarrow>
     'x workflow_registry \<times> 'x app \<Rightarrow> 'x workflow_registry \<times> 'x app" where
  "register_typed_workflow ch input_type output_type wd opts s =
     (let options = with_options opts \<lparr>wo_event_handler = False\<rparr>
      in ((fst s)(wd_name wd \<mapsto> \<lparr>we_name = wd_name wd, we_workflow = wd, we_input = input_type,
            we_output = output_type, we_event_handler = wo_event_handler options\<rparr>),
          register_workflow ch wd (wo_event_handler options) (snd s)))"

definition get_workflow :: "string \<Rightarrow> string \<Rightarrow> string \<Rightarrow> 'x workflow_registry \<Rightarrow> 'x workflow_def option" where
  "get_workflow input_type output_type name reg =
     (case reg name of
        None \<Rightarrow> None
      | Some e \<Rightarrow> if we_input e = input_type \<and> we_output e = output_type then Some (we_workflow e) else None)"

record start_options =
  so_instance :: string

definition with_instance_id :: "string \<Rightarrow> start_options \<Rightarrow> start_options" where
  "with_instance_id i o0 = o0\<lparr>so_instance := i\<rparr>"

definition start_typed_workflow ::
    "string \<Rightarrow> 'x workflow_def \<Rightarrow> gov \<Rightarrow> (start_options \<Rightarrow> start_options) list \<Rightarrow> ('x, string \<times> job) wm" where
  "start_typed_workflow uuid wd input opts =
     start_workflow uuid (wd_name wd) input (so_instance (with_options opts \<lparr>so_instance = ''''\<rparr>))"

definition cancel_workflow_of :: "'x app \<Rightarrow> string \<Rightarrow> string \<Rightarrow> ('x, unit) wm" where
  "cancel_workflow_of ap i reason = cancel_workflow ap i reason"

section \<open>Channels, events, timers\<close>

record receive_options =
  ro_timeout :: "time option"

definition with_receive_timeout :: "time \<Rightarrow> receive_options \<Rightarrow> receive_options" where
  "with_receive_timeout d o0 = o0\<lparr>ro_timeout := Some d\<rparr>"

definition receive_with_options ::
    "nat \<Rightarrow> tdesc \<Rightarrow> string \<Rightarrow> (receive_options \<Rightarrow> receive_options) list \<Rightarrow> ('x, received_message) em" where
  "receive_with_options fuel T channel opts =
     receive fuel T channel (ro_timeout (with_options opts \<lparr>ro_timeout = None\<rparr>))"

record publish_options =
  po_metadata :: "gov option"

definition with_metadata :: "gov \<Rightarrow> publish_options \<Rightarrow> publish_options" where
  "with_metadata m o0 = o0\<lparr>po_metadata := Some m\<rparr>"

definition publish_with_options ::
    "string \<Rightarrow> gov \<Rightarrow> (publish_options \<Rightarrow> publish_options) list \<Rightarrow> ('x, unit) em" where
  "publish_with_options channel data opts =
     publish channel data (po_metadata (with_options opts \<lparr>po_metadata = None\<rparr>))"

definition send_to_with_options ::
    "string \<Rightarrow> string \<Rightarrow> gov \<Rightarrow> (publish_options \<Rightarrow> publish_options) list \<Rightarrow> ('x, unit) em" where
  "send_to_with_options target channel data opts =
     send_to target channel data (po_metadata (with_options opts \<lparr>po_metadata = None\<rparr>))"

text \<open>\<open>GetGroupMembers\<close> is called with a context of the caller, here one without a transaction.\<close>

definition group_members :: "string \<Rightarrow> ('x, string list) wm" where
  "group_members group_name = stor False (get_group_members group_name)"

record wait_options =
  wt_timeout :: "time option"

definition with_event_timeout :: "time \<Rightarrow> wait_options \<Rightarrow> wait_options" where
  "with_event_timeout d o0 = o0\<lparr>wt_timeout := Some d\<rparr>"

definition wait_event_with_options ::
    "nat \<Rightarrow> tdesc \<Rightarrow> string \<Rightarrow> (wait_options \<Rightarrow> wait_options) list \<Rightarrow> ('x, received_event) em" where
  "wait_event_with_options fuel T event_type opts =
     wait_event fuel T event_type (wt_timeout (with_options opts \<lparr>wt_timeout = None\<rparr>))"

record sleep_options =
  sl_timer :: string

definition with_sleep_id :: "string \<Rightarrow> sleep_options \<Rightarrow> sleep_options" where
  "with_sleep_id i o0 = o0\<lparr>sl_timer := i\<rparr>"

definition sleep_with_options :: "time \<Rightarrow> (sleep_options \<Rightarrow> sleep_options) list \<Rightarrow> ('x, unit) em" where
  "sleep_with_options d opts = sleep d (sl_timer (with_options opts \<lparr>sl_timer = ''''\<rparr>))"

record send_options =
  se_event_id :: string
  se_content_type :: string

definition with_event_id :: "string \<Rightarrow> send_options \<Rightarrow> send_options" where
  "with_event_id i o0 = o0\<lparr>se_event_id := i\<rparr>"

definition with_content_type :: "string \<Rightarrow> send_options \<Rightarrow> send_options" where
  "with_content_type t o0 = o0\<lparr>se_content_type := t\<rparr>"

text \<open>\<open>uuid\<close> is the identifier that is made up when the options give none.\<close>

definition send_event_transactional ::
    "string \<Rightarrow> string \<Rightarrow> string \<Rightarrow> gov \<Rightarrow> (send_options \<Rightarrow> send_options) list \<Rightarrow> ('x, unit) em" where
  "send_event_transactional uuid event_type source data opts =
     (let options = with_options opts \<lparr>se_event_id = '''', se_content_type = ''application/json''\<rparr>
      in send_event uuid (se_event_id options) (se_content_type options) event_type source data)"

definition send_plain_event :: "string \<Rightarrow> string \<Rightarrow> string \<Rightarrow> gov \<Rightarrow> ('x, unit) em" where
  "send_plain_event uuid event_type source data = send_event_transactional uuid event_type source data []"

section \<open>What the options do\<close>

text \<open>Whatever the options, an activity keeps its name, its function and its types.\<close>

definition activity_options :: "'x activity_option set" where
  "activity_options = range with_retry_policy \<union> range with_timeout \<union> range with_compensation \<union> range with_transactional"

lemma option_keeps: "opt \<in> activity_options \<Longrightarrow>
    ac_name (opt a) = ac_name a \<and> ac_fn (opt a) = ac_fn a \<and> ac_out (opt a) = ac_out a \<and> ac_decode (opt a) = ac_decode a"
  by (auto simp: activity_options_def with_retry_policy_def with_timeout_def with_compensation_def with_transactional_def)

lemma options_keep: "set opts \<subseteq> activity_options \<Longrightarrow>
    ac_name (with_options opts a) = ac_name a \<and> ac_fn (with_options opts a) = ac_fn a \<and>
    ac_out (with_options opts a) = ac_out a \<and> ac_decode (with_options opts a) = ac_decode a"
  by (induction opts arbitrary: a) (simp_all add: option_keeps)

text \<open>
  An activity is transactional unless an option says otherwise, and the compensation that runs for
  it in a rollback is the one of its last WithCompensation.
\<close>

lemma activity_defaults:
  "ac_transactional (fst (define_activity name fn T decode [] reg))"
  "snd (define_activity name fn T decode [] reg) = reg"
  by (simp_all add: define_activity_def)

lemma defined_compensation_runs:
  assumes "set opts \<subseteq> activity_options" "decode args = Inr v"
  shows "the (get_compensation_executor (snd (define_activity name fn T decode (opts @ [with_compensation (Some undo)]) reg)) name) args
    = undo v"
  using options_keep [OF assms(1)] assms(2)
  by (simp add: define_activity_def with_compensation_def register_activity_def get_compensation_executor_def Let_def)

text \<open>
  The registry of compensations is global and never forgets: when an activity is defined anew
  without a compensation, a rollback still runs the one of its earlier definition.
\<close>

lemma old_compensation_stays:
  assumes "reg name = Some old" "set opts \<subseteq> activity_options" "\<forall>opt \<in> set opts. \<forall>a. ac_comp (opt a) = ac_comp a"
  shows "get_compensation_executor (snd (define_activity name fn T decode opts reg)) name = Some old"
proof -
  have "ac_comp (with_options opts a) = ac_comp a" for a
    using assms(3) by (induction opts arbitrary: a) simp_all
  then show ?thesis
    using assms(1) by (simp add: define_activity_def Let_def get_compensation_executor_def)
qed

text \<open>
  A registered workflow is found under its name and its types only; registering another one under
  the name takes its place for both.
\<close>

lemma registered_workflow_found:
  "get_workflow I1 O1 (wd_name wd) (fst (register_typed_workflow ch I0 O0 wd opts s)) =
     (if I1 = I0 \<and> O1 = O0 then Some wd else None)"
  by (simp add: get_workflow_def register_typed_workflow_def Let_def)

text \<open>
  Only a workflow registered as an event handler is started by an event. Registering it again
  without the option does not take the handler away.
\<close>

lemma handler_stays:
  assumes "ap_handlers (snd s) (wd_name wd) = Some (wd_name wd)"
  shows "ap_handlers (snd (register_typed_workflow ch I0 O0 wd [with_event_handler False] s)) (wd_name wd) = Some (wd_name wd)"
  using assms by (simp add: register_typed_workflow_def register_workflow_def with_event_handler_def Let_def)

end
