(* ===== verification/Late_Delivery.thy ===== *)
theory Late_Delivery
  imports Channel_Receive
begin

text \<open>
  A publisher reads who waits on a channel and delivers to them one after the other. By the time
  it gets the lock of a subscriber, another publisher may have woken it: the delivery does not
  look at the waiting state again.
\<close>

lemma caches_recorded:
  "lookup (build_caches rows) act \<noteq> None \<Longrightarrow> act \<in> he_activity ` set rows"
proof (induction rows rule: rev_induct)
  case (snoc h rows)
  then show ?case
    by (cases "build_caches rows")
      (auto simp: build_caches_last cache_event_def lookup_none split: if_splits option.splits)
qed (simp add: build_caches_def lookup_def)

lemma receive_id_not_legacy: "receive_id c s \<noteq> legacy_activity_id ch n"
  by (simp add: receive_id_def legacy_activity_id_def)

text \<open>A Receive call that is new to the run and finds nothing to read waits.\<close>

lemma receive_waits:
  assumes "cached_in s (receive_id ch s) = None" "w_tx (ex_world s) = None" "\<not> ex_in_tx s"
    and "\<not> is_direct_subscription ch s" "faults (w_db (ex_world s)) = []"
    and "find_sub (w_db (ex_world s)) (ex_instance s) ch = Some sub" "cs_mode sub = ChannelModeBroadcast"
    and "unread (ex_instance s) ch (w_db (ex_world s)) = []"
  shows "fst (receive (Suc fuel) T ch timeout s) =
    Inl (Suspend (new_channel_message_suspend (ex_instance s) ch (receive_id ch s) timeout))"
proof -
  let ?s = "receive_counted ch s" and ?act = "receive_id ch s"
  have "cached_in ?s ?act = None" using assms(1) by (simp add: cached_in_def)
  moreover have "get_pending_for_instance (ex_instance s) ch (w_db (ex_world s)) = (Inr [], w_db (ex_world s))"
    using pending_broadcast [OF assms(5-7)] assms(8) by simp
  ultimately show ?thesis
    using assms(2-7)
    by (simp add: receive_def receive_id_run Let_def receive_new ctx_stor_def on_world_def get_channel_subscription_def
      del: append_Cons)
qed

text \<open>
  C32: a message that is delivered late is lost. Two publishers read the same list of waiting
  subscribers; when the second delivers its message to a broadcast subscriber that the first
  has already woken, the delivery reports success. It records the message under an identifier
  that no Receive call looks up, and moves the subscriber's cursor past the message. The
  workflow's next Receive call waits for a message, although this one is in the channel.
\<close>

theorem late_delivery_loses_message:
  assumes "instance_lock_live i d" "lock_available i wk d"
    and "find_sub d i ch = Some sub" "cs_mode sub = ChannelModeBroadcast" "cs_activity sub = None"
    and "\<forall>m' \<in> set (messages d). cm_channel m' = ch \<longrightarrow> cm_id m' \<le> cm_id m"
    and "\<not> has_history i (legacy_activity_id ch (cm_id m)) d"
    and "deliver_channel_message_with_lock i ch m wk t d = (r, d')"
    and "w_db (ex_world s) = d'" "w_tx (ex_world s) = None" "\<not> ex_in_tx s" "ex_instance s = i"
    and "\<not> is_direct_subscription ch s" "\<not> has_history i (receive_id ch s) d"
    and "ex_results s = fst (build_caches (history_of i d'))" "ex_errors s = snd (build_caches (history_of i d'))"
  shows "(\<exists>wf. r = Inr (Some \<lparr>cr_instance = i, cr_workflow = wf, cr_activity = legacy_activity_id ch (cm_id m)\<rparr>))
    \<and> messages d' = messages d
    \<and> fst (receive (Suc fuel) T ch timeout s) =
        Inl (Suspend (new_channel_message_suspend i ch (receive_id ch s) timeout))"
proof -
  let ?act = "legacy_activity_id ch (cm_id m)"
  let ?h = "\<lparr>he_id = history_seq d + 1, he_instance = i, he_activity = ?act,
      he_type = HistoryChannelMessageReceived, he_data = BJson (wrap_message ch m),
      he_data_type = ''json'', he_created = sql_now d\<rparr>"
  have act: "delivery_activity ch m sub = ?act" using assms(5) by (simp add: delivery_activity_def)
  obtain row where r: "r = Inr (Some \<lparr>cr_instance = i, cr_workflow = inst_workflow row, cr_activity = ?act\<rparr>)"
    and "find_instance d i = Some row" and f: "faults d' = []"
    and hist: "history_of i d' = history_of i d @ [?h]"
    and "\<exists>r. find_instance d' i = Some r \<and> inst_status r = StatusRunning \<and> inst_locked_by r = None"
    and sub: "find_sub d' i ch = Some (sub\<lparr>cs_activity := None, cs_timeout := None\<rparr>)"
    and msgs: "messages d' = messages d"
    and cur: "cs_mode sub = ChannelModeBroadcast \<longrightarrow>
      find_cursor d' i ch = Some \<lparr>dc_instance = i, dc_channel = ch, dc_last = cm_id m\<rparr>"
    by (rule deliver_run [OF assms(1-3) act assms(7,8)])
  have "lookup (build_caches (history_of i d')) (receive_id ch s) = None"
  proof (rule ccontr)
    assume "lookup (build_caches (history_of i d')) (receive_id ch s) \<noteq> None"
    then show False
      using caches_recorded assms(14) hist by (fastforce simp: has_history_of receive_id_not_legacy)
  qed
  then have "cached_in s (receive_id ch s) = None"
    using assms(15,16) by (simp add: cached_in_def)
  moreover have "unread i ch d' = []"
    using assms(6) msgs cur assms(4) by (auto simp: unread_def filter_empty_conv not_less)
  ultimately have "fst (receive (Suc fuel) T ch timeout s) =
      Inl (Suspend (new_channel_message_suspend i ch (receive_id ch s) timeout))"
    using receive_waits [of s ch] assms(9-13) f sub assms(4) by simp
  with r msgs show ?thesis by blast
qed

text \<open>
  The instance is running after a first delivery, its lock is free; \<open>late_message\<close> is what the
  second publisher has published.
\<close>

definition late_message :: channel_message where
  "late_message = demo_message\<lparr>cm_id := 8, cm_message_id := ''v''\<rparr>"

definition woken_db :: db where
  "woken_db = waiting_db\<lparr>instances := [demo_instance], messages := [demo_message, late_message],
     subscriptions := [waiting_sub\<lparr>cs_activity := None, cs_timeout := None\<rparr>]\<rparr>"

lemma woken_db_live:
  "instance_lock_live ''i'' woken_db" "lock_available ''i'' wk woken_db"
  "find_sub woken_db ''i'' ''c'' = Some (waiting_sub\<lparr>cs_activity := None, cs_timeout := None\<rparr>)"
  "\<not> has_history ''i'' act woken_db" "\<forall>m' \<in> set (messages woken_db). cm_channel m' = ''c'' \<longrightarrow> cm_id m' \<le> cm_id late_message"
  by (simp_all add: woken_db_def waiting_db_def waiting_sub_def empty_db_def instance_lock_live_def locks_ok_def
      find_instance_def demo_instance_def lock_available_def instance_holder_def find_sub_def has_history_def
      late_message_def demo_message_def)

theorem late_delivery_loses_message_witness:
  "\<exists>d'. snd (deliver_channel_message_with_lock ''i'' ''c'' late_message ''w'' 300 woken_db) = d' \<and>
     messages d' = [demo_message, late_message] \<and>
     fst (receive 1 raw_json ''c'' None (new_exec (demo_world\<lparr>w_db := d'\<rparr>) ''i'' (history_of ''i'' d'))) =
       Inl (Suspend (new_channel_message_suspend ''i'' ''c'' ''receive_c:1'' None))"
proof -
  obtain r d' where d': "deliver_channel_message_with_lock ''i'' ''c'' late_message ''w'' 300 woken_db = (r, d')"
    by (cases "deliver_channel_message_with_lock ''i'' ''c'' late_message ''w'' 300 woken_db")
  let ?s = "new_exec (demo_world\<lparr>w_db := d'\<rparr>) ''i'' (history_of ''i'' d')"
  have "w_db (ex_world ?s) = d'" "w_tx (ex_world ?s) = None" "\<not> ex_in_tx ?s" "ex_instance ?s = ''i''"
    "\<not> is_direct_subscription ''c'' ?s" "ex_results ?s = fst (build_caches (history_of ''i'' d'))"
    "ex_errors ?s = snd (build_caches (history_of ''i'' d'))" "receive_id ''c'' ?s = ''receive_c:1''"
    by (simp_all add: new_exec_def demo_world_def is_direct_subscription_def first_receive_id)
  note run = this
  have "cs_mode (waiting_sub\<lparr>cs_activity := None, cs_timeout := None\<rparr>) = ChannelModeBroadcast"
    by (simp add: waiting_sub_def)
  from late_delivery_loses_message [OF woken_db_live(1,2,3) this _ woken_db_live(5,4) d' run(1-5) woken_db_live(4) run(6,7), of 0 raw_json None]
  show ?thesis
    using d' run(8) by (simp add: woken_db_def)
qed

end
