(* ===== verification/Llm_Calls.thy ===== *)
theory Llm_Calls
  imports Deterministic_Replay
begin

text \<open>
  llm/options.go, llm/response.go, llm/tool.go, llm/defaults.go, llm/llm.go and
  llm/durable_call.go: calls of a language model as recorded steps of a workflow.

  The bucephalus SDK that talks to the model is a parameter: \<open>sdk\<close> has its four entry points,
  each a function of its arguments and of the outside world. The SDK's options, messages, tool
  calls and replies are the values the code builds for it or reads from it; tools have any type
  \<open>'t\<close>. A text that the code reads as JSON is its document (\<open>bytes\<close>); \<open>rp_document\<close> is what
  the text of a reply denotes. A json.RawMessage is \<open>None\<close> when it is nil. Floating point
  settings are passed through as rational numbers.
\<close>

section \<open>Configuration of a call\<close>

record 't llm_config =
  lc_provider :: string
  lc_model :: string
  lc_temperature :: "rat option"
  lc_maxTokens :: "int option"
  lc_topP :: "rat option"
  lc_topK :: "int option"
  lc_seed :: "int option"
  lc_systemMessage :: string
  lc_tools :: "'t list"
  lc_stopSequences :: "string list"

datatype 't sdk_option =
    SdkProvider string
  | SdkModel string
  | SdkTemperature rat
  | SdkMaxTokens int
  | SdkTopP rat
  | SdkTopK int
  | SdkSeed int
  | SdkSystemMessage string
  | SdkTools "'t list"
  | SdkStopSequences "string list"

type_synonym 't llm_option = "'t llm_config \<Rightarrow> 't llm_config"

definition new_llm_config :: "'t llm_config" where
  "new_llm_config =
     \<lparr>lc_provider = '''', lc_model = '''', lc_temperature = None, lc_maxTokens = None, lc_topP = None,
      lc_topK = None, lc_seed = None, lc_systemMessage = '''', lc_tools = [], lc_stopSequences = []\<rparr>"

definition apply_options :: "'t llm_option list \<Rightarrow> 't llm_config \<Rightarrow> 't llm_config" where
  "apply_options opts c = foldl (\<lambda>c opt. opt c) c opts"

definition opt_setting :: "('a \<Rightarrow> 'b) \<Rightarrow> 'a option \<Rightarrow> 'b list" where
  "opt_setting f v = (case v of None \<Rightarrow> [] | Some x \<Rightarrow> [f x])"

definition to_bucephalus_options :: "'t llm_config \<Rightarrow> 't sdk_option list" where
  "to_bucephalus_options c =
     (if lc_provider c \<noteq> '''' then [SdkProvider (lc_provider c)] else [])
     @ (if lc_model c \<noteq> '''' then [SdkModel (lc_model c)] else [])
     @ opt_setting SdkTemperature (lc_temperature c)
     @ opt_setting SdkMaxTokens (lc_maxTokens c)
     @ opt_setting SdkTopP (lc_topP c)
     @ opt_setting SdkTopK (lc_topK c)
     @ opt_setting SdkSeed (lc_seed c)
     @ (if lc_systemMessage c \<noteq> '''' then [SdkSystemMessage (lc_systemMessage c)] else [])
     @ (if length (lc_tools c) > 0 then [SdkTools (lc_tools c)] else [])
     @ (if length (lc_stopSequences c) > 0 then [SdkStopSequences (lc_stopSequences c)] else [])"

definition WithProvider :: "string \<Rightarrow> 't llm_option" where
  "WithProvider provider c = c\<lparr>lc_provider := provider\<rparr>"

definition WithModel :: "string \<Rightarrow> 't llm_option" where
  "WithModel model c = c\<lparr>lc_model := model\<rparr>"

definition WithTemperature :: "rat \<Rightarrow> 't llm_option" where
  "WithTemperature t c = c\<lparr>lc_temperature := Some t\<rparr>"

definition WithMaxTokens :: "int \<Rightarrow> 't llm_option" where
  "WithMaxTokens n c = c\<lparr>lc_maxTokens := Some n\<rparr>"

definition WithTopP :: "rat \<Rightarrow> 't llm_option" where
  "WithTopP p c = c\<lparr>lc_topP := Some p\<rparr>"

definition WithTopK :: "int \<Rightarrow> 't llm_option" where
  "WithTopK k c = c\<lparr>lc_topK := Some k\<rparr>"

definition WithSeed :: "int \<Rightarrow> 't llm_option" where
  "WithSeed seed c = c\<lparr>lc_seed := Some seed\<rparr>"

definition WithSystemMessage :: "string \<Rightarrow> 't llm_option" where
  "WithSystemMessage msg c = c\<lparr>lc_systemMessage := msg\<rparr>"

definition WithTools :: "'t list \<Rightarrow> 't llm_option" where
  "WithTools tools c = c\<lparr>lc_tools := tools\<rparr>"

definition WithStopSequences :: "string list \<Rightarrow> 't llm_option" where
  "WithStopSequences seqs c = c\<lparr>lc_stopSequences := seqs\<rparr>"

subsection \<open>Defaults of an application\<close>

text \<open>The process-wide map from applications, here of any type, to their default options.\<close>

type_synonym ('p, 't) app_defaults = "'p \<Rightarrow> 't llm_option list option"

definition set_app_defaults :: "'p \<Rightarrow> 't llm_option list \<Rightarrow> ('p, 't) app_defaults \<Rightarrow> ('p, 't) app_defaults" where
  "set_app_defaults app opts store = store(app \<mapsto> opts)"

definition get_app_defaults :: "('p, 't) app_defaults \<Rightarrow> 'p option \<Rightarrow> 't llm_option list option" where
  "get_app_defaults store app = (case app of None \<Rightarrow> None | Some a \<Rightarrow> store a)"

definition clear_app_defaults :: "'p \<Rightarrow> ('p, 't) app_defaults \<Rightarrow> ('p, 't) app_defaults" where
  "clear_app_defaults app store = store(app := None)"

text \<open>
  The application a context refers to: RegisterWorkflow sets it in the context of a run, and
  WithContext, which makes the context of a transaction, leaves it out.
\<close>

definition ctx_app :: "'p \<Rightarrow> 'x exec \<Rightarrow> 'p option" where
  "ctx_app app s = (if ex_in_tx s then None else Some app)"

definition get_llm_defaults :: "('p, 't) app_defaults \<Rightarrow> 'p \<Rightarrow> 'x exec \<Rightarrow> 't llm_option list option" where
  "get_llm_defaults store app s = get_app_defaults store (ctx_app app s)"

definition build_config :: "'t llm_option list option \<Rightarrow> 't llm_option list \<Rightarrow> 't llm_config" where
  "build_config defaults opts =
     apply_options opts (case defaults of None \<Rightarrow> new_llm_config | Some ds \<Rightarrow> apply_options ds new_llm_config)"

section \<open>What the SDK exchanges\<close>

record sdk_tool_call =
  sc_id :: string
  sc_name :: string
  sc_arguments :: bytes

datatype message =
    SystemMessage string
  | UserMessage string
  | AssistantMessage string
  | ToolMessage string string
  | AssistantMessageWithToolCalls string "sdk_tool_call list"

record usage =
  us_prompt :: int
  us_completion :: int
  us_total :: int

record reply =
  rp_text :: string
  rp_document :: bytes
  rp_finish :: string
  rp_usage :: usage
  rp_tool_calls :: "sdk_tool_call list"
  rp_parsed :: "go_error + gov"

record ('x, 't) sdk =
  sdk_call :: "string \<Rightarrow> 't sdk_option list \<Rightarrow> 'x \<Rightarrow> (go_error + reply) \<times> 'x"
  sdk_call_parse :: "string \<Rightarrow> 't sdk_option list \<Rightarrow> 'x \<Rightarrow> (go_error + reply) \<times> 'x"
  sdk_messages :: "message list \<Rightarrow> 't sdk_option list \<Rightarrow> 'x \<Rightarrow> (go_error + reply) \<times> 'x"
  sdk_messages_parse :: "message list \<Rightarrow> 't sdk_option list \<Rightarrow> 'x \<Rightarrow> (go_error + reply) \<times> 'x"

definition on_ext :: "('x \<Rightarrow> (go_error + 'a) \<times> 'x) \<Rightarrow> ('x, 'a) em" where
  "on_ext f s =
     (case f (w_ext (ex_world s)) of
        (r, x) \<Rightarrow> (r, s\<lparr>ex_world := (ex_world s)\<lparr>w_ext := x\<rparr>\<rparr>))"

section \<open>The durable response\<close>

record tool_call =
  tc_id :: string
  tc_name :: string
  tc_arguments :: "bytes option"

record durable_response =
  dr_text :: string
  dr_model :: string
  dr_provider :: string
  dr_usage :: "usage option"
  dr_tool_calls :: "tool_call list"
  dr_finish :: string
  dr_structured :: "bytes option"

definition has_tool_calls :: "durable_response \<Rightarrow> bool" where
  "has_tool_calls r \<longleftrightarrow> length (dr_tool_calls r) > 0"

definition tool_call_from_bucephalus :: "sdk_tool_call \<Rightarrow> tool_call" where
  "tool_call_from_bucephalus c =
     \<lparr>tc_id = sc_id c, tc_name = sc_name c, tc_arguments = Some (sc_arguments c)\<rparr>"

definition tool_call_to_bucephalus :: "tool_call \<Rightarrow> sdk_tool_call" where
  "tool_call_to_bucephalus c =
     \<lparr>sc_id = tc_id c, sc_name = tc_name c,
      sc_arguments = (case tc_arguments c of None \<Rightarrow> BNil | Some b \<Rightarrow> b)\<rparr>"

text \<open>ExecuteToolCalls hands the converted calls to the SDK's registry \<open>run\<close>.\<close>

definition execute_tool_calls ::
    "(sdk_tool_call list \<Rightarrow> 'x \<Rightarrow> (go_error + message list) \<times> 'x) \<Rightarrow> tool_call list \<Rightarrow> ('x, message list) em" where
  "execute_tool_calls run calls = on_ext (run (map tool_call_to_bucephalus calls))"

definition from_bucephalus_response :: "reply \<Rightarrow> string \<Rightarrow> string \<Rightarrow> durable_response" where
  "from_bucephalus_response resp provider model =
     \<lparr>dr_text = rp_text resp, dr_model = model, dr_provider = provider,
      dr_usage = (if us_total (rp_usage resp) > 0 then Some (rp_usage resp) else None),
      dr_tool_calls = map tool_call_from_bucephalus (rp_tool_calls resp),
      dr_finish = rp_finish resp, dr_structured = None\<rparr>"

definition with_structured :: "gov \<Rightarrow> durable_response \<Rightarrow> durable_response" where
  "with_structured v dr = (case marshal v of None \<Rightarrow> dr | Some j \<Rightarrow> dr\<lparr>dr_structured := Some (BJson j)\<rparr>)"

definition from_bucephalus_response_with_parsed :: "reply \<Rightarrow> string \<Rightarrow> string \<Rightarrow> gov \<Rightarrow> durable_response" where
  "from_bucephalus_response_with_parsed resp provider model parsed =
     with_structured parsed (from_bucephalus_response resp provider model)"

text \<open>\<open>json.Unmarshal\<close> of the structured part into a \<open>T\<close>; nothing there gives the zero value.\<close>

definition raw_length :: "bytes option \<Rightarrow> nat" where
  "raw_length raw = (case raw of None \<Rightarrow> 0 | Some b \<Rightarrow> if bytes_nonempty b then 1 else 0)"

definition unmarshal_raw :: "tdesc \<Rightarrow> bytes option \<Rightarrow> go_error + json" where
  "unmarshal_raw T raw =
     (case raw of
        Some (BJson j) \<Rightarrow> (case td_decode T j of Some v \<Rightarrow> Inr v | None \<Rightarrow> Inl (ErrText ''json''))
      | _ \<Rightarrow> Inl (ErrText ''json''))"

definition parse_structured :: "tdesc \<Rightarrow> durable_response \<Rightarrow> go_error + json" where
  "parse_structured T dr =
     (if raw_length (dr_structured dr) = 0 then Inr (td_zero T) else unmarshal_raw T (dr_structured dr))"

subsection \<open>Its JSON\<close>

text \<open>A nil RawMessage is written as null, an empty one and one that is not JSON are errors.\<close>

definition raw_json :: "bytes option \<Rightarrow> json option" where
  "raw_json raw = (case raw of None \<Rightarrow> Some JNull | Some (BJson j) \<Rightarrow> Some j | _ \<Rightarrow> None)"

definition usage_json :: "usage \<Rightarrow> json" where
  "usage_json u =
     JObj [(''prompt_tokens'', JNum (us_prompt u)), (''completion_tokens'', JNum (us_completion u)),
       (''total_tokens'', JNum (us_total u))]"

definition tool_call_json :: "tool_call \<Rightarrow> json option" where
  "tool_call_json c =
     map_option (\<lambda>a. JObj [(''id'', JStr (tc_id c)), (''name'', JStr (tc_name c)), (''arguments'', a)])
       (raw_json (tc_arguments c))"

definition opt_string :: "string \<Rightarrow> string \<Rightarrow> (string \<times> json) list" where
  "opt_string k s = (if s = '''' then [] else [(k, JStr s)])"

definition response_json :: "durable_response \<Rightarrow> json option" where
  "response_json r =
     (case those (map tool_call_json (dr_tool_calls r)) of
        None \<Rightarrow> None
      | Some calls \<Rightarrow>
          (case (if raw_length (dr_structured r) = 0 then Some []
                 else map_option (\<lambda>j. [(''structured'', j)]) (raw_json (dr_structured r))) of
             None \<Rightarrow> None
           | Some structured \<Rightarrow>
               Some (JObj ([(''text'', JStr (dr_text r))]
                 @ opt_string ''model'' (dr_model r)
                 @ opt_string ''provider'' (dr_provider r)
                 @ (case dr_usage r of None \<Rightarrow> [] | Some u \<Rightarrow> [(''usage'', usage_json u)])
                 @ (if calls = [] then [] else [(''tool_calls'', JArr calls)])
                 @ opt_string ''finish_reason'' (dr_finish r)
                 @ structured))))"

definition response_type :: string where
  "response_type = ''*llm.DurableResponse''"

definition response_value :: "durable_response \<Rightarrow> gov" where
  "response_value r =
     (case response_json r of Some j \<Rightarrow> VTyped response_type j | None \<Rightarrow> VOpaque response_type)"

definition field_raw :: "string \<Rightarrow> json \<Rightarrow> bytes option" where
  "field_raw k j = map_option BJson (json_get k j)"

definition decode_usage :: "json \<Rightarrow> usage option" where
  "decode_usage j =
     (if \<not> json_is_object j then None
      else case (field_int ''prompt_tokens'' j, field_int ''completion_tokens'' j, field_int ''total_tokens'' j) of
        (Some p, Some c, Some t) \<Rightarrow> Some \<lparr>us_prompt = p, us_completion = c, us_total = t\<rparr>
      | _ \<Rightarrow> None)"

definition field_usage :: "json \<Rightarrow> usage option option" where
  "field_usage j =
     (case json_get ''usage'' j of
        None \<Rightarrow> Some None | Some JNull \<Rightarrow> Some None | Some u \<Rightarrow> map_option Some (decode_usage u))"

definition decode_tool_call :: "json \<Rightarrow> tool_call option" where
  "decode_tool_call j =
     (if j \<noteq> JNull \<and> \<not> json_is_object j then None
      else case (field_string ''id'' j, field_string ''name'' j) of
        (Some i, Some n) \<Rightarrow> Some \<lparr>tc_id = i, tc_name = n, tc_arguments = field_raw ''arguments'' j\<rparr>
      | _ \<Rightarrow> None)"

definition field_tool_calls :: "json \<Rightarrow> tool_call list option" where
  "field_tool_calls j =
     (case json_get ''tool_calls'' j of
        None \<Rightarrow> Some [] | Some JNull \<Rightarrow> Some []
      | Some (JArr xs) \<Rightarrow> those (map decode_tool_call xs) | _ \<Rightarrow> None)"

definition decode_response :: "json \<Rightarrow> durable_response option" where
  "decode_response j =
     (if \<not> json_is_object j then None
      else case (field_string ''text'' j, field_string ''model'' j, field_string ''provider'' j, field_usage j,
                 field_tool_calls j, field_string ''finish_reason'' j) of
        (Some txt, Some model, Some provider, Some us, Some calls, Some fin) \<Rightarrow>
          Some \<lparr>dr_text = txt, dr_model = model, dr_provider = provider, dr_usage = us,
                dr_tool_calls = calls, dr_finish = fin, dr_structured = field_raw ''structured'' j\<rparr>
      | _ \<Rightarrow> None)"

section \<open>Cached responses\<close>

text \<open>The name \<open>%T\<close> prints for a value and for an error of the library; a driver's error is an error.\<close>

fun value_type_name :: "gov \<Rightarrow> string" where
  "value_type_name (VJson JNull) = ''<nil>''"
| "value_type_name (VJson (JBool b)) = ''bool''"
| "value_type_name (VJson (JNum n)) = ''float64''"
| "value_type_name (VJson (JStr s)) = ''string''"
| "value_type_name (VJson (JArr xs)) = ''[]interface {}''"
| "value_type_name (VJson (JObj kvs)) = ''map[string]interface {}''"
| "value_type_name (VTyped t j) = t"
| "value_type_name (VOpaque t) = t"

fun error_type_name :: "go_error \<Rightarrow> string" where
  "error_type_name (ErrText t) = ''*errors.errorString''"
| "error_type_name (Sentinel s) = ''*errors.errorString''"
| "error_type_name (Wrapped p e q) = ''*fmt.wrapError''"
| "error_type_name (TerminalError e) = ''*romancy.TerminalError''"
| "error_type_name (RetryExhaustedError a n e) = ''*romancy.RetryExhaustedError''"
| "error_type_name (WorkflowCancelledError i r) = ''*romancy.WorkflowCancelledError''"
| "error_type_name (WorkflowNotFoundError i) = ''*romancy.WorkflowNotFoundError''"
| "error_type_name (LockAcquisitionError i w r) = ''*romancy.LockAcquisitionError''"
| "error_type_name (EventTimeoutError i ev) = ''*romancy.EventTimeoutError''"
| "error_type_name (ChannelMessageTimeoutError i ch) = ''*romancy.ChannelMessageTimeoutError''"
| "error_type_name (ChannelModeConflictError ch ex rq) = ''*romancy.ChannelModeConflictError''"
| "error_type_name (CompensationError a f e) = ''*romancy.CompensationError''"
| "error_type_name (Suspend sig) = ''*replay.SuspendSignal''"
| "error_type_name e = ''error''"

definition unexpected_type :: "string \<Rightarrow> go_error" where
  "unexpected_type t = ErrText (''unexpected cached result type: '' @ t)"

definition cached_to_durable_response :: "go_error + gov \<Rightarrow> go_error + durable_response" where
  "cached_to_durable_response cached =
     (case cached of
        Inl e \<Rightarrow> Inl (unexpected_type (error_type_name e))
      | Inr v \<Rightarrow>
          (case v of
             VTyped t j \<Rightarrow>
               if t = response_type \<or> t = ''llm.DurableResponse''
               then (case decode_response j of Some r \<Rightarrow> Inr r | None \<Rightarrow> Inl (unexpected_type t))
               else Inl (unexpected_type t)
           | VJson (JObj kvs) \<Rightarrow>
               (case decode_response (JObj kvs) of
                  Some r \<Rightarrow> Inr r
                | None \<Rightarrow> Inl (wrapf ''failed to unmarshal cached result'' (ErrText ''json'')))
           | _ \<Rightarrow> Inl (unexpected_type (value_type_name v))))"

definition no_structured :: go_error where
  "no_structured = ErrText ''no structured data in cached result''"

definition cached_to_parsed_result :: "tdesc \<Rightarrow> go_error + gov \<Rightarrow> go_error + gov" where
  "cached_to_parsed_result T cached =
     (case cached_to_durable_response cached of
        Inl e \<Rightarrow> Inl e
      | Inr dr \<Rightarrow>
          if raw_length (dr_structured dr) = 0 then Inl no_structured
          else (case unmarshal_raw T (dr_structured dr) of
                  Inl e \<Rightarrow> Inl (wrapf ''failed to unmarshal structured data'' e)
                | Inr v \<Rightarrow> Inr (VTyped (td_name T) v)))"

section \<open>Calls\<close>

text \<open>
  What every call does first: it takes the next activity id, and a result cached for it, if the
  call can use it, is its result.
\<close>

definition recorded ::
    "string \<Rightarrow> (go_error + gov \<Rightarrow> (go_error + 'a) option) \<Rightarrow> (string \<Rightarrow> ('x, 'a) em) \<Rightarrow> ('x, 'a) em" where
  "recorded name of_cache live =
     try_go (generate_activity_id name) (\<lambda>act.
     try_go (get_cached_result act) (\<lambda>cached.
     case (case cached of None \<Rightarrow> None | Some c \<Rightarrow> of_cache c) of
       Some (Inl e) \<Rightarrow> throw e
     | Some (Inr v) \<Rightarrow> ret v
     | None \<Rightarrow> live act))"

text \<open>The error of a failed call is recorded, and the error of recording it is dropped.\<close>

definition give_up :: "string \<Rightarrow> go_error \<Rightarrow> go_error \<Rightarrow> ('x, 'a) em" where
  "give_up act e returned = try_go (ignore_err (ctx_record_activity_result act (Inl e))) (\<lambda>_. throw returned)"

definition keep_response :: "string \<Rightarrow> string \<Rightarrow> durable_response \<Rightarrow> ('x, durable_response) em" where
  "keep_response act msg result =
     try_go (map_err (wrapf msg) (ctx_record_activity_result act (Inr (response_value result)))) (\<lambda>_.
     ret result)"

definition record_llm :: string where
  "record_llm = ''failed to record LLM call result''"

text \<open>A call of the SDK whose reply is kept, and one whose reply holds a parsed value.\<close>

definition live_response ::
    "('x \<Rightarrow> (go_error + reply) \<times> 'x) \<Rightarrow> 't llm_config \<Rightarrow> string \<Rightarrow> string \<Rightarrow> ('x, durable_response) em" where
  "live_response perform cfg msg act =
     then_go (on_ext perform) (\<lambda>r. case r of
       Inl e \<Rightarrow> give_up act e e
     | Inr resp \<Rightarrow> keep_response act msg (from_bucephalus_response resp (lc_provider cfg) (lc_model cfg)))"

definition live_parsed ::
    "('x \<Rightarrow> (go_error + reply) \<times> 'x) \<Rightarrow> 't llm_config \<Rightarrow> string \<Rightarrow> ('x, gov) em" where
  "live_parsed perform cfg act =
     then_go (on_ext perform) (\<lambda>r. case r of
       Inl e \<Rightarrow> give_up act e e
     | Inr resp \<Rightarrow>
         (case rp_parsed resp of
            Inl e \<Rightarrow> give_up act e e
          | Inr parsed \<Rightarrow>
              try_go (keep_response act record_llm
                (from_bucephalus_response_with_parsed resp (lc_provider cfg) (lc_model cfg) parsed)) (\<lambda>_.
              ret parsed)))"

subsection \<open>llm.go\<close>

definition llm_call ::
    "('x, 't) sdk \<Rightarrow> 't llm_option list option \<Rightarrow> string \<Rightarrow> 't llm_option list \<Rightarrow> ('x, durable_response) em" where
  "llm_call sdk defaults prompt opts =
     (let cfg = build_config defaults opts in
      recorded ''llm_call'' (\<lambda>c. Some (cached_to_durable_response c))
        (live_response (sdk_call sdk prompt (to_bucephalus_options cfg)) cfg record_llm))"

definition llm_call_parse ::
    "('x, 't) sdk \<Rightarrow> 't llm_option list option \<Rightarrow> tdesc \<Rightarrow> string \<Rightarrow> 't llm_option list \<Rightarrow> ('x, gov) em" where
  "llm_call_parse sdk defaults T prompt opts =
     (let cfg = build_config defaults opts in
      recorded ''llm_call_parse'' (\<lambda>c. Some (cached_to_parsed_result T c))
        (live_parsed (sdk_call_parse sdk prompt (to_bucephalus_options cfg)) cfg))"

definition llm_call_messages ::
    "('x, 't) sdk \<Rightarrow> 't llm_option list option \<Rightarrow> message list \<Rightarrow> 't llm_option list \<Rightarrow> ('x, durable_response) em" where
  "llm_call_messages sdk defaults msgs opts =
     (let cfg = build_config defaults opts in
      recorded ''llm_call_messages'' (\<lambda>c. Some (cached_to_durable_response c))
        (live_response (sdk_messages sdk msgs (to_bucephalus_options cfg)) cfg record_llm))"

definition llm_call_messages_parse ::
    "('x, 't) sdk \<Rightarrow> 't llm_option list option \<Rightarrow> tdesc \<Rightarrow> message list \<Rightarrow> 't llm_option list \<Rightarrow> ('x, gov) em" where
  "llm_call_messages_parse sdk defaults T msgs opts =
     (let cfg = build_config defaults opts in
      recorded ''llm_call_messages_parse'' (\<lambda>c. Some (cached_to_parsed_result T c))
        (live_parsed (sdk_messages_parse sdk msgs (to_bucephalus_options cfg)) cfg))"

subsection \<open>durable_call.go\<close>

record 't durable_call =
  dc_name :: string
  dc_opts :: "'t llm_option list"

definition define_durable_call :: "string \<Rightarrow> 't llm_option list \<Rightarrow> 't durable_call" where
  "define_durable_call name opts = \<lparr>dc_name = name, dc_opts = opts\<rparr>"

definition durable_build_config ::
    "'t durable_call \<Rightarrow> 't llm_option list option \<Rightarrow> 't llm_option list \<Rightarrow> 't llm_config" where
  "durable_build_config d defaults opts =
     apply_options opts (apply_options (dc_opts d)
       (case defaults of None \<Rightarrow> new_llm_config | Some ds \<Rightarrow> apply_options ds new_llm_config))"

definition durable_execute ::
    "('x, 't) sdk \<Rightarrow> 't durable_call \<Rightarrow> 't llm_option list option \<Rightarrow> string \<Rightarrow> 't llm_option list \<Rightarrow>
     ('x, durable_response) em" where
  "durable_execute sdk d defaults prompt opts =
     (let cfg = durable_build_config d defaults opts in
      recorded (dc_name d) (\<lambda>c. Some (cached_to_durable_response c))
        (live_response (sdk_call sdk prompt (to_bucephalus_options cfg)) cfg record_llm))"

definition durable_execute_messages ::
    "('x, 't) sdk \<Rightarrow> 't durable_call \<Rightarrow> 't llm_option list option \<Rightarrow> message list \<Rightarrow> 't llm_option list \<Rightarrow>
     ('x, durable_response) em" where
  "durable_execute_messages sdk d defaults msgs opts =
     (let cfg = durable_build_config d defaults opts in
      recorded (dc_name d @ ''_messages'') (\<lambda>c. Some (cached_to_durable_response c))
        (live_response (sdk_messages sdk msgs (to_bucephalus_options cfg)) cfg record_llm))"

text \<open>
  The parsing calls decode the text of the reply into the caller's variable, whose contents is
  the value returned here; the variable starts with the zero value of its type.
\<close>

definition cached_target :: "tdesc \<Rightarrow> go_error + gov \<Rightarrow> go_error + json" where
  "cached_target T cached =
     (case cached_to_durable_response cached of
        Inl e \<Rightarrow> Inl e
      | Inr dr \<Rightarrow>
          if raw_length (dr_structured dr) = 0 then Inl no_structured
          else unmarshal_raw T (dr_structured dr))"

definition live_target ::
    "tdesc \<Rightarrow> ('x \<Rightarrow> (go_error + reply) \<times> 'x) \<Rightarrow> 't llm_config \<Rightarrow> string \<Rightarrow> ('x, json) em" where
  "live_target T perform cfg act =
     then_go (on_ext perform) (\<lambda>r. case r of
       Inl e \<Rightarrow> give_up act e e
     | Inr resp \<Rightarrow>
         (case unmarshal_raw T (Some (rp_document resp)) of
            Inl e \<Rightarrow> give_up act e (wrapf ''failed to parse LLM response'' e)
          | Inr v \<Rightarrow>
              try_go (keep_response act record_llm
                (with_structured (VTyped (td_name T) v)
                  (from_bucephalus_response resp (lc_provider cfg) (lc_model cfg)))) (\<lambda>_.
              ret v)))"

definition durable_execute_parse ::
    "('x, 't) sdk \<Rightarrow> 't durable_call \<Rightarrow> 't llm_option list option \<Rightarrow> tdesc \<Rightarrow> string \<Rightarrow> 't llm_option list \<Rightarrow>
     ('x, json) em" where
  "durable_execute_parse sdk d defaults T prompt opts =
     (let cfg = durable_build_config d defaults opts in
      recorded (dc_name d @ ''_parse'') (\<lambda>c. Some (cached_target T c))
        (live_target T (sdk_call sdk prompt (to_bucephalus_options cfg)) cfg))"

definition durable_execute_messages_parse ::
    "('x, 't) sdk \<Rightarrow> 't durable_call \<Rightarrow> 't llm_option list option \<Rightarrow> tdesc \<Rightarrow> message list \<Rightarrow> 't llm_option list \<Rightarrow>
     ('x, json) em" where
  "durable_execute_messages_parse sdk d defaults T msgs opts =
     (let cfg = durable_build_config d defaults opts in
      recorded (dc_name d @ ''_messages_parse'') (\<lambda>c. Some (cached_target T c))
        (live_target T (sdk_messages sdk msgs (to_bucephalus_options cfg)) cfg))"

end
