(* ===== verification/Llm_Agent.thy ===== *)
theory Llm_Agent
  imports Llm_Calls
begin

text \<open>
  llm/agent.go: an agent holds a conversation and calls tools until the model stops asking for
  them. A call of the agent acts on the run and on the conversation, \<open>'d\<close> being the
  dependencies the user keeps in it. The prompt builder and the tool provider of an agent are
  functions of their arguments; the tool executor is user code, a state transformer of the run.
\<close>

section \<open>The conversation\<close>

record 'd agent_context =
  ag_deps :: 'd
  ag_messages :: "message list"

definition new_agent_context :: "'d \<Rightarrow> 'd agent_context" where
  "new_agent_context deps = \<lparr>ag_deps = deps, ag_messages = []\<rparr>"

definition add_user_message :: "string \<Rightarrow> 'd agent_context \<Rightarrow> 'd agent_context" where
  "add_user_message content c = c\<lparr>ag_messages := ag_messages c @ [UserMessage content]\<rparr>"

definition add_assistant_message :: "string \<Rightarrow> 'd agent_context \<Rightarrow> 'd agent_context" where
  "add_assistant_message content c = c\<lparr>ag_messages := ag_messages c @ [AssistantMessage content]\<rparr>"

definition add_system_message :: "string \<Rightarrow> 'd agent_context \<Rightarrow> 'd agent_context" where
  "add_system_message content c = c\<lparr>ag_messages := SystemMessage content # ag_messages c\<rparr>"

type_synonym ('x, 'd, 'a) am = "('x exec \<times> 'd agent_context, go_error, 'a) go"

definition on_run :: "('x, 'a) em \<Rightarrow> ('x, 'd, 'a) am" where
  "on_run m p = (case m (fst p) of (r, s) \<Rightarrow> (r, (s, snd p)))"

definition on_talk :: "('d agent_context \<Rightarrow> 'd agent_context) \<Rightarrow> ('x, 'd, unit) am" where
  "on_talk f p = (Inr (), (fst p, f (snd p)))"

definition talk :: "('x, 'd, 'd agent_context) am" where
  "talk = get_go snd"

section \<open>The agent\<close>

record ('d, 't) agent =
  da_name :: string
  da_opts :: "'t llm_option list"
  da_build_prompt :: "('d agent_context \<Rightarrow> string \<Rightarrow> message list) option"
  da_get_tools :: "'t list option"

definition new_durable_agent :: "string \<Rightarrow> 't llm_option list \<Rightarrow> ('d, 't) agent" where
  "new_durable_agent name opts = \<lparr>da_name = name, da_opts = opts, da_build_prompt = None, da_get_tools = None\<rparr>"

definition with_build_prompt ::
    "('d agent_context \<Rightarrow> string \<Rightarrow> message list) \<Rightarrow> ('d, 't) agent \<Rightarrow> ('d, 't) agent" where
  "with_build_prompt fn a = a\<lparr>da_build_prompt := Some fn\<rparr>"

definition with_get_tools :: "'t list \<Rightarrow> ('d, 't) agent \<Rightarrow> ('d, 't) agent" where
  "with_get_tools tools a = a\<lparr>da_get_tools := Some tools\<rparr>"

definition agent_build_config :: "('d, 't) agent \<Rightarrow> 't llm_option list option \<Rightarrow> 't llm_config" where
  "agent_build_config a defaults =
     apply_options (da_opts a) (case defaults of None \<Rightarrow> new_llm_config | Some ds \<Rightarrow> apply_options ds new_llm_config)"

definition agent_tools :: "('d, 't) agent \<Rightarrow> 't llm_config \<Rightarrow> 't llm_config" where
  "agent_tools a cfg =
     (case da_get_tools a of
        None \<Rightarrow> cfg
      | Some tools \<Rightarrow> if length tools > 0 then cfg\<lparr>lc_tools := tools\<rparr> else cfg)"

section \<open>One turn\<close>

definition chat_messages :: "('d, 't) agent \<Rightarrow> 'd agent_context \<Rightarrow> string \<Rightarrow> message list" where
  "chat_messages a c msg =
     (case da_build_prompt a of
        Some fn \<Rightarrow> fn c msg
      | None \<Rightarrow> ag_messages c @ [UserMessage msg])"

text \<open>The conversation is extended when the response is known, from the model or from the cache.\<close>

definition chat ::
    "('x, 't) sdk \<Rightarrow> 't llm_option list option \<Rightarrow> ('d, 't) agent \<Rightarrow> string \<Rightarrow> ('x, 'd, durable_response) am" where
  "chat sdk defaults a msg =
     (let cfg = agent_build_config a defaults in
      try_go talk (\<lambda>c.
      try_go (on_run (recorded (da_name a @ ''_chat'') (\<lambda>r. Some (cached_to_durable_response r))
        (live_response
          (sdk_messages sdk (chat_messages a c msg) (to_bucephalus_options (agent_tools a cfg)))
          (agent_tools a cfg) ''failed to record agent chat result''))) (\<lambda>resp.
      try_go (on_talk (add_user_message msg)) (\<lambda>_.
      try_go (on_talk (add_assistant_message (dr_text resp))) (\<lambda>_.
      ret resp)))))"

section \<open>Tools\<close>

type_synonym 'x tool_executor = "tool_call \<Rightarrow> ('x, string) em"

text \<open>A cached tool result is a string or a map with a string under "result"; otherwise the tool runs.\<close>

definition cached_tool_result :: "go_error + gov \<Rightarrow> (go_error + string) option" where
  "cached_tool_result cached =
     (case cached of
        Inr (VJson (JStr s)) \<Rightarrow> Some (Inr s)
      | Inr (VJson (JObj kvs)) \<Rightarrow>
          (case json_get ''result'' (JObj kvs) of Some (JStr s) \<Rightarrow> Some (Inr s) | _ \<Rightarrow> None)
      | _ \<Rightarrow> None)"

definition tool_result_value :: "string \<Rightarrow> gov" where
  "tool_result_value s = VJson (JObj [(''result'', JStr s)])"

definition tool_activity :: "string \<Rightarrow> string \<Rightarrow> nat \<Rightarrow> string" where
  "tool_activity agent tool index = agent @ ''_tool_'' @ tool @ ''_'' @ show_nat index"

definition live_tool :: "'x tool_executor \<Rightarrow> tool_call \<Rightarrow> string \<Rightarrow> ('x, string) em" where
  "live_tool executor tc act =
     then_go (executor tc) (\<lambda>r. case r of
       Inl e \<Rightarrow> give_up act e e
     | Inr result \<Rightarrow>
         try_go (map_err (wrapf ''failed to record tool call result'')
           (ctx_record_activity_result act (Inr (tool_result_value result)))) (\<lambda>_.
         ret result))"

definition execute_tool_call ::
    "('d, 't) agent \<Rightarrow> 'x tool_executor \<Rightarrow> nat \<Rightarrow> tool_call \<Rightarrow> ('x, string) em" where
  "execute_tool_call a executor index tc =
     recorded (tool_activity (da_name a) (tc_name tc) index) cached_tool_result (live_tool executor tc)"

primrec run_tools ::
    "('d, 't) agent \<Rightarrow> 'x tool_executor \<Rightarrow> nat \<Rightarrow> tool_call list \<Rightarrow> ('x, message list) em" where
  "run_tools a executor index [] = ret []"
| "run_tools a executor index (tc # tcs) =
     try_go (map_err (\<lambda>e. Wrapped (''tool call '' @ tc_name tc @ '' failed: '') e '''')
       (execute_tool_call a executor index tc)) (\<lambda>result.
     try_go (run_tools a executor (Suc index) tcs) (\<lambda>rest.
     ret (ToolMessage (tc_id tc) result # rest)))"

definition continue_messages :: "'d agent_context \<Rightarrow> durable_response \<Rightarrow> message list \<Rightarrow> message list" where
  "continue_messages c last_resp tool_msgs =
     ag_messages c
     @ [AssistantMessageWithToolCalls (dr_text last_resp) (map tool_call_to_bucephalus (dr_tool_calls last_resp))]
     @ tool_msgs"

definition continue_with_tool_results ::
    "('x, 't) sdk \<Rightarrow> 't llm_option list option \<Rightarrow> ('d, 't) agent \<Rightarrow> durable_response \<Rightarrow> message list \<Rightarrow>
     ('x, 'd, durable_response) am" where
  "continue_with_tool_results sdk defaults a last_resp tool_msgs =
     (let cfg = agent_build_config a defaults in
      try_go talk (\<lambda>c.
      try_go (on_run (recorded (da_name a @ ''_tool_continue'') (\<lambda>r. Some (cached_to_durable_response r))
        (live_response
          (sdk_messages sdk (continue_messages c last_resp tool_msgs) (to_bucephalus_options (agent_tools a cfg)))
          (agent_tools a cfg) ''failed to record agent continue result''))) (\<lambda>resp.
      try_go (on_talk (add_assistant_message (dr_text resp))) (\<lambda>_.
      ret resp))))"

text \<open>The argument \<open>n\<close> is the number of iterations left, \<open>maxIterations - iterations\<close> of the code.\<close>

primrec tool_loop ::
    "('x, 't) sdk \<Rightarrow> 't llm_option list option \<Rightarrow> ('d, 't) agent \<Rightarrow> 'x tool_executor \<Rightarrow> nat \<Rightarrow>
     durable_response \<Rightarrow> ('x, 'd, durable_response) am" where
  "tool_loop sdk defaults a executor 0 resp = ret resp"
| "tool_loop sdk defaults a executor (Suc n) resp =
     (if \<not> has_tool_calls resp then ret resp
      else
        try_go (on_run (run_tools a executor 0 (dr_tool_calls resp))) (\<lambda>tool_msgs.
        try_go (continue_with_tool_results sdk defaults a resp tool_msgs)
          (tool_loop sdk defaults a executor n)))"

definition chat_with_tool_loop ::
    "('x, 't) sdk \<Rightarrow> 't llm_option list option \<Rightarrow> ('d, 't) agent \<Rightarrow> string \<Rightarrow> int \<Rightarrow> 'x tool_executor \<Rightarrow>
     ('x, 'd, durable_response) am" where
  "chat_with_tool_loop sdk defaults a msg max_iterations executor =
     try_go (chat sdk defaults a msg) (tool_loop sdk defaults a executor (nat max_iterations))"

end
