(* ===== verification/Llm_Replay.thy ===== *)
theory Llm_Replay
  imports Llm_Agent
begin

text \<open>
  A conversation with a model is durable: a turn that has been completed once gives the same
  response, and leaves the same conversation, when the workflow is run again from the stored
  history, without a call of the model or of a tool.

  \<open>replayed_by\<close> relates a computation to the one that replays it, with one rule per combinator.
  \<open>mirrors\<close> says that what the run has cached is what the history it has written will put into
  the caches, up to the type of a response, which comes back as a map.
\<close>

section \<open>The JSON of a response\<close>

text \<open>Replies whose numbers a float64 holds and whose tool arguments are JSON documents.\<close>

definition exact_arguments :: "sdk_tool_call \<Rightarrow> bool" where
  "exact_arguments c \<longleftrightarrow> (\<exists>j. sc_arguments c = BJson j \<and> json_exact j)"

definition exact_reply :: "reply \<Rightarrow> bool" where
  "exact_reply r \<longleftrightarrow> json_exact (usage_json (rp_usage r)) \<and> (\<forall>c \<in> set (rp_tool_calls r). exact_arguments c)"

lemma tool_call_roundtrip:
  assumes "exact_arguments c"
  shows "\<exists>j. tool_call_json (tool_call_from_bucephalus c) = Some j \<and> json_exact j
    \<and> decode_tool_call j = Some (tool_call_from_bucephalus c)"
proof -
  from assms obtain a where a: "sc_arguments c = BJson a" "json_exact a" by (auto simp: exact_arguments_def)
  let ?j = "JObj [(''id'', JStr (sc_id c)), (''name'', JStr (sc_name c)), (''arguments'', a)]"
  have "tool_call_json (tool_call_from_bucephalus c) = Some ?j"
    using a(1) by (simp add: tool_call_json_def tool_call_from_bucephalus_def raw_json_def)
  moreover have "json_exact ?j" using a(2) by simp
  moreover have "decode_tool_call ?j = Some (tool_call_from_bucephalus c)"
    using a(1) by (simp add: decode_tool_call_def field_string_def field_raw_def tool_call_from_bucephalus_def)
  ultimately show ?thesis by blast
qed

lemma tool_calls_roundtrip:
  "\<forall>c \<in> set cs. exact_arguments c \<Longrightarrow>
   \<exists>js. those (map tool_call_json (map tool_call_from_bucephalus cs)) = Some js \<and> list_all json_exact js
     \<and> those (map decode_tool_call js) = Some (map tool_call_from_bucephalus cs) \<and> length js = length cs"
proof (induction cs)
  case (Cons c cs)
  then obtain js where "those (map tool_call_json (map tool_call_from_bucephalus cs)) = Some js" "list_all json_exact js"
    "those (map decode_tool_call js) = Some (map tool_call_from_bucephalus cs)" "length js = length cs"
    by auto
  moreover obtain j where "tool_call_json (tool_call_from_bucephalus c) = Some j" "json_exact j"
    "decode_tool_call j = Some (tool_call_from_bucephalus c)"
    using tool_call_roundtrip Cons.prems by (meson list.set_intros(1))
  ultimately show ?case by (intro exI [of _ "j # js"]) simp
qed simp

lemma usage_roundtrip: "decode_usage (usage_json u) = Some u"
  by (simp add: decode_usage_def usage_json_def field_int_def)

lemma usage_not_null: "usage_json u \<noteq> JNull"
  by (simp add: usage_json_def)

lemma field_usage_Some:
  assumes "json_get ''usage'' j = Some (usage_json u)"
  shows "field_usage j = Some (Some u)"
proof -
  obtain kvs where k: "usage_json u = JObj kvs" by (simp add: usage_json_def)
  show ?thesis using assms usage_roundtrip [of u] unfolding k by (simp add: field_usage_def)
qed

lemma decode_response_fields:
  assumes "json_is_object j" "dr_structured r = None"
    and "json_get ''text'' j = Some (JStr (dr_text r))"
    and "json_get ''model'' j = (if dr_model r = '''' then None else Some (JStr (dr_model r)))"
    and "json_get ''provider'' j = (if dr_provider r = '''' then None else Some (JStr (dr_provider r)))"
    and "json_get ''usage'' j = map_option usage_json (dr_usage r)"
    and "json_get ''tool_calls'' j = (if js = [] then None else Some (JArr js))"
    and "json_get ''finish_reason'' j = (if dr_finish r = '''' then None else Some (JStr (dr_finish r)))"
    and "json_get ''structured'' j = None" "those (map decode_tool_call js) = Some (dr_tool_calls r)"
  shows "decode_response j = Some r"
proof -
  have "field_usage j = Some (dr_usage r)"
    using assms(6) field_usage_Some [of j] by (cases "dr_usage r") (simp add: field_usage_def, simp)
  moreover have "field_tool_calls j = Some (dr_tool_calls r)"
    using assms(7,10) by (cases "js = []") (simp_all add: field_tool_calls_def)
  ultimately show ?thesis
    using assms by (simp add: decode_response_def field_string_def field_raw_def)
qed

lemma response_roundtrip:
  assumes "exact_reply resp"
  shows "\<exists>kvs. response_json (from_bucephalus_response resp provider model) = Some (JObj kvs) \<and> json_exact (JObj kvs)
    \<and> decode_response (JObj kvs) = Some (from_bucephalus_response resp provider model)"
proof -
  define r where "r = from_bucephalus_response resp provider model"
  from assms obtain js where js:
    "those (map tool_call_json (dr_tool_calls r)) = Some js" "list_all json_exact js"
    "those (map decode_tool_call js) = Some (dr_tool_calls r)"
    using tool_calls_roundtrip [of "rp_tool_calls resp"]
    unfolding exact_reply_def r_def from_bucephalus_response_def durable_response.simps by force
  have st: "dr_structured r = None" and us: "\<forall>u. dr_usage r = Some u \<longrightarrow> json_exact (usage_json u)"
    using assms by (auto simp: r_def from_bucephalus_response_def exact_reply_def)
  define kvs where "kvs = [(''text'', JStr (dr_text r))]
     @ opt_string ''model'' (dr_model r) @ opt_string ''provider'' (dr_provider r)
     @ (case dr_usage r of None \<Rightarrow> [] | Some u \<Rightarrow> [(''usage'', usage_json u)])
     @ (if js = [] then [] else [(''tool_calls'', JArr js)]) @ opt_string ''finish_reason'' (dr_finish r)"
  have "response_json r = Some (JObj kvs)"
    using js(1) st by (simp add: response_json_def raw_length_def kvs_def)
  moreover have "json_exact (JObj kvs)"
    using js(2) us by (simp add: kvs_def opt_string_def split: option.split)
  moreover have "decode_response (JObj kvs) = Some r"
    by (rule decode_response_fields [OF _ st _ _ _ _ _ _ _ js(3)])
      (simp_all add: kvs_def opt_string_def split: option.split)
  ultimately show ?thesis unfolding r_def by blast
qed

section \<open>What a run has cached and what it has written\<close>

definition rows_of :: "string \<Rightarrow> 'x exec \<Rightarrow> history_event list" where
  "rows_of i s = history_of i (w_db (ex_world s))"

definition stored :: "history_event list \<Rightarrow> string \<Rightarrow> (go_error + gov) option" where
  "stored rows = lookup (build_caches rows)"

definition same_cached :: "(go_error + gov) option \<Rightarrow> (go_error + gov) option \<Rightarrow> bool" where
  "same_cached x y \<longleftrightarrow>
     x = y \<or> (\<exists>kvs. x = Some (Inr (VTyped response_type (JObj kvs))) \<and> y = Some (Inr (VJson (JObj kvs))))"

definition mirrors :: "string \<Rightarrow> 'x exec \<Rightarrow> bool" where
  "mirrors i s \<longleftrightarrow>
     (\<forall>act. same_cached (cached_in s act) (stored (rows_of i s) act)) \<and>
     (\<forall>h \<in> set (rows_of i s). cached_in s (he_activity h) \<noteq> None)"

lemma same_cached_refl [simp]: "same_cached x x"
  by (simp add: same_cached_def)

lemma same_cached_None: "same_cached None y \<longleftrightarrow> y = None" "same_cached x None \<longleftrightarrow> x = None"
  by (auto simp: same_cached_def)

lemma same_cached_response:
  "same_cached (Some c) y \<Longrightarrow> cached_to_durable_response c = Inr r \<Longrightarrow>
   \<exists>c'. y = Some c' \<and> cached_to_durable_response c' = Inr r"
  by (auto simp: same_cached_def cached_to_durable_response_def split: option.splits)

lemma same_cached_tool:
  "same_cached (Some c) y \<Longrightarrow> cached_tool_result c = Some r \<Longrightarrow> \<exists>c'. y = Some c' \<and> cached_tool_result c' = Some r"
  by (auto simp: same_cached_def cached_tool_result_def)

text \<open>A result recorded under a new id: \<open>v\<close> is in the run's cache, its document in the history.\<close>

definition kept :: "string \<Rightarrow> string \<Rightarrow> gov \<Rightarrow> json \<Rightarrow> 'x exec \<Rightarrow> 'x exec \<Rightarrow> bool" where
  "kept i act v j s s' \<longleftrightarrow>
     ready i s' \<and> mirrors i s' \<and> ex_counts s' = ex_counts s
     \<and> cached_in s' = (cached_in s)(act \<mapsto> Inr v)
     \<and> stored (rows_of i s) \<subseteq>\<^sub>m stored (rows_of i s') \<and> stored (rows_of i s') act = Some (Inr (VJson j))"

definition same_document :: "gov \<Rightarrow> json \<Rightarrow> bool" where
  "same_document v j \<longleftrightarrow> v = VJson j \<or> (v = VTyped response_type j \<and> json_is_object j)"

lemma same_document_cached: "same_document v j \<Longrightarrow> same_cached (Some (Inr v)) (Some (Inr (VJson j)))"
  by (cases j) (auto simp: same_document_def same_cached_def)

text \<open>Recording a typed value does what recording its document does, but for the run's cache.\<close>

lemma record_typed:
  assumes "ctx_record_activity_result act (Inr (VJson j)) s = (Inr (), s')" "marshal v = Some j"
  shows "ctx_record_activity_result act (Inr v) s =
    (Inr (), s'\<lparr>ex_results := (ex_results s')(act \<mapsto> (BNil, v))\<rparr>)"
  using assms
  by (auto simp: ctx_record_activity_result_def exec_record_with_context_def on_world_def try_go_def
      record_activity_result_def set_cached_result_def split: prod.splits sum.splits)

lemma record_kept:
  assumes "ready i s" "mirrors i s" "cached_in s act = None" "same_document v j" "json_exact j"
  obtains s' where "ctx_record_activity_result act (Inr v) s = (Inr (), s')" "kept i act v j s s'"
proof -
  have new: "\<not> has_history i act (here s)"
    using assms(1-3) by (auto simp: mirrors_def rows_of_def has_history_of here_def ready_def)
  have m: "marshal v = Some j" using assms(4) by (auto simp: same_document_def)
  from record_completed [OF ready_open [OF assms(1)] _ new refl] assms(1) obtain s1 h where
    s1: "ctx_record_activity_result act (Inr (VJson j)) s = (Inr (), s1)" "open_tx s1" "ex_instance s1 = i"
      "ex_in_tx s1 = ex_in_tx s" "ex_counts s1 = ex_counts s"
      "ex_results s1 = (ex_results s)(act \<mapsto> (BNil, VJson j))" "ex_errors s1 = ex_errors s"
      "history_of i (here s1) = history_of i (here s) @ [h]" "completed act j h"
    by (auto simp: ready_def)
  let ?s' = "s1\<lparr>ex_results := (ex_results s1)(act \<mapsto> (BNil, v))\<rparr>"
  have rows: "rows_of i ?s' = rows_of i s @ [h]"
    using s1(4,8) assms(1) by (simp add: rows_of_def here_def ready_def)
  then have rset: "set (rows_of i ?s') = insert h (set (rows_of i s))" by simp
  have cache: "cached_in ?s' = (cached_in s)(act \<mapsto> Inr v)"
    using s1(6,7) by (intro ext) (auto simp: cached_in_def lookup_def split: option.split)
  have st: "stored (rows_of i ?s') = (stored (rows_of i s))(act \<mapsto> Inr (VJson j))"
    unfolding rows stored_def using build_caches_snoc [OF s1(9) assms(5)]
    by (intro ext) (auto simp: lookup_def split: option.split)
  have none: "stored (rows_of i s) act = None"
    using assms(2,3) by (metis mirrors_def same_cached_None(1))
  have "mirrors i ?s'"
    using assms(2) same_document_cached [OF assms(4)] s1(9) rset unfolding mirrors_def cache st
    by (auto simp: completed_def)
  moreover have "ready i ?s'"
    using s1(2,3,4) assms(1) by (auto simp: ready_def open_tx_def)
  moreover have "stored (rows_of i s) \<subseteq>\<^sub>m stored (rows_of i ?s')"
    unfolding st using none by (auto simp: map_le_def)
  ultimately have "kept i act v j s ?s'"
    using s1(5) cache st by (simp add: kept_def)
  with record_typed [OF s1(1) m] that show ?thesis by blast
qed

text \<open>User code that leaves the instance's history alone.\<close>

lemma frame_keeps:
  assumes "frame i s s'" "ready i s" "mirrors i s"
  shows "ready i s' \<and> mirrors i s' \<and> ex_counts s' = ex_counts s \<and> cached_in s' = cached_in s
    \<and> rows_of i s' = rows_of i s"
  using assms by (auto simp: frame_def ready_def mirrors_def rows_of_def cached_in_def db_frame_def tx_frame_def
      split: option.splits)

lemma on_ext_frame: "frame i s (snd (on_ext f s))"
  by (simp add: on_ext_def frame_def callbacks_in_tx_def split: prod.split)

section \<open>Replaying\<close>

text \<open>The replay \<open>t\<close> of the run \<open>s\<close>, in any world \<open>w\<close>, with the results of \<open>rows\<close> cached.\<close>

definition follows :: "history_event list \<Rightarrow> 'y world \<Rightarrow> 'x exec \<Rightarrow> 'y exec \<Rightarrow> bool" where
  "follows rows w s t \<longleftrightarrow> ex_counts t = ex_counts s \<and> cached_in t = stored rows \<and> ex_world t = w"

definition replayed_by ::
    "string \<Rightarrow> ('x exec \<Rightarrow> bool) \<Rightarrow> ('x, 'a) em \<Rightarrow> ('y, 'a) em \<Rightarrow> bool" where
  "replayed_by i P m m' \<longleftrightarrow>
     (\<forall>s v s1. ready i s \<longrightarrow> mirrors i s \<longrightarrow> P s \<longrightarrow> m s = (Inr v, s1) \<longrightarrow>
        ready i s1 \<and> mirrors i s1 \<and> P s1 \<and> stored (rows_of i s) \<subseteq>\<^sub>m stored (rows_of i s1) \<and>
        (\<forall>rows w t. stored (rows_of i s1) \<subseteq>\<^sub>m stored rows \<longrightarrow> follows rows w s t \<longrightarrow>
           (\<exists>t1. m' t = (Inr v, t1) \<and> follows rows w s1 t1)))"

lemma replayed_ret: "replayed_by i P (ret x) (ret x)"
  by (simp add: replayed_by_def map_le_def)

lemma map_err_returns: "map_err f m s = (Inr v, s1) \<longleftrightarrow> m s = (Inr v, s1)"
  by (auto simp: map_err_def split: prod.splits sum.splits)

lemma replayed_map_err:
  "replayed_by i P m m' \<Longrightarrow> replayed_by i P (map_err f m) (map_err f m')"
  unfolding replayed_by_def map_err_returns .

lemma replayed_try:
  fixes m' :: "('y, 'b) em"
  assumes "replayed_by i P m m'" "\<And>x. replayed_by i P (k x) (k' x)"
  shows "replayed_by i P (try_go m k) (try_go m' k')"
  unfolding replayed_by_def
proof (intro allI impI)
  fix s v s2 assume s: "ready i s" "mirrors i s" "P s" "try_go m k s = (Inr v, s2)"
  then obtain x s1 where m: "m s = (Inr x, s1)" and k: "k x s1 = (Inr v, s2)"
    by (auto simp: try_go_def split: prod.splits sum.splits)
  note one = assms(1) [unfolded replayed_by_def, rule_format, OF s(1-3) m]
  then have s1: "ready i s1" "mirrors i s1" "P s1" by auto
  note two = assms(2) [of x, unfolded replayed_by_def, rule_format, OF s1 k]
  show "ready i s2 \<and> mirrors i s2 \<and> P s2 \<and> stored (rows_of i s) \<subseteq>\<^sub>m stored (rows_of i s2) \<and>
    (\<forall>rows w t. stored (rows_of i s2) \<subseteq>\<^sub>m stored rows \<longrightarrow> follows rows w s t \<longrightarrow>
      (\<exists>t1. try_go m' k' t = (Inr v, t1) \<and> follows rows w s2 t1))"
  proof (intro conjI allI impI)
    fix rows w and t :: "'y exec" assume r: "stored (rows_of i s2) \<subseteq>\<^sub>m stored rows" "follows rows w s t"
    from two r(1) have "stored (rows_of i s1) \<subseteq>\<^sub>m stored rows" by (blast intro: map_le_trans)
    with one r(2) obtain t1 where t1: "m' t = (Inr x, t1)" "follows rows w s1 t1" by blast
    with two r(1) obtain t2 where "k' x t1 = (Inr v, t2)" "follows rows w s2 t2" by blast
    with t1(1) show "\<exists>t1. try_go m' k' t = (Inr v, t1) \<and> follows rows w s2 t1" by simp
  qed (use one two in \<open>auto intro: map_le_trans\<close>)
qed

section \<open>Recorded calls\<close>

text \<open>
  What a live call has to do for its replay to find it: leave the rest alone and put a result
  that the call can use into the history. \<open>P\<close> is a property of what the run has cached.
\<close>

definition lives :: "string \<Rightarrow> ('x exec \<Rightarrow> bool) \<Rightarrow> string \<Rightarrow> (go_error + gov \<Rightarrow> (go_error + 'a) option) \<Rightarrow>
    ('x, 'a) em \<Rightarrow> bool" where
  "lives i P act of_cache m \<longleftrightarrow>
     (\<forall>s v s1. ready i s \<longrightarrow> mirrors i s \<longrightarrow> P s \<longrightarrow> cached_in s act = None \<longrightarrow> m s = (Inr v, s1) \<longrightarrow>
        (\<exists>u j. kept i act u j s s1 \<and> of_cache (Inr (VJson j)) = Some (Inr v) \<and> P s1))"

lemma recorded_run:
  "recorded name of_cache live s =
     (let act = call_id name '''' s; s1 = hit act (after_id name '''' s) in
      case (case cached_in s act of None \<Rightarrow> None | Some c \<Rightarrow> of_cache c) of
        Some (Inl e) \<Rightarrow> (Inl e, s1)
      | Some (Inr v) \<Rightarrow> (Inr v, s1)
      | None \<Rightarrow> live act s1)"
  by (simp add: recorded_def generate_activity_id_def call_id_def after_id_def get_cached_result_eq Let_def
      cached_in_def split: option.split sum.split)

lemma hit_none: "cached_in s act = None \<Longrightarrow> hit act s = s"
  by (simp add: hit_def)

lemma counted_fields:
  "ready i (hit act (after_id n g s)) = ready i s" "mirrors i (hit act (after_id n g s)) = mirrors i s"
  "rows_of i (hit act (after_id n g s)) = rows_of i s"
  by (simp_all add: ready_def mirrors_def rows_of_def)

lemma replayed_recorded:
  fixes live :: "string \<Rightarrow> ('x, 'a) em" and live' :: "string \<Rightarrow> ('y, 'a) em"
  assumes live: "\<And>s :: 'x exec. lives i P (call_id name '''' s) of_cache (live (call_id name '''' s))"
    and usable: "\<And>s c. P s \<Longrightarrow> cached_in s (call_id name '''' s) = Some c \<Longrightarrow> of_cache c \<noteq> None"
    and same: "\<And>c y r. same_cached (Some c) y \<Longrightarrow> of_cache c = Some (Inr r) \<Longrightarrow>
      \<exists>c'. y = Some c' \<and> of_cache c' = Some (Inr r)"
    and stable: "\<And>s s'. cached_in s' = cached_in s \<Longrightarrow> P s' = P s"
  shows "replayed_by i P (recorded name of_cache live) (recorded name of_cache live')"
  unfolding replayed_by_def
proof (intro allI impI)
  fix s v s1 assume s: "ready i s" "mirrors i s" "P s" and run: "recorded name of_cache live s = (Inr v, s1)"
  let ?act = "call_id name '''' s"
  let ?s0 = "hit ?act (after_id name '''' s)"
  have s0: "ready i ?s0" "mirrors i ?s0" "P ?s0" "cached_in ?s0 = cached_in s" "rows_of i ?s0 = rows_of i s"
    using s stable [of ?s0 s] by (simp_all add: counted_fields)
  have res: "ready i s1 \<and> mirrors i s1 \<and> P s1 \<and> stored (rows_of i s) \<subseteq>\<^sub>m stored (rows_of i s1)
    \<and> ex_counts s1 = ex_counts ?s0 \<and> (\<exists>c. stored (rows_of i s1) ?act = Some c \<and> of_cache c = Some (Inr v))"
  proof (cases "cached_in s ?act")
    case None
    with run have "live ?act ?s0 = (Inr v, s1)" by (simp add: recorded_run Let_def)
    then obtain u j where "kept i ?act u j ?s0 s1" "of_cache (Inr (VJson j)) = Some (Inr v)" "P s1"
      using live [of s, unfolded lives_def, rule_format, OF s0(1-3)] None s0(4) by auto
    with s0(5) show ?thesis by (auto simp: kept_def)
  next
    case (Some c)
    with usable [OF s(3)] run have c: "of_cache c = Some (Inr v)" "s1 = ?s0"
      by (auto simp: recorded_run Let_def split: option.splits sum.splits)
    have "same_cached (Some c) (stored (rows_of i s) ?act)"
      using s(2) Some by (metis mirrors_def)
    with same c(1) obtain c' where "stored (rows_of i s) ?act = Some c'" "of_cache c' = Some (Inr v)" by blast
    with c(2) s0 show ?thesis by (simp add: map_le_def)
  qed
  then obtain c where c: "stored (rows_of i s1) ?act = Some c" "of_cache c = Some (Inr v)" by blast
  show "ready i s1 \<and> mirrors i s1 \<and> P s1 \<and> stored (rows_of i s) \<subseteq>\<^sub>m stored (rows_of i s1) \<and>
    (\<forall>rows w t. stored (rows_of i s1) \<subseteq>\<^sub>m stored rows \<longrightarrow> follows rows w s t \<longrightarrow>
      (\<exists>t1. recorded name of_cache live' t = (Inr v, t1) \<and> follows rows w s1 t1))"
  proof (intro conjI allI impI)
    fix rows w and t :: "'y exec" assume r: "stored (rows_of i s1) \<subseteq>\<^sub>m stored rows" "follows rows w s t"
    have cnt: "ex_counts (after_id name '''' t) = ex_counts (after_id name '''' s)"
      using r(2) by (simp add: follows_def after_id_def)
    have id: "call_id name '''' t = ?act" using r(2) by (simp add: call_id_def follows_def)
    have "stored rows ?act = Some c" using r(1) c(1) by (simp add: map_le_def dom_def)
    then have "cached_in t ?act = Some c" using r(2) by (simp add: follows_def)
    with c(2) id have "recorded name of_cache live' t = (Inr v, hit ?act (after_id name '''' t))"
      by (simp add: recorded_run)
    moreover have "follows rows w s1 (hit ?act (after_id name '''' t))"
      using r(2) res cnt by (simp add: follows_def)
    ultimately show "\<exists>t1. recorded name of_cache live' t = (Inr v, t1) \<and> follows rows w s1 t1" by blast
  qed (use res in auto)
qed

subsection \<open>Calls of the model\<close>

definition exact_sdk :: "('x \<Rightarrow> (go_error + reply) \<times> 'x) \<Rightarrow> bool" where
  "exact_sdk perform \<longleftrightarrow> (\<forall>x resp. fst (perform x) = Inr resp \<longrightarrow> exact_reply resp)"

lemma response_kept:
  assumes "exact_reply resp" "r = from_bucephalus_response resp provider model"
  shows "\<exists>j. same_document (response_value r) j \<and> json_exact j
    \<and> cached_to_durable_response (Inr (VJson j)) = Inr r"
proof -
  from response_roundtrip [OF assms(1)] obtain kvs where
    "response_json r = Some (JObj kvs)" "json_exact (JObj kvs)" "decode_response (JObj kvs) = Some r"
    unfolding assms(2) by blast
  then show ?thesis
    by (intro exI [of _ "JObj kvs"])
      (simp add: same_document_def response_value_def cached_to_durable_response_def del: json_exact.simps)
qed

lemma stor_ext: "w_ext (snd (stor b m w)) = w_ext w"
  by (simp add: stor_def split: option.split prod.split)

lemma record_activity_ext: "w_ext (snd (record_activity_result b i act r w)) = w_ext w"
  by (simp add: record_activity_result_def stor_ext split: sum.split option.split)

lemma record_ext: "w_ext (ex_world (snd (ctx_record_activity_result act r s))) = w_ext (ex_world s)"
proof -
  obtain r1 w1 where r1: "record_activity_result (ex_in_tx s) (ex_instance s) act r (ex_world s) = (r1, w1)"
    by (cases "record_activity_result (ex_in_tx s) (ex_instance s) act r (ex_world s)")
  have "w_ext w1 = w_ext (ex_world s)"
    using record_activity_ext [of "ex_in_tx s" "ex_instance s" act r "ex_world s"] r1 by simp
  with r1 show ?thesis
    by (cases r; cases r1) (simp_all add: ctx_record_activity_result_def exec_record_with_context_def
      on_world_def try_go_def set_cached_result_def)
qed

lemma live_response_run:
  assumes "ready i s" "mirrors i s" "cached_in s act = None"
    and "perform (w_ext (ex_world s)) = (Inr resp, x)" "exact_reply resp"
    and "r = from_bucephalus_response resp (lc_provider cfg) (lc_model cfg)"
  obtains s1 j where "live_response perform cfg msg act s = (Inr r, s1)" "kept i act (response_value r) j s s1"
    "cached_to_durable_response (Inr (VJson j)) = Inr r" "w_ext (ex_world s1) = x"
proof -
  obtain s0 where ext: "on_ext perform s = (Inr resp, s0)" and x: "w_ext (ex_world s0) = x"
    using assms(4) by (simp add: on_ext_def)
  have "frame i s s0" using on_ext_frame [of i s perform] ext by simp
  note s0 = frame_keeps [OF this assms(1,2)]
  then have new: "ready i s0" "mirrors i s0" "cached_in s0 act = None" using assms(3) by auto
  from response_kept [OF assms(5,6)] obtain j where j: "same_document (response_value r) j" "json_exact j"
    "cached_to_durable_response (Inr (VJson j)) = Inr r" by blast
  from record_kept [OF new j(1,2)] obtain s1 where
    s1: "ctx_record_activity_result act (Inr (response_value r)) s0 = (Inr (), s1)" "kept i act (response_value r) j s0 s1" .
  have "live_response perform cfg msg act s = (Inr r, s1)"
    using ext s1(1) assms(6) by (simp add: live_response_def keep_response_def)
  moreover have "kept i act (response_value r) j s s1"
    using s1(2) s0 by (simp add: kept_def)
  moreover have "w_ext (ex_world s1) = x"
    using record_ext [of act "Inr (response_value r)" s0] s1(1) x by simp
  ultimately show ?thesis using j(3) that by blast
qed

lemma lives_response:
  assumes "exact_sdk perform" "\<And>s s' u. cached_in s' = (cached_in s)(act \<mapsto> u) \<Longrightarrow> cached_in s act = None \<Longrightarrow> P s \<Longrightarrow> P s'"
  shows "lives i P act (\<lambda>c. Some (cached_to_durable_response c)) (live_response perform cfg msg act)"
  unfolding lives_def
proof (intro allI impI)
  fix s v s2 assume s: "ready i s" "mirrors i s" "P s" "cached_in s act = None"
    and run: "live_response perform cfg msg act s = (Inr v, s2)"
  from run obtain resp x where resp: "perform (w_ext (ex_world s)) = (Inr resp, x)"
    by (cases "perform (w_ext (ex_world s))"; cases "fst (perform (w_ext (ex_world s)))")
      (auto simp: live_response_def on_ext_def then_go_def give_up_def try_go_def)
  then have "exact_reply resp" using assms(1) by (metis exact_sdk_def fst_conv)
  from live_response_run [where perform = perform and cfg = cfg and msg = msg and x = x, OF s(1,2,4) resp this refl] run obtain j where
    k: "kept i act (response_value v) j s s2" "cached_to_durable_response (Inr (VJson j)) = Inr v"
    by auto
  then have "P s2" using assms(2) s(3,4) by (simp add: kept_def)
  with k show "\<exists>u j. kept i act u j s s2 \<and> Some (cached_to_durable_response (Inr (VJson j))) = Some (Inr v) \<and> P s2"
    by blast
qed

subsection \<open>Calls of tools\<close>

text \<open>What is cached under the id of a tool call of the agent is a tool result.\<close>

definition usable_tools :: "string \<Rightarrow> 'x exec \<Rightarrow> bool" where
  "usable_tools agent s \<longleftrightarrow>
     (\<forall>tool index n c. cached_in s (tool_activity agent tool index @ CHR '':'' # show_nat n) = Some c \<longrightarrow>
        cached_tool_result c \<noteq> None)"

definition leaves_alone :: "string \<Rightarrow> 'x tool_executor \<Rightarrow> bool" where
  "leaves_alone i executor \<longleftrightarrow> (\<forall>tc s. frame i s (snd (executor tc s)))"

lemma call_id_new: "call_id name '''' s = name @ CHR '':'' # show_nat (Suc (ex_counts s name))"
  by (simp add: call_id_def)

lemma underscore_not_digit: "CHR ''_'' \<notin> set (show_nat n)"
  using show_nat_digits [of n] by (auto simp: is_digit_def)

lemma chat_id_no_tool: "(agent @ ''_chat'') @ x \<noteq> tool_activity agent tool index @ y"
  by (simp add: tool_activity_def)

lemma continue_id_no_tool:
  "(agent @ ''_tool_continue'') @ CHR '':'' # show_nat m \<noteq> tool_activity agent tool index @ y"
proof
  assume "(agent @ ''_tool_continue'') @ CHR '':'' # show_nat m = tool_activity agent tool index @ y"
  then have "''continue:'' @ show_nat m = tool @ CHR ''_'' # show_nat index @ y"
    by (simp add: tool_activity_def)
  then have "CHR ''_'' \<in> set (''continue:'' @ show_nat m)" by simp
  then show False using underscore_not_digit by simp
qed

lemma usable_update:
  assumes "cached_in s' = (cached_in s)(act \<mapsto> u)" "usable_tools agent s"
    and "cached_tool_result u \<noteq> None \<or> (\<forall>tool index n. act \<noteq> tool_activity agent tool index @ CHR '':'' # show_nat n)"
  shows "usable_tools agent s'"
  unfolding usable_tools_def
proof (intro allI impI)
  fix tool index n c assume c: "cached_in s' (tool_activity agent tool index @ CHR '':'' # show_nat n) = Some c"
  show "cached_tool_result c \<noteq> None"
  proof (cases "act = tool_activity agent tool index @ CHR '':'' # show_nat n")
    case True
    with c assms(1,3) show ?thesis by auto
  next
    case False
    with c assms(1) have "cached_in s (tool_activity agent tool index @ CHR '':'' # show_nat n) = Some c" by auto
    with assms(2) show ?thesis unfolding usable_tools_def by blast
  qed
qed

lemma tool_kept:
  "same_document (tool_result_value r) (JObj [(''result'', JStr r)])" "json_exact (JObj [(''result'', JStr r)])"
  "cached_tool_result (Inr (VJson (JObj [(''result'', JStr r)]))) = Some (Inr r)"
  "cached_tool_result (Inr (tool_result_value r)) = Some (Inr r)"
  by (simp_all add: same_document_def tool_result_value_def cached_tool_result_def)

lemma lives_tool:
  assumes "leaves_alone i executor"
  shows "lives i (usable_tools agent) act cached_tool_result (live_tool executor tc act)"
  unfolding lives_def
proof (intro allI impI)
  fix s v s2 assume s: "ready i s" "mirrors i s" "usable_tools agent s" "cached_in s act = None"
    and run: "live_tool executor tc act s = (Inr v, s2)"
  obtain r s1 where ex: "executor tc s = (r, s1)" by (cases "executor tc s")
  then have "frame i s s1" using assms by (metis leaves_alone_def snd_conv)
  note s1 = frame_keeps [OF this s(1,2)]
  from run ex obtain result where r: "r = Inr result"
    by (cases r) (auto simp: live_tool_def give_up_def try_go_def)
  have new: "cached_in s1 act = None" "ready i s1" "mirrors i s1" using s s1 by auto
  from record_kept [OF new(2,3,1) tool_kept(1,2)] obtain s3 where
    s3: "ctx_record_activity_result act (Inr (tool_result_value result)) s1 = (Inr (), s3)"
      "kept i act (tool_result_value result) (JObj [(''result'', JStr result)]) s1 s3" .
  with run ex r have "v = result" "s3 = s2" by (auto simp: live_tool_def)
  moreover have "kept i act (tool_result_value result) (JObj [(''result'', JStr result)]) s s2"
    "cached_in s2 = (cached_in s)(act \<mapsto> Inr (tool_result_value result))"
    using s3(2) s1 \<open>s3 = s2\<close> by (simp_all add: kept_def)
  moreover from this(2) have "usable_tools agent s2"
    using usable_update [OF _ s(3)] tool_kept(4) by fastforce
  ultimately show "\<exists>u j. kept i act u j s s2 \<and> cached_tool_result (Inr (VJson j)) = Some (Inr v) \<and> usable_tools agent s2"
    using tool_kept(3) by blast
qed

lemma usable_stable: "cached_in s' = cached_in s \<Longrightarrow> usable_tools agent s' = usable_tools agent s"
  by (simp add: usable_tools_def)

lemma replayed_tool:
  "leaves_alone i executor \<Longrightarrow>
   replayed_by i (usable_tools (da_name a)) (execute_tool_call a executor index tc)
     (execute_tool_call a executor' index tc)"
  unfolding execute_tool_call_def
  by (rule replayed_recorded [OF lives_tool _ same_cached_tool usable_stable])
    (auto simp: usable_tools_def call_id_new)

lemma replayed_tools:
  "leaves_alone i executor \<Longrightarrow>
   replayed_by i (usable_tools (da_name a)) (run_tools a executor index tcs) (run_tools a executor' index tcs)"
  by (induction tcs arbitrary: index) (auto intro!: replayed_ret replayed_try replayed_map_err replayed_tool)

section \<open>Conversations\<close>

definition replayed_talk ::
    "string \<Rightarrow> ('x exec \<Rightarrow> bool) \<Rightarrow> ('x, 'd, 'a) am \<Rightarrow> ('y, 'd, 'a) am \<Rightarrow> bool" where
  "replayed_talk i P m m' \<longleftrightarrow>
     (\<forall>s c v s1 c1. ready i s \<longrightarrow> mirrors i s \<longrightarrow> P s \<longrightarrow> m (s, c) = (Inr v, (s1, c1)) \<longrightarrow>
        ready i s1 \<and> mirrors i s1 \<and> P s1 \<and> stored (rows_of i s) \<subseteq>\<^sub>m stored (rows_of i s1) \<and>
        (\<forall>rows w t. stored (rows_of i s1) \<subseteq>\<^sub>m stored rows \<longrightarrow> follows rows w s t \<longrightarrow>
           (\<exists>t1. m' (t, c) = (Inr v, (t1, c1)) \<and> follows rows w s1 t1)))"

lemma talk_ret: "replayed_talk i P (ret x) (ret x)"
  by (simp add: replayed_talk_def map_le_def)

lemma talk_on_talk: "replayed_talk i P (on_talk f) (on_talk f)"
  by (simp add: replayed_talk_def on_talk_def map_le_def)

lemma on_run_returns: "on_run m (s, c) = (Inr v, (s1, c1)) \<longleftrightarrow> m s = (Inr v, s1) \<and> c1 = c"
  by (auto simp: on_run_def split: prod.split)

lemma talk_on_run:
  assumes "replayed_by i P m m'"
  shows "replayed_talk i P (on_run m) (on_run m')"
  unfolding replayed_talk_def on_run_returns
proof (intro allI impI, elim conjE)
  fix s c v s1 c1 assume s: "ready i s" "mirrors i s" "P s" "m s = (Inr v, s1)" "c1 = c"
  from assms [unfolded replayed_by_def, rule_format, OF s(1-4)] s(5)
  show "ready i s1 \<and> mirrors i s1 \<and> P s1 \<and> stored (rows_of i s) \<subseteq>\<^sub>m stored (rows_of i s1) \<and>
    (\<forall>rows w t. stored (rows_of i s1) \<subseteq>\<^sub>m stored rows \<longrightarrow> follows rows w s t \<longrightarrow>
      (\<exists>t1. (m' t = (Inr v, t1) \<and> c1 = c) \<and> follows rows w s1 t1))" by simp
qed

lemma talk_try:
  fixes m' :: "('y, 'd, 'b) am"
  assumes "replayed_talk i P m m'" "\<And>x. replayed_talk i P (k x) (k' x)"
  shows "replayed_talk i P (try_go m k) (try_go m' k')"
  unfolding replayed_talk_def
proof (intro allI impI)
  fix s c v s2 c2 assume s: "ready i s" "mirrors i s" "P s" "try_go m k (s, c) = (Inr v, (s2, c2))"
  then obtain x s1 c1 where m: "m (s, c) = (Inr x, (s1, c1))" and k: "k x (s1, c1) = (Inr v, (s2, c2))"
    by (auto simp: try_go_def split: prod.splits sum.splits)
  note one = assms(1) [unfolded replayed_talk_def, rule_format, OF s(1-3) m]
  then have s1: "ready i s1" "mirrors i s1" "P s1" by auto
  note two = assms(2) [of x, unfolded replayed_talk_def, rule_format, OF s1 k]
  show "ready i s2 \<and> mirrors i s2 \<and> P s2 \<and> stored (rows_of i s) \<subseteq>\<^sub>m stored (rows_of i s2) \<and>
    (\<forall>rows w t. stored (rows_of i s2) \<subseteq>\<^sub>m stored rows \<longrightarrow> follows rows w s t \<longrightarrow>
      (\<exists>t1. try_go m' k' (t, c) = (Inr v, (t1, c2)) \<and> follows rows w s2 t1))"
  proof (intro conjI allI impI)
    fix rows w and t :: "'y exec" assume r: "stored (rows_of i s2) \<subseteq>\<^sub>m stored rows" "follows rows w s t"
    from two r(1) have "stored (rows_of i s1) \<subseteq>\<^sub>m stored rows" by (blast intro: map_le_trans)
    with one r(2) obtain t1 where t1: "m' (t, c) = (Inr x, (t1, c1))" "follows rows w s1 t1" by blast
    with two r(1) obtain t2 where "k' x (t1, c1) = (Inr v, (t2, c2))" "follows rows w s2 t2" by blast
    with t1(1) show "\<exists>t1. try_go m' k' (t, c) = (Inr v, (t1, c2)) \<and> follows rows w s2 t1" by auto
  qed (use one two in \<open>auto intro: map_le_trans\<close>)
qed

lemma talk_app: "try_go talk m (s, c) = m c (s, c)"
  by (simp add: talk_def)

text \<open>A computation that reads the conversation and goes on.\<close>

lemma talk_read:
  assumes "\<And>c. replayed_talk i P (m c) (m' c)"
  shows "replayed_talk i P (try_go talk m) (try_go talk m')"
  unfolding replayed_talk_def talk_app
  by (intro allI impI) (rule assms [unfolded replayed_talk_def, rule_format])

definition exact_messages :: "('x, 't) sdk \<Rightarrow> bool" where
  "exact_messages sdk \<longleftrightarrow> (\<forall>msgs opts. exact_sdk (sdk_messages sdk msgs opts))"

lemma replayed_response:
  fixes perform' :: "'y \<Rightarrow> (go_error + reply) \<times> 'y"
  assumes "exact_sdk perform" "name = agent @ ''_chat'' \<or> name = agent @ ''_tool_continue''"
  shows "replayed_by i (usable_tools agent)
    (recorded name (\<lambda>c. Some (cached_to_durable_response c)) (live_response perform cfg msg))
    (recorded name (\<lambda>c. Some (cached_to_durable_response c)) (live_response perform' cfg' msg'))"
proof (rule replayed_recorded [OF lives_response [OF assms(1)] _ _ usable_stable])
  show "usable_tools agent s'"
    if "cached_in s' = (cached_in s)(call_id name '''' r \<mapsto> u)" "usable_tools agent s" for s s' u and r :: "'x exec"
  proof (rule usable_update [OF that])
    have "call_id name '''' r \<noteq> tool_activity agent tool index @ CHR '':'' # show_nat n" for tool index n
      using assms(2) chat_id_no_tool [of agent "CHR '':'' # show_nat (Suc (ex_counts r name))" tool index]
        continue_id_no_tool [of agent "Suc (ex_counts r name)" tool index]
      unfolding call_id_new by blast
    then show "cached_tool_result u \<noteq> None \<or>
      (\<forall>tool index n. call_id name '''' r \<noteq> tool_activity agent tool index @ CHR '':'' # show_nat n)" by blast
  qed
  show "\<exists>c'. y = Some c' \<and> Some (cached_to_durable_response c') = Some (Inr r)"
    if "same_cached (Some c) y" "Some (cached_to_durable_response c) = Some (Inr r)" for c y r
    using same_cached_response [OF that(1)] that(2) by simp
qed simp_all

lemma talk_chat:
  "exact_messages sdk \<Longrightarrow>
   replayed_talk i (usable_tools (da_name a)) (chat sdk defaults a msg) (chat sdk' defaults' a msg)"
  unfolding chat_def Let_def exact_messages_def
  by (intro talk_read talk_try talk_on_run talk_on_talk talk_ret replayed_response [where agent = "da_name a"]) auto

lemma talk_continue:
  "exact_messages sdk \<Longrightarrow>
   replayed_talk i (usable_tools (da_name a)) (continue_with_tool_results sdk defaults a resp msgs)
     (continue_with_tool_results sdk' defaults' a resp msgs)"
  unfolding continue_with_tool_results_def Let_def exact_messages_def
  by (intro talk_read talk_try talk_on_run talk_on_talk talk_ret replayed_response [where agent = "da_name a"]) auto

lemma talk_tool_loop:
  "exact_messages sdk \<Longrightarrow> leaves_alone i executor \<Longrightarrow>
   replayed_talk i (usable_tools (da_name a)) (tool_loop sdk defaults a executor n resp)
     (tool_loop sdk' defaults' a executor' n resp)"
  by (induction n arbitrary: resp) (auto intro!: talk_ret talk_try talk_on_run replayed_tools talk_continue)

section \<open>The property\<close>

text \<open>A run the engine has just started from the whole of the instance's history.\<close>

lemma new_exec_mirrors:
  assumes "\<forall>h \<in> set (history_of i (w_db w)). cached_in (new_exec w i (history_of i (w_db w))) (he_activity h) \<noteq> None"
  shows "mirrors i (new_exec w i (history_of i (w_db w)))"
  using assms by (simp add: mirrors_def rows_of_def stored_def new_exec_def cached_in_def)

text \<open>
  C10: a conversation is replayed. Take a run whose cache holds what its history holds, and a
  turn of an agent with its tool loop that returns a response; the model's replies have numbers
  a float64 holds and JSON arguments, the tools leave the history of the instance alone. Then in
  any later run that has got to the same point, with the history stored by then, the turn
  returns the same response and leaves the same conversation and the same activity counters,
  whatever the model, the tools and the defaults are by then: the world is not touched, so
  neither the model nor a tool has been called.
\<close>

theorem conversation_replays:
  assumes "ready i s" "mirrors i s" "usable_tools (da_name a) s" "exact_messages sdk" "leaves_alone i executor"
    and run: "chat_with_tool_loop sdk defaults a msg n executor (s, c) = (Inr r, (s', c'))"
    and "ex_counts t = ex_counts s"
    and "cached_in t = lookup (build_caches (history_of i (w_db (ex_world s'))))"
  shows "\<exists>t'. chat_with_tool_loop sdk' defaults' a msg n executor' (t, c) = (Inr r, (t', c'))
    \<and> ex_counts t' = ex_counts s' \<and> ex_world t' = ex_world t"
proof -
  have "replayed_talk i (usable_tools (da_name a))
      (chat_with_tool_loop sdk defaults a msg n executor) (chat_with_tool_loop sdk' defaults' a msg n executor')"
    unfolding chat_with_tool_loop_def
    by (intro talk_try talk_chat talk_tool_loop assms(4,5))
  from this [unfolded replayed_talk_def, rule_format, OF assms(1-3) run]
  have "\<forall>rows w t. stored (rows_of i s') \<subseteq>\<^sub>m stored rows \<longrightarrow> follows rows w s t \<longrightarrow>
      (\<exists>t1. chat_with_tool_loop sdk' defaults' a msg n executor' (t, c) = (Inr r, (t1, c')) \<and> follows rows w s' t1)"
    by blast
  moreover have "follows (rows_of i s') (ex_world t) s t"
    using assms(7,8) by (simp add: follows_def stored_def rows_of_def)
  ultimately show ?thesis
    unfolding follows_def by (metis map_le_refl)
qed

text \<open>
  A model that asks for one call of a tool and then answers; the outside world counts its calls.
\<close>

definition demo_reply :: "nat \<Rightarrow> reply" where
  "demo_reply n =
     \<lparr>rp_text = (if n = 0 then ''let me see'' else ''it is 2''), rp_document = BBad, rp_finish = ''stop'',
      rp_usage = \<lparr>us_prompt = 7, us_completion = 3, us_total = 10\<rparr>,
      rp_tool_calls = (if n = 0 then [\<lparr>sc_id = ''c1'', sc_name = ''add'',
        sc_arguments = BJson (JArr [JNum 1, JNum 1])\<rparr>] else []), rp_parsed = Inl ContextCanceled\<rparr>"

definition demo_sdk :: "(nat, unit) sdk" where
  "demo_sdk =
     \<lparr>sdk_call = (\<lambda>p os n. (Inr (demo_reply n), Suc n)), sdk_call_parse = (\<lambda>p os n. (Inr (demo_reply n), Suc n)),
      sdk_messages = (\<lambda>ms os n. (Inr (demo_reply n), Suc n)),
      sdk_messages_parse = (\<lambda>ms os n. (Inr (demo_reply n), Suc n))\<rparr>"

definition demo_tool :: "nat tool_executor" where
  "demo_tool tc s = (Inr ''2'', s)"

definition demo_agent :: "(unit, unit) agent" where
  "demo_agent = new_durable_agent ''calc'' [WithModel ''m'']"

definition quiet_world :: "nat world" where
  "quiet_world = \<lparr>w_db = empty_db, w_tx = None, w_callbacks = [], w_hooks = [], w_ext = 0\<rparr>"

definition demo_turn :: "(go_error + durable_response) \<times> nat exec \<times> unit agent_context" where
  "demo_turn = chat_with_tool_loop demo_sdk None demo_agent ''1 + 1?'' 5 demo_tool
     (new_exec quiet_world ''i'' [], new_agent_context ())"

lemma demo_exact: "exact_reply (demo_reply n)"
  by (simp add: demo_reply_def exact_reply_def usage_json_def exact_arguments_def f64_of_int_exact)

lemma demo_start: "ready ''i'' (new_exec quiet_world ''i'' [])" "mirrors ''i'' (new_exec quiet_world ''i'' [])"
  using demo_history new_exec_mirrors [of "''i''" quiet_world]
  by (simp_all add: ready_def new_exec_def quiet_world_def)

lemma count_after: "ex_counts (after_id name '''' s) = (ex_counts s)(name := Suc (ex_counts s name))"
  by (simp add: after_id_def)

text \<open>A recorded call whose id is new: the model answers, or the tool runs.\<close>

lemma demo_response:
  assumes "ready i s" "mirrors i s" "cached_in s (call_id name '''' s) = None"
    and "r = from_bucephalus_response (demo_reply (w_ext (ex_world s))) (lc_provider cfg) (lc_model cfg)"
  obtains s1 where
    "recorded name (\<lambda>c. Some (cached_to_durable_response c)) (live_response (sdk_messages demo_sdk ts os) cfg msg) s
      = (Inr r, s1)"
    and "ready i s1" "mirrors i s1" "w_ext (ex_world s1) = Suc (w_ext (ex_world s))"
    and "ex_counts s1 = (ex_counts s)(name := Suc (ex_counts s name))"
    and "dom (cached_in s1) = insert (call_id name '''' s) (dom (cached_in s))"
proof -
  let ?act = "call_id name '''' s"
  let ?s0 = "hit ?act (after_id name '''' s)"
  have s0: "ready i ?s0" "mirrors i ?s0" "cached_in ?s0 ?act = None" using assms by (simp_all add: counted_fields)
  have w: "w_ext (ex_world ?s0) = w_ext (ex_world s)" by simp
  have "sdk_messages demo_sdk ts os (w_ext (ex_world ?s0)) = (Inr (demo_reply (w_ext (ex_world s))), Suc (w_ext (ex_world s)))"
    by (simp add: demo_sdk_def)
  from live_response_run [where cfg = cfg and msg = msg and perform = "sdk_messages demo_sdk ts os"
      and resp = "demo_reply (w_ext (ex_world s))" and r = r, OF s0 this demo_exact assms(4)] obtain s1 j where
    s1: "live_response (sdk_messages demo_sdk ts os) cfg msg ?act ?s0 = (Inr r, s1)"
      "kept i ?act (response_value r) j ?s0 s1" "w_ext (ex_world s1) = Suc (w_ext (ex_world s))" .
  show ?thesis
    by (rule that [of s1]) (use s1 assms(3) count_after [of name s] in \<open>auto simp: recorded_run Let_def kept_def\<close>)
qed

lemma demo_tool_call:
  assumes "ready i s" "mirrors i s" "cached_in s (call_id name '''' s) = None"
  obtains s1 where "recorded name cached_tool_result (live_tool demo_tool tc) s = (Inr ''2'', s1)"
    and "ready i s1" "mirrors i s1" "w_ext (ex_world s1) = w_ext (ex_world s)"
    and "ex_counts s1 = (ex_counts s)(name := Suc (ex_counts s name))"
    and "dom (cached_in s1) = insert (call_id name '''' s) (dom (cached_in s))"
proof -
  let ?act = "call_id name '''' s" and ?v = "tool_result_value ''2''"
  let ?s0 = "hit ?act (after_id name '''' s)"
  have s0: "ready i ?s0" "mirrors i ?s0" "cached_in ?s0 ?act = None" using assms by (simp_all add: counted_fields)
  from record_kept [OF s0 tool_kept(1,2)] obtain s1 where
    s1: "ctx_record_activity_result ?act (Inr ?v) ?s0 = (Inr (), s1)"
      "kept i ?act ?v (JObj [(''result'', JStr ''2'')]) ?s0 s1" .
  have live: "live_tool demo_tool tc ?act ?s0 = (Inr ''2'', s1)"
    using s1(1) by (simp add: live_tool_def demo_tool_def then_go_def)
  have ext: "w_ext (ex_world s1) = w_ext (ex_world s)"
    using record_ext [of ?act "Inr ?v" ?s0] s1(1) by simp
  show ?thesis
    by (rule that [of s1]) (use live ext s1(2) assms(3) count_after [of name s] in
      \<open>auto simp: recorded_run Let_def kept_def\<close>)
qed

lemma demo_turn_run: "\<exists>r s' c'. demo_turn = (Inr r, (s', c')) \<and> w_ext (ex_world s') = 2"
proof -
  let ?s = "new_exec quiet_world ''i'' []"
  let ?c = "new_agent_context () :: unit agent_context"
  let ?cfg = "agent_build_config demo_agent None"
  let ?tc = "\<lparr>tc_id = ''c1'', tc_name = ''add'', tc_arguments = Some (BJson (JArr [JNum 1, JNum 1]))\<rparr>"
  have empty: "cached_in ?s = Map.empty" "ex_counts ?s = (\<lambda>_. 0)" "w_ext (ex_world ?s) = 0"
    by (auto simp: new_exec_def cached_in_def build_caches_def lookup_def quiet_world_def)
  have ag: "da_name demo_agent = ''calc''" "da_get_tools demo_agent = None" "da_build_prompt demo_agent = None"
    by (simp_all add: demo_agent_def new_durable_agent_def)
  define r1 where "r1 = from_bucephalus_response (demo_reply 0) (lc_provider ?cfg) (lc_model ?cfg)"
  define r2 where "r2 = from_bucephalus_response (demo_reply 1) (lc_provider ?cfg) (lc_model ?cfg)"
  have calls: "dr_tool_calls r1 = [?tc]" "dr_tool_calls r2 = []"
    by (simp_all add: r1_def r2_def from_bucephalus_response_def demo_reply_def tool_call_from_bucephalus_def)
  have one: "show_nat (Suc 0) = ''1''" "show_nat 0 = ''0''" by code_simp+
  let ?os = "to_bucephalus_options ?cfg"
  let ?c1 = "add_assistant_message (dr_text r1) (add_user_message ''1 + 1?'' ?c)"
  obtain s1 where s1: "recorded ''calc_chat'' (\<lambda>c. Some (cached_to_durable_response c))
       (live_response (sdk_messages demo_sdk (chat_messages demo_agent ?c ''1 + 1?'') ?os) ?cfg
         ''failed to record agent chat result'') ?s = (Inr r1, s1)"
    and s1': "ready ''i'' s1" "mirrors ''i'' s1" "w_ext (ex_world s1) = 1" "ex_counts s1 = (\<lambda>_. 0)(''calc_chat'' := 1)"
    "dom (cached_in s1) = {''calc_chat:1''}"
    using demo_response [OF demo_start, of "''calc_chat''" r1 ?cfg "chat_messages demo_agent ?c ''1 + 1?''" ?os
      "''failed to record agent chat result''"] empty one r1_def by (auto simp: call_id_def)
  have "cached_in s1 ''calc_tool_add_0:1'' = None" using domIff [of "''calc_tool_add_0:1''" "cached_in s1"] s1'(5) by simp
  then obtain s2 where s2: "recorded ''calc_tool_add_0'' cached_tool_result (live_tool demo_tool ?tc) s1 = (Inr ''2'', s2)"
    and s2': "ready ''i'' s2" "mirrors ''i'' s2" "w_ext (ex_world s2) = 1"
    "ex_counts s2 = (ex_counts s1)(''calc_tool_add_0'' := 1)"
    "dom (cached_in s2) = {''calc_tool_add_0:1'', ''calc_chat:1''}"
    using demo_tool_call [of "''i''" s1 "''calc_tool_add_0''" ?tc] s1' one by (auto simp: call_id_def)
  have id3: "call_id ''calc_tool_continue'' '''' s2 = ''calc_tool_continue:1''"
    by (simp add: call_id_def s2'(4) s1'(4) one)
  have none3: "cached_in s2 (call_id ''calc_tool_continue'' '''' s2) = None"
    unfolding id3 using domIff [of "''calc_tool_continue:1''" "cached_in s2"] s2'(5) by simp
  have r2': "r2 = from_bucephalus_response (demo_reply (w_ext (ex_world s2))) (lc_provider ?cfg) (lc_model ?cfg)"
    by (simp add: r2_def s2'(3))
  obtain s3 where s3: "recorded ''calc_tool_continue'' (\<lambda>c. Some (cached_to_durable_response c))
       (live_response (sdk_messages demo_sdk (continue_messages ?c1 r1 [ToolMessage ''c1'' ''2'']) ?os) ?cfg
         ''failed to record agent continue result'') s2 = (Inr r2, s3)"
    and w3: "w_ext (ex_world s3) = Suc (w_ext (ex_world s2))"
    by (rule demo_response [OF s2'(1,2) none3 r2'])
  then have s3': "w_ext (ex_world s3) = 2" using s2'(3) by simp
  have chat: "chat demo_sdk None demo_agent ''1 + 1?'' (?s, ?c) =
      (Inr r1, (s1, ?c1))"
    using s1 by (simp add: chat_def Let_def talk_def on_run_def on_talk_def try_go_def ag agent_tools_def)
  have tools: "run_tools demo_agent demo_tool 0 (dr_tool_calls r1) s1 = (Inr [ToolMessage ''c1'' ''2''], s2)"
    using s2 by (simp add: calls(1) execute_tool_call_def tool_activity_def ag one try_go_def map_err_def)
  have cont: "continue_with_tool_results demo_sdk None demo_agent r1 [ToolMessage ''c1'' ''2''] (s2, ?c1)
      = (Inr r2, (s3, add_assistant_message (dr_text r2) ?c1))"
    using s3 by (simp add: continue_with_tool_results_def Let_def talk_def on_run_def on_talk_def try_go_def ag agent_tools_def)
  have run: "on_run (run_tools demo_agent demo_tool 0 (dr_tool_calls r1)) (s1, ?c1) = (Inr [ToolMessage ''c1'' ''2''], (s2, ?c1))"
    unfolding on_run_def fst_conv snd_conv tools by simp
  have asks: "has_tool_calls r1" "\<not> has_tool_calls r2" by (simp_all add: has_tool_calls_def calls)
  then have loop2: "tool_loop demo_sdk None demo_agent demo_tool (Suc 3) r2 p = (Inr r2, p)"
    for p :: "nat exec \<times> unit agent_context" by (simp only: tool_loop.simps simp_thms if_True ret_app)
  have loop1: "tool_loop demo_sdk None demo_agent demo_tool (Suc (Suc 3)) r1 (s1, ?c1)
      = (Inr r2, (s3, add_assistant_message (dr_text r2) ?c1))"
    unfolding tool_loop.simps(2) [of _ _ _ _ "Suc 3"] using asks(1)
    by (simp only: if_False not_True_eq_False simp_thms try_go_def run cont prod.case sum.case loop2)
  have "nat 5 = Suc (Suc 3)" by simp
  then have "demo_turn = (Inr r2, (s3, add_assistant_message (dr_text r2) ?c1))"
    unfolding demo_turn_def chat_with_tool_loop_def by (simp only: try_go_def chat prod.case sum.case loop1)
  with s3' show ?thesis by blast
qed

theorem conversation_replays_witness:
  "\<exists>t'. chat_with_tool_loop demo_sdk None demo_agent ''1 + 1?'' 5 demo_tool
      (new_exec quiet_world ''i'' (history_of ''i'' (w_db (ex_world (fst (snd demo_turn))))), new_agent_context ())
    = (fst demo_turn, (t', snd (snd demo_turn)))
    \<and> w_ext (ex_world t') = 0 \<and> w_ext (ex_world (fst (snd demo_turn))) = 2"
proof -
  let ?s = "new_exec quiet_world ''i'' []"
  obtain r s' c' where turn: "demo_turn = (Inr r, (s', c'))" and two: "w_ext (ex_world s') = 2"
    using demo_turn_run by blast
  have "usable_tools (da_name demo_agent) ?s"
    by (simp add: usable_tools_def new_exec_def cached_in_def build_caches_def lookup_def)
  moreover have "exact_messages demo_sdk"
    using demo_exact by (auto simp: exact_messages_def exact_sdk_def demo_sdk_def)
  moreover have "leaves_alone ''i'' demo_tool"
    by (simp add: leaves_alone_def demo_tool_def)
  moreover have "chat_with_tool_loop demo_sdk None demo_agent ''1 + 1?'' 5 demo_tool (?s, new_agent_context ())
      = (Inr r, (s', c'))"
    using turn by (simp add: demo_turn_def)
  ultimately have "\<exists>t'. chat_with_tool_loop demo_sdk None demo_agent ''1 + 1?'' 5 demo_tool
      (new_exec quiet_world ''i'' (history_of ''i'' (w_db (ex_world s'))), new_agent_context ()) = (Inr r, (t', c'))
    \<and> ex_counts t' = ex_counts s'
    \<and> ex_world t' = ex_world (new_exec quiet_world ''i'' (history_of ''i'' (w_db (ex_world s'))))"
    by (intro conversation_replays [OF demo_start]) (simp_all add: new_exec_def cached_in_def)
  then obtain t' where t': "chat_with_tool_loop demo_sdk None demo_agent ''1 + 1?'' 5 demo_tool
      (new_exec quiet_world ''i'' (history_of ''i'' (w_db (ex_world s'))), new_agent_context ()) = (Inr r, (t', c'))"
    "ex_world t' = ex_world (new_exec quiet_world ''i'' (history_of ''i'' (w_db (ex_world s'))))" by blast
  have "w_ext (ex_world t') = 0" using t'(2) by (simp add: new_exec_def quiet_world_def)
  with t'(1) two show ?thesis unfolding turn fst_conv snd_conv by blast
qed

section \<open>A failed call\<close>

text \<open>
  A failed call is recorded, but the cached error is not returned: a workflow that handles the
  error of a call finds another error on replay.
\<close>

lemma failed_call_changes_its_error:
  assumes "cached_in t (call_id ''llm_call'' '''' t) = Some (Inl (ErrText m))"
  shows "fst (llm_call sdk defaults prompt opts t) = Inl (unexpected_type ''*errors.errorString'')"
  using assms by (simp add: llm_call_def Let_def recorded_run cached_to_durable_response_def)

end
