(* ===== verification/Llm_Bounds.thy ===== *)
theory Llm_Bounds
  imports Llm_Replay
begin

text \<open>
  How often an agent calls the model, and when its tool loop stops. \<open>spends f k m\<close> says that \<open>m\<close>
  makes the quantity \<open>f\<close> of the state grow by at most \<open>k\<close>; there is one rule per combinator.
\<close>

definition spends :: "('s \<Rightarrow> nat) \<Rightarrow> nat \<Rightarrow> ('s, go_error, 'a) go \<Rightarrow> bool" where
  "spends f k m \<longleftrightarrow> (\<forall>s. f (snd (m s)) \<le> f s + k)"

abbreviation model_calls :: "nat exec \<Rightarrow> nat" where
  "model_calls s \<equiv> w_ext (ex_world s)"

lemma spends_ret: "spends f k (ret x)" "spends f k (throw e)" "spends f k (get_go g)"
  by (simp_all add: spends_def)

lemma spends_try:
  assumes "spends f a m" "\<And>x. spends f b (k x)"
  shows "spends f (a + b) (try_go m k)"
  unfolding spends_def
proof
  fix s
  obtain r s1 where m: "m s = (r, s1)" by (cases "m s")
  have "f s1 \<le> f s + a" using assms(1) m by (metis spends_def snd_conv)
  moreover have "f (snd (k x s1)) \<le> f s1 + b" for x using assms(2) by (simp add: spends_def)
  ultimately show "f (snd (try_go m k s)) \<le> f s + (a + b)"
    using m by (cases r) (simp_all add: try_go_def, metis add.assoc add_le_mono1 order.trans)
qed

lemma spends_then:
  assumes "spends f a m" "\<And>x. spends f b (k x)"
  shows "spends f (a + b) (then_go m k)"
  unfolding spends_def
proof
  fix s
  have "f (snd (m s)) \<le> f s + a" "f (snd (k (fst (m s)) (snd (m s)))) \<le> f (snd (m s)) + b"
    using assms by (simp_all add: spends_def)
  then show "f (snd (then_go m k s)) \<le> f s + (a + b)"
    by (cases "m s") (simp add: then_go_def)
qed

lemma spends_case:
  "(\<And>e. spends f k (g e)) \<Longrightarrow> (\<And>x. spends f k (h x)) \<Longrightarrow>
   spends f k (case r of Inl e \<Rightarrow> g e | Inr x \<Rightarrow> h x)"
  by (cases r) simp_all

lemma spends_map_err: "spends f k m \<Longrightarrow> spends f k (map_err g m)"
  by (simp add: spends_def)

lemma spends_record: "spends model_calls 0 (ctx_record_activity_result act r)"
  by (simp add: spends_def record_ext)

lemma spends_give_up: "spends model_calls 0 (give_up act e e')"
  using spends_try [of model_calls 0 "ignore_err (ctx_record_activity_result act (Inl e))" 0 "\<lambda>_. throw e'"]
  by (simp add: give_up_def spends_def record_ext)

section \<open>Recorded calls\<close>

lemma spends_recorded:
  assumes "\<And>act. spends model_calls k (live act)"
  shows "spends model_calls k (recorded name of_cache live)"
  unfolding spends_def
proof
  fix s :: "nat exec"
  let ?s1 = "hit (call_id name '''' s) (after_id name '''' s)"
  have "model_calls (snd (live (call_id name '''' s) ?s1)) \<le> model_calls ?s1 + k"
    using assms by (simp only: spends_def)
  then show "model_calls (snd (recorded name of_cache live s)) \<le> model_calls s + k"
    by (simp add: recorded_run Let_def split: option.split sum.split)
qed

lemma spends_keep: "spends model_calls 0 (keep_response act msg r)"
  using spends_try [OF spends_map_err [OF spends_record] spends_ret(1)] by (simp add: keep_response_def)

lemma spends_keep_tool:
  "spends model_calls 0 (try_go (map_err g (ctx_record_activity_result act r)) (\<lambda>_. ret x))"
  using spends_try [OF spends_map_err [OF spends_record] spends_ret(1)] by simp

definition counts_calls_of :: "(nat, 't) sdk \<Rightarrow> bool" where
  "counts_calls_of sdk \<longleftrightarrow> (\<forall>msgs opts x. snd (sdk_messages sdk msgs opts x) = Suc x)"

lemma spends_response:
  assumes "counts_calls_of sdk"
  shows "spends model_calls 1 (live_response (sdk_messages sdk msgs opts) cfg msg act)"
proof -
  have "spends model_calls 1 (on_ext (sdk_messages sdk msgs opts))"
    using assms by (simp add: spends_def on_ext_def counts_calls_of_def split: prod.split) (metis le_refl snd_conv)
  from spends_then [OF this spends_case [OF spends_give_up spends_keep]] show ?thesis
    by (simp add: live_response_def)
qed

definition calls_no_model :: "nat tool_executor \<Rightarrow> bool" where
  "calls_no_model executor \<longleftrightarrow>
     (\<forall>tc s. model_calls (snd (executor tc s)) = model_calls s \<and> ex_counts (snd (executor tc s)) = ex_counts s)"

lemma spends_tool:
  assumes "calls_no_model executor"
  shows "spends model_calls 0 (execute_tool_call a executor index tc)"
proof -
  have "spends model_calls 0 (executor tc)"
    using assms by (simp add: spends_def calls_no_model_def)
  from spends_then [OF this spends_case [OF spends_give_up spends_keep_tool]]
  have "spends model_calls 0 (live_tool executor tc act)" for act
    by (simp add: live_tool_def)
  then show ?thesis unfolding execute_tool_call_def by (rule spends_recorded)
qed

lemma spends_tools:
  "calls_no_model executor \<Longrightarrow> spends model_calls 0 (run_tools a executor index tcs)"
proof (induction tcs arbitrary: index)
  case (Cons tc tcs)
  have "spends model_calls (0 + (0 + 0)) (run_tools a executor index (tc # tcs))"
    unfolding run_tools.simps
    by (intro spends_try spends_map_err spends_tool Cons spends_ret)
  then show ?case by simp
qed (simp add: spends_ret)

section \<open>Conversations\<close>

abbreviation talk_calls :: "nat exec \<times> 'd agent_context \<Rightarrow> nat" where
  "talk_calls p \<equiv> model_calls (fst p)"

lemma spends_on_run: "spends model_calls k m \<Longrightarrow> spends talk_calls k (on_run m)"
  by (simp add: spends_def on_run_def split: prod.split) (metis snd_conv)

lemma spends_on_talk: "spends talk_calls 0 (on_talk f)" "spends talk_calls 0 talk"
  by (simp_all add: spends_def on_talk_def talk_def)

lemma spends_chat:
  assumes "counts_calls_of sdk"
  shows "spends talk_calls 1 (chat sdk defaults a msg)"
proof -
  have "spends talk_calls (0 + (1 + (0 + (0 + 0)))) (chat sdk defaults a msg)"
    unfolding chat_def Let_def
    by (intro spends_try spends_on_talk spends_on_run spends_recorded spends_response spends_ret assms)
  then show ?thesis by simp
qed

lemma spends_continue:
  assumes "counts_calls_of sdk"
  shows "spends talk_calls 1 (continue_with_tool_results sdk defaults a resp msgs)"
proof -
  have "spends talk_calls (0 + (1 + (0 + 0))) (continue_with_tool_results sdk defaults a resp msgs)"
    unfolding continue_with_tool_results_def Let_def
    by (intro spends_try spends_on_talk spends_on_run spends_recorded spends_response spends_ret assms)
  then show ?thesis by simp
qed

lemma spends_loop:
  assumes "counts_calls_of sdk" "calls_no_model executor"
  shows "spends talk_calls n (tool_loop sdk defaults a executor n resp)"
proof (induction n arbitrary: resp)
  case (Suc n)
  have "spends talk_calls (0 + (1 + n)) (try_go (on_run (run_tools a executor 0 (dr_tool_calls resp))) (\<lambda>msgs.
      try_go (continue_with_tool_results sdk defaults a resp msgs) (tool_loop sdk defaults a executor n)))"
    by (intro spends_try spends_on_run spends_tools spends_continue Suc assms)
  then show ?case by (simp add: spends_ret)
qed (simp add: spends_ret)

section \<open>How the tool loop ends\<close>

text \<open>Every recorded call counts its activity, and nothing else.\<close>

lemma record_counts: "ex_counts (snd (ctx_record_activity_result act r s)) = ex_counts s"
  by (cases "record_activity_result (ex_in_tx s) (ex_instance s) act r (ex_world s)";
      cases "fst (record_activity_result (ex_in_tx s) (ex_instance s) act r (ex_world s))")
    (auto simp: ctx_record_activity_result_def exec_record_with_context_def on_world_def try_go_def set_cached_result_def
      split: sum.split)

definition keeps_counts :: "('x, 'a) em \<Rightarrow> bool" where
  "keeps_counts m \<longleftrightarrow> (\<forall>s. ex_counts (snd (m s)) = ex_counts s)"

lemma counts_record: "keeps_counts (ctx_record_activity_result act r)"
  by (simp add: keeps_counts_def record_counts)

lemma counts_try: "keeps_counts m \<Longrightarrow> (\<And>x. keeps_counts (k x)) \<Longrightarrow> keeps_counts (try_go m k)"
  by (auto simp: keeps_counts_def try_go_def split: prod.split sum.split) (metis snd_conv)+

lemma counts_then: "keeps_counts m \<Longrightarrow> (\<And>x. keeps_counts (k x)) \<Longrightarrow> keeps_counts (then_go m k)"
  by (simp add: keeps_counts_def then_go_def split: prod.split) (metis snd_conv)

lemma counts_map_err: "keeps_counts m \<Longrightarrow> keeps_counts (map_err g m)"
  by (simp add: keeps_counts_def)

lemma counts_ret: "keeps_counts (ret x)" "keeps_counts (throw e)"
  by (simp_all add: keeps_counts_def)

lemma counts_give_up: "keeps_counts (give_up act e e')"
  by (simp add: give_up_def keeps_counts_def try_go_def record_counts)

lemma counts_case:
  "(\<And>e. keeps_counts (g e)) \<Longrightarrow> (\<And>x. keeps_counts (h x)) \<Longrightarrow> keeps_counts (case r of Inl e \<Rightarrow> g e | Inr x \<Rightarrow> h x)"
  by (cases r) simp_all

lemma counts_response: "keeps_counts (live_response perform cfg msg act)"
  unfolding live_response_def keep_response_def
  by (intro counts_then counts_case counts_give_up counts_try counts_map_err counts_record counts_ret)
    (simp add: keeps_counts_def on_ext_def split: prod.split)

lemma counts_tool: "keeps_counts (executor tc) \<Longrightarrow> keeps_counts (live_tool executor tc act)"
  unfolding live_tool_def
  by (intro counts_then counts_case counts_give_up counts_try counts_map_err counts_record counts_ret)

lemma recorded_counts:
  assumes "\<And>act. keeps_counts (live act)"
  shows "ex_counts (snd (recorded name of_cache live s)) = (ex_counts s)(name := Suc (ex_counts s name))"
proof -
  let ?s1 = "hit (call_id name '''' s) (after_id name '''' s)"
  have "ex_counts (snd (live (call_id name '''' s) ?s1)) = ex_counts ?s1"
    using assms by (simp only: keeps_counts_def)
  then show ?thesis
    by (simp add: recorded_run Let_def count_after split: option.split sum.split)
qed

text \<open>The tools of a turn do not count as its continuations.\<close>

definition continues :: "('d, 't) agent \<Rightarrow> 'x exec \<Rightarrow> nat" where
  "continues a s = ex_counts s (da_name a @ ''_tool_continue'')"

lemma tool_is_no_continue: "tool_activity agent tool index \<noteq> agent @ ''_tool_continue''"
proof
  assume "tool_activity agent tool index = agent @ ''_tool_continue''"
  then have "tool @ CHR ''_'' # show_nat index = ''continue''" by (simp add: tool_activity_def)
  then have "CHR ''_'' \<in> set ''continue''" by (metis in_set_conv_decomp)
  then show False by simp
qed

lemma chat_is_no_continue: "agent @ ''_chat'' \<noteq> agent @ ''_tool_continue''"
  by simp

lemma tool_counts:
  "keeps_counts (executor tc) \<Longrightarrow> continues a (snd (execute_tool_call a executor index tc s)) = continues a s"
  using tool_is_no_continue [of "da_name a" "tc_name tc" index]
  by (simp add: execute_tool_call_def continues_def recorded_counts counts_tool)

lemma tools_continue:
  assumes "\<forall>tc. keeps_counts (executor tc)"
  shows "continues a (snd (run_tools a executor index tcs s)) = continues a s"
proof (induction tcs arbitrary: index s)
  case (Cons tc tcs)
  obtain r s1 where r: "execute_tool_call a executor index tc s = (r, s1)"
    by (cases "execute_tool_call a executor index tc s")
  obtain r2 s2 where r2: "run_tools a executor (Suc index) tcs s1 = (r2, s2)"
    by (cases "run_tools a executor (Suc index) tcs s1")
  have "continues a s1 = continues a s"
    using tool_counts [of executor tc a index s] assms r by simp
  moreover have "continues a s2 = continues a s1"
    using Cons [of "Suc index" s1] r2 by simp
  ultimately show ?case
    using r r2 by (cases r; cases r2) simp_all
qed simp

lemma continue_counts:
  "continues a (fst (snd (continue_with_tool_results sdk defaults a resp msgs p))) = Suc (continues a (fst p))"
proof -
  let ?cfg = "agent_tools a (agent_build_config a defaults)"
  let ?live = "live_response (sdk_messages sdk (continue_messages (snd p) resp msgs) (to_bucephalus_options ?cfg)) ?cfg
      ''failed to record agent continue result''"
  let ?rec = "recorded (da_name a @ ''_tool_continue'') (\<lambda>r. Some (cached_to_durable_response r)) ?live"
  obtain r s1 where r: "?rec (fst p) = (r, s1)" by (cases "?rec (fst p)")
  then have "fst (snd (continue_with_tool_results sdk defaults a resp msgs p)) = s1"
    by (cases r) (simp_all add: continue_with_tool_results_def Let_def talk_def on_run_def on_talk_def try_go_def)
  moreover have "ex_counts s1 (da_name a @ ''_tool_continue'') = Suc (ex_counts (fst p) (da_name a @ ''_tool_continue''))"
    using recorded_counts [where live = ?live and s = "fst p" and name = "da_name a @ ''_tool_continue''"
      and of_cache = "\<lambda>r. Some (cached_to_durable_response r)", OF counts_response] r
    by simp
  ultimately show ?thesis by (simp add: continues_def)
qed

lemma chat_counts: "continues a (fst (snd (chat sdk defaults a msg p))) = continues a (fst p)"
proof -
  let ?cfg = "agent_tools a (agent_build_config a defaults)"
  let ?live = "live_response (sdk_messages sdk (chat_messages a (snd p) msg) (to_bucephalus_options ?cfg)) ?cfg
      ''failed to record agent chat result''"
  let ?rec = "recorded (da_name a @ ''_chat'') (\<lambda>r. Some (cached_to_durable_response r)) ?live"
  obtain r s1 where r: "?rec (fst p) = (r, s1)" by (cases "?rec (fst p)")
  then have "fst (snd (chat sdk defaults a msg p)) = s1"
    by (cases r) (simp_all add: chat_def Let_def talk_def on_run_def on_talk_def try_go_def)
  moreover have "ex_counts s1 (da_name a @ ''_tool_continue'') = ex_counts (fst p) (da_name a @ ''_tool_continue'')"
    using recorded_counts [where live = ?live and s = "fst p" and name = "da_name a @ ''_chat''"
      and of_cache = "\<lambda>r. Some (cached_to_durable_response r)", OF counts_response] r
    by (simp add: chat_is_no_continue [symmetric])
  ultimately show ?thesis by (simp add: continues_def)
qed

lemma loop_exhausted:
  assumes "\<forall>tc. keeps_counts (executor tc)"
    and "tool_loop sdk defaults a executor n resp p = (Inr r, p')" "has_tool_calls r"
  shows "continues a (fst p') = continues a (fst p) + n"
  using assms(2)
proof (induction n arbitrary: resp p)
  case (Suc n)
  then have asks: "has_tool_calls resp" using assms(3) by (cases "has_tool_calls resp") auto
  obtain ts s1 where t: "run_tools a executor 0 (dr_tool_calls resp) (fst p) = (Inr ts, s1)"
    using Suc.prems asks by (cases "run_tools a executor 0 (dr_tool_calls resp) (fst p)";
      cases "fst (run_tools a executor 0 (dr_tool_calls resp) (fst p))") (auto simp: try_go_def on_run_def)
  obtain resp' p1 where c: "continue_with_tool_results sdk defaults a resp ts (s1, snd p) = (Inr resp', p1)"
    and l: "tool_loop sdk defaults a executor n resp' p1 = (Inr r, p')"
    using Suc.prems asks t by (cases "continue_with_tool_results sdk defaults a resp ts (s1, snd p)";
      cases "fst (continue_with_tool_results sdk defaults a resp ts (s1, snd p))") (auto simp: try_go_def on_run_def)
  have "continues a (fst p1) = Suc (continues a s1)"
    using continue_counts [of a sdk defaults resp ts "(s1, snd p)"] c by simp
  moreover have "continues a s1 = continues a (fst p)"
    using tools_continue [of executor a 0 "dr_tool_calls resp" "fst p"] assms(1) t by simp
  ultimately show ?case using Suc.IH [OF l] by simp
qed simp

section \<open>The property\<close>

text \<open>
  C26: a turn of an agent is bounded. Let the outside world count the calls of the model, and
  let tools neither call the model nor count activities. Then a turn with its tool loop, started
  anywhere, calls the model at most once more than the limit of iterations (a negative limit
  counts as zero), whether it returns a response or an error; and it returns a response that
  still asks for tools only when it has made as many continuations as the limit allows.
\<close>

theorem tool_loop_bounded:
  assumes "counts_calls_of sdk" "calls_no_model executor"
    and "chat_with_tool_loop sdk defaults a msg n executor p = (res, p')"
  shows "model_calls (fst p') \<le> model_calls (fst p) + 1 + nat n
    \<and> (\<forall>r. res = Inr r \<longrightarrow> has_tool_calls r \<longrightarrow> continues a (fst p') = continues a (fst p) + nat n)"
proof -
  have "spends talk_calls (1 + nat n) (chat_with_tool_loop sdk defaults a msg n executor)"
    unfolding chat_with_tool_loop_def
    by (intro spends_try spends_chat spends_loop assms(1,2))
  then have "model_calls (fst (snd (chat_with_tool_loop sdk defaults a msg n executor p))) \<le> model_calls (fst p) + (1 + nat n)"
    unfolding spends_def by blast
  then have "model_calls (fst p') \<le> model_calls (fst p) + 1 + nat n"
    by (simp add: assms(3))
  moreover have "continues a (fst p') = continues a (fst p) + nat n" if "res = Inr r" "has_tool_calls r" for r
  proof -
    note r = that
    obtain resp p1 where c: "chat sdk defaults a msg p = (Inr resp, p1)"
      and l: "tool_loop sdk defaults a executor (nat n) resp p1 = (Inr r, p')"
      using assms(3) r(1) by (cases "chat sdk defaults a msg p"; cases "fst (chat sdk defaults a msg p)")
        (auto simp: chat_with_tool_loop_def)
    have "\<forall>tc. keeps_counts (executor tc)" using assms(2) by (simp add: calls_no_model_def keeps_counts_def)
    from loop_exhausted [OF this l r(2)] chat_counts [of a sdk defaults msg p] c show ?thesis by simp
  qed
  ultimately show ?thesis by blast
qed

text \<open>A model that always asks for a tool is called three times under a limit of two.\<close>

definition eager_sdk :: "(nat, unit) sdk" where
  "eager_sdk = demo_sdk\<lparr>sdk_messages := (\<lambda>ts os n. (Inr (demo_reply 0), Suc n))\<rparr>"

theorem tool_loop_bounded_witness:
  "\<exists>p'. snd (chat_with_tool_loop eager_sdk None demo_agent ''q'' 2 demo_tool
      (new_exec quiet_world ''i'' [], new_agent_context ())) = p' \<and> model_calls (fst p') \<le> 3"
proof -
  have "counts_calls_of eager_sdk" by (simp add: counts_calls_of_def eager_sdk_def)
  moreover have "calls_no_model demo_tool" by (simp add: calls_no_model_def demo_tool_def)
  ultimately have "model_calls (fst p') \<le> model_calls (new_exec quiet_world ''i'' []) + 1 + nat 2"
    if "chat_with_tool_loop eager_sdk None demo_agent ''q'' 2 demo_tool
      (new_exec quiet_world ''i'' [], new_agent_context ()) = (res, p')" for res p'
    using tool_loop_bounded [OF _ _ that] by simp
  moreover have "model_calls (new_exec quiet_world ''i'' []) = 0"
    by (simp add: new_exec_def quiet_world_def)
  ultimately show ?thesis
    by (cases "chat_with_tool_loop eager_sdk None demo_agent ''q'' 2 demo_tool
      (new_exec quiet_world ''i'' [], new_agent_context ())") simp
qed

end
