(* ===== verification/Spec2Isabelle.thy ===== *)
theory Spec2Isabelle
  imports Deterministic_Replay History_Log Leader_Election Storage_Queries Replay_Gaps App_Outcomes
    Outbox_Relay Retry_Policy Server_Gaps Storages_Agree Mcp_Server Otel_Hooks Cli Workflow_Context
    Relay_Service Api_Options Late_Delivery Llm_Bounds
begin

text \<open>
  Romancy, a durable execution framework for Go.

  A workflow is ordinary Go code whose steps (activities, timers, receives) are recorded in a
  database. When a worker dies or a step has to wait, the workflow is run again from the
  beginning: completed steps return what was recorded (replay) until the run arrives where
  it was. Several workers share the database and keep out of each other's way with leases.
  The parts of the program, and where they are modelled:

  \<^item> \<^bold>\<open>Values and effects.\<close> Go_Prelude: a function that changes the state and may return an error
    is a state transformer with a sum result, with one combinator per idiom of the code (the
    \<open>if err != nil\<close> of a call, a dropped error, a wrapped error, \<open>defer\<close>). Go_Errors: errors.go,
    suspend.go and the errors.Is and errors.As walks. Go_Values: JSON documents, decoding and
    type assertions.

  \<^item> \<^bold>\<open>Storage\<close> (internal/storage). Models has a record per table row and the record \<open>db\<close>, one
    field per table, with the clock, the process's offset to UTC and a list of statement
    failures (\<open>faults\<close>: every statement may fail by an arbitrary error, and a failed statement
    has no effect). Storage_Instances, Storage_History, Storage_Timers and Storage_Channels hold
    the methods of sqlite.go, one definition per method. Storage_Postgres and Storage_Mysql hold
    those of postgres.go and mysql.go (\<open>pg_\<close> and \<open>my_\<close>), with what they share in
    Storage_Servers. Storage_Interface is the interface of storage.go as data: one constructor
    per method, and an interpreter of the calls for each implementation. Json_Path: json_path.go
    and the SQL fragments of driver.go. Connections: the other fragments, the connection
    strings, and the transaction managers over a pool of connections. History_Paging:
    history_iterator.go and the paging loops of its clients.

  \<^item> \<^bold>\<open>Execution.\<close> Runtime_World: the committed database, the open transaction with its
    post-commit callbacks (BeginTransaction, CommitTransaction, RollbackTransaction), the hooks
    called, and the outside world of user functions. Replay_Engine: internal/replay/engine.go
    and the WorkflowContext of context.go as the state of one run; Workflow_Context: the same as
    an object, with its constructors, its copies and what they share. Activity: activity.go;
    Retry_Policy: retry/policy.go; Compensation: compensation/executor.go and its copies in
    engine.go and app.go; Channels_Api and Events_Api: channels.go, events.go,
    outbox/transactional.go; Workflow: workflow.go. A workflow's own code is an interaction tree
    over the modelled calls; activity functions, compensations and message decoders are
    parameters. Api_Options: the options of every call, DefineActivity, and the registry of
    workflows.

  \<^item> \<^bold>\<open>The application.\<close> App_Tasks: starting, resuming and cancelling workflows, leader election,
    the background tasks, CloudEvents and HTTP handlers of app.go. Outbox_Relay:
    outbox/relayer.go; Relay_Service: its Start, Stop and default sender. Notifications and
    App_Notify: the LISTEN/NOTIFY listener of internal/notify and the handlers app.go registers
    with it. Migrations: internal/migrations/migrations.go and the automatic migration of
    initStorage. Configuration: options.go and NewApp. App_Lifecycle: Start, Shutdown and
    initStorage over a \<open>service\<close> (an App with its process, its open databases and the loops that
    run), the election loop, the leader's tickers and the polling loops of the resumption and
    the relayer, as folds over what happens to them; the routes of the HTTP handler.

  \<^item> \<^bold>\<open>Around the application.\<close> Mcp_Server: the mcp package, with the tools it hands to the MCP SDK
    and their handlers. Otel_Hooks: hooks/hooks.go with the fields of every call, and the hooks of
    hooks/otel that make spans of them. Cli: the command line program, its flags, commands,
    output and exit status.

  \<^item> \<^bold>\<open>Calls of language models.\<close> Llm_Calls: options, responses and their JSON, and the recorded
    calls of llm.go and durable_call.go; Llm_Agent: the agent of agent.go with its conversation
    and tool loop. The SDK that talks to the model is a parameter.

  \<^bold>\<open>What is proved.\<close>

  \<^item> Replay. Deterministic_Replay: a second run from the stored history makes the same calls,
    runs no activity and changes nothing. Replay_Gaps: the calls for which the code does not
    live up to that (Publish is not recorded, a Sleep after a SleepUntil changes its identity).
    Engine_Outcomes, App_Outcomes: how an engine run leaves the instance's row for each outcome
    of the workflow, and what the application then reports.

  \<^item> Storage. Storage_Invariants: the schema's constraints hold in every state reachable by
    storage calls, transactions and user-visible steps, under faults and rollbacks.
    History_Log: the history is append-only. Storage_Queries: page tokens and the history
    iterator return everything exactly once, and the filter query contains no input.
    Storages_Agree: SQLite's methods are the contract the other two storages refine. \<open>alike\<close>
    (Server_Agreement) relates databases up to the columns that hold times; Server_Agreement and
    Server_Refinement compare the methods statement by statement with the rules of
    Go_Simulation; for every sequence of \<open>portable\<close> calls the three storages give the same
    answers. Server_Gaps: calls that are not portable, on which the databases differ.

  \<^item> Locks. The locale \<open>lease_lock\<close> (Storage_Locks) states the contract of a lease once and
    derives exclusion from it for every sequence of attempts, releases, extensions and ticks; it is
    interpreted for the instance lock and the system lock of SQLite (Storage_Locks), and for
    those of PostgreSQL and MySQL (Server_Locks). Leader_Election lifts it to a step relation of
    workers, faults included. Server_Lock_Race interleaves the two statements of TryAcquireLock on
    the server databases, where exclusion is lost. The locale \<open>paged_source\<close> (History_Paging) is
    the contract of a paged read, interpreted on GetHistoryPaginated and on the calls of it that
    the command line program makes (Cli).

  \<^item> Models and settings. Llm_Replay: a turn of an agent is the same when it is replayed, by a
    relation between a computation and its replay with one rule per combinator; Llm_Bounds: how
    often it calls the model. Configuration: every list of options gives a well-typed
    configuration. Migrations: each file is applied once, and what is reported was recorded.

  \<^item> The life of an App. App_Lifecycle: in every state that starts, shutdowns and elections lead
    to, failed ones included, databases, loops and the leader's tasks are accounted for; a
    leader that is started again after a Shutdown that timed out does not work; the bounds of
    the waits and the tickers. Otel_Hooks: no span is ended twice, and that of a replayed
    activity never. Cli: an event posted from the command line reaches its instance; flags after
    the arguments are ignored.

  \<^item> Contexts and connections. The locale \<open>transaction_manager\<close> (Connections) is the contract of
    the transaction methods: what is over is not committed again, so that no callback runs twice;
    it is interpreted for PostgreSQL and MySQL. Workflow_Context: a copy of a context counts
    activity ids together with its original and sees the open transaction, but not the maps that
    were nil; two workflows that publish share a lock. Relay_Service: one loop of the relayer, as
    long as no Start comes between a Stop and its end.

  \<^item> Effects in order. Compensation: last in first out, once, and the three copies agree.
    Activity_Outcomes: retries end within the limit; a failed transactional activity leaves no
    trace. Channel_Delivery, Channel_Receive: what is delivered is what Receive returns; broadcast
    order; a second competing Receive does not return. Late_Delivery: a message that is delivered
    to a subscriber that was already woken is lost. Outbox_Relay: one poll of the relayer.
    Retry_Policy: the bounds of delays.

  \<^bold>\<open>Conventions.\<close> Times are integers of nanoseconds; a stored time is in whole seconds on SQLite
  (\<open>secs\<close>), microseconds on PostgreSQL (\<open>usecs\<close>) and whole seconds, rounded, on MySQL (\<open>my_stamp\<close>).
  Row ids are unbounded integers. A JSON text is the document it denotes, and documents hold
  integers only; conversions through float64 are explicit (\<open>f64_of_int\<close>). Loops that the
  code leaves when the data ends are given fuel: one round per history event and one more for
  the page loops (\<open>get_executed_ids\<close>, \<open>iter_collect\<close>), the policy's limit for a retry loop
  (\<open>retry_fuel\<close>), and for Receive an explicit bound, of which its liveness property says that
  none is enough for a second competing Receive; the properties state that the others end.

  \<^bold>\<open>What is not modelled.\<close> Goroutines, semaphores and contexts as such: the handlers of a batch
  run one after the other, a loop is given what happens between its rounds, and concurrency
  appears as interleaved steps where a property is about it. What a driver does to open a
  database, the parsing of URLs, stored times and page tokens, and the text of the shipped
  migrations; the schema they create is in the models, with foreign keys off on SQLite (the code
  does not turn them on) and on for the servers. On the servers the session runs at UTC, text is
  compared bytewise, and the abort of a PostgreSQL transaction after a failed statement is left
  out, as is what two transactions that are open at the same time see of each other. The SDKs
  behind the model calls, the MCP server and the spans; the cross test against the Python
  version, the test helpers and the examples.
\<close>

end
